(* ===== verification/Go_Prelude.thy ===== *)
theory Go_Prelude
  imports Main "HOL-Library.Word" "HOL-Library.Sublist" "HOL-Library.Signed_Division"
begin

text \<open>
  What every component of the model shares:
  \<^item> the effect type of a Go function: a function of the world that returns a value or panics,
    with its sequencing operation and a weakest-precondition calculus over it (\<open>go_wp\<close>);
  \<^item> the errors of the program as one datatype, with \<open>Error()\<close> and \<open>errors.Is\<close>;
  \<^item> the functions of Go's \<open>strings\<close> and \<open>strconv\<close> packages that the sources call;
  \<^item> \<open>int64\<close> and \<open>int32\<close> as machine words read as two's complement.
  Strings are byte strings (\<open>char list\<close>); case conversion and white space follow ASCII, which is
  what the strings of this program (protocol keywords, UUIDs, JSON-RPC messages) consist of.
\<close>

named_theorems go_wp_simps "weakest preconditions of the model's operations"
named_theorems go_run "unfolding rules that run a model operation"

section \<open>Effects: state passing with panics\<close>

datatype 'a outcome = Ret 'a | Panic string

type_synonym ('w, 'a) go = "'w \<Rightarrow> 'a outcome \<times> 'w"

definition go_return :: "'a \<Rightarrow> ('w, 'a) go" where
  "go_return x = (\<lambda>w. (Ret x, w))"

definition go_panic :: "string \<Rightarrow> ('w, 'a) go" where
  "go_panic msg = (\<lambda>w. (Panic msg, w))"

definition go_bind :: "('w, 'a) go \<Rightarrow> ('a \<Rightarrow> ('w, 'b) go) \<Rightarrow> ('w, 'b) go" where
  "go_bind m f = (\<lambda>w. case m w of (Ret x, w') \<Rightarrow> f x w' | (Panic s, w') \<Rightarrow> (Panic s, w'))"

definition go_get :: "('w, 'w) go" where
  "go_get = (\<lambda>w. (Ret w, w))"

definition go_modify :: "('w \<Rightarrow> 'w) \<Rightarrow> ('w, unit) go" where
  "go_modify f = (\<lambda>w. (Ret (), f w))"

text \<open>
  A method of an embedded or referenced object runs on the object's part of the state:
  \<open>go_zoom get put m\<close> runs \<open>m\<close> on the part \<open>get a\<close> of a structure \<open>a\<close> and the world beside it.
\<close>

definition go_zoom ::
  "('a \<Rightarrow> 'c) \<Rightarrow> ('c \<Rightarrow> 'a \<Rightarrow> 'a) \<Rightarrow> ('c \<times> 'w, 'r) go \<Rightarrow> ('a \<times> 'w, 'r) go" where
  "go_zoom get put m = (\<lambda>(a, w). case m (get a, w) of (r, c, w') \<Rightarrow> (r, put c a, w'))"

text \<open>A local object \<open>x\<close> of a function on the world \<open>'w\<close>: run a method of it, keep its new state.\<close>

definition go_with :: "'o \<Rightarrow> ('o \<times> 'w, 'r) go \<Rightarrow> ('w, 'r \<times> 'o) go" where
  "go_with x m = (\<lambda>w. case m (x, w) of
     (Ret r, x', w') \<Rightarrow> (Ret (r, x'), w')
   | (Panic s, _, w') \<Rightarrow> (Panic s, w'))"

definition go_wp :: "('w, 'a) go \<Rightarrow> ('a \<Rightarrow> 'w \<Rightarrow> bool) \<Rightarrow> (string \<Rightarrow> 'w \<Rightarrow> bool) \<Rightarrow> 'w \<Rightarrow> bool" where
  "go_wp m Q E w = (case m w of (Ret x, w') \<Rightarrow> Q x w' | (Panic s, w') \<Rightarrow> E s w')"

lemma go_wp_return [go_wp_simps, simp]: "go_wp (go_return x) Q E w = Q x w"
  by (simp add: go_wp_def go_return_def)

lemma go_wp_panic [go_wp_simps, simp]: "go_wp (go_panic s) Q E w = E s w"
  by (simp add: go_wp_def go_panic_def)

lemma go_wp_bind [go_wp_simps, simp]:
  "go_wp (go_bind m f) Q E w = go_wp m (\<lambda>x. go_wp (f x) Q E) E w"
  by (simp add: go_wp_def go_bind_def split: prod.split outcome.split)

lemma go_wp_get [go_wp_simps, simp]: "go_wp go_get Q E w = Q w w"
  by (simp add: go_wp_def go_get_def)

lemma go_wp_modify [go_wp_simps, simp]: "go_wp (go_modify f) Q E w = Q () (f w)"
  by (simp add: go_wp_def go_modify_def)

lemma go_wp_zoom [go_wp_simps, simp]:
  "go_wp (go_zoom get put m) Q E (a, w) =
     go_wp m (\<lambda>x (c, w'). Q x (put c a, w')) (\<lambda>s (c, w'). E s (put c a, w')) (get a, w)"
  by (simp add: go_wp_def go_zoom_def split: prod.split outcome.split)

lemma go_wp_with [go_wp_simps, simp]:
  "go_wp (go_with x m) Q E w =
     go_wp m (\<lambda>r (x', w'). Q (r, x') w') (\<lambda>s (x', w'). E s w') (x, w)"
  by (simp add: go_wp_def go_with_def split: prod.split outcome.split)

lemma go_wp_mono:
  assumes "go_wp m Q E w" and "\<And>x w'. Q x w' \<Longrightarrow> Q' x w'" and "\<And>s w'. E s w' \<Longrightarrow> E' s w'"
  shows "go_wp m Q' E' w"
  using assms by (auto simp: go_wp_def split: prod.splits outcome.splits)

lemma go_wp_Ret: "m w = (Ret x, w') \<Longrightarrow> go_wp m Q E w = Q x w'"
  by (simp add: go_wp_def)

lemma go_wp_Panic: "m w = (Panic s, w') \<Longrightarrow> go_wp m Q E w = E s w'"
  by (simp add: go_wp_def)

text \<open>A successful run from the calculus: the weakest precondition with \<open>False\<close> for panics.\<close>

lemma go_wp_runD: "go_wp m Q (\<lambda>_ _. False) w \<Longrightarrow> \<exists>x w'. m w = (Ret x, w') \<and> Q x w'"
  by (auto simp: go_wp_def split: prod.splits outcome.splits)

lemma go_wp_runI: "m w = (Ret x, w') \<Longrightarrow> Q x w' \<Longrightarrow> go_wp m Q (\<lambda>_ _. False) w"
  by (simp add: go_wp_def)

lemma go_bind_return_left [simp]: "go_bind (go_return x) f = f x"
  by (simp add: go_bind_def go_return_def)

lemma go_bind_panic_left [simp]: "go_bind (go_panic s) f = go_panic s"
  by (simp add: go_bind_def go_panic_def)

lemma go_bind_assoc: "go_bind (go_bind m f) g = go_bind m (\<lambda>x. go_bind (f x) g)"
  by (simp add: go_bind_def fun_eq_iff split: prod.split outcome.split)

lemma go_bind_Ret: "m w = (Ret x, w') \<Longrightarrow> go_bind m f w = f x w'"
  by (simp add: go_bind_def)

lemma go_bind_Panic: "m w = (Panic s, w') \<Longrightarrow> go_bind m f w = (Panic s, w')"
  by (simp add: go_bind_def)

lemma go_return_run [go_run]: "go_return x w = (Ret x, w)"
  by (simp add: go_return_def)

lemma go_panic_run [go_run]: "go_panic s w = (Panic s, w)"
  by (simp add: go_panic_def)

lemma go_bind_cases:
  assumes "go_bind m f w = (r, w')"
  obtains (ret) x v where "m w = (Ret x, v)" and "f x v = (r, w')"
        | (panic) s where "m w = (Panic s, w')" and "r = Panic s"
  using assms by (auto simp: go_bind_def split: prod.splits outcome.splits)

section \<open>Errors\<close>

text \<open>
  The error values of the program. The first six are the package variables of
  \<open>pkg/util/jsonrpc.go\<close>; \<open>ErrNotExist\<close> and \<open>ErrDeadlineExceeded\<close> are those of package \<open>os\<close>;
  \<open>Errorf\<close> is \<open>fmt.Errorf\<close> without \<open>%w\<close> (and every error a library call reports by its text);
  \<open>Wrapf p e\<close> is \<open>fmt.Errorf\<close> with \<open>%w\<close> at the end of the format; \<open>StatusError\<close> is a gRPC
  status; \<open>PathError\<close> is \<open>*fs.PathError\<close> (operation, path, cause) and \<open>ENOENT\<close> the \<open>syscall.Errno\<close> of that
  name.
\<close>

datatype grpc_code = Internal | Unimplemented | InvalidArgument | Unavailable | UnknownCode

datatype go_error =
    ErrJSONNoSpaceLeft
  | ErrJSONNoSuchDevice
  | ErrInvalidParameters
  | ErrVolumeDeleted
  | ErrVolumePublished
  | ErrVolumeUnpublished
  | ErrNotExist
  | ErrDeadlineExceeded
  | Errorf string
  | Wrapf string go_error
  | StatusError grpc_code string
  | ENOENT
  | PathError string string go_error

type_synonym err = "go_error option"

fun code_name :: "grpc_code \<Rightarrow> string" where
  "code_name Internal = ''Internal''"
| "code_name Unimplemented = ''Unimplemented''"
| "code_name InvalidArgument = ''InvalidArgument''"
| "code_name Unavailable = ''Unavailable''"
| "code_name UnknownCode = ''Unknown''"

fun err_Error :: "go_error \<Rightarrow> string" where
  "err_Error ErrJSONNoSpaceLeft = ''json: No space left''"
| "err_Error ErrJSONNoSuchDevice = ''json: No such device''"
| "err_Error ErrInvalidParameters = ''json: Invalid parameters''"
| "err_Error ErrVolumeDeleted = ''volume deleted''"
| "err_Error ErrVolumePublished = ''volume already published''"
| "err_Error ErrVolumeUnpublished = ''volume not published''"
| "err_Error ErrNotExist = ''file does not exist''"
| "err_Error ErrDeadlineExceeded = ''i/o timeout''"
| "err_Error (Errorf s) = s"
| "err_Error (Wrapf p e) = p @ err_Error e"
| "err_Error (StatusError c m) = ''rpc error: code = '' @ code_name c @ '' desc = '' @ m"
| "err_Error ENOENT = ''no such file or directory''"
| "err_Error (PathError op path e) = op @ '' '' @ path @ '': '' @ err_Error e"

fun errors_Is :: "go_error \<Rightarrow> go_error \<Rightarrow> bool" where
  "errors_Is (Wrapf p e) t = (Wrapf p e = t \<or> errors_Is e t)"
| "errors_Is (PathError op path e) t = (PathError op path e = t \<or> errors_Is e t)"
| "errors_Is ENOENT t = (t = ENOENT \<or> t = ErrNotExist)"
| "errors_Is e t = (e = t)"

text \<open>\<open>status.Error(codes.Internal, err.Error())\<close>.\<close>

definition internal :: "go_error \<Rightarrow> go_error" where
  "internal e = StatusError Internal (err_Error e)"

text \<open>\<open>os.IsNotExist\<close> looks through a path error, but not through an error that \<open>fmt.Errorf\<close> has wrapped.\<close>

fun os_IsNotExist :: "err \<Rightarrow> bool" where
  "os_IsNotExist (Some ErrNotExist) = True"
| "os_IsNotExist (Some ENOENT) = True"
| "os_IsNotExist (Some (PathError op path e)) = (e = ErrNotExist \<or> e = ENOENT)"
| "os_IsNotExist _ = False"

lemma find_SomeD: "find P xs = Some x \<Longrightarrow> x \<in> set xs \<and> P x"
  by (induction xs) (auto split: if_splits)

section \<open>The strings package\<close>

definition lower_char :: "char \<Rightarrow> char" where
  "lower_char c =
     (if 65 \<le> (of_char c :: nat) \<and> (of_char c :: nat) \<le> 90 then char_of (of_char c + 32 :: nat) else c)"

definition strings_ToLower :: "string \<Rightarrow> string" where
  "strings_ToLower s = map lower_char s"

fun strings_Contains :: "string \<Rightarrow> string \<Rightarrow> bool" where
  "strings_Contains [] sub = (sub = [])"
| "strings_Contains (c # cs) sub = (prefix sub (c # cs) \<or> strings_Contains cs sub)"

definition strings_HasPrefix :: "string \<Rightarrow> string \<Rightarrow> bool" where
  "strings_HasPrefix s p = prefix p s"

definition strings_TrimPrefix :: "string \<Rightarrow> string \<Rightarrow> string" where
  "strings_TrimPrefix s p = (if prefix p s then drop (length p) s else s)"

definition is_space :: "char \<Rightarrow> bool" where
  "is_space c = ((of_char c :: nat) \<in> {9, 10, 11, 12, 13, 32})"

definition strings_TrimSpace :: "string \<Rightarrow> string" where
  "strings_TrimSpace s = rev (dropWhile is_space (rev (dropWhile is_space s)))"

text \<open>\<open>strings.Split\<close> with a separator of one character: never empty, one more part than separators.\<close>

fun strings_Split :: "string \<Rightarrow> char \<Rightarrow> string list" where
  "strings_Split [] sep = [[]]"
| "strings_Split (c # cs) sep =
     (if c = sep then [] # strings_Split cs sep
      else (case strings_Split cs sep of p # ps \<Rightarrow> (c # p) # ps | [] \<Rightarrow> [[c]]))"

lemma lower_char_upper [simp]:
  "lower_char CHR ''A'' = CHR ''a''"
  "lower_char CHR ''B'' = CHR ''b''"
  "lower_char CHR ''C'' = CHR ''c''"
  "lower_char CHR ''D'' = CHR ''d''"
  "lower_char CHR ''E'' = CHR ''e''"
  "lower_char CHR ''F'' = CHR ''f''"
  "lower_char CHR ''G'' = CHR ''g''"
  "lower_char CHR ''H'' = CHR ''h''"
  "lower_char CHR ''I'' = CHR ''i''"
  "lower_char CHR ''J'' = CHR ''j''"
  "lower_char CHR ''K'' = CHR ''k''"
  "lower_char CHR ''L'' = CHR ''l''"
  "lower_char CHR ''M'' = CHR ''m''"
  "lower_char CHR ''N'' = CHR ''n''"
  "lower_char CHR ''O'' = CHR ''o''"
  "lower_char CHR ''P'' = CHR ''p''"
  "lower_char CHR ''Q'' = CHR ''q''"
  "lower_char CHR ''R'' = CHR ''r''"
  "lower_char CHR ''S'' = CHR ''s''"
  "lower_char CHR ''T'' = CHR ''t''"
  "lower_char CHR ''U'' = CHR ''u''"
  "lower_char CHR ''V'' = CHR ''v''"
  "lower_char CHR ''W'' = CHR ''w''"
  "lower_char CHR ''X'' = CHR ''x''"
  "lower_char CHR ''Y'' = CHR ''y''"
  "lower_char CHR ''Z'' = CHR ''z''"
  by (code_simp)+

lemma lower_char_other [simp]:
  "\<not> (65 \<le> (of_char c :: nat) \<and> (of_char c :: nat) \<le> 90) \<Longrightarrow> lower_char c = c"
  by (auto simp: lower_char_def)

lemma strings_Contains_iff: "strings_Contains s sub \<longleftrightarrow> (\<exists>pre post. s = pre @ sub @ post)"
proof (induction s)
  case Nil
  show ?case by auto
next
  case (Cons c cs)
  have "(\<exists>pre post. c # cs = pre @ sub @ post) \<longleftrightarrow>
        (\<exists>post. c # cs = sub @ post) \<or> (\<exists>pre post. cs = pre @ sub @ post)" (is "?L \<longleftrightarrow> ?R")
  proof
    assume ?L
    then obtain pre post where "c # cs = pre @ sub @ post" by blast
    then show ?R by (cases pre) auto
  next
    assume ?R
    then show ?L by (metis append_Cons append_Nil)
  qed
  with Cons show ?case by (auto simp: prefix_def)
qed

lemma strings_Split_nonempty [simp]: "strings_Split s sep \<noteq> []"
  by (cases s) (auto split: list.splits)

lemma strings_Split_no_sep: "sep \<notin> set s \<Longrightarrow> strings_Split s sep = [s]"
  by (induction s) auto

lemma strings_Split_append:
  "sep \<notin> set p \<Longrightarrow> strings_Split (p @ sep # s) sep = p # strings_Split s sep"
  by (induction p) auto

lemma length_strings_Split: "length (strings_Split s sep) = Suc (count_list s sep)"
  by (induction s) (auto split: list.splits)

lemma strings_Split_two_iff:
  "strings_Split s sep = [a, b] \<longleftrightarrow> s = a @ sep # b \<and> sep \<notin> set a \<and> sep \<notin> set b"
proof
  assume split: "strings_Split s sep = [a, b]"
  have "count_list s sep = 1"
    using length_strings_Split [of s sep] split by simp
  then have "sep \<in> set s" by (metis count_notin zero_neq_one)
  then obtain p q where s: "s = p @ sep # q" and p: "sep \<notin> set p"
    by (meson split_list_first)
  have "strings_Split q sep = [b]" and "a = p"
    using split s p by (simp_all add: strings_Split_append)
  moreover have "sep \<notin> set q"
  proof
    assume "sep \<in> set q"
    then obtain q1 q2 where "q = q1 @ sep # q2" and "sep \<notin> set q1"
      by (meson split_list_first)
    with \<open>strings_Split q sep = [b]\<close> show False by (simp add: strings_Split_append)
  qed
  ultimately show "s = a @ sep # b \<and> sep \<notin> set a \<and> sep \<notin> set b"
    using s p by (simp add: strings_Split_no_sep)
next
  assume "s = a @ sep # b \<and> sep \<notin> set a \<and> sep \<notin> set b"
  then show "strings_Split s sep = [a, b]"
    by (simp add: strings_Split_append strings_Split_no_sep)
qed

section \<open>Maps of strings\<close>

text \<open>Reading a missing key (or a nil map) gives the empty string.\<close>

type_synonym smap = "string \<rightharpoonup> string"

definition mget :: "smap \<Rightarrow> string \<Rightarrow> string" where
  "mget m k = (case m k of Some v \<Rightarrow> v | None \<Rightarrow> [])"

text \<open>The panic of a nil dereference.\<close>

definition nil_deref :: string where
  "nil_deref = ''runtime error: invalid memory address or nil pointer dereference''"

section \<open>Machine integers and the strconv package\<close>

type_synonym int64 = "64 word"
type_synonym int32 = "32 word"
type_synonym uint32 = "32 word"

text \<open>Go's integer division truncates towards zero; a zero divisor (which panics) does not occur.\<close>

definition div64 :: "int64 \<Rightarrow> int64 \<Rightarrow> int64" where
  "div64 a b = word_of_int (sint a sdiv sint b)"

fun dec_digits :: "nat \<Rightarrow> string" where
  "dec_digits n =
     (if n < 10 then [char_of (48 + n)] else dec_digits (n div 10) @ [char_of (48 + n mod 10)])"

declare dec_digits.simps [simp del]

definition dec_int :: "int \<Rightarrow> string" where
  "dec_int i = (if i < 0 then CHR ''-'' # dec_digits (nat (- i)) else dec_digits (nat i))"

definition strconv_FormatInt :: "int64 \<Rightarrow> string" where
  "strconv_FormatInt i = dec_int (sint i)"

definition is_digit :: "char \<Rightarrow> bool" where
  "is_digit c = (48 \<le> (of_char c :: nat) \<and> (of_char c :: nat) \<le> 57)"

definition digits_value :: "string \<Rightarrow> nat" where
  "digits_value s = foldl (\<lambda>n c. n * 10 + (of_char c - 48)) 0 s"

definition parse_digits :: "string \<Rightarrow> nat option" where
  "parse_digits s = (if s \<noteq> [] \<and> list_all is_digit s then Some (digits_value s) else None)"

text \<open>
  \<open>strconv.ParseInt(s, 10, 64)\<close> and \<open>strconv.ParseUint(s, 10, 64)\<close>: \<open>None\<close> is a syntax or range
  error.
\<close>

definition parse_int :: "string \<Rightarrow> int option" where
  "parse_int s = (case s of
     [] \<Rightarrow> None
   | c # cs \<Rightarrow>
      if c = CHR ''-'' then map_option (\<lambda>n. - int n) (parse_digits cs)
      else if c = CHR ''+'' then map_option int (parse_digits cs)
      else map_option int (parse_digits (c # cs)))"

definition strconv_ParseInt :: "string \<Rightarrow> int64 option" where
  "strconv_ParseInt s = (case parse_int s of
     None \<Rightarrow> None
   | Some i \<Rightarrow> if - (2 ^ 63) \<le> i \<and> i < 2 ^ 63 then Some (word_of_int i) else None)"

definition strconv_ParseUint :: "string \<Rightarrow> 64 word option" where
  "strconv_ParseUint s = (case parse_digits s of
     None \<Rightarrow> None
   | Some n \<Rightarrow> if n < 2 ^ 64 then Some (word_of_nat n) else None)"

lemma of_char_digit: "n < 10 \<Longrightarrow> (of_char (char_of (48 + n) :: char) :: nat) = 48 + n"
  by (simp add: of_char_of)

lemma is_digit_char: "(n::nat) < 10 \<Longrightarrow> is_digit (char_of (48 + n))"
  by (simp add: is_digit_def of_char_digit)

lemma dec_digits_digits: "list_all is_digit (dec_digits n)"
proof (induction n rule: dec_digits.induct)
  case (1 n)
  then show ?case
    by (subst dec_digits.simps) (simp add: is_digit_char)
qed

lemma dec_digits_nonempty [simp]: "dec_digits n \<noteq> []"
  by (subst dec_digits.simps) simp

lemma digits_value_append: "digits_value (s @ [c]) = digits_value s * 10 + (of_char c - 48)"
  by (simp add: digits_value_def)

lemma digits_value_dec_digits: "digits_value (dec_digits n) = n"
proof (induction n rule: dec_digits.induct)
  case (1 n)
  show ?case
  proof (cases "n < 10")
    case True
    then show ?thesis
      by (subst dec_digits.simps) (simp add: digits_value_def of_char_digit)
  next
    case False
    with 1 show ?thesis
      by (subst dec_digits.simps) (simp add: digits_value_append of_char_digit)
  qed
qed

lemma parse_digits_dec_digits [simp]: "parse_digits (dec_digits n) = Some n"
  by (simp add: parse_digits_def dec_digits_digits digits_value_dec_digits)

lemma hd_dec_digits: "dec_digits n = c # cs \<Longrightarrow> is_digit c"
  using dec_digits_digits [of n] by simp

lemma parse_int_dec_int [simp]: "parse_int (dec_int i) = Some i"
proof (cases "i < 0")
  case True
  then show ?thesis by (simp add: parse_int_def dec_int_def)
next
  case False
  obtain c cs where c: "dec_digits (nat i) = c # cs"
    by (cases "dec_digits (nat i)") auto
  moreover from hd_dec_digits [OF c] have "c \<noteq> CHR ''-''" and "c \<noteq> CHR ''+''"
    by (auto simp: is_digit_def)
  ultimately have "parse_int (dec_digits (nat i)) = map_option int (parse_digits (dec_digits (nat i)))"
    by (simp add: parse_int_def)
  with False show ?thesis by (simp add: dec_int_def)
qed

lemma ParseInt_FormatInt [simp]: "strconv_ParseInt (strconv_FormatInt i) = Some i"
  using sint_ge [of i] sint_lt [of i]
  by (simp add: strconv_ParseInt_def strconv_FormatInt_def)

lemma sint_word_of_int_64:
  "- (2 ^ 63) \<le> i \<Longrightarrow> i < 2 ^ 63 \<Longrightarrow> sint (word_of_int i :: int64) = i"
  by (simp add: sint_sbintrunc' signed_take_bit_int_eq_self)

end
