(* ===== verification/Go_Json.thy ===== *)
theory Go_Json
  imports Go_Prelude
begin

text \<open>
  The part of Go's \<open>encoding/json\<close> the program uses. Documents are trees; a number keeps its
  literal, as the decoder converts it only when it meets the target's type. \<open>json_text\<close> is what
  \<open>json.Marshal\<close> writes; \<open>json_unmarshal\<close> and \<open>json_decode\<close> are the syntax halves of
  \<open>json.Unmarshal\<close> (the whole input is one document) and of \<open>json.Decoder.Decode\<close> (the input
  starts with one). The typed half is a family of decoders that write into an existing Go value and
  report the first type error while going on with the rest, as the package does.
  Strings are taken to be valid UTF-8.
\<close>

section \<open>Documents and their text\<close>

datatype json =
    JNull
  | JBool bool
  | JNum string
  | JStr string
  | JArr "json list"
  | JObj "(string \<times> json) list"

definition hex_digit :: "nat \<Rightarrow> char" where
  "hex_digit n = (if n < 10 then char_of (48 + n) else char_of (87 + n))"

definition dq :: char where "dq = CHR 0x22"
definition bslash :: char where "bslash = CHR 0x5C"

text \<open>String escapes of \<open>json.Marshal\<close>, HTML characters included.\<close>

definition esc_char :: "char \<Rightarrow> string" where
  "esc_char c = (let n = of_char c :: nat in
     if c = dq \<or> c = bslash then [bslash, c]
     else if n = 10 then [bslash, CHR ''n'']
     else if n = 13 then [bslash, CHR ''r'']
     else if n = 9 then [bslash, CHR ''t'']
     else if n < 32 \<or> n = 60 \<or> n = 62 \<or> n = 38
       then [bslash, CHR ''u'', CHR ''0'', CHR ''0'', hex_digit (n div 16), hex_digit (n mod 16)]
     else [c])"

text \<open>\<open>%q\<close> of a string of printable or control characters, and the error of \<open>strconv.ParseInt\<close>.\<close>

definition quote_char :: "char \<Rightarrow> string" where
  "quote_char c = (let n = of_char c :: nat in
     if c = dq \<or> c = bslash then [bslash, c]
     else if n = 7 then [bslash, CHR ''a'']
     else if n = 8 then [bslash, CHR ''b'']
     else if n = 9 then [bslash, CHR ''t'']
     else if n = 10 then [bslash, CHR ''n'']
     else if n = 11 then [bslash, CHR ''v'']
     else if n = 12 then [bslash, CHR ''f'']
     else if n = 13 then [bslash, CHR ''r'']
     else if n < 32 \<or> n = 127 then [bslash, CHR ''x'', hex_digit (n div 16), hex_digit (n mod 16)]
     else [c])"

definition fmt_q :: "string \<Rightarrow> string" where
  "fmt_q s = dq # concat (map quote_char s) @ [dq]"

definition ParseInt_error :: "string \<Rightarrow> go_error" where
  "ParseInt_error s = Errorf (''strconv.ParseInt: parsing '' @ fmt_q s @
     (if parse_int s = None then '': invalid syntax'' else '': value out of range''))"

definition json_quote :: "string \<Rightarrow> string" where
  "json_quote s = dq # concat (map esc_char s) @ [dq]"

fun json_join :: "string list \<Rightarrow> string" where
  "json_join [] = []"
| "json_join [x] = x"
| "json_join (x # y # zs) = x @ CHR '','' # json_join (y # zs)"

fun json_text :: "json \<Rightarrow> string" where
  "json_text JNull = ''null''"
| "json_text (JBool b) = (if b then ''true'' else ''false'')"
| "json_text (JNum l) = l"
| "json_text (JStr s) = json_quote s"
| "json_text (JArr js) = CHR ''['' # json_join (map json_text js) @ [CHR '']'']"
| "json_text (JObj kvs) =
     CHR ''{'' # json_join (map (\<lambda>(k, v). json_quote k @ CHR '':'' # json_text v) kvs) @ [CHR ''}'']"

section \<open>Scanning\<close>

definition json_space :: "char \<Rightarrow> bool" where
  "json_space c = ((of_char c :: nat) \<in> {9, 10, 13, 32})"

abbreviation skip_ws :: "string \<Rightarrow> string" where
  "skip_ws \<equiv> dropWhile json_space"

definition num_char :: "char \<Rightarrow> bool" where
  "num_char c = (is_digit c \<or> c \<in> set ''+-.eE'')"

definition valid_exp :: "string \<Rightarrow> bool" where
  "valid_exp r = (case r of
     [] \<Rightarrow> True
   | e # x \<Rightarrow> (e = CHR ''e'' \<or> e = CHR ''E'') \<and>
       (let y = (case x of c # z \<Rightarrow> if c = CHR ''+'' \<or> c = CHR ''-'' then z else x | [] \<Rightarrow> [])
        in y \<noteq> [] \<and> list_all is_digit y))"

definition valid_frac :: "string \<Rightarrow> bool" where
  "valid_frac r = (case r of
     [] \<Rightarrow> True
   | c # x \<Rightarrow> if c = CHR ''.'' then takeWhile is_digit x \<noteq> [] \<and> valid_exp (dropWhile is_digit x)
              else valid_exp r)"

definition valid_number :: "string \<Rightarrow> bool" where
  "valid_number s =
     (let s1 = (case s of c # r \<Rightarrow> if c = CHR ''-'' then r else s | [] \<Rightarrow> []);
          ip = takeWhile is_digit s1
      in ip \<noteq> [] \<and> (hd ip = CHR ''0'' \<longrightarrow> length ip = 1) \<and> valid_frac (dropWhile is_digit s1))"

definition unhex :: "char \<Rightarrow> nat option" where
  "unhex c = (let n = of_char c :: nat in
     if 48 \<le> n \<and> n \<le> 57 then Some (n - 48)
     else if 97 \<le> n \<and> n \<le> 102 then Some (n - 87)
     else if 65 \<le> n \<and> n \<le> 70 then Some (n - 55) else None)"

definition unhex4 :: "string \<Rightarrow> (nat \<times> string) option" where
  "unhex4 s = (case s of
     a # b # c # d # r \<Rightarrow>
       (case (unhex a, unhex b, unhex c, unhex d) of
          (Some p, Some q, Some u, Some v) \<Rightarrow> Some (p * 4096 + q * 256 + u * 16 + v, r)
        | _ \<Rightarrow> None)
   | _ \<Rightarrow> None)"

definition utf8 :: "nat \<Rightarrow> string" where
  "utf8 n =
     (if n < 128 then [char_of n]
      else if n < 2048 then [char_of (192 + n div 64), char_of (128 + n mod 64)]
      else if n < 65536
        then [char_of (224 + n div 4096), char_of (128 + n div 64 mod 64), char_of (128 + n mod 64)]
      else [char_of (240 + n div 262144), char_of (128 + n div 4096 mod 64),
            char_of (128 + n div 64 mod 64), char_of (128 + n mod 64)])"

text \<open>
  A \<open>\u\<close> escape, after its \<open>\u\<close>: the text it stands for and the rest. A high surrogate followed by
  the escape of a low one is one code point; a lone surrogate is replaced by U+FFFD.
\<close>

definition unescape_u :: "string \<Rightarrow> (string \<times> string) option" where
  "unescape_u s = (case unhex4 s of
     None \<Rightarrow> None
   | Some (u, r) \<Rightarrow>
       if u < 55296 \<or> 57343 < u then Some (utf8 u, r)
       else (case r of
          b # c # r' \<Rightarrow>
            (if b = bslash \<and> c = CHR ''u'' \<and> u < 56320 then
               (case unhex4 r' of
                  Some (v, r2) \<Rightarrow>
                    if 56320 \<le> v \<and> v \<le> 57343
                    then Some (utf8 (65536 + (u - 55296) * 1024 + (v - 56320)), r2)
                    else Some (utf8 65533, r)
                | None \<Rightarrow> Some (utf8 65533, r))
             else Some (utf8 65533, r))
        | _ \<Rightarrow> Some (utf8 65533, r)))"

definition unescape1 :: "char \<Rightarrow> char option" where
  "unescape1 e =
     (if e = dq \<or> e = bslash \<or> e = CHR ''/'' then Some e
      else if e = CHR ''b'' then Some (CHR 0x08)
      else if e = CHR ''f'' then Some (CHR 0x0C)
      else if e = CHR ''n'' then Some (CHR 0x0A)
      else if e = CHR ''r'' then Some (CHR 0x0D)
      else if e = CHR ''t'' then Some (CHR 0x09) else None)"

lemma unhex4_length: "unhex4 s = Some (n, r) \<Longrightarrow> length r < length s"
  by (auto simp: unhex4_def split: list.splits option.splits)

lemma unescape_u_length: "unescape_u s = Some (t, r) \<Longrightarrow> length r < length s"
  by (auto simp: unescape_u_def split: list.splits option.splits prod.splits if_splits
      dest!: unhex4_length)

text \<open>A string after its opening quote: its value and the rest after the closing quote.\<close>

function p_string :: "string \<Rightarrow> (string \<times> string) option" where
  "p_string [] = None"
| "p_string (c # cs) =
     (if c = dq then Some ([], cs)
      else if c = bslash then
        (case cs of
           [] \<Rightarrow> None
         | e # es \<Rightarrow>
             if e = CHR ''u'' then
               (case unescape_u es of
                  None \<Rightarrow> None
                | Some (t, r) \<Rightarrow> map_option (\<lambda>(s, r'). (t @ s, r')) (p_string r))
             else (case unescape1 e of
                  None \<Rightarrow> None
                | Some x \<Rightarrow> map_option (\<lambda>(s, r'). (x # s, r')) (p_string es)))
      else if (of_char c :: nat) < 32 then None
      else map_option (\<lambda>(s, r'). (c # s, r')) (p_string cs))"
  by pat_completeness auto
termination
  by (relation "measure length") (auto dest: unescape_u_length)

fun p_value :: "nat \<Rightarrow> string \<Rightarrow> (json \<times> string) option"
  and p_elems :: "nat \<Rightarrow> string \<Rightarrow> (json list \<times> string) option"
  and p_members :: "nat \<Rightarrow> string \<Rightarrow> ((string \<times> json) list \<times> string) option" where
  "p_value 0 s = None"
| "p_value (Suc n) s = (case skip_ws s of
     [] \<Rightarrow> None
   | c # cs \<Rightarrow>
       if c = dq then map_option (\<lambda>(t, r). (JStr t, r)) (p_string cs)
       else if c = CHR ''['' then
         (case skip_ws cs of
            d # r \<Rightarrow> if d = CHR '']'' then Some (JArr [], r)
                     else map_option (\<lambda>(js, r'). (JArr js, r')) (p_elems n (d # r))
          | [] \<Rightarrow> None)
       else if c = CHR ''{'' then
         (case skip_ws cs of
            d # r \<Rightarrow> if d = CHR ''}'' then Some (JObj [], r)
                     else map_option (\<lambda>(kvs, r'). (JObj kvs, r')) (p_members n (d # r))
          | [] \<Rightarrow> None)
       else if c = CHR ''-'' \<or> is_digit c then
         (let l = takeWhile num_char (c # cs) in
          if valid_number l then Some (JNum l, dropWhile num_char (c # cs)) else None)
       else if prefix ''null'' (c # cs) then Some (JNull, drop 4 (c # cs))
       else if prefix ''true'' (c # cs) then Some (JBool True, drop 4 (c # cs))
       else if prefix ''false'' (c # cs) then Some (JBool False, drop 5 (c # cs))
       else None)"
| "p_elems 0 s = None"
| "p_elems (Suc n) s = (case p_value n s of
     None \<Rightarrow> None
   | Some (v, r) \<Rightarrow> (case skip_ws r of
       [] \<Rightarrow> None
     | c # cs \<Rightarrow>
         if c = CHR '','' then map_option (\<lambda>(vs, r'). (v # vs, r')) (p_elems n cs)
         else if c = CHR '']'' then Some ([v], cs) else None))"
| "p_members 0 s = None"
| "p_members (Suc n) s = (case skip_ws s of
     [] \<Rightarrow> None
   | q # qs \<Rightarrow> if q \<noteq> dq then None else (case p_string qs of
       None \<Rightarrow> None
     | Some (k, r1) \<Rightarrow> (case skip_ws r1 of
         [] \<Rightarrow> None
       | d # ds \<Rightarrow> if d \<noteq> CHR '':'' then None else (case p_value n ds of
           None \<Rightarrow> None
         | Some (v, r) \<Rightarrow> (case skip_ws r of
             [] \<Rightarrow> None
           | c # cs \<Rightarrow>
               if c = CHR '','' then map_option (\<lambda>(kvs, r'). ((k, v) # kvs, r')) (p_members n cs)
               else if c = CHR ''}'' then Some ([(k, v)], cs) else None)))))"

text \<open>
  Every nested call of the parser but the one from an array to its first element consumes a
  character, so twice the length of the text is enough fuel.
\<close>

definition json_decode :: "string \<Rightarrow> json option" where
  "json_decode s = map_option fst (p_value (2 * length s + 2) s)"

definition json_unmarshal :: "string \<Rightarrow> json option" where
  "json_unmarshal s = (case p_value (2 * length s + 2) s of
     Some (j, r) \<Rightarrow> if skip_ws r = [] then Some j else None
   | None \<Rightarrow> None)"

section \<open>Reading back what was written\<close>

fun wf_json :: "json \<Rightarrow> bool" where
  "wf_json (JNum l) = valid_number l"
| "wf_json (JArr js) = (\<forall>j \<in> set js. wf_json j)"
| "wf_json (JObj kvs) = (\<forall>kv \<in> set kvs. wf_json (snd kv))"
| "wf_json j = True"

lemma unhex_hex_digit: "n < 16 \<Longrightarrow> unhex (hex_digit n) = Some n"
  by (cases "n < 10") (simp_all add: unhex_def hex_digit_def of_char_of)

lemma unescape_u_ascii:
  assumes "n < 128"
  shows "unescape_u (CHR ''0'' # CHR ''0'' # hex_digit (n div 16) # hex_digit (n mod 16) # r) =
    Some ([char_of n], r)"
proof -
  have "unhex CHR ''0'' = Some 0" by (simp add: unhex_def)
  moreover have "n div 16 < 16" using assms by simp
  ultimately have "unhex4 (CHR ''0'' # CHR ''0'' # hex_digit (n div 16) # hex_digit (n mod 16) # r) =
      Some (n, r)"
    by (simp add: unhex4_def unhex_hex_digit)
  with assms show ?thesis by (simp add: unescape_u_def utf8_def)
qed

lemma of_char_control:
  "(of_char c :: nat) = 10 \<Longrightarrow> c = CHR 0x0A"
  "(of_char c :: nat) = 13 \<Longrightarrow> c = CHR 0x0D"
  "(of_char c :: nat) = 9 \<Longrightarrow> c = CHR 0x09"
  using of_char_eq_iff [of c "CHR 0x0A", where ?'a = nat]
    of_char_eq_iff [of c "CHR 0x0D", where ?'a = nat]
    of_char_eq_iff [of c "CHR 0x09", where ?'a = nat]
  by simp_all

lemma p_string_esc_char:
  "p_string (esc_char c @ r) = map_option (\<lambda>(s, r'). (c # s, r')) (p_string r)"
proof -
  have simple: "esc_char c = [bslash, e] \<Longrightarrow> unescape1 e = Some c \<Longrightarrow> ?thesis" for e
    by (auto simp: bslash_def dq_def unescape1_def)
  define n where "n = (of_char c :: nat)"
  have c: "c = char_of n" by (simp add: n_def)
  consider "c = dq \<or> c = bslash" | "n = 10" | "n = 13" | "n = 9"
    | "c \<noteq> dq" "c \<noteq> bslash" "n \<noteq> 10" "n \<noteq> 13" "n \<noteq> 9" "n < 32 \<or> n = 60 \<or> n = 62 \<or> n = 38"
    | "c \<noteq> dq" "c \<noteq> bslash" "\<not> n < 32" "n \<noteq> 60" "n \<noteq> 62" "n \<noteq> 38"
    by (cases "n < 32") auto
  then show ?thesis
  proof cases
    case 1
    then show ?thesis by (intro simple [of c]) (auto simp: esc_char_def unescape1_def)
  next
    case 2
    then have "c = CHR 0x0A" unfolding n_def by (rule of_char_control)
    then show ?thesis
      by (intro simple [of "CHR ''n''"]) (simp_all add: esc_char_def unescape1_def dq_def bslash_def)
  next
    case 3
    then have "c = CHR 0x0D" unfolding n_def by (rule of_char_control)
    then show ?thesis
      by (intro simple [of "CHR ''r''"]) (simp_all add: esc_char_def unescape1_def dq_def bslash_def)
  next
    case 4
    then have "c = CHR 0x09" unfolding n_def by (rule of_char_control)
    then show ?thesis
      by (intro simple [of "CHR ''t''"]) (simp_all add: esc_char_def unescape1_def dq_def bslash_def)
  next
    case 5
    then have "esc_char c @ r =
        bslash # CHR ''u'' # CHR ''0'' # CHR ''0'' # hex_digit (n div 16) # hex_digit (n mod 16) # r"
      by (auto simp: esc_char_def n_def Let_def)
    moreover have "n < 128" using 5(6) by auto
    ultimately show ?thesis
      by (simp add: unescape_u_ascii dq_def bslash_def flip: c)
  next
    case 6
    then show ?thesis by (simp add: esc_char_def flip: n_def)
  qed
qed

lemma p_string_quoted [simp]: "p_string (concat (map esc_char s) @ dq # r) = Some (s, r)"
  by (induction s) (simp_all add: p_string_esc_char)

lemma skip_ws_nonspace [simp]: "\<not> json_space c \<Longrightarrow> skip_ws (c # s) = c # s"
  by simp

lemma json_space_punct [simp]:
  "\<not> json_space dq" "\<not> json_space CHR 0x22" "\<not> json_space CHR ''[''" "\<not> json_space CHR '']''" "\<not> json_space CHR ''{''"
  "\<not> json_space CHR ''}''" "\<not> json_space CHR '',''" "\<not> json_space CHR '':''"
  "\<not> json_space CHR ''n''" "\<not> json_space CHR ''t''" "\<not> json_space CHR ''f''" "\<not> json_space CHR ''-''"
  by (simp_all add: json_space_def dq_def)

lemma is_digit_not_space: "is_digit c \<Longrightarrow> \<not> json_space c"
  by (auto simp: is_digit_def json_space_def)

lemma num_char_punct [simp]:
  "\<not> num_char CHR '',''" "\<not> num_char CHR '']''" "\<not> num_char CHR ''}''"
  by (simp_all add: num_char_def is_digit_def)

lemma takeWhile_is_digit_num_char: "list_all num_char (takeWhile is_digit s)"
  by (induction s) (auto simp: num_char_def)

lemma list_all_is_digit_num_char: "list_all is_digit s \<Longrightarrow> list_all num_char s"
  by (induction s) (auto simp: num_char_def)

lemma valid_exp_num_char: "valid_exp r \<Longrightarrow> list_all num_char r"
  by (auto simp: valid_exp_def Let_def num_char_def split: list.splits if_splits
      dest!: list_all_is_digit_num_char)

lemma valid_frac_num_char:
  assumes "valid_frac r" shows "list_all num_char r"
proof (cases r)
  case (Cons c x)
  show ?thesis
  proof (cases "c = CHR ''.''")
    case True
    with Cons assms have "list_all num_char (dropWhile is_digit x)"
      by (simp add: valid_frac_def valid_exp_num_char)
    moreover have "list_all num_char (takeWhile is_digit x @ dropWhile is_digit x) = list_all num_char x"
      by simp
    ultimately show ?thesis
      using Cons True takeWhile_is_digit_num_char [of x]
      by (simp only: list_all_append) (simp add: num_char_def)
  next
    case False
    with Cons assms have "valid_exp r" by (simp add: valid_frac_def)
    then show ?thesis by (rule valid_exp_num_char)
  qed
qed simp

lemma valid_number_num_char:
  assumes "valid_number s" shows "list_all num_char s"
proof -
  have digits: "list_all num_char t" if "valid_frac (dropWhile is_digit t)" for t
    using takeWhile_is_digit_num_char [of t] valid_frac_num_char [OF that]
    by (metis list_all_append takeWhile_dropWhile_id)
  show ?thesis
    using assms
    by (cases s) (auto simp: valid_number_def Let_def num_char_def dest!: digits split: if_splits)
qed

lemma valid_number_first:
  assumes "valid_number s"
  obtains c cs where "s = c # cs" and "c = CHR ''-'' \<or> is_digit c"
  using assms
  by (cases s) (auto simp: valid_number_def Let_def split: if_splits)

lemma takeWhile_all_append:
  "list_all P xs \<Longrightarrow> (ys = [] \<or> \<not> P (hd ys)) \<Longrightarrow> takeWhile P (xs @ ys) = xs \<and> dropWhile P (xs @ ys) = ys"
  by (induction xs) (cases ys, auto)+

lemma p_value_number:
  assumes "valid_number l" and rest: "rest = [] \<or> \<not> num_char (hd rest)"
  shows "p_value (Suc n) (l @ rest) = Some (JNum l, rest)"
proof -
  from assms(1) obtain c cs where l: "l = c # cs" and c: "c = CHR ''-'' \<or> is_digit c"
    by (rule valid_number_first)
  then have "\<not> json_space c" using is_digit_not_space by fastforce
  moreover have "c \<noteq> dq" "c \<noteq> CHR ''[''" "c \<noteq> CHR ''{''"
    using c by (auto simp: is_digit_def dq_def)
  moreover have "takeWhile num_char (l @ rest) = l \<and> dropWhile num_char (l @ rest) = rest"
    using valid_number_num_char [OF assms(1)] rest by (rule takeWhile_all_append)
  ultimately show ?thesis using assms(1) c l by simp
qed

lemma json_text_head:
  assumes "wf_json j"
  obtains c cs where "json_text j = c # cs" and "\<not> json_space c" and "c \<noteq> CHR '']''"
proof (cases j)
  case (JNum l)
  with assms have "valid_number l" by simp
  then show ?thesis
    by (rule valid_number_first)
      (use JNum that is_digit_not_space in \<open>fastforce simp: is_digit_def\<close>)
next
  case (JBool b)
  with that show ?thesis by (cases b) auto
qed (use that in \<open>auto simp: json_quote_def dq_def\<close>)

lemma json_join_Cons: "ys \<noteq> [] \<Longrightarrow> json_join (x # ys) = x @ CHR '','' # json_join ys"
  by (cases ys) auto

lemma p_elems_join:
  assumes "js \<noteq> []" and wf: "\<forall>j \<in> set js. wf_json j"
    and IH: "\<And>j n rest. j \<in> set js \<Longrightarrow> 2 * length (json_text j) < n \<Longrightarrow>
      rest = [] \<or> \<not> num_char (hd rest) \<Longrightarrow> p_value n (json_text j @ rest) = Some (j, rest)"
    and "2 * length (json_join (map json_text js)) + 1 < n"
  shows "p_elems n (json_join (map json_text js) @ CHR '']'' # rest) = Some (js, rest)"
  using assms
proof (induction js arbitrary: n)
  case (Cons j js)
  from Cons.prems(4) obtain m where n: "n = Suc m" by (cases n) auto
  show ?case
  proof (cases "js = []")
    case True
    with Cons.prems n show ?thesis by simp
  next
    case False
    then have join: "json_join (map json_text (j # js)) = json_text j @ CHR '','' # json_join (map json_text js)"
      by (simp add: json_join_Cons)
    have "p_value m (json_text j @ CHR '','' # json_join (map json_text js) @ CHR '']'' # rest) =
        Some (j, CHR '','' # json_join (map json_text js) @ CHR '']'' # rest)"
      by (rule Cons.prems(3)) (use Cons.prems(4) join n in auto)
    moreover have "p_elems m (json_join (map json_text js) @ CHR '']'' # rest) = Some (js, rest)"
      by (rule Cons.IH [OF False _ Cons.prems(3)]) (use Cons.prems(2,4) join n in auto)
    ultimately show ?thesis by (simp only: n join) simp
  qed
qed simp

abbreviation member_text :: "string \<times> json \<Rightarrow> string" where
  "member_text \<equiv> (\<lambda>(k, v). json_quote k @ CHR '':'' # json_text v)"

lemma p_members_join:
  assumes "kvs \<noteq> []" and wf: "\<forall>kv \<in> set kvs. wf_json (snd kv)"
    and IH: "\<And>k v n rest. (k, v) \<in> set kvs \<Longrightarrow> 2 * length (json_text v) < n \<Longrightarrow>
      rest = [] \<or> \<not> num_char (hd rest) \<Longrightarrow> p_value n (json_text v @ rest) = Some (v, rest)"
    and "2 * length (json_join (map member_text kvs)) + 1 < n"
  shows "p_members n (json_join (map member_text kvs) @ CHR ''}'' # rest) = Some (kvs, rest)"
  using assms
proof (induction kvs arbitrary: n)
  case (Cons kv kvs)
  obtain k v where kv: "kv = (k, v)" by (cases kv)
  from Cons.prems(4) obtain m where n: "n = Suc m" by (cases n) auto
  show ?case
  proof (cases "kvs = []")
    case True
    with Cons.prems n kv show ?thesis by (simp add: json_quote_def)
  next
    case False
    then have join: "json_join (map member_text (kv # kvs)) =
        member_text kv @ CHR '','' # json_join (map member_text kvs)"
      by (simp add: json_join_Cons)
    have "p_value m (json_text v @ CHR '','' # json_join (map member_text kvs) @ CHR ''}'' # rest) =
        Some (v, CHR '','' # json_join (map member_text kvs) @ CHR ''}'' # rest)"
      by (rule Cons.prems(3)) (use Cons.prems(4) join n kv in auto)
    moreover have "p_members m (json_join (map member_text kvs) @ CHR ''}'' # rest) = Some (kvs, rest)"
      by (rule Cons.IH [OF False _ Cons.prems(3)]) (use Cons.prems(2,4) join n in auto)
    ultimately show ?thesis by (simp only: n join) (simp add: kv json_quote_def)
  qed
qed simp

lemma json_join_head:
  assumes "xs \<noteq> []" and "hd xs = c # cs"
  obtains ds where "json_join xs = c # ds"
  using assms by (cases xs rule: json_join.cases) auto

lemma p_value_json_text:
  "wf_json j \<Longrightarrow> 2 * length (json_text j) < n \<Longrightarrow> rest = [] \<or> \<not> num_char (hd rest) \<Longrightarrow>
   p_value n (json_text j @ rest) = Some (j, rest)"
proof (induction j arbitrary: n rest)
  case (JArr js)
  from JArr.prems(2) obtain m where n: "n = Suc m" by (cases n) auto
  show ?case
  proof (cases "js = []")
    case False
    then obtain c cs where c: "json_text (hd js) = c # cs" "\<not> json_space c" "c \<noteq> CHR '']''"
      using JArr.prems(1) json_text_head [of "hd js"] by auto
    with False obtain ds where ds: "json_join (map json_text js) = c # ds"
      by (metis json_join_head list.map_disc_iff list.map_sel(1))
    have "p_elems m (json_join (map json_text js) @ CHR '']'' # rest) = Some (js, rest)"
      by (rule p_elems_join [OF False]) (use JArr n in auto)
    with c ds n show ?thesis by (simp add: dq_def)
  qed (use n in \<open>simp add: dq_def\<close>)
next
  case (JObj kvs)
  from JObj.prems(2) obtain m where n: "n = Suc m" by (cases n) auto
  show ?case
  proof (cases "kvs = []")
    case False
    then obtain ds where ds: "json_join (map member_text kvs) = dq # ds"
      by (metis (no_types, lifting) append_Cons json_join_head json_quote_def list.map_disc_iff
          list.map_sel(1) old.prod.exhaust split_conv)
    have "p_members m (json_join (map member_text kvs) @ CHR ''}'' # rest) = Some (kvs, rest)"
    proof (rule p_members_join [OF False])
      show "p_value k (json_text v @ r) = Some (v, r)"
        if "(a, v) \<in> set kvs" "2 * length (json_text v) < k" "r = [] \<or> \<not> num_char (hd r)" for a v k r
        using JObj.IH [of "(a, v)" v k r] JObj.prems(1) that by force
    qed (use JObj.prems n in auto)
    with ds n show ?thesis by (simp add: dq_def)
  qed (use n in \<open>simp add: dq_def\<close>)
next
  case (JNum l)
  then obtain m where "n = Suc m" by (cases n) auto
  with JNum show ?case by (simp only: json_text.simps wf_json.simps p_value_number)
next
  case (JStr s)
  then show ?case by (cases n) (simp_all add: json_quote_def)
next
  case JNull
  then show ?case by (cases n) (simp_all add: dq_def is_digit_def)
next
  case (JBool b)
  then show ?case by (cases n) (simp_all add: dq_def is_digit_def)
qed

lemma json_unmarshal_text [simp]: "wf_json j \<Longrightarrow> json_unmarshal (json_text j) = Some j"
  using p_value_json_text [of j "2 * length (json_text j) + 2" "[]"]
  by (simp add: json_unmarshal_def)

lemma json_decode_text [simp]: "wf_json j \<Longrightarrow> json_decode (json_text j) = Some j"
  using p_value_json_text [of j "2 * length (json_text j) + 2" "[]"]
  by (simp add: json_decode_def)

section \<open>Decoding into Go values\<close>

text \<open>
  \<open>d j v\<close> decodes the document \<open>j\<close> into a variable that holds \<open>v\<close>: the variable's new value and
  the error, if any. \<open>null\<close> leaves a variable as it is; a document of the wrong type leaves it and
  is an error.
\<close>

type_synonym 'a dec = "json \<Rightarrow> 'a \<Rightarrow> 'a \<times> err"

definition type_error :: go_error where
  "type_error = Errorf ''json: cannot unmarshal value into Go value''"

text \<open>The first error is the one reported.\<close>

definition first_err :: "err \<Rightarrow> err \<Rightarrow> err" where
  "first_err a b = (case a of Some e \<Rightarrow> Some e | None \<Rightarrow> b)"

fun dec_string :: "string dec" where
  "dec_string (JStr s) v = (s, None)"
| "dec_string JNull v = (v, None)"
| "dec_string j v = (v, Some type_error)"

fun dec_bool :: "bool dec" where
  "dec_bool (JBool b) v = (b, None)"
| "dec_bool JNull v = (v, None)"
| "dec_bool j v = (v, Some type_error)"

fun dec_int64 :: "int64 dec" where
  "dec_int64 (JNum l) v = (case strconv_ParseInt l of
     Some i \<Rightarrow> (i, None)
   | None \<Rightarrow> (v, Some type_error))"
| "dec_int64 JNull v = (v, None)"
| "dec_int64 j v = (v, Some type_error)"

text \<open>An \<open>int32\<close> field takes the literals in its range.\<close>

fun dec_int32 :: "int32 dec" where
  "dec_int32 (JNum l) v = (case parse_int l of
     Some i \<Rightarrow> if - (2 ^ 31) \<le> i \<and> i < 2 ^ 31 then (word_of_int i, None) else (v, Some type_error)
   | None \<Rightarrow> (v, Some type_error))"
| "dec_int32 JNull v = (v, None)"
| "dec_int32 j v = (v, Some type_error)"

text \<open>A slice: every element is decoded into a fresh zero value.\<close>

fun dec_elems :: "'a \<Rightarrow> 'a dec \<Rightarrow> json list \<Rightarrow> 'a list \<times> err" where
  "dec_elems z d [] = ([], None)"
| "dec_elems z d (j # js) =
     (let (v, e) = d j z; (vs, es) = dec_elems z d js in (v # vs, first_err e es))"

fun dec_slice :: "'a \<Rightarrow> 'a dec \<Rightarrow> 'a list dec" where
  "dec_slice z d (JArr js) v = dec_elems z d js"
| "dec_slice z d JNull v = ([], None)"
| "dec_slice z d j v = (v, Some type_error)"

text \<open>
  A struct is the list of its fields, each with its JSON name and a decoder on the whole struct. A
  key of the document selects the field of exactly that name, or else one of that name up to case;
  keys without a field are ignored; a later key overwrites an earlier one.
\<close>

type_synonym 's fields = "(string \<times> 's dec) list"

definition find_field :: "'s fields \<Rightarrow> string \<Rightarrow> 's dec option" where
  "find_field fs k = (case map_of fs k of
     Some d \<Rightarrow> Some d
   | None \<Rightarrow> map_option snd (find (\<lambda>(n, _). strings_ToLower n = strings_ToLower k) fs))"

fun dec_members :: "'s fields \<Rightarrow> (string \<times> json) list \<Rightarrow> 's \<Rightarrow> 's \<times> err" where
  "dec_members fs [] s = (s, None)"
| "dec_members fs ((k, j) # kvs) s =
     (let (s', e) = (case find_field fs k of Some d \<Rightarrow> d j s | None \<Rightarrow> (s, None));
          (s'', es) = dec_members fs kvs s'
      in (s'', first_err e es))"

fun dec_struct :: "'s fields \<Rightarrow> 's dec" where
  "dec_struct fs (JObj kvs) s = dec_members fs kvs s"
| "dec_struct fs JNull s = (s, None)"
| "dec_struct fs j s = (s, Some type_error)"

definition fld :: "('s \<Rightarrow> 'a) \<Rightarrow> (('a \<Rightarrow> 'a) \<Rightarrow> 's \<Rightarrow> 's) \<Rightarrow> 'a dec \<Rightarrow> 's dec" where
  "fld get upd d = (\<lambda>j s. let (v, e) = d j (get s) in (upd (\<lambda>_. v) s, e))"

text \<open>A pointer to a struct: \<open>null\<close> makes it nil, anything else allocates the zero struct if it is nil.\<close>

definition dec_ptr :: "'a \<Rightarrow> 'a dec \<Rightarrow> 'a option dec" where
  "dec_ptr z d j p = (case j of
     JNull \<Rightarrow> (None, None)
   | _ \<Rightarrow> (let (v, e) = d j (case p of Some x \<Rightarrow> x | None \<Rightarrow> z) in (Some v, e)))"

definition jint :: "int \<Rightarrow> json" where
  "jint i = JNum (dec_int i)"

lemma dec_digits_valid: "\<not> (hd (dec_digits n) = CHR ''0'' \<and> length (dec_digits n) \<noteq> 1)"
proof (induction n rule: dec_digits.induct)
  case (1 n)
  show ?case
  proof (cases "n < 10")
    case True
    then show ?thesis by (subst (1 2) dec_digits.simps) simp
  next
    case False
    have "hd (dec_digits (n div 10)) \<noteq> CHR ''0''"
    proof
      assume h: "hd (dec_digits (n div 10)) = CHR ''0''"
      with 1 False have "length (dec_digits (n div 10)) = 1" by blast
      with h have "dec_digits (n div 10) = ''0''"
        by (cases "dec_digits (n div 10)") auto
      then have "digits_value (dec_digits (n div 10)) = 0" by (simp add: digits_value_def)
      with False show False by (simp add: digits_value_dec_digits)
    qed
    with False show ?thesis by (subst dec_digits.simps) simp
  qed
qed

lemma valid_number_digits: "valid_number (dec_digits n)"
proof -
  obtain c cs where c: "dec_digits n = c # cs" by (cases "dec_digits n") auto
  have "takeWhile is_digit (dec_digits n) = dec_digits n"
    and "dropWhile is_digit (dec_digits n) = []"
    using dec_digits_digits [of n] by (simp_all add: takeWhile_eq_all_conv list_all_iff)
  moreover have "c \<noteq> CHR ''-''" using hd_dec_digits [OF c] by (auto simp: is_digit_def)
  ultimately show ?thesis
    using dec_digits_valid [of n] c by (auto simp: valid_number_def valid_frac_def)
qed

lemma valid_number_dec_int [simp]: "valid_number (dec_int i)"
proof (cases "i < 0")
  case True
  have d: "takeWhile is_digit (dec_digits n) = dec_digits n"
      "dropWhile is_digit (dec_digits n) = []" for n
    using dec_digits_digits [of n] by (simp_all add: takeWhile_eq_all_conv list_all_iff)
  from True show ?thesis
    using dec_digits_valid [of "nat (- i)"]
    by (auto simp: dec_int_def valid_number_def valid_frac_def d)
qed (simp add: dec_int_def valid_number_digits)

lemma wf_jint [simp]: "wf_json (jint i)"
  by (simp add: jint_def)

lemma dec_int64_jint: "- (2 ^ 63) \<le> i \<Longrightarrow> i < 2 ^ 63 \<Longrightarrow> dec_int64 (jint i) v = (word_of_int i, None)"
  by (simp add: jint_def strconv_ParseInt_def)

lemma dec_int32_jint [simp]: "dec_int32 (jint (sint (i :: int32))) v = (i, None)"
  using sint_ge [of i] sint_lt [of i] by (simp add: jint_def)

lemma first_err_None [simp]: "first_err None e = e" "first_err e None = e"
  by (simp_all add: first_err_def split: option.split)

end
