(* ===== verification/Rpc_Client.thy ===== *)
theory Rpc_Client
  imports Go_Json
begin

text \<open>
  The JSON-RPC client of \<open>pkg/util/jsonrpc.go\<close> and the constants of \<open>pkg/util/config.go\<close> it uses.
  The HTTP transport together with the SPDK target behind it is the parameter \<open>http\<close>: a function
  of the request and the world that returns the response and the new world. The methods of
  \<open>rpcClient\<close> run on the pair of the client object and the world.
\<close>

section \<open>Types\<close>

text \<open>The constants of \<open>config.go\<close>.\<close>

definition cfgLvolClearMethod :: string where "cfgLvolClearMethod = ''unmap''"
definition cfgLvolThinProvision :: bool where "cfgLvolThinProvision = True"
definition cfgNVMfSvcPort :: string where "cfgNVMfSvcPort = ''4420''"
definition cfgISCSISvcPort :: string where "cfgISCSISvcPort = ''3260''"
definition cfgAllowAnyHost :: bool where "cfgAllowAnyHost = True"
definition cfgAddrFamily :: string where "cfgAddrFamily = ''IPv4''"

record LvStore =
  lvs_Name :: string
  lvs_UUID :: string
  TotalSizeMiB :: int64
  FreeSizeMiB :: int64

text \<open>
  A block device; \<open>DriverSpecific\<close> is the pointer of the source, to a struct whose only content is
  \<open>Lvol.LvolStoreUUID\<close>.
\<close>

record BDev =
  bd_Name :: string
  bd_UUID :: string
  BlockSize :: int64
  NumBlocks :: int64
  DriverSpecific :: "string option"

definition zero_BDev :: BDev where
  "zero_BDev = \<lparr>bd_Name = [], bd_UUID = [], BlockSize = 0, NumBlocks = 0, DriverSpecific = None\<rparr>"

record rpcClient =
  rpcURL :: string
  rpcUser :: string
  rpcPass :: string
  rpcID :: int32

record http_request =
  hr_url :: string
  hr_user :: string
  hr_pass :: string
  hr_body :: string

text \<open>
  \<open>HttpFail\<close>: no response (the request could not be built or sent, or timed out), with the text of
  the error; \<open>HttpResp\<close>: a status code and a body.
\<close>

datatype http_result = HttpFail string | HttpResp int string

type_synonym 'w http = "http_request \<Rightarrow> 'w \<Rightarrow> http_result \<times> 'w"

section \<open>Requests and responses\<close>

definition request_doc :: "string \<Rightarrow> int32 \<Rightarrow> json option \<Rightarrow> json" where
  "request_doc method rid args = JObj
     ([(''jsonrpc'', JStr ''2.0''), (''id'', jint (sint rid)), (''method'', JStr method)] @
      (case args of None \<Rightarrow> [] | Some p \<Rightarrow> [(''params'', p)]))"

definition post_request :: "rpcClient \<Rightarrow> json \<Rightarrow> http_request" where
  "post_request c doc =
     \<lparr>hr_url = rpcURL c, hr_user = rpcUser c, hr_pass = rpcPass c, hr_body = json_text doc\<rparr>"

record 'r rpcResponse =
  rs_ID :: int32
  rs_Code :: int64
  rs_Message :: string
  rs_Result :: 'r

definition response_fields :: "'r dec \<Rightarrow> 'r rpcResponse fields" where
  "response_fields d =
     [(''id'', fld rs_ID rs_ID_update dec_int32),
      (''error'', dec_struct
         [(''code'', fld rs_Code rs_Code_update dec_int64),
          (''message'', fld rs_Message rs_Message_update dec_string)]),
      (''result'', fld rs_Result rs_Result_update d)]"

text \<open>A call without result variable accepts any document.\<close>

definition dec_any :: "unit dec" where
  "dec_any j v = (v, None)"

definition decode_reply ::
  "string \<Rightarrow> int32 \<Rightarrow> 'r dec \<Rightarrow> 'r \<Rightarrow> http_result \<Rightarrow> err \<times> 'r" where
  "decode_reply method rid d r0 res = (case res of
     HttpFail e \<Rightarrow> (Some (Wrapf (method @ '': '') (Errorf e)), r0)
   | HttpResp status body \<Rightarrow>
       if 400 \<le> status then (Some (Errorf (method @ '': HTTP error code: '' @ dec_int status)), r0)
       else (case json_decode body of
          None \<Rightarrow> (Some (Wrapf (method @ '': '') (Errorf ''invalid JSON'')), r0)
        | Some doc \<Rightarrow>
            (let (resp, e) = dec_struct (response_fields d) doc
                   \<lparr>rs_ID = 0, rs_Code = 0, rs_Message = [], rs_Result = r0\<rparr>
             in case e of
                  Some e' \<Rightarrow> (Some (Wrapf (method @ '': '') e'), rs_Result resp)
                | None \<Rightarrow>
                    if rs_ID resp \<noteq> rid
                      then (Some (Errorf (method @ '': json response ID mismatch'')), rs_Result resp)
                    else if rs_Code resp \<noteq> 0
                      then (Some (Errorf (method @ '': json response error: '' @ rs_Message resp)),
                            rs_Result resp)
                    else (None, rs_Result resp))))"

text \<open>
  \<open>call\<close>: the error and the final value of the result variable, which the decoder may have written
  before an error is reported.
\<close>

definition rpcClient_call ::
  "'w http \<Rightarrow> string \<Rightarrow> json option \<Rightarrow> 'r dec \<Rightarrow> 'r \<Rightarrow> (rpcClient \<times> 'w, err \<times> 'r) go" where
  "rpcClient_call http method args d r0 = (\<lambda>(c, w).
     let rid = rpcID c + 1;
         c' = c\<lparr>rpcID := rid\<rparr>;
         (res, w') = http (post_request c' (request_doc method rid args)) w
     in (Ret (decode_reply method rid d r0 res), c', w'))"

definition errorMatches :: "err \<Rightarrow> go_error \<Rightarrow> bool" where
  "errorMatches errFull errJSON = (case errFull of
     None \<Rightarrow> False
   | Some e \<Rightarrow>
       (let strFull = strings_ToLower (err_Error e);
            strJSON = strings_ToLower (err_Error errJSON);
            strJSON = strings_TrimPrefix strJSON ''json:'';
            strJSON = strings_TrimSpace strJSON
        in strings_Contains strFull strJSON))"

section \<open>Methods of the client\<close>

definition rpcClient_info :: "rpcClient \<Rightarrow> string" where
  "rpcClient_info c = rpcURL c"

record lvstore_reply =
  FreeClusters :: int64
  ClusterSize :: int64
  TotalClusters :: int64
  lr_Name :: string
  lr_UUID :: string

definition zero_lvstore_reply :: lvstore_reply where
  "zero_lvstore_reply =
     \<lparr>FreeClusters = 0, ClusterSize = 0, TotalClusters = 0, lr_Name = [], lr_UUID = []\<rparr>"

definition dec_lvstore_reply :: "lvstore_reply dec" where
  "dec_lvstore_reply = dec_struct
     [(''free_clusters'', fld FreeClusters FreeClusters_update dec_int64),
      (''cluster_size'', fld ClusterSize ClusterSize_update dec_int64),
      (''total_data_clusters'', fld TotalClusters TotalClusters_update dec_int64),
      (''name'', fld lr_Name lr_Name_update dec_string),
      (''uuid'', fld lr_UUID lr_UUID_update dec_string)]"

definition LvStore_of_reply :: "lvstore_reply \<Rightarrow> LvStore" where
  "LvStore_of_reply r =
     \<lparr>lvs_Name = lr_Name r, lvs_UUID = lr_UUID r,
      TotalSizeMiB = div64 (div64 (TotalClusters r * ClusterSize r) 1024) 1024,
      FreeSizeMiB = div64 (div64 (FreeClusters r * ClusterSize r) 1024) 1024\<rparr>"

definition rpcClient_lvStores :: "'w http \<Rightarrow> (rpcClient \<times> 'w, LvStore list \<times> err) go" where
  "rpcClient_lvStores http =
     go_bind (rpcClient_call http ''bdev_lvol_get_lvstores'' None
                (dec_slice zero_lvstore_reply dec_lvstore_reply) [])
       (\<lambda>(e, result).
          if e \<noteq> None then go_return ([], e)
          else go_return (map LvStore_of_reply result, None))"

definition createVolume_params :: "string \<Rightarrow> string \<Rightarrow> int64 \<Rightarrow> json" where
  "createVolume_params lvolName lvsName sizeMiB = JObj
     [(''lvol_name'', JStr lvolName),
      (''size'', jint (sint (sizeMiB * 1024 * 1024))),
      (''lvs_name'', JStr lvsName),
      (''clear_method'', JStr cfgLvolClearMethod),
      (''thin_provision'', JBool cfgLvolThinProvision)]"

definition rpcClient_createVolume ::
  "'w http \<Rightarrow> string \<Rightarrow> string \<Rightarrow> int64 \<Rightarrow> (rpcClient \<times> 'w, string \<times> err) go" where
  "rpcClient_createVolume http lvolName lvsName sizeMiB =
     go_bind (rpcClient_call http ''bdev_lvol_create''
                (Some (createVolume_params lvolName lvsName sizeMiB)) dec_string [])
       (\<lambda>(e, lvolID).
          let e = (if errorMatches e ErrJSONNoSpaceLeft then Some ErrJSONNoSpaceLeft else e)
          in go_return (lvolID, e))"

definition rpcClient_cloneVolume ::
  "'w http \<Rightarrow> string \<Rightarrow> string \<Rightarrow> (rpcClient \<times> 'w, string \<times> err) go" where
  "rpcClient_cloneVolume http lvolName snapshotName =
     go_bind (rpcClient_call http ''bdev_lvol_clone''
                (Some (JObj [(''clone_name'', JStr lvolName), (''snapshot_name'', JStr snapshotName)]))
                dec_string [])
       (\<lambda>(e, lvolID). go_return (lvolID, e))"

definition dec_BDev :: "BDev dec" where
  "dec_BDev = dec_struct
     [(''name'', fld bd_Name bd_Name_update dec_string),
      (''uuid'', fld bd_UUID bd_UUID_update dec_string),
      (''block_size'', fld BlockSize BlockSize_update dec_int64),
      (''num_blocks'', fld NumBlocks NumBlocks_update dec_int64),
      (''driver_specific'', fld DriverSpecific DriverSpecific_update
         (dec_ptr [] (dec_struct [(''lvol'', dec_struct [(''lvol_store_uuid'', dec_string)])])))]"

text \<open>
  \<open>getVolume\<close> tests for one error only; on every other error it still takes \<open>&result[0]\<close>, which
  panics when the result slice is empty.
\<close>

definition rpcClient_getVolume ::
  "'w http \<Rightarrow> string \<Rightarrow> (rpcClient \<times> 'w, BDev option \<times> err) go" where
  "rpcClient_getVolume http lvolID =
     go_bind (rpcClient_call http ''bdev_get_bdevs'' (Some (JObj [(''name'', JStr lvolID)]))
                (dec_slice zero_BDev dec_BDev) [])
       (\<lambda>(e, result).
          if errorMatches e ErrJSONNoSuchDevice then go_return (None, Some ErrJSONNoSuchDevice)
          else (case result of
             [] \<Rightarrow> go_panic ''runtime error: index out of range [0] with length 0''
           | b # _ \<Rightarrow> go_return (Some b, None)))"

definition rpcClient_isVolumeCreated ::
  "'w http \<Rightarrow> string \<Rightarrow> (rpcClient \<times> 'w, bool \<times> err) go" where
  "rpcClient_isVolumeCreated http lvolID =
     go_bind (rpcClient_getVolume http lvolID)
       (\<lambda>(_, e). case e of
          Some x \<Rightarrow> if errors_Is x ErrJSONNoSuchDevice then go_return (False, None)
                    else go_return (False, Some x)
        | None \<Rightarrow> go_return (True, None))"

definition rpcClient_deleteVolume :: "'w http \<Rightarrow> string \<Rightarrow> (rpcClient \<times> 'w, err) go" where
  "rpcClient_deleteVolume http lvolID =
     go_bind (rpcClient_call http ''bdev_lvol_delete'' (Some (JObj [(''name'', JStr lvolID)])) dec_any ())
       (\<lambda>(e, _).
          go_return (if errorMatches e ErrJSONNoSuchDevice then Some ErrJSONNoSuchDevice else e))"

definition rpcClient_snapshot ::
  "'w http \<Rightarrow> string \<Rightarrow> string \<Rightarrow> (rpcClient \<times> 'w, string \<times> err) go" where
  "rpcClient_snapshot http lvolName snapShotName =
     go_bind (rpcClient_call http ''bdev_lvol_snapshot''
                (Some (JObj [(''lvol_name'', JStr lvolName), (''snapshot_name'', JStr snapShotName)]))
                dec_string [])
       (\<lambda>(e, snapshotID). go_return (snapshotID, e))"

text \<open>The caller dereferences the \<open>*BDev\<close> only after testing the error.\<close>

definition rpcClient_getLvstore ::
  "'w http \<Rightarrow> string \<Rightarrow> (rpcClient \<times> 'w, string \<times> err) go" where
  "rpcClient_getLvstore http lvolID =
     go_bind (rpcClient_getVolume http lvolID)
       (\<lambda>(lvol, e). case (lvol, e) of
          (_, Some x) \<Rightarrow> go_return ([], Some x)
        | (None, None) \<Rightarrow> go_panic nil_deref
        | (Some b, None) \<Rightarrow> (case DriverSpecific b of
             None \<Rightarrow> go_return ([], Some (Errorf (''no driver_specific for '' @ lvolID)))
           | Some lvstoreUUID \<Rightarrow>
               go_bind (rpcClient_lvStores http)
                 (\<lambda>(lvstores, e2). if e2 \<noteq> None then go_return ([], e2)
                    else (case find (\<lambda>l. lvs_UUID l = lvstoreUUID) lvstores of
                       Some l \<Rightarrow> go_return (lvs_Name l, None)
                     | None \<Rightarrow> go_return ([], Some (Errorf (''lvstore for '' @ lvolID @ '' not found'')))))))"

section \<open>Shared by the storage nodes\<close>

text \<open>Every volume has an alias ID named \<open>lvsName/lvolName\<close>.\<close>

definition lvol_alias :: "string \<Rightarrow> string \<Rightarrow> string" where
  "lvol_alias lvsName lvolName = lvsName @ ''/'' @ lvolName"

definition bd_uuid_of :: "BDev option \<Rightarrow> ('s, string) go" where
  "bd_uuid_of lvol = (case lvol of None \<Rightarrow> go_panic nil_deref | Some b \<Rightarrow> go_return (bd_UUID b))"

end
