(* ===== verification/Nvmf_Node.thy ===== *)
theory Nvmf_Node
  imports Rpc_Client
begin

text \<open>
  The NVMe-oF storage node of \<open>pkg/util/nvmf.go\<close>. Every method runs on the node object and the
  world; the methods of its RPC client run on the client inside the node.
\<close>

record nodeNVMf =
  nv_client :: rpcClient
  nv_targetType :: string
  nv_targetAddr :: string
  nv_targetPort :: string
  transCreated :: int32

definition newNVMf :: "rpcClient \<Rightarrow> string \<Rightarrow> string \<Rightarrow> nodeNVMf" where
  "newNVMf client targetType targetAddr =
     \<lparr>nv_client = client, nv_targetType = targetType, nv_targetAddr = targetAddr,
      nv_targetPort = cfgNVMfSvcPort, transCreated = 0\<rparr>"

abbreviation nv_rpc :: "(rpcClient \<times> 'w, 'r) go \<Rightarrow> (nodeNVMf \<times> 'w, 'r) go" where
  "nv_rpc \<equiv> go_zoom nv_client (\<lambda>c n. n\<lparr>nv_client := c\<rparr>)"

definition nv_self :: "(nodeNVMf \<times> 'w, nodeNVMf) go" where
  "nv_self = (\<lambda>(n, w). (Ret n, n, w))"

definition nodeNVMf_Info :: "nodeNVMf \<Rightarrow> string" where
  "nodeNVMf_Info node = rpcClient_info (nv_client node)"

definition nodeNVMf_LvStores :: "'w http \<Rightarrow> (nodeNVMf \<times> 'w, LvStore list \<times> err) go" where
  "nodeNVMf_LvStores http = nv_rpc (rpcClient_lvStores http)"

definition nodeNVMf_getVolumeModel :: "string \<Rightarrow> string" where
  "nodeNVMf_getVolumeModel lvolID = lvolID"

definition nodeNVMf_getVolumeNqn :: "string \<Rightarrow> string" where
  "nodeNVMf_getVolumeNqn lvolID = ''nqn.2020-04.io.spdk.csi:uuid:'' @ nodeNVMf_getVolumeModel lvolID"

definition nodeNVMf_VolumeInfo :: "'w http \<Rightarrow> string \<Rightarrow> (nodeNVMf \<times> 'w, smap \<times> err) go" where
  "nodeNVMf_VolumeInfo http lvolID =
     go_bind (nv_rpc (rpcClient_getVolume http lvolID))
       (\<lambda>(lvol, e). if e \<noteq> None then go_return (Map.empty, e)
          else go_bind (nv_rpc (rpcClient_getLvstore http lvolID))
            (\<lambda>(lvStore, e). if e \<noteq> None then go_return (Map.empty, e)
               else (case lvol of
                  None \<Rightarrow> go_panic nil_deref
                | Some b \<Rightarrow> go_bind nv_self (\<lambda>node.
                    go_return
                      ([''targetType'' \<mapsto> nv_targetType node,
                        ''targetAddr'' \<mapsto> nv_targetAddr node,
                        ''targetPort'' \<mapsto> nv_targetPort node,
                        ''nqn'' \<mapsto> nodeNVMf_getVolumeNqn lvolID,
                        ''model'' \<mapsto> nodeNVMf_getVolumeModel lvolID,
                        ''lvolSize'' \<mapsto> strconv_FormatInt (BlockSize b * NumBlocks b),
                        ''lvstore'' \<mapsto> lvStore], None)))))"

definition nodeNVMf_CreateVolume ::
  "'w http \<Rightarrow> string \<Rightarrow> string \<Rightarrow> int64 \<Rightarrow> (nodeNVMf \<times> 'w, string \<times> err) go" where
  "nodeNVMf_CreateVolume http lvolName lvsName sizeMiB =
     go_bind (nv_rpc (rpcClient_getVolume http (lvol_alias lvsName lvolName)))
       (\<lambda>(lvol, e). if e = None then go_bind (bd_uuid_of lvol) (\<lambda>uuid. go_return (uuid, None))
          else go_bind (nv_rpc (rpcClient_createVolume http lvolName lvsName sizeMiB))
            (\<lambda>(lvolID, e). if e \<noteq> None then go_return ([], e) else go_return (lvolID, None)))"

definition nodeNVMf_CloneVolume ::
  "'w http \<Rightarrow> string \<Rightarrow> string \<Rightarrow> string \<Rightarrow> (nodeNVMf \<times> 'w, string \<times> err) go" where
  "nodeNVMf_CloneVolume http lvolName lvsName sourceLvolID =
     go_bind (nv_rpc (rpcClient_getVolume http (lvol_alias lvsName lvolName)))
       (\<lambda>(lvol, e). if e = None then go_bind (bd_uuid_of lvol) (\<lambda>uuid. go_return (uuid, None))
          else go_bind (nv_rpc (rpcClient_cloneVolume http lvolName sourceLvolID))
            (\<lambda>(lvolID, e). if e \<noteq> None then go_return ([], e) else go_return (lvolID, None)))"

definition nodeNVMf_GetVolume ::
  "'w http \<Rightarrow> string \<Rightarrow> string \<Rightarrow> (nodeNVMf \<times> 'w, string \<times> err) go" where
  "nodeNVMf_GetVolume http lvolName lvsName =
     go_bind (nv_rpc (rpcClient_getVolume http (lvol_alias lvsName lvolName)))
       (\<lambda>(lvol, e). if e \<noteq> None then go_return ([], e)
          else go_bind (bd_uuid_of lvol) (\<lambda>uuid. go_return (uuid, e)))"

definition nodeNVMf_isVolumeCreated :: "'w http \<Rightarrow> string \<Rightarrow> (nodeNVMf \<times> 'w, bool \<times> err) go" where
  "nodeNVMf_isVolumeCreated http lvolID = nv_rpc (rpcClient_isVolumeCreated http lvolID)"

definition nodeNVMf_CreateSnapshot ::
  "'w http \<Rightarrow> string \<Rightarrow> string \<Rightarrow> (nodeNVMf \<times> 'w, string \<times> err) go" where
  "nodeNVMf_CreateSnapshot http lvolName snapshotName =
     go_bind (nv_rpc (rpcClient_getLvstore http lvolName))
       (\<lambda>(lvsName, e). if e \<noteq> None then go_return ([], e)
          else go_bind (nv_rpc (rpcClient_getVolume http (lvol_alias lvsName snapshotName)))
            (\<lambda>(lvol, e). if e = None then go_bind (bd_uuid_of lvol) (\<lambda>uuid. go_return (uuid, None))
               else go_bind (nv_rpc (rpcClient_snapshot http lvolName snapshotName))
                 (\<lambda>(snapshotID, e). if e \<noteq> None then go_return ([], e)
                    else go_return (snapshotID, None))))"

definition nodeNVMf_DeleteVolume :: "'w http \<Rightarrow> string \<Rightarrow> (nodeNVMf \<times> 'w, err) go" where
  "nodeNVMf_DeleteVolume http lvolID =
     go_bind (nv_rpc (rpcClient_deleteVolume http lvolID))
       (\<lambda>e. if e \<noteq> None then go_return e else go_return None)"

section \<open>The NVMe-oF subsystem of a volume\<close>

record listen_address =
  TrType :: string
  AdrFam :: string
  TrAddr :: string
  TrSvcID :: string

definition zero_listen_address :: listen_address where
  "zero_listen_address = \<lparr>TrType = [], AdrFam = [], TrAddr = [], TrSvcID = []\<rparr>"

definition dec_listener :: "listen_address dec" where
  "dec_listener = dec_struct
     [(''address'', dec_struct
        [(''trtype'', fld TrType TrType_update dec_string),
         (''adrfam'', fld AdrFam AdrFam_update dec_string),
         (''traddr'', fld TrAddr TrAddr_update dec_string),
         (''trsvcid'', fld TrSvcID TrSvcID_update dec_string)])]"

definition listener_matches :: "nodeNVMf \<Rightarrow> listen_address \<Rightarrow> bool" where
  "listener_matches node a \<longleftrightarrow>
     TrType a = nv_targetType node \<and> TrAddr a = nv_targetAddr node \<and>
     TrSvcID a = nv_targetPort node \<and> AdrFam a = cfgAddrFamily"

definition nodeNVMf_isVolumePublished :: "'w http \<Rightarrow> string \<Rightarrow> (nodeNVMf \<times> 'w, bool \<times> err) go" where
  "nodeNVMf_isVolumePublished http lvolID =
     go_bind (nv_rpc (rpcClient_call http ''nvmf_subsystem_get_listeners''
                (Some (JObj [(''nqn'', JStr (nodeNVMf_getVolumeNqn lvolID))]))
                (dec_slice zero_listen_address dec_listener) []))
       (\<lambda>(e, result). if e \<noteq> None then
            (if errorMatches e ErrInvalidParameters then go_return (False, None)
             else go_return (False, e))
          else go_bind nv_self (\<lambda>node.
            go_return (list_ex (listener_matches node) result, None)))"

definition nodeNVMf_createSubsystem :: "'w http \<Rightarrow> string \<Rightarrow> (nodeNVMf \<times> 'w, err) go" where
  "nodeNVMf_createSubsystem http lvolID =
     go_bind (nv_rpc (rpcClient_call http ''nvmf_create_subsystem''
                (Some (JObj [(''nqn'', JStr (nodeNVMf_getVolumeNqn lvolID)),
                             (''allow_any_host'', JBool cfgAllowAnyHost),
                             (''serial_number'', JStr ''spdkcsi-sn''),
                             (''model_number'', JStr (nodeNVMf_getVolumeModel lvolID))]))
                dec_any ()))
       (\<lambda>(e, _). go_return e)"

definition nodeNVMf_subsystemAddNs :: "'w http \<Rightarrow> string \<Rightarrow> (nodeNVMf \<times> 'w, int64 \<times> err) go" where
  "nodeNVMf_subsystemAddNs http lvolID =
     go_bind (nv_rpc (rpcClient_call http ''nvmf_subsystem_add_ns''
                (Some (JObj [(''nqn'', JStr (nodeNVMf_getVolumeNqn lvolID)),
                             (''namespace'', JObj [(''bdev_name'', JStr lvolID)])]))
                dec_int64 0))
       (\<lambda>(e, nsID). go_return (nsID, e))"

record ns_reply =
  NSID :: int64
  BdevName :: string

record subsystem_reply =
  sub_Nqn :: string
  sub_Namespace :: "ns_reply list"

definition dec_ns :: "ns_reply dec" where
  "dec_ns = dec_struct
     [(''nsid'', fld NSID NSID_update dec_int64),
      (''bdev_name'', fld BdevName BdevName_update dec_string)]"

definition dec_subsystem :: "subsystem_reply dec" where
  "dec_subsystem = dec_struct
     [(''nqn'', fld sub_Nqn sub_Nqn_update dec_string),
      (''namespaces'', fld sub_Namespace sub_Namespace_update
         (dec_slice \<lparr>NSID = 0, BdevName = []\<rparr> dec_ns))]"

text \<open>The first namespace on the volume's bdev among the subsystems with the volume's NQN.\<close>

definition find_nsid :: "string \<Rightarrow> string \<Rightarrow> subsystem_reply list \<Rightarrow> int64 option" where
  "find_nsid nqn lvolID results =
     map_option NSID (find (\<lambda>n. BdevName n = lvolID)
       (concat (map sub_Namespace (filter (\<lambda>s. sub_Nqn s = nqn) results))))"

definition nodeNVMf_subsystemGetNsID :: "'w http \<Rightarrow> string \<Rightarrow> (nodeNVMf \<times> 'w, int64 \<times> err) go" where
  "nodeNVMf_subsystemGetNsID http lvolID =
     go_bind (nv_rpc (rpcClient_call http ''nvmf_get_subsystems'' None
                (dec_slice \<lparr>sub_Nqn = [], sub_Namespace = []\<rparr> dec_subsystem) []))
       (\<lambda>(e, results). if e \<noteq> None then go_return (0, e)
          else (case find_nsid (nodeNVMf_getVolumeNqn lvolID) lvolID results of
             Some n \<Rightarrow> go_return (n, None)
           | None \<Rightarrow> go_return (0, Some (Errorf ''no such namespace''))))"

definition nodeNVMf_subsystemAddListener :: "'w http \<Rightarrow> string \<Rightarrow> (nodeNVMf \<times> 'w, err) go" where
  "nodeNVMf_subsystemAddListener http lvolID =
     go_bind nv_self (\<lambda>node.
     go_bind (nv_rpc (rpcClient_call http ''nvmf_subsystem_add_listener''
                (Some (JObj [(''nqn'', JStr (nodeNVMf_getVolumeNqn lvolID)),
                             (''listen_address'', JObj
                                [(''trtype'', JStr (nv_targetType node)),
                                 (''adrfam'', JStr cfgAddrFamily),
                                 (''traddr'', JStr (nv_targetAddr node)),
                                 (''trsvcid'', JStr (nv_targetPort node))])]))
                dec_any ()))
       (\<lambda>(e, _). go_return e))"

definition nodeNVMf_subsystemRemoveNs :: "'w http \<Rightarrow> string \<Rightarrow> (nodeNVMf \<times> 'w, err) go" where
  "nodeNVMf_subsystemRemoveNs http lvolID =
     go_bind (nodeNVMf_subsystemGetNsID http lvolID)
       (\<lambda>(nsID, e). if e \<noteq> None then go_return e
          else go_bind (nv_rpc (rpcClient_call http ''nvmf_subsystem_remove_ns''
                 (Some (JObj [(''nqn'', JStr (nodeNVMf_getVolumeNqn lvolID)),
                              (''nsid'', jint (sint nsID))]))
                 dec_any ()))
            (\<lambda>(e, _). go_return e))"

definition nodeNVMf_deleteSubsystem :: "'w http \<Rightarrow> string \<Rightarrow> (nodeNVMf \<times> 'w, err) go" where
  "nodeNVMf_deleteSubsystem http lvolID =
     go_bind (nv_rpc (rpcClient_call http ''nvmf_delete_subsystem''
                (Some (JObj [(''nqn'', JStr (nodeNVMf_getVolumeNqn lvolID))])) dec_any ()))
       (\<lambda>(e, _). go_return e)"

definition nv_set_transCreated :: "(nodeNVMf \<times> 'w, unit) go" where
  "nv_set_transCreated = go_modify (\<lambda>(n, w). (n\<lparr>transCreated := 1\<rparr>, w))"

definition nodeNVMf_createTransport :: "'w http \<Rightarrow> (nodeNVMf \<times> 'w, err) go" where
  "nodeNVMf_createTransport http =
     go_bind nv_self (\<lambda>node.
       if transCreated node \<noteq> 0 then go_return None
       else go_bind (nv_rpc (rpcClient_call http ''nvmf_create_transport''
                 (Some (JObj [(''trtype'', JStr (nv_targetType node))])) dec_any ()))
         (\<lambda>(e, _). case e of
            None \<Rightarrow> go_bind nv_set_transCreated (\<lambda>_. go_return None)
          | Some x \<Rightarrow>
              if strings_Contains (err_Error x) ''already exists''
              then go_bind nv_set_transCreated (\<lambda>_. go_return None)
              else go_return (Some x)))"

section \<open>Publishing\<close>

definition nodeNVMf_PublishVolume :: "'w http \<Rightarrow> string \<Rightarrow> (nodeNVMf \<times> 'w, err) go" where
  "nodeNVMf_PublishVolume http lvolID =
     go_bind (nodeNVMf_isVolumeCreated http lvolID) (\<lambda>(exists, e).
     if e \<noteq> None then go_return e
     else if \<not> exists then go_return (Some ErrVolumeDeleted)
     else go_bind (nodeNVMf_isVolumePublished http lvolID) (\<lambda>(published, e).
     if e \<noteq> None then go_return e
     else if published then go_return None
     else go_bind (nodeNVMf_createTransport http) (\<lambda>e.
     if e \<noteq> None then go_return e
     else go_bind (nodeNVMf_createSubsystem http lvolID) (\<lambda>e.
     if e \<noteq> None then go_return e
     else go_bind (nodeNVMf_subsystemAddNs http lvolID) (\<lambda>(_, e).
     if e \<noteq> None then
       go_bind (nodeNVMf_deleteSubsystem http lvolID) (\<lambda>_. go_return e)
     else go_bind (nodeNVMf_subsystemAddListener http lvolID) (\<lambda>e.
     if e \<noteq> None then
       go_bind (nodeNVMf_subsystemRemoveNs http lvolID) (\<lambda>_.
       go_bind (nodeNVMf_deleteSubsystem http lvolID) (\<lambda>_. go_return e))
     else go_return None))))))"

definition nodeNVMf_UnpublishVolume :: "'w http \<Rightarrow> string \<Rightarrow> (nodeNVMf \<times> 'w, err) go" where
  "nodeNVMf_UnpublishVolume http lvolID =
     go_bind (nodeNVMf_isVolumeCreated http lvolID) (\<lambda>(exists, e).
     if e \<noteq> None then go_return e
     else if \<not> exists then go_return (Some ErrVolumeDeleted)
     else go_bind (nodeNVMf_isVolumePublished http lvolID) (\<lambda>(published, e).
     if e \<noteq> None then go_return e
     else if \<not> published then go_return None
     else go_bind (nodeNVMf_subsystemRemoveNs http lvolID) (\<lambda>_.
     go_bind (nodeNVMf_deleteSubsystem http lvolID) (\<lambda>e.
     if e \<noteq> None then go_return e
     else go_return None))))"

end
