(* ===== verification/Iscsi_Node.thy ===== *)
theory Iscsi_Node
  imports Rpc_Client
begin

text \<open>The iSCSI storage node of \<open>pkg/util/iscsi.go\<close>, in the same form as the NVMe-oF node.\<close>

definition numberPortalGroupTag :: int where "numberPortalGroupTag = 1"
definition numberInitiatorGroupTag :: int where "numberInitiatorGroupTag = 1"
definition targetQueueDepth :: int where "targetQueueDepth = 64"
definition iqnPrefixName :: string where "iqnPrefixName = ''iqn.2016-06.io.spdk:''"

record nodeISCSI =
  is_client :: rpcClient
  is_targetAddr :: string
  is_targetPort :: string

definition newISCSI :: "rpcClient \<Rightarrow> string \<Rightarrow> nodeISCSI" where
  "newISCSI client targetAddr =
     \<lparr>is_client = client, is_targetAddr = targetAddr, is_targetPort = cfgISCSISvcPort\<rparr>"

abbreviation is_rpc :: "(rpcClient \<times> 'w, 'r) go \<Rightarrow> (nodeISCSI \<times> 'w, 'r) go" where
  "is_rpc \<equiv> go_zoom is_client (\<lambda>c n. n\<lparr>is_client := c\<rparr>)"

definition is_self :: "(nodeISCSI \<times> 'w, nodeISCSI) go" where
  "is_self = (\<lambda>(n, w). (Ret n, n, w))"

definition nodeISCSI_Info :: "nodeISCSI \<Rightarrow> string" where
  "nodeISCSI_Info node = rpcClient_info (is_client node)"

definition nodeISCSI_LvStores :: "'w http \<Rightarrow> (nodeISCSI \<times> 'w, LvStore list \<times> err) go" where
  "nodeISCSI_LvStores http = is_rpc (rpcClient_lvStores http)"

definition nodeISCSI_isVolumeCreated :: "'w http \<Rightarrow> string \<Rightarrow> (nodeISCSI \<times> 'w, bool \<times> err) go" where
  "nodeISCSI_isVolumeCreated http lvolID = is_rpc (rpcClient_isVolumeCreated http lvolID)"

definition nodeISCSI_VolumeInfo :: "'w http \<Rightarrow> string \<Rightarrow> (nodeISCSI \<times> 'w, smap \<times> err) go" where
  "nodeISCSI_VolumeInfo http lvolID =
     go_bind (nodeISCSI_isVolumeCreated http lvolID)
       (\<lambda>(exists, e). if e \<noteq> None then go_return (Map.empty, e)
          else if \<not> exists then go_return (Map.empty, Some (Errorf (''volume not exists: '' @ lvolID)))
          else go_bind (is_rpc (rpcClient_getLvstore http lvolID))
            (\<lambda>(lvStore, e). if e \<noteq> None then go_return (Map.empty, e)
               else go_bind is_self (\<lambda>node.
                 go_return
                   ([''targetAddr'' \<mapsto> is_targetAddr node,
                     ''targetPort'' \<mapsto> is_targetPort node,
                     ''iqn'' \<mapsto> iqnPrefixName @ lvolID,
                     ''targetType'' \<mapsto> ''iscsi'',
                     ''lvstore'' \<mapsto> lvStore], None))))"

definition nodeISCSI_CreateVolume ::
  "'w http \<Rightarrow> string \<Rightarrow> string \<Rightarrow> int64 \<Rightarrow> (nodeISCSI \<times> 'w, string \<times> err) go" where
  "nodeISCSI_CreateVolume http lvolName lvsName sizeMiB =
     go_bind (is_rpc (rpcClient_getVolume http (lvol_alias lvsName lvolName)))
       (\<lambda>(lvol, e). if e = None then go_bind (bd_uuid_of lvol) (\<lambda>uuid. go_return (uuid, None))
          else go_bind (is_rpc (rpcClient_createVolume http lvolName lvsName sizeMiB))
            (\<lambda>(lvolID, e). if e \<noteq> None then go_return ([], e) else go_return (lvolID, None)))"

definition nodeISCSI_CloneVolume ::
  "'w http \<Rightarrow> string \<Rightarrow> string \<Rightarrow> string \<Rightarrow> (nodeISCSI \<times> 'w, string \<times> err) go" where
  "nodeISCSI_CloneVolume http lvolName lvsName sourceLvolID =
     go_bind (is_rpc (rpcClient_getVolume http (lvol_alias lvsName lvolName)))
       (\<lambda>(lvol, e). if e = None then go_bind (bd_uuid_of lvol) (\<lambda>uuid. go_return (uuid, None))
          else go_bind (is_rpc (rpcClient_cloneVolume http lvolName sourceLvolID))
            (\<lambda>(lvolID, e). if e \<noteq> None then go_return ([], e) else go_return (lvolID, None)))"

definition nodeISCSI_GetVolume ::
  "'w http \<Rightarrow> string \<Rightarrow> string \<Rightarrow> (nodeISCSI \<times> 'w, string \<times> err) go" where
  "nodeISCSI_GetVolume http lvolName lvsName =
     go_bind (is_rpc (rpcClient_getVolume http (lvol_alias lvsName lvolName)))
       (\<lambda>(lvol, e). if e \<noteq> None then go_return ([], e)
          else go_bind (bd_uuid_of lvol) (\<lambda>uuid. go_return (uuid, e)))"

definition nodeISCSI_CreateSnapshot ::
  "'w http \<Rightarrow> string \<Rightarrow> string \<Rightarrow> (nodeISCSI \<times> 'w, string \<times> err) go" where
  "nodeISCSI_CreateSnapshot http lvolName snapshotName =
     go_bind (is_rpc (rpcClient_getLvstore http lvolName))
       (\<lambda>(lvsName, e). if e \<noteq> None then go_return ([], e)
          else go_bind (is_rpc (rpcClient_getVolume http (lvol_alias lvsName snapshotName)))
            (\<lambda>(lvol, e). if e = None then go_bind (bd_uuid_of lvol) (\<lambda>uuid. go_return (uuid, None))
               else go_bind (is_rpc (rpcClient_snapshot http lvolName snapshotName))
                 (\<lambda>(snapshotID, e). if e \<noteq> None then go_return ([], e)
                    else go_return (snapshotID, None))))"

definition nodeISCSI_DeleteVolume :: "'w http \<Rightarrow> string \<Rightarrow> (nodeISCSI \<times> 'w, err) go" where
  "nodeISCSI_DeleteVolume http lvolID =
     go_bind (is_rpc (rpcClient_deleteVolume http lvolID))
       (\<lambda>e. if e \<noteq> None then go_return e else go_return None)"

section \<open>Target nodes, portal and initiator groups\<close>

record target_node_reply =
  tn_Name :: string
  tn_AliasName :: string

definition dec_target_node :: "target_node_reply dec" where
  "dec_target_node = dec_struct
     [(''name'', fld tn_Name tn_Name_update dec_string),
      (''alias_name'', fld tn_AliasName tn_AliasName_update dec_string)]"

definition nodeISCSI_isVolumePublished :: "'w http \<Rightarrow> string \<Rightarrow> (nodeISCSI \<times> 'w, bool \<times> err) go" where
  "nodeISCSI_isVolumePublished http lvolID =
     go_bind (is_rpc (rpcClient_call http ''iscsi_get_target_nodes'' None
                (dec_slice \<lparr>tn_Name = [], tn_AliasName = []\<rparr> dec_target_node) []))
       (\<lambda>(e, result). if e \<noteq> None then go_return (False, e)
          else go_return (list_ex (\<lambda>t. tn_AliasName t = lvolID) result, None))"

definition dec_tag :: "int64 dec" where
  "dec_tag = dec_struct [(''tag'', dec_int64)]"

definition nodeISCSI_iscsiGetPortalGroups :: "'w http \<Rightarrow> (nodeISCSI \<times> 'w, err) go" where
  "nodeISCSI_iscsiGetPortalGroups http =
     go_bind (is_rpc (rpcClient_call http ''iscsi_get_portal_groups'' None (dec_slice 0 dec_tag) []))
       (\<lambda>(e, results). if e \<noteq> None then go_return e
          else if list_ex (\<lambda>t. sint t = numberPortalGroupTag) results then go_return None
          else go_return (Some (Errorf ''port group not available'')))"

definition nodeISCSI_iscsiGetInitiatorGroups :: "'w http \<Rightarrow> (nodeISCSI \<times> 'w, err) go" where
  "nodeISCSI_iscsiGetInitiatorGroups http =
     go_bind (is_rpc (rpcClient_call http ''iscsi_get_initiator_groups'' None (dec_slice 0 dec_tag) []))
       (\<lambda>(e, results). if e \<noteq> None then go_return e
          else if list_ex (\<lambda>t. sint t = numberInitiatorGroupTag) results then go_return None
          else go_return (Some (Errorf ''initiator group not available'')))"

text \<open>The reply of these methods is a Boolean, initially false.\<close>

definition bool_result :: "string \<Rightarrow> err \<times> bool \<Rightarrow> err" where
  "bool_result failure er = (case er of
     (Some e, _) \<Rightarrow> Some e
   | (None, False) \<Rightarrow> Some (Errorf failure)
   | (None, True) \<Rightarrow> None)"

definition nodeISCSI_iscsiCreatePortalGroup :: "'w http \<Rightarrow> (nodeISCSI \<times> 'w, err) go" where
  "nodeISCSI_iscsiCreatePortalGroup http =
     go_bind is_self (\<lambda>node.
     go_bind (is_rpc (rpcClient_call http ''iscsi_create_portal_group''
                (Some (JObj [(''portals'', JArr [JObj [(''host'', JStr (is_targetAddr node)),
                                                       (''port'', JStr (is_targetPort node))]]),
                             (''tag'', jint numberPortalGroupTag)]))
                dec_bool False))
       (\<lambda>er. go_return (bool_result ''create iscsi portal group failure'' er)))"

definition nodeISCSI_iscsiCreateInitiatorGroup ::
  "'w http \<Rightarrow> string list \<Rightarrow> string list \<Rightarrow> (nodeISCSI \<times> 'w, err) go" where
  "nodeISCSI_iscsiCreateInitiatorGroup http initiators netmasks =
     go_bind (is_rpc (rpcClient_call http ''iscsi_create_initiator_group''
                (Some (JObj [(''initiators'', JArr (map JStr initiators)),
                             (''tag'', jint numberInitiatorGroupTag),
                             (''netmasks'', JArr (map JStr netmasks))]))
                dec_bool False))
       (\<lambda>er. go_return (bool_result ''create iscsi initiator group failure'' er))"

text \<open>
  The composite literal \<open>PgIgMaps{{numberPortalGroupTag, numberInitiatorGroupTag}}\<close> of the source is
  positional, and the struct's first field is \<open>IgTag\<close>.
\<close>

definition createTargetNode_params :: "string \<Rightarrow> string \<Rightarrow> json" where
  "createTargetNode_params targetName bdevName = JObj
     [(''luns'', JArr [JObj [(''lun_id'', jint 0), (''bdev_name'', JStr bdevName)]]),
      (''name'', JStr targetName),
      (''alias_name'', JStr targetName),
      (''pg_ig_maps'', JArr [JObj [(''ig_tag'', jint numberPortalGroupTag),
                                   (''pg_tag'', jint numberInitiatorGroupTag)]]),
      (''disable_chap'', JBool True),
      (''queue_depth'', jint targetQueueDepth)]"

definition nodeISCSI_iscsiCreateTargetNode ::
  "'w http \<Rightarrow> string \<Rightarrow> string \<Rightarrow> (nodeISCSI \<times> 'w, err) go" where
  "nodeISCSI_iscsiCreateTargetNode http targetName bdevName =
     go_bind (is_rpc (rpcClient_call http ''iscsi_create_target_node''
                (Some (createTargetNode_params targetName bdevName)) dec_bool False))
       (\<lambda>er. go_return (bool_result ''create iscsi target node failure'' er))"

definition nodeISCSI_iscsiDeleteTargetNode :: "'w http \<Rightarrow> string \<Rightarrow> (nodeISCSI \<times> 'w, err) go" where
  "nodeISCSI_iscsiDeleteTargetNode http targetName =
     go_bind (is_rpc (rpcClient_call http ''iscsi_delete_target_node''
                (Some (JObj [(''name'', JStr (iqnPrefixName @ targetName))])) dec_bool False))
       (\<lambda>er. go_return (bool_result ''delete iscsi target node failure'' er))"

definition nodeISCSI_createPortalGroup :: "'w http \<Rightarrow> (nodeISCSI \<times> 'w, err) go" where
  "nodeISCSI_createPortalGroup http =
     go_bind (nodeISCSI_iscsiGetPortalGroups http) (\<lambda>e.
     if e = None then go_return None
     else go_bind (nodeISCSI_iscsiCreatePortalGroup http) (\<lambda>e.
     if e = None then go_return None
     else nodeISCSI_iscsiGetPortalGroups http))"

definition nodeISCSI_createInitiatorGroup :: "'w http \<Rightarrow> (nodeISCSI \<times> 'w, err) go" where
  "nodeISCSI_createInitiatorGroup http =
     go_bind (nodeISCSI_iscsiGetInitiatorGroups http) (\<lambda>e.
     if e = None then go_return None
     else go_bind (nodeISCSI_iscsiCreateInitiatorGroup http [''ANY''] [''ANY'']) (\<lambda>e.
     if e = None then go_return None
     else nodeISCSI_iscsiGetInitiatorGroups http))"

section \<open>Publishing\<close>

definition nodeISCSI_PublishVolume :: "'w http \<Rightarrow> string \<Rightarrow> (nodeISCSI \<times> 'w, err) go" where
  "nodeISCSI_PublishVolume http lvolID =
     go_bind (nodeISCSI_isVolumeCreated http lvolID) (\<lambda>(exists, e).
     if e \<noteq> None then go_return e
     else if \<not> exists then go_return (Some ErrVolumeDeleted)
     else go_bind (nodeISCSI_isVolumePublished http lvolID) (\<lambda>(published, e).
     if e \<noteq> None then go_return e
     else if published then go_return None
     else go_bind (nodeISCSI_createPortalGroup http) (\<lambda>e.
     if e \<noteq> None then go_return e
     else go_bind (nodeISCSI_createInitiatorGroup http) (\<lambda>e.
     if e \<noteq> None then go_return e
     else go_bind (nodeISCSI_iscsiCreateTargetNode http lvolID lvolID) (\<lambda>e.
     if e \<noteq> None then go_return e
     else go_return None)))))"

definition nodeISCSI_UnpublishVolume :: "'w http \<Rightarrow> string \<Rightarrow> (nodeISCSI \<times> 'w, err) go" where
  "nodeISCSI_UnpublishVolume http lvolID =
     go_bind (nodeISCSI_isVolumeCreated http lvolID) (\<lambda>(exists, e).
     if e \<noteq> None then go_return e
     else if \<not> exists then go_return (Some ErrVolumeDeleted)
     else go_bind (nodeISCSI_isVolumePublished http lvolID) (\<lambda>(published, e).
     if e \<noteq> None then go_return e
     else if \<not> published then go_return None
     else go_bind (nodeISCSI_iscsiDeleteTargetNode http lvolID) (\<lambda>e.
     if e \<noteq> None then go_return e
     else go_return None)))"

end
