(* ===== verification/Target_Contract.thy ===== *)
theory Target_Contract
  imports Nvmf_Node Iscsi_Node
begin

text \<open>
  What the storage nodes rely on: the documented behaviour of the JSON-RPC methods of the SPDK
  target, as predicates on the transport \<open>http\<close>. \<open>view\<close> reads from a world the state of the target
  behind each endpoint (URL, user, password). Queries answer; a request that changes the state
  either is carried out or is refused with an error and changes nothing; removing something that
  exists is carried out. Nothing here is part of the program: these are the hypotheses under which
  its properties are proved.
\<close>

type_synonym endpoint = "string \<times> string \<times> string"

definition endpoint :: "rpcClient \<Rightarrow> endpoint" where
  "endpoint c = (rpcURL c, rpcUser c, rpcPass c)"

section \<open>JSON-RPC replies\<close>

datatype rpc_reply = ROk json | RErr int string

definition reply_doc :: "int32 \<Rightarrow> rpc_reply \<Rightarrow> json" where
  "reply_doc rid rep = JObj
     ([(''jsonrpc'', JStr ''2.0''), (''id'', jint (sint rid))] @
      (case rep of
         ROk r \<Rightarrow> [(''result'', r)]
       | RErr code msg \<Rightarrow> [(''error'', JObj [(''code'', jint code), (''message'', JStr msg)])]))"

definition error_code :: "int \<Rightarrow> bool" where
  "error_code code \<longleftrightarrow> code \<noteq> 0 \<and> - (2 ^ 31) \<le> code \<and> code < 2 ^ 31"

text \<open>The target replies \<open>rep\<close> to the call, whatever the request ID, and the world becomes \<open>w'\<close>.\<close>

definition replies ::
  "'w http \<Rightarrow> endpoint \<Rightarrow> string \<Rightarrow> json option \<Rightarrow> 'w \<Rightarrow> rpc_reply \<Rightarrow> 'w \<Rightarrow> bool" where
  "replies http ep m args w rep w' \<longleftrightarrow>
     (\<forall>rid. \<exists>status body.
        http \<lparr>hr_url = fst ep, hr_user = fst (snd ep), hr_pass = snd (snd ep),
              hr_body = json_text (request_doc m rid args)\<rparr> w = (HttpResp status body, w') \<and>
        status < 400 \<and> json_decode body = Some (reply_doc rid rep)) \<and>
     (case rep of ROk _ \<Rightarrow> True | RErr code _ \<Rightarrow> error_code code)"

definition performs ::
  "'w http \<Rightarrow> endpoint \<Rightarrow> ('w \<Rightarrow> endpoint \<Rightarrow> 't) \<Rightarrow> string \<Rightarrow> json option \<Rightarrow> 'r dec \<Rightarrow> 'r \<Rightarrow> 'w \<Rightarrow> 'r \<Rightarrow> 't \<Rightarrow> bool" where
  "performs http ep view m args d z w v t \<longleftrightarrow>
     (\<exists>r w'. replies http ep m args w (ROk r) w' \<and> d r z = (v, None) \<and> view w' = (view w)(ep := t))"

definition refuses ::
  "'w http \<Rightarrow> endpoint \<Rightarrow> ('w \<Rightarrow> endpoint \<Rightarrow> 't) \<Rightarrow> string \<Rightarrow> json option \<Rightarrow> 'w \<Rightarrow> string \<Rightarrow> bool" where
  "refuses http ep view m args w msg \<longleftrightarrow>
     (\<exists>code w'. replies http ep m args w (RErr code msg) w' \<and> view w' = view w)"

abbreviation answers ::
  "'w http \<Rightarrow> endpoint \<Rightarrow> ('w \<Rightarrow> endpoint \<Rightarrow> 't) \<Rightarrow> string \<Rightarrow> json option \<Rightarrow> 'r dec \<Rightarrow> 'r \<Rightarrow> 'w \<Rightarrow> 'r \<Rightarrow> bool" where
  "answers http ep view m args d z w v \<equiv> performs http ep view m args d z w v (view w ep)"

text \<open>The request is carried out, with a result and a new state that satisfy \<open>P\<close>, or it is refused.\<close>

definition attempts ::
  "'w http \<Rightarrow> endpoint \<Rightarrow> ('w \<Rightarrow> endpoint \<Rightarrow> 't) \<Rightarrow> string \<Rightarrow> json option \<Rightarrow> 'r dec \<Rightarrow> 'r \<Rightarrow> 'w \<Rightarrow> ('r \<Rightarrow> 't \<Rightarrow> bool) \<Rightarrow> bool" where
  "attempts http ep view m args d z w P \<longleftrightarrow>
     (\<exists>v t. P v t \<and> performs http ep view m args d z w v t) \<or> (\<exists>msg. refuses http ep view m args w msg)"

definition rpc_error :: "string \<Rightarrow> string \<Rightarrow> go_error" where
  "rpc_error m msg = Errorf (m @ '': json response error: '' @ msg)"

lemma find_field_response [simp]:
  "find_field (response_fields d) ''jsonrpc'' = None"
  "find_field (response_fields d) ''id'' = Some (fld rs_ID rs_ID_update dec_int32)"
  "find_field (response_fields d) ''result'' = Some (fld rs_Result rs_Result_update d)"
  "find_field (response_fields d) ''error'' = Some (dec_struct
     [(''code'', fld rs_Code rs_Code_update dec_int64),
      (''message'', fld rs_Message rs_Message_update dec_string)])"
  by (simp_all add: find_field_def response_fields_def strings_ToLower_def)

lemma find_field_error [simp]:
  "find_field [(''code'', d), (''message'', e)] ''code'' = Some d"
  "find_field [(''code'', d), (''message'', e)] ''message'' = Some e"
  by (simp_all add: find_field_def)

lemma error_code_word:
  assumes "error_code code" shows "dec_int64 (jint code) v = (word_of_int code, None)"
    and "(word_of_int code :: int64) \<noteq> 0"
proof -
  from assms have r: "- (2 ^ 63) \<le> code" "code < 2 ^ 63" "code \<noteq> 0" by (auto simp: error_code_def)
  then show "dec_int64 (jint code) v = (word_of_int code, None)" by (intro dec_int64_jint)
  show "(word_of_int code :: int64) \<noteq> 0"
    using sint_word_of_int_64 [OF r(1,2)] r(3) by (metis sint_0)
qed

lemma call_ok:
  assumes "replies http (endpoint c) m args w (ROk r) w'" and d: "d r z = (v, None)"
  shows "rpcClient_call http m args d z (c, w) = (Ret (None, v), c\<lparr>rpcID := rpcID c + 1\<rparr>, w')"
proof -
  obtain status body where
    "http (post_request (c\<lparr>rpcID := rpcID c + 1\<rparr>) (request_doc m (rpcID c + 1) args)) w =
       (HttpResp status body, w')"
    and "status < 400" and "json_decode body = Some (reply_doc (rpcID c + 1) (ROk r))"
    using assms(1) by (fastforce simp: replies_def post_request_def endpoint_def)
  then show ?thesis
    by (simp add: rpcClient_call_def decode_reply_def reply_doc_def fld_def d)
qed

lemma call_err:
  assumes "replies http (endpoint c) m args w (RErr code msg) w'"
  shows "rpcClient_call http m args d z (c, w) =
    (Ret (Some (rpc_error m msg), z), c\<lparr>rpcID := rpcID c + 1\<rparr>, w')"
proof -
  have code: "error_code code" using assms by (simp add: replies_def)
  obtain status body where
    "http (post_request (c\<lparr>rpcID := rpcID c + 1\<rparr>) (request_doc m (rpcID c + 1) args)) w =
       (HttpResp status body, w')"
    and "status < 400" and "json_decode body = Some (reply_doc (rpcID c + 1) (RErr code msg))"
    using assms by (fastforce simp: replies_def post_request_def endpoint_def)
  then show ?thesis
    by (simp add: rpcClient_call_def decode_reply_def reply_doc_def fld_def rpc_error_def
        error_code_word [OF code])
qed

lemma endpoint_next [simp]: "endpoint (c\<lparr>rpcID := i\<rparr>) = endpoint c"
  by (simp add: endpoint_def)

text \<open>Weakest preconditions of a call, for both outcomes.\<close>

lemma wp_call_performs:
  assumes "performs http (endpoint c) view m args d z w v t"
    and "\<And>c' w'. endpoint c' = endpoint c \<Longrightarrow> view w' = (view w)(endpoint c := t) \<Longrightarrow> Q (None, v) (c', w')"
  shows "go_wp (rpcClient_call http m args d z) Q E (c, w)"
  using assms by (fastforce simp: performs_def go_wp_def dest!: call_ok)

lemma wp_call_refuses:
  assumes "refuses http (endpoint c) view m args w msg"
    and "\<And>c' w'. endpoint c' = endpoint c \<Longrightarrow> view w' = view w \<Longrightarrow> Q (Some (rpc_error m msg), z) (c', w')"
  shows "go_wp (rpcClient_call http m args d z) Q E (c, w)"
proof -
  obtain code w' where "replies http (endpoint c) m args w (RErr code msg) w'" and "view w' = view w"
    using assms(1) by (auto simp: refuses_def)
  from call_err [OF this(1), of d z] this(2) show ?thesis
    using assms(2) by (simp add: go_wp_def)
qed

lemma wp_call_attempts:
  assumes "attempts http (endpoint c) view m args d z w P"
    and "\<And>v t c' w'. P v t \<Longrightarrow> endpoint c' = endpoint c \<Longrightarrow> view w' = (view w)(endpoint c := t) \<Longrightarrow> Q (None, v) (c', w')"
    and "\<And>msg c' w'. endpoint c' = endpoint c \<Longrightarrow> view w' = view w \<Longrightarrow> Q (Some (rpc_error m msg), z) (c', w')"
  shows "go_wp (rpcClient_call http m args d z) Q E (c, w)"
  using assms(1) unfolding attempts_def
proof (elim disjE exE conjE)
  fix v t assume "P v t" and "performs http (endpoint c) view m args d z w v t"
  then show ?thesis by (intro wp_call_performs) (auto intro: assms(2))
next
  fix msg assume "refuses http (endpoint c) view m args w msg"
  then show ?thesis by (rule wp_call_refuses) (rule assms(3))
qed

section \<open>Logical volumes\<close>

record nvmf_subsystem =
  sub_ns :: "ns_reply list"
  sub_listeners :: "listen_address list"

text \<open>
  The state of a target: its lvstores; the bdev a name or alias denotes; the NVMe-oF transports and
  subsystems by NQN; the iSCSI portal and initiator group tags and target nodes by name.
\<close>

record target =
  tg_lvstores :: "lvstore_reply list"
  tg_bdev :: "string \<rightharpoonup> BDev"
  tg_transports :: "string set"
  tg_subs :: "string \<rightharpoonup> nvmf_subsystem"
  tg_pgs :: "int set"
  tg_igs :: "int set"
  tg_tnodes :: "string set"

definition name_arg :: "string \<Rightarrow> json option" where
  "name_arg n = Some (JObj [(''name'', JStr n)])"

text \<open>\<open>bdev_get_bdevs\<close> and \<open>bdev_lvol_get_lvstores\<close>.\<close>

definition lvol_queries :: "'w http \<Rightarrow> endpoint \<Rightarrow> ('w \<Rightarrow> endpoint \<Rightarrow> target) \<Rightarrow> bool" where
  "lvol_queries http ep view \<longleftrightarrow>
     (\<forall>w n b. tg_bdev (view w ep) n = Some b \<longrightarrow>
        answers http ep view ''bdev_get_bdevs'' (name_arg n) (dec_slice zero_BDev dec_BDev) [] w [b]) \<and>
     (\<forall>w n. tg_bdev (view w ep) n = None \<longrightarrow>
        refuses http ep view ''bdev_get_bdevs'' (name_arg n) w ''No such device'') \<and>
     (\<forall>w. answers http ep view ''bdev_lvol_get_lvstores'' None
        (dec_slice zero_lvstore_reply dec_lvstore_reply) [] w (tg_lvstores (view w ep)))"

text \<open>All names of the bdev that \<open>n\<close> denotes stop denoting it.\<close>

definition del_bdev :: "string \<Rightarrow> target \<Rightarrow> target" where
  "del_bdev n t = t\<lparr>tg_bdev := (\<lambda>m. if tg_bdev t m = tg_bdev t n then None else tg_bdev t m)\<rparr>"

text \<open>
  \<open>bdev_lvol_delete\<close>: a volume that exists is deleted, or the request is refused (it is in use) with a
  message other than the one for a missing device.
\<close>

definition lvol_deletes :: "'w http \<Rightarrow> endpoint \<Rightarrow> ('w \<Rightarrow> endpoint \<Rightarrow> target) \<Rightarrow> bool" where
  "lvol_deletes http ep view \<longleftrightarrow>
     (\<forall>w n. tg_bdev (view w ep) n = None \<longrightarrow>
        refuses http ep view ''bdev_lvol_delete'' (name_arg n) w ''No such device'') \<and>
     (\<forall>w n. tg_bdev (view w ep) n \<noteq> None \<longrightarrow>
        performs http ep view ''bdev_lvol_delete'' (name_arg n) dec_any () w () (del_bdev n (view w ep)) \<or>
        (\<exists>msg. \<not> errorMatches (Some (rpc_error ''bdev_lvol_delete'' msg)) ErrJSONNoSuchDevice \<and>
           refuses http ep view ''bdev_lvol_delete'' (name_arg n) w msg))"

text \<open>Whether the target at an endpoint ever refuses to delete a volume that exists.\<close>

definition may_refuse :: "'w http \<Rightarrow> ('w \<Rightarrow> endpoint \<Rightarrow> target) \<Rightarrow> endpoint \<Rightarrow> bool" where
  "may_refuse http view ep \<longleftrightarrow>
     (\<exists>w n msg. tg_bdev (view w ep) n \<noteq> None \<and> refuses http ep view ''bdev_lvol_delete'' (name_arg n) w msg)"

text \<open>
  \<open>bdev_lvol_create\<close>: a new volume of a fresh UUID, under that name and under its alias, in the named
  lvstore; or a refusal.
\<close>

definition add_bdev :: "string \<Rightarrow> BDev \<Rightarrow> target \<Rightarrow> target" where
  "add_bdev alias b t = t\<lparr>tg_bdev := (tg_bdev t)(bd_UUID b \<mapsto> b, alias \<mapsto> b)\<rparr>"

lemma tg_lvstores_bdev [simp]: "tg_lvstores (add_bdev a b t) = tg_lvstores t" "tg_lvstores (del_bdev n t) = tg_lvstores t"
  by (simp_all add: add_bdev_def del_bdev_def)

definition new_lvol :: "string \<Rightarrow> target \<Rightarrow> BDev \<Rightarrow> bool" where
  "new_lvol lvs t b \<longleftrightarrow>
     tg_bdev t (bd_UUID b) = None \<and> CHR '':'' \<notin> set (bd_UUID b) \<and> CHR ''/'' \<notin> set (bd_UUID b) \<and>
     bd_Name b = bd_UUID b \<and>
     (\<exists>l \<in> set (tg_lvstores t). lr_Name l = lvs \<and> DriverSpecific b = Some (lr_UUID l))"

definition lvol_creates :: "'w http \<Rightarrow> endpoint \<Rightarrow> ('w \<Rightarrow> endpoint \<Rightarrow> target) \<Rightarrow> bool" where
  "lvol_creates http ep view \<longleftrightarrow>
     (\<forall>w name lvs sz. tg_bdev (view w ep) (lvol_alias lvs name) = None \<longrightarrow>
        attempts http ep view ''bdev_lvol_create'' (Some (createVolume_params name lvs sz)) dec_string [] w
          (\<lambda>u t. \<exists>b. u = bd_UUID b \<and> new_lvol lvs (view w ep) b \<and>
             t = add_bdev (lvol_alias lvs name) b (view w ep)))"

section \<open>The client's methods on such a target\<close>

lemma errorMatches_NoSuchDevice_iff:
  "errorMatches (Some e) ErrJSONNoSuchDevice \<longleftrightarrow>
     strings_Contains (strings_ToLower (err_Error e)) ''no such device''"
  by (simp add: errorMatches_def strings_ToLower_def strings_TrimPrefix_def
      strings_TrimSpace_def is_space_def)

lemma strings_Contains_append: "strings_Contains b c \<Longrightarrow> strings_Contains (a @ b) c"
  by (auto simp: strings_Contains_iff) (metis append.assoc)

lemma NoSuchDevice_rpc_error: "errorMatches (Some (rpc_error m ''No such device'')) ErrJSONNoSuchDevice"
proof -
  have "strings_Contains (strings_ToLower ''No such device'') ''no such device''"
    by (simp add: strings_ToLower_def)
  then show ?thesis
    unfolding errorMatches_NoSuchDevice_iff rpc_error_def err_Error.simps strings_ToLower_def map_append
    by (intro strings_Contains_append)
qed

lemma wp_getVolume:
  assumes "lvol_queries http (endpoint c) view"
    and "\<And>c' w'. endpoint c' = endpoint c \<Longrightarrow> view w' = view w \<Longrightarrow>
       Q (case tg_bdev (view w (endpoint c)) n of
            Some b \<Rightarrow> (Some b, None)
          | None \<Rightarrow> (None, Some ErrJSONNoSuchDevice)) (c', w')"
  shows "go_wp (rpcClient_getVolume http n) Q E (c, w)"
proof (cases "tg_bdev (view w (endpoint c)) n")
  case None
  with assms(1) have "refuses http (endpoint c) view ''bdev_get_bdevs'' (name_arg n) w ''No such device''"
    by (simp add: lvol_queries_def)
  then show ?thesis
    unfolding rpcClient_getVolume_def go_wp_bind name_arg_def [symmetric]
    by (rule wp_call_refuses) (use None assms(2) in \<open>simp add: NoSuchDevice_rpc_error\<close>)
next
  case (Some b)
  with assms(1) have
    "answers http (endpoint c) view ''bdev_get_bdevs'' (name_arg n) (dec_slice zero_BDev dec_BDev) [] w [b]"
    by (simp add: lvol_queries_def)
  then show ?thesis
    unfolding rpcClient_getVolume_def go_wp_bind name_arg_def [symmetric]
    by (rule wp_call_performs) (use Some assms(2) in \<open>simp add: errorMatches_def\<close>)
qed

lemma wp_isVolumeCreated:
  assumes "lvol_queries http (endpoint c) view"
    and "\<And>c' w'. endpoint c' = endpoint c \<Longrightarrow> view w' = view w \<Longrightarrow>
       Q (tg_bdev (view w (endpoint c)) n \<noteq> None, None) (c', w')"
  shows "go_wp (rpcClient_isVolumeCreated http n) Q E (c, w)"
  unfolding rpcClient_isVolumeCreated_def go_wp_bind
  by (rule wp_getVolume [OF assms(1)])
    (use assms(2) in \<open>cases "tg_bdev (view w (endpoint c)) n", simp_all\<close>)

lemma wp_lvStores:
  assumes "lvol_queries http (endpoint c) view"
    and "\<And>c' w'. endpoint c' = endpoint c \<Longrightarrow> view w' = view w \<Longrightarrow>
       Q (map LvStore_of_reply (tg_lvstores (view w (endpoint c))), None) (c', w')"
  shows "go_wp (rpcClient_lvStores http) Q E (c, w)"
proof -
  have "answers http (endpoint c) view ''bdev_lvol_get_lvstores'' None
        (dec_slice zero_lvstore_reply dec_lvstore_reply) [] w (tg_lvstores (view w (endpoint c)))"
    using assms(1) by (simp add: lvol_queries_def)
  then show ?thesis
    unfolding rpcClient_lvStores_def go_wp_bind
    by (rule wp_call_performs) (use assms(2) in simp)
qed

text \<open>The lvstore a bdev belongs to, as \<open>getLvstore\<close> reports it.\<close>

definition lvstore_of :: "target \<Rightarrow> string \<Rightarrow> string \<times> err" where
  "lvstore_of t n = (case tg_bdev t n of
     None \<Rightarrow> ([], Some ErrJSONNoSuchDevice)
   | Some b \<Rightarrow> (case DriverSpecific b of
       None \<Rightarrow> ([], Some (Errorf (''no driver_specific for '' @ n)))
     | Some u \<Rightarrow> (case find (\<lambda>l. lr_UUID l = u) (tg_lvstores t) of
         Some l \<Rightarrow> (lr_Name l, None)
       | None \<Rightarrow> ([], Some (Errorf (''lvstore for '' @ n @ '' not found''))))))"

lemma find_LvStore_of_reply:
  "find (\<lambda>l. lvs_UUID l = u) (map LvStore_of_reply ls) =
     map_option LvStore_of_reply (find (\<lambda>l. lr_UUID l = u) ls)"
  by (induction ls) (auto simp: LvStore_of_reply_def)

lemma wp_getLvstore:
  assumes q: "lvol_queries http (endpoint c) view"
    and Q: "\<And>c' w'. endpoint c' = endpoint c \<Longrightarrow> view w' = view w \<Longrightarrow>
       Q (lvstore_of (view w (endpoint c)) n) (c', w')"
  shows "go_wp (rpcClient_getLvstore http n) Q E (c, w)"
  unfolding rpcClient_getLvstore_def go_wp_bind
proof (rule wp_getVolume [OF q])
  fix c' w' assume s: "endpoint c' = endpoint c" "view w' = view w"
  let ?t = "view w (endpoint c)"
  show "go_wp (case (case tg_bdev ?t n of Some b \<Rightarrow> (Some b, None) | None \<Rightarrow> (None, Some ErrJSONNoSuchDevice)) of
      (lvol, e) \<Rightarrow> (case (lvol, e) of
          (_, Some x) \<Rightarrow> go_return ([], Some x)
        | (None, None) \<Rightarrow> go_panic nil_deref
        | (Some b, None) \<Rightarrow> (case DriverSpecific b of
             None \<Rightarrow> go_return ([], Some (Errorf (''no driver_specific for '' @ n)))
           | Some lvstoreUUID \<Rightarrow>
               go_bind (rpcClient_lvStores http)
                 (\<lambda>(lvstores, e2). if e2 \<noteq> None then go_return ([], e2)
                    else (case find (\<lambda>l. lvs_UUID l = lvstoreUUID) lvstores of
                       Some l \<Rightarrow> go_return (lvs_Name l, None)
                     | None \<Rightarrow> go_return ([], Some (Errorf (''lvstore for '' @ n @ '' not found''))))))))
      Q E (c', w')"
    using s Q [of c' w'] Q
    by (auto simp: lvstore_of_def find_LvStore_of_reply LvStore_of_reply_def q
        intro!: wp_lvStores [where view = view] split: option.splits)
qed

lemma wp_deleteVolume:
  assumes "lvol_deletes http (endpoint c) view"
    and "\<And>e c' w'. endpoint c' = endpoint c \<Longrightarrow>
       (case tg_bdev (view w (endpoint c)) n of
          None \<Rightarrow> e = Some ErrJSONNoSuchDevice \<and> view w' = view w
        | Some b \<Rightarrow> e = None \<and> view w' = (view w)(endpoint c := del_bdev n (view w (endpoint c))) \<or>
            may_refuse http view (endpoint c) \<and> (\<exists>x. e = Some x \<and> \<not> errors_Is x ErrJSONNoSuchDevice) \<and> view w' = view w)
       \<Longrightarrow> Q e (c', w')"
  shows "go_wp (rpcClient_deleteVolume http n) Q E (c, w)"
proof (cases "tg_bdev (view w (endpoint c)) n")
  case None
  with assms(1) have "refuses http (endpoint c) view ''bdev_lvol_delete'' (name_arg n) w ''No such device''"
    by (auto simp: lvol_deletes_def)
  then show ?thesis
    unfolding rpcClient_deleteVolume_def go_wp_bind name_arg_def [symmetric]
    by (rule wp_call_refuses) (use None assms(2) in \<open>simp add: NoSuchDevice_rpc_error\<close>)
next
  case (Some b)
  then have "tg_bdev (view w (endpoint c)) n \<noteq> None" by simp
  note d = assms(1) [unfolded lvol_deletes_def, THEN conjunct2, THEN spec, THEN spec, THEN mp, OF this]
  then consider
      (ok) "performs http (endpoint c) view ''bdev_lvol_delete'' (name_arg n) dec_any () w () (del_bdev n (view w (endpoint c)))"
    | (busy) msg where "\<not> errorMatches (Some (rpc_error ''bdev_lvol_delete'' msg)) ErrJSONNoSuchDevice"
        "refuses http (endpoint c) view ''bdev_lvol_delete'' (name_arg n) w msg"
    by (elim disjE exE conjE) (rule that; assumption)+
  then show ?thesis
    unfolding rpcClient_deleteVolume_def go_wp_bind name_arg_def [symmetric]
  proof cases
    case ok
    then show "go_wp (rpcClient_call http ''bdev_lvol_delete'' (name_arg n) dec_any ())
        (\<lambda>x. go_wp (case x of (e, _) \<Rightarrow>
           go_return (if errorMatches e ErrJSONNoSuchDevice then Some ErrJSONNoSuchDevice else e)) Q E) E (c, w)"
      by (rule wp_call_performs) (use Some assms(2) in \<open>simp add: errorMatches_def [of None]\<close>)
  next
    case (busy msg)
    have mr: "may_refuse http view (endpoint c)" using Some busy(2) unfolding may_refuse_def by blast
    from busy(2) show "go_wp (rpcClient_call http ''bdev_lvol_delete'' (name_arg n) dec_any ())
        (\<lambda>x. go_wp (case x of (e, _) \<Rightarrow>
           go_return (if errorMatches e ErrJSONNoSuchDevice then Some ErrJSONNoSuchDevice else e)) Q E) E (c, w)"
      by (rule wp_call_refuses) (use Some assms(2) busy(1) mr in \<open>simp add: rpc_error_def\<close>)
  qed
qed

lemma wp_createVolume:
  assumes "lvol_creates http (endpoint c) view" and "tg_bdev (view w (endpoint c)) (lvol_alias lvs name) = None"
    and "\<And>b c' w'. endpoint c' = endpoint c \<Longrightarrow> new_lvol lvs (view w (endpoint c)) b \<Longrightarrow>
       view w' = (view w)(endpoint c := add_bdev (lvol_alias lvs name) b (view w (endpoint c))) \<Longrightarrow>
       Q (bd_UUID b, None) (c', w')"
    and "\<And>x c' w'. endpoint c' = endpoint c \<Longrightarrow> view w' = view w \<Longrightarrow> Q ([], Some x) (c', w')"
  shows "go_wp (rpcClient_createVolume http name lvs sz) Q E (c, w)"
proof -
  have "attempts http (endpoint c) view ''bdev_lvol_create'' (Some (createVolume_params name lvs sz)) dec_string [] w
      (\<lambda>u t. \<exists>b. u = bd_UUID b \<and> new_lvol lvs (view w (endpoint c)) b \<and>
         t = add_bdev (lvol_alias lvs name) b (view w (endpoint c)))"
    using assms(1,2) by (simp add: lvol_creates_def)
  then show ?thesis
    unfolding rpcClient_createVolume_def go_wp_bind
    by (rule wp_call_attempts) (use assms(3,4) in \<open>auto simp: Let_def errorMatches_def [of None]\<close>)
qed

end
