(* ===== verification/Nvmf_Correct.thy ===== *)
theory Nvmf_Correct
  imports Target_Contract
begin

text \<open>
  Publishing over NVMe-oF (\<open>pkg/util/nvmf.go\<close>) on a target that behaves as documented: what each
  method does to the subsystems of the target, on every branch.
\<close>

section \<open>The NVMe-oF methods of the target\<close>

definition nqn_arg :: "string \<Rightarrow> json option" where
  "nqn_arg nqn = Some (JObj [(''nqn'', JStr nqn)])"

definition subsystem_arg :: "string \<Rightarrow> json option" where
  "subsystem_arg i = Some (JObj [(''nqn'', JStr (nodeNVMf_getVolumeNqn i)),
     (''allow_any_host'', JBool cfgAllowAnyHost), (''serial_number'', JStr ''spdkcsi-sn''),
     (''model_number'', JStr (nodeNVMf_getVolumeModel i))])"

definition add_ns_arg :: "string \<Rightarrow> string \<Rightarrow> json option" where
  "add_ns_arg nqn bdev = Some (JObj [(''nqn'', JStr nqn), (''namespace'', JObj [(''bdev_name'', JStr bdev)])])"

definition remove_ns_arg :: "string \<Rightarrow> int64 \<Rightarrow> json option" where
  "remove_ns_arg nqn v = Some (JObj [(''nqn'', JStr nqn), (''nsid'', jint (sint v))])"

definition listener_arg :: "string \<Rightarrow> listen_address \<Rightarrow> json option" where
  "listener_arg nqn a = Some (JObj [(''nqn'', JStr nqn), (''listen_address'', JObj
     [(''trtype'', JStr (TrType a)), (''adrfam'', JStr (AdrFam a)),
      (''traddr'', JStr (TrAddr a)), (''trsvcid'', JStr (TrSvcID a))])])"

definition set_sub :: "string \<Rightarrow> nvmf_subsystem option \<Rightarrow> target \<Rightarrow> target" where
  "set_sub nqn s t = t\<lparr>tg_subs := (tg_subs t)(nqn := s)\<rparr>"

text \<open>The subsystems a listing shows: for each NQN, the one of the state, if any.\<close>

definition lists_subs :: "target \<Rightarrow> subsystem_reply list \<Rightarrow> bool" where
  "lists_subs t rs \<longleftrightarrow> (\<forall>nqn. filter (\<lambda>s. sub_Nqn s = nqn) rs =
     (case tg_subs t nqn of None \<Rightarrow> [] | Some s \<Rightarrow> [\<lparr>sub_Nqn = nqn, sub_Namespace = sub_ns s\<rparr>]))"

definition nvmf_queries :: "'w http \<Rightarrow> endpoint \<Rightarrow> ('w \<Rightarrow> endpoint \<Rightarrow> target) \<Rightarrow> bool" where
  "nvmf_queries http ep view \<longleftrightarrow>
     (\<forall>w nqn s. tg_subs (view w ep) nqn = Some s \<longrightarrow>
        answers http ep view ''nvmf_subsystem_get_listeners'' (nqn_arg nqn)
          (dec_slice zero_listen_address dec_listener) [] w (sub_listeners s)) \<and>
     (\<forall>w nqn. tg_subs (view w ep) nqn = None \<longrightarrow>
        refuses http ep view ''nvmf_subsystem_get_listeners'' (nqn_arg nqn) w ''Invalid parameters'') \<and>
     (\<forall>w. \<exists>rs. lists_subs (view w ep) rs \<and>
        answers http ep view ''nvmf_get_subsystems'' None
          (dec_slice \<lparr>sub_Nqn = [], sub_Namespace = []\<rparr> dec_subsystem) [] w rs)"

definition nvmf_create_transport :: "'w http \<Rightarrow> endpoint \<Rightarrow> ('w \<Rightarrow> endpoint \<Rightarrow> target) \<Rightarrow> bool" where
  "nvmf_create_transport http ep view \<longleftrightarrow>
     (\<forall>w tr. attempts http ep view ''nvmf_create_transport'' (Some (JObj [(''trtype'', JStr tr)])) dec_any () w
        (\<lambda>_ t. t = (view w ep)\<lparr>tg_transports := insert tr (tg_transports (view w ep))\<rparr>))"

definition nvmf_create_subsystem :: "'w http \<Rightarrow> endpoint \<Rightarrow> ('w \<Rightarrow> endpoint \<Rightarrow> target) \<Rightarrow> bool" where
  "nvmf_create_subsystem http ep view \<longleftrightarrow>
     (\<forall>w i. attempts http ep view ''nvmf_create_subsystem'' (subsystem_arg i) dec_any () w
        (\<lambda>_ t. tg_subs (view w ep) (nodeNVMf_getVolumeNqn i) = None \<and>
           t = set_sub (nodeNVMf_getVolumeNqn i) (Some \<lparr>sub_ns = [], sub_listeners = []\<rparr>) (view w ep)))"

definition nvmf_add_ns :: "'w http \<Rightarrow> endpoint \<Rightarrow> ('w \<Rightarrow> endpoint \<Rightarrow> target) \<Rightarrow> bool" where
  "nvmf_add_ns http ep view \<longleftrightarrow>
     (\<forall>w nqn bdev. attempts http ep view ''nvmf_subsystem_add_ns'' (add_ns_arg nqn bdev) dec_int64 0 w
        (\<lambda>v t. \<exists>s. tg_subs (view w ep) nqn = Some s \<and> v \<notin> NSID ` set (sub_ns s) \<and>
           t = set_sub nqn (Some (s\<lparr>sub_ns := sub_ns s @ [\<lparr>NSID = v, BdevName = bdev\<rparr>]\<rparr>)) (view w ep)))"

definition nvmf_add_listener :: "'w http \<Rightarrow> endpoint \<Rightarrow> ('w \<Rightarrow> endpoint \<Rightarrow> target) \<Rightarrow> bool" where
  "nvmf_add_listener http ep view \<longleftrightarrow>
     (\<forall>w nqn a. attempts http ep view ''nvmf_subsystem_add_listener'' (listener_arg nqn a) dec_any () w
        (\<lambda>_ t. \<exists>s. tg_subs (view w ep) nqn = Some s \<and>
           t = set_sub nqn (Some (s\<lparr>sub_listeners := sub_listeners s @ [a]\<rparr>)) (view w ep)))"

definition nvmf_remove_ns :: "'w http \<Rightarrow> endpoint \<Rightarrow> ('w \<Rightarrow> endpoint \<Rightarrow> target) \<Rightarrow> bool" where
  "nvmf_remove_ns http ep view \<longleftrightarrow>
     (\<forall>w nqn v. attempts http ep view ''nvmf_subsystem_remove_ns'' (remove_ns_arg nqn v) dec_any () w
        (\<lambda>_ t. \<exists>s. tg_subs (view w ep) nqn = Some s \<and>
           t = set_sub nqn (Some (s\<lparr>sub_ns := filter (\<lambda>n. NSID n \<noteq> v) (sub_ns s)\<rparr>)) (view w ep)))"

definition nvmf_delete_subsystem :: "'w http \<Rightarrow> endpoint \<Rightarrow> ('w \<Rightarrow> endpoint \<Rightarrow> target) \<Rightarrow> bool" where
  "nvmf_delete_subsystem http ep view \<longleftrightarrow>
     (\<forall>w nqn. tg_subs (view w ep) nqn \<noteq> None \<longrightarrow>
        performs http ep view ''nvmf_delete_subsystem'' (nqn_arg nqn) dec_any () w ()
          (set_sub nqn None (view w ep)))"

lemmas nvmf_clauses = nvmf_create_transport_def nvmf_create_subsystem_def nvmf_add_ns_def
  nvmf_add_listener_def nvmf_remove_ns_def nvmf_delete_subsystem_def

definition nvmf_ok :: "'w http \<Rightarrow> ('w \<Rightarrow> endpoint \<Rightarrow> target) \<Rightarrow> nodeNVMf \<Rightarrow> bool" where
  "nvmf_ok http view n \<longleftrightarrow> (let ep = endpoint (nv_client n) in
     lvol_queries http ep view \<and> nvmf_queries http ep view \<and> nvmf_create_transport http ep view \<and>
     nvmf_create_subsystem http ep view \<and> nvmf_add_ns http ep view \<and> nvmf_add_listener http ep view \<and>
     nvmf_remove_ns http ep view \<and> nvmf_delete_subsystem http ep view)"

text \<open>The clauses at a node's endpoint.\<close>

lemma nvmf_okD:
  assumes "nvmf_ok http view n"
  shows nvmf_ok_lvol: "lvol_queries http (endpoint (nv_client n)) view"
    and nvmf_ok_queries: "nvmf_queries http (endpoint (nv_client n)) view"
    and nvmf_ok_transport: "nvmf_create_transport http (endpoint (nv_client n)) view"
    and nvmf_ok_subsystem: "nvmf_create_subsystem http (endpoint (nv_client n)) view"
    and nvmf_ok_add_ns: "nvmf_add_ns http (endpoint (nv_client n)) view"
    and nvmf_ok_listener: "nvmf_add_listener http (endpoint (nv_client n)) view"
    and nvmf_ok_remove_ns: "nvmf_remove_ns http (endpoint (nv_client n)) view"
    and nvmf_ok_delete: "nvmf_delete_subsystem http (endpoint (nv_client n)) view"
  using assms by (simp_all add: nvmf_ok_def Let_def)

section \<open>Node objects\<close>

text \<open>Two states of one node object: the same target, the same address.\<close>

definition nv_same :: "nodeNVMf \<Rightarrow> nodeNVMf \<Rightarrow> bool" where
  "nv_same n n' \<longleftrightarrow> endpoint (nv_client n') = endpoint (nv_client n) \<and>
     nv_targetType n' = nv_targetType n \<and> nv_targetAddr n' = nv_targetAddr n \<and>
     nv_targetPort n' = nv_targetPort n"

lemma nv_same_refl [simp]: "nv_same n n"
  by (simp add: nv_same_def)

lemma nv_same_trans: "nv_same a b \<Longrightarrow> nv_same b c \<Longrightarrow> nv_same a c"
  by (simp add: nv_same_def)

lemma nv_same_client [simp]:
  "nv_same n (m\<lparr>nv_client := c\<rparr>) \<longleftrightarrow> endpoint c = endpoint (nv_client n) \<and>
     nv_targetType m = nv_targetType n \<and> nv_targetAddr m = nv_targetAddr n \<and>
     nv_targetPort m = nv_targetPort n"
  by (simp add: nv_same_def)

lemma nv_same_trans_created [simp]: "nv_same n (m\<lparr>transCreated := x\<rparr>) = nv_same n m"
  by (simp add: nv_same_def)

lemma nv_same_endpoint: "nv_same n n' \<Longrightarrow> endpoint (nv_client n') = endpoint (nv_client n)"
  by (simp add: nv_same_def)

lemma nv_same_ok: "nv_same n n' \<Longrightarrow> nvmf_ok http view n' = nvmf_ok http view n"
  by (simp add: nv_same_def nvmf_ok_def)

definition nv_address :: "nodeNVMf \<Rightarrow> listen_address" where
  "nv_address n = \<lparr>TrType = nv_targetType n, AdrFam = cfgAddrFamily,
     TrAddr = nv_targetAddr n, TrSvcID = nv_targetPort n\<rparr>"

lemma nv_same_address: "nv_same n n' \<Longrightarrow> nv_address n' = nv_address n"
  by (simp add: nv_same_def nv_address_def)

lemma listener_matches_iff: "listener_matches n a \<longleftrightarrow> a = nv_address n"
  by (auto simp: listener_matches_def nv_address_def)

abbreviation nv_target :: "('w \<Rightarrow> endpoint \<Rightarrow> target) \<Rightarrow> nodeNVMf \<Rightarrow> 'w \<Rightarrow> target" where
  "nv_target view n w \<equiv> view w (endpoint (nv_client n))"

definition nv_published :: "nodeNVMf \<Rightarrow> target \<Rightarrow> string \<Rightarrow> bool" where
  "nv_published n t i \<longleftrightarrow> (case tg_subs t (nodeNVMf_getVolumeNqn i) of
     None \<Rightarrow> False
   | Some s \<Rightarrow> nv_address n \<in> set (sub_listeners s))"

lemma nv_same_published: "nv_same n n' \<Longrightarrow> nv_published n' t i = nv_published n t i"
  by (simp add: nv_published_def nv_same_address cong: option.case_cong)

lemma go_wp_nv_self [simp]: "go_wp nv_self Q E (n, w) = Q n (n, w)"
  by (simp add: go_wp_def nv_self_def)

lemma go_wp_nv_set_transCreated [simp]:
  "go_wp nv_set_transCreated Q E (n, w) = Q () (n\<lparr>transCreated := 1\<rparr>, w)"
  by (simp add: nv_set_transCreated_def)

section \<open>Steps of publishing\<close>

text \<open>
  The rules below are about one node object in any later state: \<open>m\<close> is the object at the start, \<open>n\<close>
  the object now, and all of them speak of \<open>m\<close>, so that they chain.
\<close>

lemma nv_sameD:
  assumes "nv_same m n" and "nvmf_ok http view m"
  shows "nvmf_ok http view n" and "endpoint (nv_client n) = endpoint (nv_client m)"
    and "nv_address n = nv_address m"
  using assms by (simp_all add: nv_same_ok nv_same_address nv_same_endpoint)

lemma wp_nv_isVolumeCreated:
  assumes same: "nv_same m n" and ok: "nvmf_ok http view m"
    and Q: "\<And>n' w'. nv_same m n' \<Longrightarrow> view w' = view w \<Longrightarrow> transCreated n' = transCreated n \<Longrightarrow>
       Q (tg_bdev (nv_target view m w) i \<noteq> None, None) (n', w')"
  shows "go_wp (nodeNVMf_isVolumeCreated http i) Q E (n, w)"
  unfolding nodeNVMf_isVolumeCreated_def go_wp_zoom
  by (rule wp_isVolumeCreated [OF nvmf_ok_lvol [OF nv_sameD(1) [OF same ok]]])
    (use same Q in \<open>simp add: nv_same_def\<close>)

lemma errorMatches_InvalidParameters: "errorMatches (Some (rpc_error m ''Invalid parameters'')) ErrInvalidParameters"
proof -
  have "strings_Contains (strings_ToLower ''Invalid parameters'') ''invalid parameters''"
    by (simp add: strings_ToLower_def)
  then have "strings_Contains (strings_ToLower (err_Error (rpc_error m ''Invalid parameters'')))
      ''invalid parameters''"
    unfolding rpc_error_def err_Error.simps strings_ToLower_def map_append
    by (intro strings_Contains_append)
  then show ?thesis
    by (simp add: errorMatches_def strings_ToLower_def strings_TrimPrefix_def strings_TrimSpace_def
        is_space_def)
qed

lemma list_ex_listener_matches: "list_ex (listener_matches n) ls \<longleftrightarrow> nv_address n \<in> set ls"
  by (auto simp: list_ex_iff listener_matches_iff)

lemma nv_address_client [simp]: "nv_address (n\<lparr>nv_client := c\<rparr>) = nv_address n"
  by (simp add: nv_address_def)

lemma wp_nv_isVolumePublished:
  assumes same: "nv_same m n" and ok: "nvmf_ok http view m"
    and Q: "\<And>n' w'. nv_same m n' \<Longrightarrow> view w' = view w \<Longrightarrow> transCreated n' = transCreated n \<Longrightarrow>
       Q (nv_published m (nv_target view m w) i, None) (n', w')"
  shows "go_wp (nodeNVMf_isVolumePublished http i) Q E (n, w)"
proof -
  note D = nv_sameD [OF same ok]
  have same': "nv_same m (n\<lparr>nv_client := c\<rparr>)" if "endpoint c = endpoint (nv_client m)" for c
    using same that by (simp add: nv_same_def)
  let ?nqn = "nodeNVMf_getVolumeNqn i"
  note q = nvmf_ok_queries [OF ok, unfolded nvmf_queries_def, folded D(2)]
  show ?thesis
  proof (cases "tg_subs (nv_target view m w) ?nqn")
    case None
    with q have r: "refuses http (endpoint (nv_client n)) view ''nvmf_subsystem_get_listeners''
        (nqn_arg ?nqn) w ''Invalid parameters''" by (simp add: D(2))
    show ?thesis
      unfolding nodeNVMf_isVolumePublished_def go_wp_bind go_wp_zoom nqn_arg_def [symmetric]
      by (rule wp_call_refuses [OF r])
        (use None Q D(2) same' in \<open>simp add: errorMatches_InvalidParameters nv_published_def\<close>)
  next
    case (Some s)
    with q have r: "answers http (endpoint (nv_client n)) view ''nvmf_subsystem_get_listeners''
        (nqn_arg ?nqn) (dec_slice zero_listen_address dec_listener) [] w (sub_listeners s)"
      by (simp add: D(2))
    show ?thesis
      unfolding nodeNVMf_isVolumePublished_def go_wp_bind go_wp_zoom nqn_arg_def [symmetric]
      by (rule wp_call_performs [OF r])
        (use Some Q D(2,3) same' in \<open>simp add: nv_published_def list_ex_listener_matches\<close>)
  qed
qed

lemma set_sub_same [simp]: "tg_subs t nqn = s \<Longrightarrow> set_sub nqn s t = t"
  by (simp add: set_sub_def fun_upd_idem)

lemma set_sub_twice [simp]: "set_sub nqn s (set_sub nqn s' t) = set_sub nqn s t"
  by (simp add: set_sub_def)

lemma tg_subs_set_sub [simp]: "tg_subs (set_sub nqn s t) = (tg_subs t)(nqn := s)"
  by (simp add: set_sub_def)

lemma set_sub_other [simp]:
  "tg_bdev (set_sub nqn s t) = tg_bdev t" "tg_lvstores (set_sub nqn s t) = tg_lvstores t"
  "tg_transports (set_sub nqn s t) = tg_transports t"
  by (simp_all add: set_sub_def)

lemma wp_nv_createTransport:
  assumes same: "nv_same m n" and ok: "nvmf_ok http view m"
    and Q: "\<And>e n' w' T. nv_same m n' \<Longrightarrow>
       view w' = (view w)(endpoint (nv_client m) := (nv_target view m w)\<lparr>tg_transports := T\<rparr>) \<Longrightarrow> Q e (n', w')"
  shows "go_wp (nodeNVMf_createTransport http) Q E (n, w)"
proof -
  note D = nv_sameD [OF same ok]
  have Q': "Q e (n', w')" if "nv_same m n'" "view w' = view w" for e n' w'
    using Q [of n' w' "tg_transports (nv_target view m w)" e] that by simp
  let ?t = "nv_target view n w"
  have a: "attempts http (endpoint (nv_client n)) view ''nvmf_create_transport''
      (Some (JObj [(''trtype'', JStr (nv_targetType n))])) dec_any () w
      (\<lambda>_ t. t = ?t\<lparr>tg_transports := insert (nv_targetType n) (tg_transports ?t)\<rparr>)"
    using nvmf_ok_transport [OF D(1)] by (simp add: nvmf_create_transport_def)
  show ?thesis
  proof (cases "transCreated n = 0")
    case True
    then show ?thesis
      unfolding nodeNVMf_createTransport_def go_wp_bind go_wp_nv_self
      by simp (rule wp_call_attempts [OF a], use Q Q' D(2) same in \<open>simp_all add: nv_same_def\<close>)
  qed (use Q' same in \<open>simp add: nodeNVMf_createTransport_def\<close>)
qed

lemma wp_nv_createSubsystem:
  assumes same: "nv_same m n" and ok: "nvmf_ok http view m"
    and Q: "\<And>n' w'. nv_same m n' \<Longrightarrow> tg_subs (nv_target view m w) (nodeNVMf_getVolumeNqn i) = None \<Longrightarrow>
       view w' = (view w)(endpoint (nv_client m) :=
          set_sub (nodeNVMf_getVolumeNqn i) (Some \<lparr>sub_ns = [], sub_listeners = []\<rparr>) (nv_target view m w)) \<Longrightarrow> Q None (n', w')"
      "\<And>x n' w'. nv_same m n' \<Longrightarrow> view w' = view w \<Longrightarrow> Q (Some x) (n', w')"
  shows "go_wp (nodeNVMf_createSubsystem http i) Q E (n, w)"
  unfolding nodeNVMf_createSubsystem_def go_wp_bind go_wp_zoom subsystem_arg_def [symmetric]
  by (rule wp_call_attempts [where view = view,
        OF nvmf_ok_subsystem [OF nv_sameD(1) [OF same ok], unfolded nvmf_create_subsystem_def, rule_format]])
    (use Q same in \<open>simp_all add: nv_same_def\<close>)

lemma wp_nv_subsystemAddNs:
  assumes same: "nv_same m n" and ok: "nvmf_ok http view m"
    and Q: "\<And>s v n' w'. nv_same m n' \<Longrightarrow> tg_subs (nv_target view m w) (nodeNVMf_getVolumeNqn i) = Some s \<Longrightarrow>
       v \<notin> NSID ` set (sub_ns s) \<Longrightarrow>
       view w' = (view w)(endpoint (nv_client m) := set_sub (nodeNVMf_getVolumeNqn i)
          (Some (s\<lparr>sub_ns := sub_ns s @ [\<lparr>NSID = v, BdevName = i\<rparr>]\<rparr>)) (nv_target view m w)) \<Longrightarrow> Q (v, None) (n', w')"
      "\<And>x n' w'. nv_same m n' \<Longrightarrow> view w' = view w \<Longrightarrow> Q (0, Some x) (n', w')"
  shows "go_wp (nodeNVMf_subsystemAddNs http i) Q E (n, w)"
  unfolding nodeNVMf_subsystemAddNs_def go_wp_bind go_wp_zoom add_ns_arg_def [symmetric]
  by (rule wp_call_attempts [where view = view,
        OF nvmf_ok_add_ns [OF nv_sameD(1) [OF same ok], unfolded nvmf_add_ns_def, rule_format]])
    (use Q same in \<open>auto simp: nv_same_def\<close>)

lemma wp_nv_subsystemAddListener:
  assumes same: "nv_same m n" and ok: "nvmf_ok http view m"
    and Q: "\<And>s n' w'. nv_same m n' \<Longrightarrow> tg_subs (nv_target view m w) (nodeNVMf_getVolumeNqn i) = Some s \<Longrightarrow>
       view w' = (view w)(endpoint (nv_client m) := set_sub (nodeNVMf_getVolumeNqn i)
          (Some (s\<lparr>sub_listeners := sub_listeners s @ [nv_address m]\<rparr>)) (nv_target view m w)) \<Longrightarrow> Q None (n', w')"
      "\<And>x n' w'. nv_same m n' \<Longrightarrow> view w' = view w \<Longrightarrow> Q (Some x) (n', w')"
  shows "go_wp (nodeNVMf_subsystemAddListener http i) Q E (n, w)"
proof -
  have arg: "Some (JObj [(''nqn'', JStr (nodeNVMf_getVolumeNqn i)), (''listen_address'', JObj
      [(''trtype'', JStr (nv_targetType n)), (''adrfam'', JStr cfgAddrFamily),
       (''traddr'', JStr (nv_targetAddr n)), (''trsvcid'', JStr (nv_targetPort n))])]) =
      listener_arg (nodeNVMf_getVolumeNqn i) (nv_address m)"
    using same by (simp add: listener_arg_def nv_address_def nv_same_def)
  show ?thesis
    unfolding nodeNVMf_subsystemAddListener_def go_wp_bind go_wp_nv_self go_wp_zoom arg
    by (rule wp_call_attempts [where view = view,
          OF nvmf_ok_listener [OF nv_sameD(1) [OF same ok], unfolded nvmf_add_listener_def, rule_format]])
      (use Q same in \<open>auto simp: nv_same_def\<close>)
qed

lemma wp_nv_deleteSubsystem:
  assumes same: "nv_same m n" and ok: "nvmf_ok http view m"
    and s: "tg_subs (nv_target view m w) (nodeNVMf_getVolumeNqn i) = Some s"
    and Q: "\<And>n' w'. nv_same m n' \<Longrightarrow>
       view w' = (view w)(endpoint (nv_client m) :=
          set_sub (nodeNVMf_getVolumeNqn i) None (nv_target view m w)) \<Longrightarrow> Q None (n', w')"
  shows "go_wp (nodeNVMf_deleteSubsystem http i) Q E (n, w)"
proof -
  have "performs http (endpoint (nv_client n)) view ''nvmf_delete_subsystem''
      (nqn_arg (nodeNVMf_getVolumeNqn i)) dec_any () w ()
      (set_sub (nodeNVMf_getVolumeNqn i) None (nv_target view m w))"
    using nvmf_ok_delete [OF ok] s nv_sameD(2) [OF same ok] by (simp add: nvmf_delete_subsystem_def)
  then show ?thesis
    unfolding nodeNVMf_deleteSubsystem_def go_wp_bind go_wp_zoom nqn_arg_def [symmetric]
    by (rule wp_call_performs) (use Q same in \<open>auto simp: nv_same_def\<close>)
qed

text \<open>
  Removing the namespace may fail, and may find none: the subsystem is still there afterwards.
\<close>

lemma wp_nv_subsystemRemoveNs:
  assumes same: "nv_same m n" and ok: "nvmf_ok http view m"
    and s: "tg_subs (nv_target view m w) (nodeNVMf_getVolumeNqn i) = Some s"
    and Q: "\<And>e s' n' w'. nv_same m n' \<Longrightarrow>
       view w' = (view w)(endpoint (nv_client m) :=
          set_sub (nodeNVMf_getVolumeNqn i) (Some s') (nv_target view m w)) \<Longrightarrow> Q e (n', w')"
  shows "go_wp (nodeNVMf_subsystemRemoveNs http i) Q E (n, w)"
proof -
  let ?nqn = "nodeNVMf_getVolumeNqn i"
  have Q0: "Q e (n', w')" if "nv_same m n'" "view w' = view w" for e n' w'
    using Q [of n' w' s e] s that by simp
  obtain rs where rs: "answers http (endpoint (nv_client n)) view ''nvmf_get_subsystems'' None
      (dec_slice \<lparr>sub_Nqn = [], sub_Namespace = []\<rparr> dec_subsystem) [] w rs"
    using nvmf_ok_queries [OF nv_sameD(1) [OF same ok]] unfolding nvmf_queries_def by blast
  have step: "go_wp (nv_rpc (rpcClient_call http ''nvmf_subsystem_remove_ns'' (remove_ns_arg ?nqn v) dec_any ()))
      (\<lambda>x. go_wp (case x of (e, _) \<Rightarrow> go_return e) Q E) E (n', w')"
    if "nv_same m n'" "view w' = view w" for v n' w'
  proof -
    have ok': "attempts http (endpoint (nv_client n')) view ''nvmf_subsystem_remove_ns''
        (remove_ns_arg ?nqn v) dec_any () w'
        (\<lambda>_ t. \<exists>s. tg_subs (view w' (endpoint (nv_client n'))) ?nqn = Some s \<and>
           t = set_sub ?nqn (Some (s\<lparr>sub_ns := filter (\<lambda>n. NSID n \<noteq> v) (sub_ns s)\<rparr>))
             (view w' (endpoint (nv_client n'))))"
      using nvmf_ok_remove_ns [OF nv_sameD(1) [OF that(1) ok]] by (simp add: nvmf_remove_ns_def)
    show ?thesis
      unfolding go_wp_zoom
      by (rule wp_call_attempts [OF ok'])
        (use Q Q0 that in \<open>auto simp: nv_same_def\<close>)
  qed
  have ok_call: "go_wp (nv_rpc (rpcClient_call http ''nvmf_get_subsystems'' None
        (dec_slice \<lparr>sub_Nqn = [], sub_Namespace = []\<rparr> dec_subsystem) [])) Q' E' (n, w)"
    if "\<And>n' w'. nv_same m n' \<Longrightarrow> view w' = view w \<Longrightarrow> Q' (None, rs) (n', w')" for Q' E'
    unfolding go_wp_zoom
    by (rule wp_call_performs [OF rs]) (use that same in \<open>auto simp: nv_same_def\<close>)
  show ?thesis
    unfolding nodeNVMf_subsystemRemoveNs_def nodeNVMf_subsystemGetNsID_def go_wp_bind
      remove_ns_arg_def [symmetric]
    by (rule ok_call) (use step Q0 in \<open>auto simp del: go_wp_zoom split: option.split\<close>)
qed

section \<open>Publishing and unpublishing\<close>

text \<open>
  What \<open>PublishVolume\<close> promises, from the target state \<open>t\<close> to \<open>t'\<close> with result \<open>e\<close>: all of the
  subsystem, its namespace and its listener, or nothing.
\<close>

definition nv_publish_post :: "nodeNVMf \<Rightarrow> string \<Rightarrow> target \<Rightarrow> err \<Rightarrow> target \<Rightarrow> bool" where
  "nv_publish_post n i t e t' \<longleftrightarrow>
     (if tg_bdev t i = None then e = Some ErrVolumeDeleted \<and> t' = t
      else if nv_published n t i then e = None \<and> t' = t
      else \<exists>T. case e of
         None \<Rightarrow> tg_subs t (nodeNVMf_getVolumeNqn i) = None \<and>
           (\<exists>v. t' = set_sub (nodeNVMf_getVolumeNqn i)
              (Some \<lparr>sub_ns = [\<lparr>NSID = v, BdevName = i\<rparr>], sub_listeners = [nv_address n]\<rparr>)
              (t\<lparr>tg_transports := T\<rparr>))
       | Some _ \<Rightarrow> t' = t\<lparr>tg_transports := T\<rparr>)"

text \<open>The part of \<open>PublishVolume\<close> after the transport exists: on an error the subsystem is gone again.\<close>

lemma wp_nv_publish_subsystem:
  assumes same: "nv_same m n" and ok: "nvmf_ok http view m"
    and fail: "\<And>x n' w'. nv_same m n' \<Longrightarrow> view w' = view w \<Longrightarrow> Q (Some x) (n', w')"
    and finish: "\<And>v n' w'. nv_same m n' \<Longrightarrow> tg_subs (nv_target view m w) (nodeNVMf_getVolumeNqn i) = None \<Longrightarrow>
       view w' = (view w)(endpoint (nv_client m) := set_sub (nodeNVMf_getVolumeNqn i)
         (Some \<lparr>sub_ns = [\<lparr>NSID = v, BdevName = i\<rparr>], sub_listeners = [nv_address m]\<rparr>) (nv_target view m w)) \<Longrightarrow>
       Q None (n', w')"
  shows "go_wp (go_bind (nodeNVMf_createSubsystem http i) (\<lambda>e.
     if e \<noteq> None then go_return e
     else go_bind (nodeNVMf_subsystemAddNs http i) (\<lambda>(_, e).
     if e \<noteq> None then
       go_bind (nodeNVMf_deleteSubsystem http i) (\<lambda>_. go_return e)
     else go_bind (nodeNVMf_subsystemAddListener http i) (\<lambda>e.
     if e \<noteq> None then
       go_bind (nodeNVMf_subsystemRemoveNs http i) (\<lambda>_.
       go_bind (nodeNVMf_deleteSubsystem http i) (\<lambda>_. go_return e))
     else go_return None)))) Q E (n, w)"
  unfolding go_wp_bind
  apply (rule wp_nv_createSubsystem [OF same ok])
   prefer 2 subgoal by (simp add: fail)
  apply simp
  apply (rule wp_nv_subsystemAddNs [OF _ ok], assumption)
   prefer 2
   subgoal by (simp, rule wp_nv_deleteSubsystem [OF _ ok], assumption, simp_all add: fail)
  apply (simp, rule wp_nv_subsystemAddListener [OF _ ok], assumption)
   subgoal by (clarsimp simp: finish)
  apply simp
  apply (rule wp_nv_subsystemRemoveNs [OF _ ok], assumption, simp)
  apply (simp, rule wp_nv_deleteSubsystem [OF _ ok], assumption, simp_all add: fail)
  done


lemma wp_nv_PublishVolume:
  assumes ok: "nvmf_ok http view n"
    and Q: "\<And>e n' w' t'. nv_same n n' \<Longrightarrow> view w' = (view w)(endpoint (nv_client n) := t') \<Longrightarrow>
       nv_publish_post n i (nv_target view n w) e t' \<Longrightarrow> Q e (n', w')"
  shows "go_wp (nodeNVMf_PublishVolume http i) Q E (n, w)"
proof -
  let ?t = "nv_target view n w"
  have Q0: "Q e (n', w')" if "nv_same n n'" "view w' = view w" "nv_publish_post n i ?t e ?t" for e n' w'
    using Q [of n' w' ?t e] that by simp
  show ?thesis
    unfolding nodeNVMf_PublishVolume_def go_wp_bind [of "nodeNVMf_isVolumeCreated http i"]
    apply (rule wp_nv_isVolumeCreated [OF nv_same_refl ok])
    apply (cases "tg_bdev ?t i")
    subgoal by (simp add: Q0 nv_publish_post_def)
    apply (simp del: go_wp_bind add: go_wp_bind [of "nodeNVMf_isVolumePublished http i"])
    apply (rule wp_nv_isVolumePublished [OF _ ok], assumption)
    apply (cases "nv_published n ?t i")
    subgoal by (simp add: Q0 nv_publish_post_def)
    apply (simp del: go_wp_bind add: go_wp_bind [of "nodeNVMf_createTransport http"])
    apply (rule wp_nv_createTransport [OF _ ok], assumption)
    subgoal for _ _ _ _ _ e
    apply (cases e)
     prefer 2 subgoal by (simp, rule Q, assumption, simp, auto simp: nv_publish_post_def)
    apply (simp del: go_wp_bind not_None_eq)
    apply (rule wp_nv_publish_subsystem [OF _ ok], assumption)
    subgoal by (rule Q, assumption, simp, auto simp: nv_publish_post_def)
    subgoal by (rule Q, assumption, simp, auto simp: nv_publish_post_def)
    done
    done
qed

text \<open>\<open>UnpublishVolume\<close>: the subsystem of a published volume is gone, everything else is as before.\<close>

definition nv_unpublish_post :: "nodeNVMf \<Rightarrow> string \<Rightarrow> target \<Rightarrow> err \<Rightarrow> target \<Rightarrow> bool" where
  "nv_unpublish_post n i t e t' \<longleftrightarrow>
     (if tg_bdev t i = None then e = Some ErrVolumeDeleted \<and> t' = t
      else e = None \<and> t' = (if nv_published n t i then set_sub (nodeNVMf_getVolumeNqn i) None t else t))"

lemma wp_nv_UnpublishVolume:
  assumes ok: "nvmf_ok http view n"
    and Q: "\<And>e n' w' t'. nv_same n n' \<Longrightarrow> view w' = (view w)(endpoint (nv_client n) := t') \<Longrightarrow>
       nv_unpublish_post n i (nv_target view n w) e t' \<Longrightarrow> Q e (n', w')"
  shows "go_wp (nodeNVMf_UnpublishVolume http i) Q E (n, w)"
proof -
  let ?t = "nv_target view n w"
  have Q0: "Q e (n', w')" if "nv_same n n'" "view w' = view w" "nv_unpublish_post n i ?t e ?t" for e n' w'
    using Q [of n' w' ?t e] that by simp
  show ?thesis
    unfolding nodeNVMf_UnpublishVolume_def go_wp_bind
    apply (rule wp_nv_isVolumeCreated [OF nv_same_refl ok])
    apply (cases "tg_bdev ?t i")
    subgoal by (simp add: Q0 nv_unpublish_post_def)
    apply simp
    apply (rule wp_nv_isVolumePublished [OF _ ok], assumption)
    apply (cases "nv_published n ?t i")
     prefer 2 subgoal by (simp add: Q0 nv_unpublish_post_def)
    apply (clarsimp simp: nv_published_def [of n ?t] split: option.splits)
    apply (rule wp_nv_subsystemRemoveNs [OF _ ok], assumption, simp)
    apply (simp, rule wp_nv_deleteSubsystem [OF _ ok], assumption, simp)
    subgoal by (simp, rule Q, assumption, simp, simp add: nv_unpublish_post_def nv_published_def)
    done
qed

end
