(* ===== verification/Iscsi_Correct.thy ===== *)
theory Iscsi_Correct
  imports Target_Contract
begin

text \<open>
  Publishing over iSCSI (\<open>pkg/util/iscsi.go\<close>) on a target that behaves as documented: what each
  method does to the portal groups, initiator groups and target nodes of the target, on every branch.
\<close>

section \<open>The iSCSI methods of the target\<close>

definition tag_arg :: "string \<Rightarrow> string \<Rightarrow> json option" where
  "tag_arg host port = Some (JObj [(''portals'', JArr [JObj [(''host'', JStr host), (''port'', JStr port)]]),
     (''tag'', jint numberPortalGroupTag)])"

definition initiators_arg :: "json option" where
  "initiators_arg = Some (JObj [(''initiators'', JArr [JStr ''ANY'']),
     (''tag'', jint numberInitiatorGroupTag), (''netmasks'', JArr [JStr ''ANY''])])"

definition iqn_arg :: "string \<Rightarrow> json option" where
  "iqn_arg i = Some (JObj [(''name'', JStr (iqnPrefixName @ i))])"

definition iscsi_queries :: "'w http \<Rightarrow> endpoint \<Rightarrow> ('w \<Rightarrow> endpoint \<Rightarrow> target) \<Rightarrow> bool" where
  "iscsi_queries http ep view \<longleftrightarrow>
     (\<forall>w. \<exists>rs. tn_AliasName ` set rs = tg_tnodes (view w ep) \<and>
        answers http ep view ''iscsi_get_target_nodes'' None
          (dec_slice \<lparr>tn_Name = [], tn_AliasName = []\<rparr> dec_target_node) [] w rs) \<and>
     (\<forall>w. \<exists>rs. sint ` set rs = tg_pgs (view w ep) \<and>
        answers http ep view ''iscsi_get_portal_groups'' None (dec_slice 0 dec_tag) [] w rs) \<and>
     (\<forall>w. \<exists>rs. sint ` set rs = tg_igs (view w ep) \<and>
        answers http ep view ''iscsi_get_initiator_groups'' None (dec_slice 0 dec_tag) [] w rs)"

definition iscsi_create_groups :: "'w http \<Rightarrow> endpoint \<Rightarrow> ('w \<Rightarrow> endpoint \<Rightarrow> target) \<Rightarrow> bool" where
  "iscsi_create_groups http ep view \<longleftrightarrow>
     (\<forall>w host port. attempts http ep view ''iscsi_create_portal_group'' (tag_arg host port) dec_bool False w
        (\<lambda>v t. v \<and> t = (view w ep)\<lparr>tg_pgs := insert numberPortalGroupTag (tg_pgs (view w ep))\<rparr>)) \<and>
     (\<forall>w. attempts http ep view ''iscsi_create_initiator_group'' initiators_arg dec_bool False w
        (\<lambda>v t. v \<and> t = (view w ep)\<lparr>tg_igs := insert numberInitiatorGroupTag (tg_igs (view w ep))\<rparr>))"

definition iscsi_create_target :: "'w http \<Rightarrow> endpoint \<Rightarrow> ('w \<Rightarrow> endpoint \<Rightarrow> target) \<Rightarrow> bool" where
  "iscsi_create_target http ep view \<longleftrightarrow>
     (\<forall>w i. attempts http ep view ''iscsi_create_target_node'' (Some (createTargetNode_params i i)) dec_bool False w
        (\<lambda>v t. v \<and> t = (view w ep)\<lparr>tg_tnodes := insert i (tg_tnodes (view w ep))\<rparr>))"

definition iscsi_delete_target :: "'w http \<Rightarrow> endpoint \<Rightarrow> ('w \<Rightarrow> endpoint \<Rightarrow> target) \<Rightarrow> bool" where
  "iscsi_delete_target http ep view \<longleftrightarrow>
     (\<forall>w i. i \<in> tg_tnodes (view w ep) \<longrightarrow>
        performs http ep view ''iscsi_delete_target_node'' (iqn_arg i) dec_bool False w True
          ((view w ep)\<lparr>tg_tnodes := tg_tnodes (view w ep) - {i}\<rparr>))"

definition iscsi_ok :: "'w http \<Rightarrow> ('w \<Rightarrow> endpoint \<Rightarrow> target) \<Rightarrow> nodeISCSI \<Rightarrow> bool" where
  "iscsi_ok http view n \<longleftrightarrow> (let ep = endpoint (is_client n) in
     lvol_queries http ep view \<and> iscsi_queries http ep view \<and> iscsi_create_groups http ep view \<and>
     iscsi_create_target http ep view \<and> iscsi_delete_target http ep view)"

lemma iscsi_okD:
  assumes "iscsi_ok http view n"
  shows iscsi_ok_lvol: "lvol_queries http (endpoint (is_client n)) view"
    and iscsi_ok_queries: "iscsi_queries http (endpoint (is_client n)) view"
    and iscsi_ok_groups: "iscsi_create_groups http (endpoint (is_client n)) view"
    and iscsi_ok_create: "iscsi_create_target http (endpoint (is_client n)) view"
    and iscsi_ok_delete: "iscsi_delete_target http (endpoint (is_client n)) view"
  using assms by (simp_all add: iscsi_ok_def Let_def)

lemma iscsi_queriesE:
  assumes "iscsi_queries http ep view"
  obtains (all) ts ps gs where "tn_AliasName ` set ts = tg_tnodes (view w ep)"
    "answers http ep view ''iscsi_get_target_nodes'' None
       (dec_slice \<lparr>tn_Name = [], tn_AliasName = []\<rparr> dec_target_node) [] w ts"
    "sint ` set ps = tg_pgs (view w ep)"
    "answers http ep view ''iscsi_get_portal_groups'' None (dec_slice 0 dec_tag) [] w ps"
    "sint ` set gs = tg_igs (view w ep)"
    "answers http ep view ''iscsi_get_initiator_groups'' None (dec_slice 0 dec_tag) [] w gs"
proof -
  from assms have "\<exists>ts. tn_AliasName ` set ts = tg_tnodes (view w ep) \<and>
      answers http ep view ''iscsi_get_target_nodes'' None
        (dec_slice \<lparr>tn_Name = [], tn_AliasName = []\<rparr> dec_target_node) [] w ts"
    and "\<exists>ps. sint ` set ps = tg_pgs (view w ep) \<and>
      answers http ep view ''iscsi_get_portal_groups'' None (dec_slice 0 dec_tag) [] w ps"
    and "\<exists>gs. sint ` set gs = tg_igs (view w ep) \<and>
      answers http ep view ''iscsi_get_initiator_groups'' None (dec_slice 0 dec_tag) [] w gs"
    unfolding iscsi_queries_def by simp_all
  then show thesis using all by (elim exE conjE)
qed

section \<open>Node objects\<close>

definition is_same :: "nodeISCSI \<Rightarrow> nodeISCSI \<Rightarrow> bool" where
  "is_same n n' \<longleftrightarrow> endpoint (is_client n') = endpoint (is_client n) \<and>
     is_targetAddr n' = is_targetAddr n \<and> is_targetPort n' = is_targetPort n"

lemma is_same_refl [simp]: "is_same n n"
  by (simp add: is_same_def)

lemma is_same_client [simp]:
  "is_same m n \<Longrightarrow> endpoint c = endpoint (is_client n) \<Longrightarrow> is_same m (n\<lparr>is_client := c\<rparr>)"
  by (simp add: is_same_def)

lemma is_same_ok: "is_same n n' \<Longrightarrow> iscsi_ok http view n' = iscsi_ok http view n"
  by (simp add: is_same_def iscsi_ok_def)

abbreviation is_target :: "('w \<Rightarrow> endpoint \<Rightarrow> target) \<Rightarrow> nodeISCSI \<Rightarrow> 'w \<Rightarrow> target" where
  "is_target view n w \<equiv> view w (endpoint (is_client n))"

lemma is_sameD:
  assumes "is_same m n" and "iscsi_ok http view m"
  shows "iscsi_ok http view n" and "endpoint (is_client n) = endpoint (is_client m)"
  using assms by (simp_all add: is_same_ok) (simp_all add: is_same_def)

lemma go_wp_is_self [simp]: "go_wp is_self Q E (n, w) = Q n (n, w)"
  by (simp add: go_wp_def is_self_def)

section \<open>Steps of publishing\<close>

lemma wp_is_isVolumeCreated:
  assumes same: "is_same m n" and ok: "iscsi_ok http view m"
    and Q: "\<And>n' w'. is_same m n' \<Longrightarrow> view w' = view w \<Longrightarrow> Q (tg_bdev (is_target view m w) i \<noteq> None, None) (n', w')"
  shows "go_wp (nodeISCSI_isVolumeCreated http i) Q E (n, w)"
  unfolding nodeISCSI_isVolumeCreated_def go_wp_zoom
  by (rule wp_isVolumeCreated [OF iscsi_ok_lvol [OF is_sameD(1) [OF same ok]]])
    (use same Q is_sameD(2) [OF same ok] in simp)

lemma wp_is_isVolumePublished:
  assumes same: "is_same m n" and ok: "iscsi_ok http view m"
    and Q: "\<And>n' w'. is_same m n' \<Longrightarrow> view w' = view w \<Longrightarrow> Q (i \<in> tg_tnodes (is_target view m w), None) (n', w')"
  shows "go_wp (nodeISCSI_isVolumePublished http i) Q E (n, w)"
proof -
  note D = is_sameD [OF same ok]
  obtain rs where rs: "tn_AliasName ` set rs = tg_tnodes (is_target view n w)"
    and a: "answers http (endpoint (is_client n)) view ''iscsi_get_target_nodes'' None
        (dec_slice \<lparr>tn_Name = [], tn_AliasName = []\<rparr> dec_target_node) [] w rs"
    by (rule iscsi_queriesE [OF iscsi_ok_queries [OF D(1)], of w])
  have "list_ex (\<lambda>t. tn_AliasName t = i) rs \<longleftrightarrow> i \<in> tn_AliasName ` set rs"
    by (auto simp: list_ex_iff)
  then show ?thesis
    unfolding nodeISCSI_isVolumePublished_def go_wp_bind go_wp_zoom
    by (intro wp_call_performs [OF a]) (use Q same D(2) rs in simp)
qed

lemma list_ex_sint: "list_ex (\<lambda>t. sint t = k) rs \<longleftrightarrow> k \<in> sint ` set rs"
  by (auto simp: list_ex_iff)

lemma wp_is_getPortalGroups:
  assumes same: "is_same m n" and ok: "iscsi_ok http view m"
    and Q: "\<And>e n' w'. is_same m n' \<Longrightarrow> view w' = view w \<Longrightarrow>
       (e = None) = (numberPortalGroupTag \<in> tg_pgs (is_target view m w)) \<Longrightarrow> Q e (n', w')"
  shows "go_wp (nodeISCSI_iscsiGetPortalGroups http) Q E (n, w)"
proof -
  note D = is_sameD [OF same ok]
  obtain rs where rs: "sint ` set rs = tg_pgs (is_target view n w)"
    and a: "answers http (endpoint (is_client n)) view ''iscsi_get_portal_groups'' None (dec_slice 0 dec_tag) [] w rs"
    by (rule iscsi_queriesE [OF iscsi_ok_queries [OF D(1)], of w])
  show ?thesis
    unfolding nodeISCSI_iscsiGetPortalGroups_def go_wp_bind go_wp_zoom
    by (rule wp_call_performs [OF a]) (use Q same D(2) rs in \<open>simp add: list_ex_sint\<close>)
qed

lemma wp_is_getInitiatorGroups:
  assumes same: "is_same m n" and ok: "iscsi_ok http view m"
    and Q: "\<And>e n' w'. is_same m n' \<Longrightarrow> view w' = view w \<Longrightarrow>
       (e = None) = (numberInitiatorGroupTag \<in> tg_igs (is_target view m w)) \<Longrightarrow> Q e (n', w')"
  shows "go_wp (nodeISCSI_iscsiGetInitiatorGroups http) Q E (n, w)"
proof -
  note D = is_sameD [OF same ok]
  obtain rs where rs: "sint ` set rs = tg_igs (is_target view n w)"
    and a: "answers http (endpoint (is_client n)) view ''iscsi_get_initiator_groups'' None (dec_slice 0 dec_tag) [] w rs"
    by (rule iscsi_queriesE [OF iscsi_ok_queries [OF D(1)], of w])
  show ?thesis
    unfolding nodeISCSI_iscsiGetInitiatorGroups_def go_wp_bind go_wp_zoom
    by (rule wp_call_performs [OF a]) (use Q same D(2) rs in \<open>simp add: list_ex_sint\<close>)
qed

lemma bool_result_simps [simp]:
  "bool_result f (None, True) = None" "bool_result f (Some e, b) = Some e"
  by (simp_all add: bool_result_def)

lemma wp_is_createPortalGroup:
  assumes same: "is_same m n" and ok: "iscsi_ok http view m"
    and Q: "\<And>e n' w' P. is_same m n' \<Longrightarrow>
       view w' = (view w)(endpoint (is_client m) := (is_target view m w)\<lparr>tg_pgs := P\<rparr>) \<Longrightarrow>
       (e = None) = (numberPortalGroupTag \<in> P) \<Longrightarrow> P - {numberPortalGroupTag} = tg_pgs (is_target view m w) - {numberPortalGroupTag} \<Longrightarrow>
       Q e (n', w')"
  shows "go_wp (nodeISCSI_createPortalGroup http) Q E (n, w)"
proof -
  have Q0: "Q e (n', w')" if "is_same m n'" "view w' = view w"
      "(e = None) = (numberPortalGroupTag \<in> tg_pgs (is_target view m w))" for e n' w'
    using Q [of n' w' "tg_pgs (is_target view m w)" e] that by simp
  have create: "go_wp (nodeISCSI_iscsiCreatePortalGroup http)
      (\<lambda>x. go_wp (if x = None then go_return None else nodeISCSI_iscsiGetPortalGroups http) Q E) E (n', w')"
    if s: "is_same m n'" and v: "view w' = view w" and "numberPortalGroupTag \<notin> tg_pgs (is_target view m w)" for n' w'
  proof -
    note D = is_sameD [OF s ok]
    have a: "attempts http (endpoint (is_client n')) view ''iscsi_create_portal_group''
        (tag_arg (is_targetAddr n') (is_targetPort n')) dec_bool False w'
        (\<lambda>v t. v \<and> t = (is_target view n' w')\<lparr>tg_pgs := insert numberPortalGroupTag (tg_pgs (is_target view n' w'))\<rparr>)"
      using iscsi_ok_groups [OF D(1)] by (simp add: iscsi_create_groups_def)
    show ?thesis
      unfolding nodeISCSI_iscsiCreatePortalGroup_def go_wp_bind go_wp_is_self go_wp_zoom tag_arg_def [symmetric]
      by (rule wp_call_attempts [OF a])
        (auto simp: v D(2) s intro!: Q wp_is_getPortalGroups [OF _ ok] intro: Q0)
  qed
  show ?thesis
    unfolding nodeISCSI_createPortalGroup_def go_wp_bind
    by (rule wp_is_getPortalGroups [OF same ok]) (auto intro!: Q0 create)
qed

lemma wp_is_createInitiatorGroup:
  assumes same: "is_same m n" and ok: "iscsi_ok http view m"
    and Q: "\<And>e n' w' P. is_same m n' \<Longrightarrow>
       view w' = (view w)(endpoint (is_client m) := (is_target view m w)\<lparr>tg_igs := P\<rparr>) \<Longrightarrow>
       (e = None) = (numberInitiatorGroupTag \<in> P) \<Longrightarrow> P - {numberInitiatorGroupTag} = tg_igs (is_target view m w) - {numberInitiatorGroupTag} \<Longrightarrow>
       Q e (n', w')"
  shows "go_wp (nodeISCSI_createInitiatorGroup http) Q E (n, w)"
proof -
  have Q0: "Q e (n', w')" if "is_same m n'" "view w' = view w"
      "(e = None) = (numberInitiatorGroupTag \<in> tg_igs (is_target view m w))" for e n' w'
    using Q [of n' w' "tg_igs (is_target view m w)" e] that by simp
  have create: "go_wp (nodeISCSI_iscsiCreateInitiatorGroup http [''ANY''] [''ANY''])
      (\<lambda>x. go_wp (if x = None then go_return None else nodeISCSI_iscsiGetInitiatorGroups http) Q E) E (n', w')"
    if s: "is_same m n'" and v: "view w' = view w" and "numberInitiatorGroupTag \<notin> tg_igs (is_target view m w)" for n' w'
  proof -
    note D = is_sameD [OF s ok]
    have a: "attempts http (endpoint (is_client n')) view ''iscsi_create_initiator_group''
        initiators_arg dec_bool False w'
        (\<lambda>v t. v \<and> t = (is_target view n' w')\<lparr>tg_igs := insert numberInitiatorGroupTag (tg_igs (is_target view n' w'))\<rparr>)"
      using iscsi_ok_groups [OF D(1)] by (simp add: iscsi_create_groups_def)
    show ?thesis
      unfolding nodeISCSI_iscsiCreateInitiatorGroup_def go_wp_bind go_wp_zoom
        list.map initiators_arg_def [symmetric]
      by (rule wp_call_attempts [OF a])
        (auto simp: v D(2) s intro!: Q wp_is_getInitiatorGroups [OF _ ok] intro: Q0)
  qed
  show ?thesis
    unfolding nodeISCSI_createInitiatorGroup_def go_wp_bind
    by (rule wp_is_getInitiatorGroups [OF same ok]) (auto intro!: Q0 create)
qed

lemma wp_is_createTargetNode:
  assumes same: "is_same m n" and ok: "iscsi_ok http view m"
    and Q: "\<And>n' w'. is_same m n' \<Longrightarrow> view w' = (view w)(endpoint (is_client m) :=
         (is_target view m w)\<lparr>tg_tnodes := insert i (tg_tnodes (is_target view m w))\<rparr>) \<Longrightarrow> Q None (n', w')"
      "\<And>x n' w'. is_same m n' \<Longrightarrow> view w' = view w \<Longrightarrow> Q (Some x) (n', w')"
  shows "go_wp (nodeISCSI_iscsiCreateTargetNode http i i) Q E (n, w)"
proof -
  note D = is_sameD [OF same ok]
  have a: "attempts http (endpoint (is_client n)) view ''iscsi_create_target_node''
      (Some (createTargetNode_params i i)) dec_bool False w
      (\<lambda>v t. v \<and> t = (is_target view n w)\<lparr>tg_tnodes := insert i (tg_tnodes (is_target view n w))\<rparr>)"
    using iscsi_ok_create [OF D(1)] by (simp add: iscsi_create_target_def)
  show ?thesis
    unfolding nodeISCSI_iscsiCreateTargetNode_def go_wp_bind go_wp_zoom
    by (rule wp_call_attempts [OF a]) (use Q same D(2) in auto)
qed

lemma wp_is_deleteTargetNode:
  assumes same: "is_same m n" and ok: "iscsi_ok http view m" and i: "i \<in> tg_tnodes (is_target view m w)"
    and Q: "\<And>n' w'. is_same m n' \<Longrightarrow> view w' = (view w)(endpoint (is_client m) :=
         (is_target view m w)\<lparr>tg_tnodes := tg_tnodes (is_target view m w) - {i}\<rparr>) \<Longrightarrow> Q None (n', w')"
  shows "go_wp (nodeISCSI_iscsiDeleteTargetNode http i) Q E (n, w)"
proof -
  note D = is_sameD [OF same ok]
  have a: "performs http (endpoint (is_client n)) view ''iscsi_delete_target_node'' (iqn_arg i) dec_bool False w True
      ((is_target view n w)\<lparr>tg_tnodes := tg_tnodes (is_target view n w) - {i}\<rparr>)"
    using iscsi_ok_delete [OF D(1)] i D(2) by (simp add: iscsi_delete_target_def)
  show ?thesis
    unfolding nodeISCSI_iscsiDeleteTargetNode_def go_wp_bind go_wp_zoom iqn_arg_def [symmetric]
    by (rule wp_call_performs [OF a]) (use Q same D(2) in auto)
qed

section \<open>Publishing and unpublishing\<close>

text \<open>
  A failed \<open>PublishVolume\<close> leaves no target node; the groups it has made may stay, as they serve
  every volume.
\<close>

definition is_publish_post :: "string \<Rightarrow> target \<Rightarrow> err \<Rightarrow> target \<Rightarrow> bool" where
  "is_publish_post i t e t' \<longleftrightarrow>
     (if tg_bdev t i = None then e = Some ErrVolumeDeleted \<and> t' = t
      else if i \<in> tg_tnodes t then e = None \<and> t' = t
      else \<exists>P G. P - {numberPortalGroupTag} = tg_pgs t - {numberPortalGroupTag} \<and>
         G - {numberInitiatorGroupTag} = tg_igs t - {numberInitiatorGroupTag} \<and> (case e of
         None \<Rightarrow> numberPortalGroupTag \<in> P \<and> numberInitiatorGroupTag \<in> G \<and>
           t' = t\<lparr>tg_pgs := P, tg_igs := G, tg_tnodes := insert i (tg_tnodes t)\<rparr>
       | Some _ \<Rightarrow> t' = t\<lparr>tg_pgs := P, tg_igs := G\<rparr>))"

lemma target_upd_same [simp]:
  "t\<lparr>tg_pgs := tg_pgs t\<rparr> = t" "t\<lparr>tg_igs := tg_igs t\<rparr> = t"
  by simp_all

lemma wp_is_PublishVolume:
  assumes ok: "iscsi_ok http view n"
    and Q: "\<And>e n' w' t'. is_same n n' \<Longrightarrow> view w' = (view w)(endpoint (is_client n) := t') \<Longrightarrow>
       is_publish_post i (is_target view n w) e t' \<Longrightarrow> Q e (n', w')"
  shows "go_wp (nodeISCSI_PublishVolume http i) Q E (n, w)"
proof -
  let ?t = "is_target view n w"
  have Q0: "Q e (n', w')" if "is_same n n'" "view w' = view w" "is_publish_post i ?t e ?t" for e n' w'
    using Q [of n' w' ?t e] that by simp
  have fail: "Q (Some x) (n', w')" if "is_same n n'" "tg_bdev ?t i = Some a" "i \<notin> tg_tnodes ?t"
      "view w' = (view w)(endpoint (is_client n) := ?t\<lparr>tg_pgs := P, tg_igs := G\<rparr>)"
      "P - {numberPortalGroupTag} = tg_pgs ?t - {numberPortalGroupTag}"
      "G - {numberInitiatorGroupTag} = tg_igs ?t - {numberInitiatorGroupTag}" for x n' w' P G a
    by (rule Q [OF that(1,4)]) (use that in \<open>auto simp: is_publish_post_def\<close>)
  show ?thesis
    unfolding nodeISCSI_PublishVolume_def go_wp_bind
    apply (rule wp_is_isVolumeCreated [OF is_same_refl ok])
    apply (cases "tg_bdev ?t i")
    subgoal by (simp add: Q0 is_publish_post_def)
    apply simp
    apply (rule wp_is_isVolumePublished [OF _ ok], assumption)
    apply (cases "i \<in> tg_tnodes ?t")
    subgoal by (simp add: Q0 is_publish_post_def)
    apply simp
    apply (rule wp_is_createPortalGroup [OF _ ok], assumption)
    subgoal for _ _ _ _ _ e1 _ _ P
      apply (cases e1)
       prefer 2 subgoal using fail [where P = P and G = "tg_igs ?t"] by simp
      apply simp
      apply (rule wp_is_createInitiatorGroup [OF _ ok], assumption)
      subgoal for e2 _ _ G
        apply (cases e2)
         prefer 2 subgoal by (simp, rule fail [where P = P and G = G]; simp)
        apply simp
        apply (rule wp_is_createTargetNode [OF _ ok], assumption)
        subgoal by (simp, rule Q, assumption, simp, auto simp: is_publish_post_def)
        subgoal by (simp, rule fail [where P = P and G = G]; simp)
        done
      done
    done
qed

definition is_unpublish_post :: "string \<Rightarrow> target \<Rightarrow> err \<Rightarrow> target \<Rightarrow> bool" where
  "is_unpublish_post i t e t' \<longleftrightarrow>
     (if tg_bdev t i = None then e = Some ErrVolumeDeleted \<and> t' = t
      else e = None \<and> t' = t\<lparr>tg_tnodes := tg_tnodes t - {i}\<rparr>)"

lemma wp_is_UnpublishVolume:
  assumes ok: "iscsi_ok http view n"
    and Q: "\<And>e n' w' t'. is_same n n' \<Longrightarrow> view w' = (view w)(endpoint (is_client n) := t') \<Longrightarrow>
       is_unpublish_post i (is_target view n w) e t' \<Longrightarrow> Q e (n', w')"
  shows "go_wp (nodeISCSI_UnpublishVolume http i) Q E (n, w)"
proof -
  let ?t = "is_target view n w"
  have Q0: "Q e (n', w')" if "is_same n n'" "view w' = view w" "is_unpublish_post i ?t e ?t" for e n' w'
    using Q [of n' w' ?t e] that by simp
  show ?thesis
    unfolding nodeISCSI_UnpublishVolume_def go_wp_bind
    apply (rule wp_is_isVolumeCreated [OF is_same_refl ok])
    apply (cases "tg_bdev ?t i")
    subgoal by (simp add: Q0 is_unpublish_post_def)
    apply simp
    apply (rule wp_is_isVolumePublished [OF _ ok], assumption)
    apply (cases "i \<in> tg_tnodes ?t")
     prefer 2 subgoal by (simp add: Q0 is_unpublish_post_def)
    apply simp
    apply (rule wp_is_deleteTargetNode [OF _ ok], assumption, simp)
    subgoal by (simp, rule Q, assumption, simp, simp add: is_unpublish_post_def)
    done
qed

end
