(* ===== verification/Lvol_Methods.thy ===== *)
theory Lvol_Methods
  imports Target_Contract
begin

text \<open>
  The logical-volume methods of a storage node. Both kinds of node run the same sequences of client
  calls on the RPC client inside them, so their behaviour is proved once, in a locale over the
  embedding of the client, and holds for the NVMe-oF and for the iSCSI node by interpretation.
\<close>

section \<open>What the target promises\<close>

definition copy_args :: "string \<Rightarrow> string \<Rightarrow> string \<Rightarrow> string \<Rightarrow> json option" where
  "copy_args f1 a f2 b = Some (JObj [(f1, JStr a), (f2, JStr b)])"

text \<open>
  \<open>bdev_lvol_clone\<close> and \<open>bdev_lvol_snapshot\<close>: a new volume in the lvstore of the source, with a name
  that is free there, or a refusal.
\<close>

definition lvol_copies :: "'w http \<Rightarrow> endpoint \<Rightarrow> ('w \<Rightarrow> endpoint \<Rightarrow> target) \<Rightarrow> bool" where
  "lvol_copies http ep view \<longleftrightarrow>
     (\<forall>w name src lvs. lvstore_of (view w ep) src = (lvs, None) \<longrightarrow>
        tg_bdev (view w ep) (lvol_alias lvs name) = None \<longrightarrow>
        attempts http ep view ''bdev_lvol_clone'' (copy_args ''clone_name'' name ''snapshot_name'' src) dec_string [] w
          (\<lambda>u t. \<exists>b. u = bd_UUID b \<and> new_lvol lvs (view w ep) b \<and> t = add_bdev (lvol_alias lvs name) b (view w ep)) \<and>
        attempts http ep view ''bdev_lvol_snapshot'' (copy_args ''lvol_name'' src ''snapshot_name'' name) dec_string [] w
          (\<lambda>u t. \<exists>b. u = bd_UUID b \<and> new_lvol lvs (view w ep) b \<and> t = add_bdev (lvol_alias lvs name) b (view w ep)))"

definition lvol_ok :: "'w http \<Rightarrow> endpoint \<Rightarrow> ('w \<Rightarrow> endpoint \<Rightarrow> target) \<Rightarrow> bool" where
  "lvol_ok http ep view \<longleftrightarrow> lvol_queries http ep view \<and> lvol_creates http ep view \<and>
     lvol_deletes http ep view \<and> lvol_copies http ep view"

lemma lvol_okD:
  assumes "lvol_ok http ep view"
  shows lvol_ok_queries: "lvol_queries http ep view" and lvol_ok_creates: "lvol_creates http ep view"
    and lvol_ok_deletes: "lvol_deletes http ep view" and lvol_ok_copies: "lvol_copies http ep view"
  using assms by (simp_all add: lvol_ok_def)

section \<open>What the methods do\<close>

definition get_spec :: "string \<Rightarrow> string \<Rightarrow> target \<Rightarrow> string \<times> err" where
  "get_spec lvs name t = (case tg_bdev t (lvol_alias lvs name) of
     Some b \<Rightarrow> (bd_UUID b, None) | None \<Rightarrow> ([], Some ErrJSONNoSuchDevice))"

text \<open>A volume of that name is there already and is returned, or it is created, or nothing changes.\<close>

definition create_spec :: "string \<Rightarrow> string \<Rightarrow> target \<Rightarrow> string \<times> err \<Rightarrow> target \<Rightarrow> bool" where
  "create_spec lvs name t r t' \<longleftrightarrow> (case tg_bdev t (lvol_alias lvs name) of
     Some b \<Rightarrow> r = (bd_UUID b, None) \<and> t' = t
   | None \<Rightarrow> (\<exists>b. new_lvol lvs t b \<and> r = (bd_UUID b, None) \<and> t' = add_bdev (lvol_alias lvs name) b t) \<or>
       (\<exists>x. r = ([], Some x) \<and> t' = t))"

definition snapshot_spec :: "string \<Rightarrow> string \<Rightarrow> target \<Rightarrow> string \<times> err \<Rightarrow> target \<Rightarrow> bool" where
  "snapshot_spec vol name t r t' \<longleftrightarrow> (case lvstore_of t vol of
     (_, Some x) \<Rightarrow> r = ([], Some x) \<and> t' = t
   | (lvs, None) \<Rightarrow> create_spec lvs name t r t')"

text \<open>A volume that exists is deleted, or, on a target that may refuse this (\<open>rf\<close>), nothing changes.\<close>

definition delete_spec :: "bool \<Rightarrow> string \<Rightarrow> target \<Rightarrow> err \<Rightarrow> target \<Rightarrow> bool" where
  "delete_spec rf i t e t' \<longleftrightarrow> (case tg_bdev t i of
     None \<Rightarrow> e = Some ErrJSONNoSuchDevice \<and> t' = t
   | Some b \<Rightarrow> e = None \<and> t' = del_bdev i t \<or> rf \<and> (\<exists>x. e = Some x \<and> \<not> errors_Is x ErrJSONNoSuchDevice) \<and> t' = t)"

lemma wp_copy:
  assumes c: "m = ''bdev_lvol_clone'' \<and> args = copy_args ''clone_name'' name ''snapshot_name'' src \<or>
      m = ''bdev_lvol_snapshot'' \<and> args = copy_args ''lvol_name'' src ''snapshot_name'' name"
    and "lvol_copies http (endpoint c) view" "lvstore_of (view w (endpoint c)) src = (lvs, None)"
      "tg_bdev (view w (endpoint c)) (lvol_alias lvs name) = None"
    and Q: "\<And>b c' w'. endpoint c' = endpoint c \<Longrightarrow> new_lvol lvs (view w (endpoint c)) b \<Longrightarrow>
       view w' = (view w)(endpoint c := add_bdev (lvol_alias lvs name) b (view w (endpoint c))) \<Longrightarrow>
       Q (None, bd_UUID b) (c', w')"
      "\<And>x c' w'. endpoint c' = endpoint c \<Longrightarrow> view w' = view w \<Longrightarrow> Q (Some x, []) (c', w')"
  shows "go_wp (rpcClient_call http m args dec_string []) Q E (c, w)"
proof -
  have "attempts http (endpoint c) view m args dec_string [] w
      (\<lambda>u t. \<exists>b. u = bd_UUID b \<and> new_lvol lvs (view w (endpoint c)) b \<and>
         t = add_bdev (lvol_alias lvs name) b (view w (endpoint c)))"
    using c assms(2-4) by (auto simp: lvol_copies_def)
  then show ?thesis by (rule wp_call_attempts) (use Q in auto)
qed

locale rpc_embedding =
  fixes client :: "'n \<Rightarrow> rpcClient" and put :: "rpcClient \<Rightarrow> 'n \<Rightarrow> 'n"
  assumes client_put [simp]: "client (put c n) = c"
    and put_put [simp]: "put c (put d n) = put c n"
begin

abbreviation on_client where "on_client \<equiv> go_zoom client put"

lemma wp_stores:
  assumes "lvol_ok http (endpoint (client n)) view"
    and "\<And>c w'. endpoint c = endpoint (client n) \<Longrightarrow> view w' = view w \<Longrightarrow>
       Q (map LvStore_of_reply (tg_lvstores (view w (endpoint (client n)))), None) (put c n, w')"
  shows "go_wp (on_client (rpcClient_lvStores http)) Q E (n, w)"
  unfolding go_wp_zoom by (rule wp_lvStores [OF lvol_ok_queries [OF assms(1)]]) (use assms(2) in simp)

lemma wp_lookup:
  assumes "lvol_ok http (endpoint (client n)) view"
    and found: "\<And>b c w'. endpoint c = endpoint (client n) \<Longrightarrow> view w' = view w \<Longrightarrow>
       tg_bdev (view w (endpoint (client n))) a = Some b \<Longrightarrow> go_wp (f (Some b, None)) Q E (put c n, w')"
    and missing: "\<And>c w'. endpoint c = endpoint (client n) \<Longrightarrow> view w' = view w \<Longrightarrow>
       tg_bdev (view w (endpoint (client n))) a = None \<Longrightarrow>
       go_wp (f (None, Some ErrJSONNoSuchDevice)) Q E (put c n, w')"
  shows "go_wp (go_bind (on_client (rpcClient_getVolume http a)) f) Q E (n, w)"
  unfolding go_wp_bind go_wp_zoom
  by (rule wp_getVolume [OF lvol_ok_queries [OF assms(1)]])
    (use found missing in \<open>auto split: option.split\<close>)

lemma wp_get:
  assumes ok: "lvol_ok http (endpoint (client n)) view"
    and Q: "\<And>c w'. endpoint c = endpoint (client n) \<Longrightarrow> view w' = view w \<Longrightarrow>
       Q (get_spec lvs name (view w (endpoint (client n)))) (put c n, w')"
  shows "go_wp (go_bind (on_client (rpcClient_getVolume http (lvol_alias lvs name)))
       (\<lambda>(lvol, e). if e \<noteq> None then go_return ([], e)
          else go_bind (bd_uuid_of lvol) (\<lambda>uuid. go_return (uuid, e)))) Q E (n, w)"
  by (rule wp_lookup [OF ok]) (use Q in \<open>auto simp: get_spec_def bd_uuid_of_def\<close>)

lemma wp_create:
  assumes ok: "lvol_ok http (endpoint (client n)) view"
    and Q: "\<And>r t' c w'. endpoint c = endpoint (client n) \<Longrightarrow> view w' = (view w)(endpoint (client n) := t') \<Longrightarrow>
       create_spec lvs name (view w (endpoint (client n))) r t' \<Longrightarrow> Q r (put c n, w')"
  shows "go_wp (go_bind (on_client (rpcClient_getVolume http (lvol_alias lvs name)))
       (\<lambda>(lvol, e). if e = None then go_bind (bd_uuid_of lvol) (\<lambda>uuid. go_return (uuid, None))
          else go_bind (on_client (rpcClient_createVolume http name lvs sz))
            (\<lambda>(lvolID, e). if e \<noteq> None then go_return ([], e) else go_return (lvolID, None)))) Q E (n, w)"
proof (rule wp_lookup [OF ok])
  fix b c w' assume "endpoint c = endpoint (client n)" "view w' = view w"
    and "tg_bdev (view w (endpoint (client n))) (lvol_alias lvs name) = Some b"
  then show "go_wp (case (Some b, None) of (lvol, e) \<Rightarrow>
      if e = None then go_bind (bd_uuid_of lvol) (\<lambda>uuid. go_return (uuid, None))
      else go_bind (on_client (rpcClient_createVolume http name lvs sz))
        (\<lambda>(lvolID, e). if e \<noteq> None then go_return ([], e) else go_return (lvolID, None))) Q E (put c n, w')"
    using Q [of c w' "view w (endpoint (client n))"] by (simp add: bd_uuid_of_def create_spec_def)
next
  fix c w' assume "endpoint c = endpoint (client n)" "view w' = view w"
    and none: "tg_bdev (view w (endpoint (client n))) (lvol_alias lvs name) = None"
  then show "go_wp (case (None, Some ErrJSONNoSuchDevice) of (lvol, e) \<Rightarrow>
      if e = None then go_bind (bd_uuid_of lvol) (\<lambda>uuid. go_return (uuid, None))
      else go_bind (on_client (rpcClient_createVolume http name lvs sz))
        (\<lambda>(lvolID, e). if e \<noteq> None then go_return ([], e) else go_return (lvolID, None))) Q E (put c n, w')"
    by simp (rule wp_createVolume [where view = view],
      use lvol_ok_creates [OF ok] in \<open>auto simp: create_spec_def intro!: Q\<close>)
qed

lemma wp_clone:
  assumes ok: "lvol_ok http (endpoint (client n)) view"
    and src: "lvstore_of (view w (endpoint (client n))) src = (lvs, None)"
    and Q: "\<And>r t' c w'. endpoint c = endpoint (client n) \<Longrightarrow> view w' = (view w)(endpoint (client n) := t') \<Longrightarrow>
       create_spec lvs name (view w (endpoint (client n))) r t' \<Longrightarrow> Q r (put c n, w')"
  shows "go_wp (go_bind (on_client (rpcClient_getVolume http (lvol_alias lvs name)))
       (\<lambda>(lvol, e). if e = None then go_bind (bd_uuid_of lvol) (\<lambda>uuid. go_return (uuid, None))
          else go_bind (on_client (rpcClient_cloneVolume http name src))
            (\<lambda>(lvolID, e). if e \<noteq> None then go_return ([], e) else go_return (lvolID, None)))) Q E (n, w)"
proof (rule wp_lookup [OF ok])
  fix b c w' assume "endpoint c = endpoint (client n)" "view w' = view w"
    and "tg_bdev (view w (endpoint (client n))) (lvol_alias lvs name) = Some b"
  then show "go_wp (case (Some b, None) of (lvol, e) \<Rightarrow>
      if e = None then go_bind (bd_uuid_of lvol) (\<lambda>uuid. go_return (uuid, None))
      else go_bind (on_client (rpcClient_cloneVolume http name src))
        (\<lambda>(lvolID, e). if e \<noteq> None then go_return ([], e) else go_return (lvolID, None))) Q E (put c n, w')"
    using Q [of c w' "view w (endpoint (client n))"] by (simp add: bd_uuid_of_def create_spec_def)
next
  fix c w' assume s: "endpoint c = endpoint (client n)" "view w' = view w"
    and none: "tg_bdev (view w (endpoint (client n))) (lvol_alias lvs name) = None"
  show "go_wp (case (None, Some ErrJSONNoSuchDevice) of (lvol, e) \<Rightarrow>
      if e = None then go_bind (bd_uuid_of lvol) (\<lambda>uuid. go_return (uuid, None))
      else go_bind (on_client (rpcClient_cloneVolume http name src))
        (\<lambda>(lvolID, e). if e \<noteq> None then go_return ([], e) else go_return (lvolID, None))) Q E (put c n, w')"
    unfolding rpcClient_cloneVolume_def copy_args_def [symmetric]
    by simp (rule wp_copy [where view = view, OF disjI1 [OF conjI [OF refl refl]]],
      use s none src lvol_ok_copies [OF ok] in \<open>auto simp: create_spec_def intro!: Q\<close>)
qed

lemma wp_snapshot:
  assumes ok: "lvol_ok http (endpoint (client n)) view"
    and Q: "\<And>r t' c w'. endpoint c = endpoint (client n) \<Longrightarrow> view w' = (view w)(endpoint (client n) := t') \<Longrightarrow>
       snapshot_spec src name (view w (endpoint (client n))) r t' \<Longrightarrow> Q r (put c n, w')"
  shows "go_wp (go_bind (on_client (rpcClient_getLvstore http src))
       (\<lambda>(lvs, e). if e \<noteq> None then go_return ([], e)
          else go_bind (on_client (rpcClient_getVolume http (lvol_alias lvs name)))
            (\<lambda>(lvol, e). if e = None then go_bind (bd_uuid_of lvol) (\<lambda>uuid. go_return (uuid, None))
               else go_bind (on_client (rpcClient_snapshot http src name))
                 (\<lambda>(snapshotID, e). if e \<noteq> None then go_return ([], e)
                    else go_return (snapshotID, None))))) Q E (n, w)"
proof -
  let ?t = "view w (endpoint (client n))"
  have Q0: "Q r (put c n, w')" if "endpoint c = endpoint (client n)" "view w' = view w"
      "snapshot_spec src name ?t r ?t" for r c w'
    using Q [of c w' ?t r] that by simp
  have copy: "go_wp (on_client (rpcClient_snapshot http src name))
      (\<lambda>x. go_wp (case x of (snapshotID, e) \<Rightarrow>
         if e \<noteq> None then go_return ([], e) else go_return (snapshotID, None)) Q E) E (put c n, w')"
    if s: "endpoint c = endpoint (client n)" "view w' = view w" "lvstore_of ?t src = (lvs, None)"
      "tg_bdev ?t (lvol_alias lvs name) = None" for c w' lvs
    unfolding rpcClient_snapshot_def copy_args_def [symmetric]
    by simp (rule wp_copy [where view = view, OF disjI2 [OF conjI [OF refl refl]]],
      use s lvol_ok_copies [OF ok] in \<open>auto simp: snapshot_spec_def create_spec_def intro!: Q\<close>)
  obtain lvs e where l: "lvstore_of ?t src = (lvs, e)" by (cases "lvstore_of ?t src")
  show ?thesis
    unfolding go_wp_bind [of "on_client (rpcClient_getLvstore http src)"] go_wp_zoom
    apply (rule wp_getLvstore [OF lvol_ok_queries [OF ok]])
    apply (cases e)
     prefer 2 subgoal by (simp add: l Q0 snapshot_spec_def)
    apply (simp add: l del: go_wp_bind go_wp_zoom)
    apply (rule wp_lookup [where view = view])
    subgoal using ok by simp
    subgoal by (simp add: bd_uuid_of_def Q0 snapshot_spec_def create_spec_def l)
    subgoal using copy l by simp
    done
qed

lemma wp_delete:
  assumes ok: "lvol_ok http (endpoint (client n)) view"
    and Q: "\<And>e t' c w'. endpoint c = endpoint (client n) \<Longrightarrow> view w' = (view w)(endpoint (client n) := t') \<Longrightarrow>
       delete_spec (may_refuse http view (endpoint (client n))) i (view w (endpoint (client n))) e t' \<Longrightarrow> Q e (put c n, w')"
  shows "go_wp (go_bind (on_client (rpcClient_deleteVolume http i))
     (\<lambda>e. if e \<noteq> None then go_return e else go_return None)) Q E (n, w)"
proof -
  have Q0: "Q e (put c n, w')" if "endpoint c = endpoint (client n)" "view w' = view w"
      "delete_spec (may_refuse http view (endpoint (client n))) i (view w (endpoint (client n))) e (view w (endpoint (client n)))" for e c w'
    using Q [of c w' "view w (endpoint (client n))" e] that by simp
  show ?thesis
    unfolding go_wp_bind go_wp_zoom
    by (rule wp_deleteVolume [OF lvol_ok_deletes [OF ok]])
      (auto simp: delete_spec_def split: option.splits intro!: Q0 Q)
qed

end

interpretation nv_lvol: rpc_embedding nv_client "\<lambda>c n. n\<lparr>nv_client := c\<rparr>"
  by unfold_locales simp_all

interpretation is_lvol: rpc_embedding is_client "\<lambda>c n. n\<lparr>is_client := c\<rparr>"
  by unfold_locales simp_all

end
