(* ===== verification/Spdk_Node.thy ===== *)
theory Spdk_Node
  imports Nvmf_Node Iscsi_Node
begin

text \<open>
  The interface \<open>SpdkNode\<close> of \<open>pkg/util/jsonrpc.go\<close>: a value of interface type is an NVMe-oF node,
  an iSCSI node or nil, and a method call on it is dispatched on what it holds, or panics.
\<close>

datatype SpdkNode = NodeNVMf nodeNVMf | NodeISCSI nodeISCSI

definition NewSpdkNode ::
  "string \<Rightarrow> string \<Rightarrow> string \<Rightarrow> string \<Rightarrow> string \<Rightarrow> SpdkNode option \<times> err" where
  "NewSpdkNode url user pass targetType targetAddr =
     (let client = \<lparr>rpcURL = url, rpcUser = user, rpcPass = pass, rpcID = 0\<rparr>;
          t = strings_ToLower targetType
      in if t = ''nvme-rdma'' then (Some (NodeNVMf (newNVMf client ''RDMA'' targetAddr)), None)
         else if t = ''nvme-tcp'' then (Some (NodeNVMf (newNVMf client ''TCP'' targetAddr)), None)
         else if t = ''iscsi'' then (Some (NodeISCSI (newISCSI client targetAddr)), None)
         else (None, Some (Errorf (''unknown transport: '' @ targetType))))"

definition node_dispatch ::
  "(nodeNVMf \<times> 'w, 'r) go \<Rightarrow> (nodeISCSI \<times> 'w, 'r) go \<Rightarrow> (SpdkNode option \<times> 'w, 'r) go" where
  "node_dispatch f g = (\<lambda>(n, w). case n of
     None \<Rightarrow> (Panic nil_deref, n, w)
   | Some (NodeNVMf x) \<Rightarrow> (case f (x, w) of (r, x', w') \<Rightarrow> (r, Some (NodeNVMf x'), w'))
   | Some (NodeISCSI x) \<Rightarrow> (case g (x, w) of (r, x', w') \<Rightarrow> (r, Some (NodeISCSI x'), w')))"

definition SpdkNode_Info :: "SpdkNode option \<Rightarrow> string outcome" where
  "SpdkNode_Info n = (case n of
     None \<Rightarrow> Panic nil_deref
   | Some (NodeNVMf x) \<Rightarrow> Ret (nodeNVMf_Info x)
   | Some (NodeISCSI x) \<Rightarrow> Ret (nodeISCSI_Info x))"

definition SpdkNode_LvStores :: "'w http \<Rightarrow> (SpdkNode option \<times> 'w, LvStore list \<times> err) go" where
  "SpdkNode_LvStores http = node_dispatch (nodeNVMf_LvStores http) (nodeISCSI_LvStores http)"

definition SpdkNode_VolumeInfo :: "'w http \<Rightarrow> string \<Rightarrow> (SpdkNode option \<times> 'w, smap \<times> err) go" where
  "SpdkNode_VolumeInfo http i = node_dispatch (nodeNVMf_VolumeInfo http i) (nodeISCSI_VolumeInfo http i)"

definition SpdkNode_CreateVolume ::
  "'w http \<Rightarrow> string \<Rightarrow> string \<Rightarrow> int64 \<Rightarrow> (SpdkNode option \<times> 'w, string \<times> err) go" where
  "SpdkNode_CreateVolume http n l s =
     node_dispatch (nodeNVMf_CreateVolume http n l s) (nodeISCSI_CreateVolume http n l s)"

definition SpdkNode_CloneVolume ::
  "'w http \<Rightarrow> string \<Rightarrow> string \<Rightarrow> string \<Rightarrow> (SpdkNode option \<times> 'w, string \<times> err) go" where
  "SpdkNode_CloneVolume http n l s =
     node_dispatch (nodeNVMf_CloneVolume http n l s) (nodeISCSI_CloneVolume http n l s)"

definition SpdkNode_GetVolume ::
  "'w http \<Rightarrow> string \<Rightarrow> string \<Rightarrow> (SpdkNode option \<times> 'w, string \<times> err) go" where
  "SpdkNode_GetVolume http n l = node_dispatch (nodeNVMf_GetVolume http n l) (nodeISCSI_GetVolume http n l)"

definition SpdkNode_DeleteVolume :: "'w http \<Rightarrow> string \<Rightarrow> (SpdkNode option \<times> 'w, err) go" where
  "SpdkNode_DeleteVolume http i =
     node_dispatch (nodeNVMf_DeleteVolume http i) (nodeISCSI_DeleteVolume http i)"

definition SpdkNode_PublishVolume :: "'w http \<Rightarrow> string \<Rightarrow> (SpdkNode option \<times> 'w, err) go" where
  "SpdkNode_PublishVolume http i =
     node_dispatch (nodeNVMf_PublishVolume http i) (nodeISCSI_PublishVolume http i)"

definition SpdkNode_UnpublishVolume :: "'w http \<Rightarrow> string \<Rightarrow> (SpdkNode option \<times> 'w, err) go" where
  "SpdkNode_UnpublishVolume http i =
     node_dispatch (nodeNVMf_UnpublishVolume http i) (nodeISCSI_UnpublishVolume http i)"

definition SpdkNode_CreateSnapshot ::
  "'w http \<Rightarrow> string \<Rightarrow> string \<Rightarrow> (SpdkNode option \<times> 'w, string \<times> err) go" where
  "SpdkNode_CreateSnapshot http l s =
     node_dispatch (nodeNVMf_CreateSnapshot http l s) (nodeISCSI_CreateSnapshot http l s)"

end
