(* ===== verification/Node_Interface.thy ===== *)
theory Node_Interface
  imports Nvmf_Correct Iscsi_Correct Lvol_Methods Spdk_Node
begin

text \<open>
  The contract of a storage node (the interface \<open>SpdkNode\<close> of \<open>pkg/util/jsonrpc.go\<close>) on a target
  that behaves as documented, as a locale: what each method returns and does to the target. The
  NVMe-oF node, the iSCSI node and the interface value that dispatches to them are its instances;
  what follows from the contract alone (sessions of publish and unpublish requests, idempotence) is
  proved in the locale.
\<close>

section \<open>The contract\<close>

text \<open>
  \<open>pub t i\<close>: volume \<open>i\<close> can be reached through this node; \<open>srv t i\<close>: what is reached there is the
  volume, too. Publishing either makes the volume reachable and serves it or reports an error and
  leaves it as it was; other volumes are never touched.
\<close>

definition publish_spec :: "(target \<Rightarrow> string \<Rightarrow> bool) \<Rightarrow> (target \<Rightarrow> string \<Rightarrow> bool) \<Rightarrow>
    string \<Rightarrow> target \<Rightarrow> err \<Rightarrow> target \<Rightarrow> bool" where
  "publish_spec pub srv i t e t' \<longleftrightarrow>
     tg_bdev t' = tg_bdev t \<and> tg_lvstores t' = tg_lvstores t \<and> (\<forall>j. j \<noteq> i \<longrightarrow> pub t' j = pub t j) \<and>
     (e = None \<longrightarrow> pub t i \<or> srv t' i) \<and>
     (if tg_bdev t i = None then e = Some ErrVolumeDeleted \<and> t' = t
      else if pub t i then e = None \<and> t' = t
      else pub t' i = (e = None))"

definition unpublish_spec :: "(target \<Rightarrow> string \<Rightarrow> bool) \<Rightarrow> string \<Rightarrow> target \<Rightarrow> err \<Rightarrow> target \<Rightarrow> bool" where
  "unpublish_spec pub i t e t' \<longleftrightarrow>
     tg_bdev t' = tg_bdev t \<and> tg_lvstores t' = tg_lvstores t \<and> (\<forall>j. j \<noteq> i \<longrightarrow> pub t' j = pub t j) \<and>
     (if tg_bdev t i = None then e = Some ErrVolumeDeleted \<and> t' = t
      else e = None \<and> \<not> pub t' i)"

text \<open>A session: publish and unpublish requests one after the other, with the list of their results.\<close>

datatype node_op = Publish string | Unpublish string

fun run_ops :: "(string \<Rightarrow> ('s, err) go) \<Rightarrow> (string \<Rightarrow> ('s, err) go) \<Rightarrow> node_op list \<Rightarrow> ('s, err list) go" where
  "run_ops p u [] = go_return []"
| "run_ops p u (op # ops) =
     go_bind (case op of Publish i \<Rightarrow> p i | Unpublish i \<Rightarrow> u i)
       (\<lambda>e. go_bind (run_ops p u ops) (\<lambda>es. go_return (e # es)))"

text \<open>The abstract machine: \<open>B\<close> the volumes that exist, the state the set of published ones.\<close>

fun abs_op :: "string set \<Rightarrow> string set \<Rightarrow> node_op \<Rightarrow> err \<Rightarrow> string set \<Rightarrow> bool" where
  "abs_op B S (Publish i) e S' =
     (if i \<notin> B then e = Some ErrVolumeDeleted \<and> S' = S
      else if i \<in> S then e = None \<and> S' = S
      else S' = (if e = None then insert i S else S))"
| "abs_op B S (Unpublish i) e S' =
     (if i \<notin> B then e = Some ErrVolumeDeleted \<and> S' = S else e = None \<and> S' = S - {i})"

inductive abs_run :: "string set \<Rightarrow> string set \<Rightarrow> node_op list \<Rightarrow> err list \<Rightarrow> string set \<Rightarrow> bool" where
  abs_nil: "abs_run B S [] [] S"
| abs_cons: "abs_op B S op e S' \<Longrightarrow> abs_run B S' ops es S'' \<Longrightarrow> abs_run B S (op # ops) (e # es) S''"

inductive_simps abs_run_nil_simp [simp]: "abs_run B S [] es S'"
inductive_simps abs_run_cons_simp: "abs_run B S (op # ops) es S'"
inductive_cases abs_run_consE: "abs_run B S (op # ops) es S'"

locale volume_node =
  fixes conforms :: "'w http \<Rightarrow> ('w \<Rightarrow> endpoint \<Rightarrow> target) \<Rightarrow> 'n \<Rightarrow> bool"
    and ep :: "'n \<Rightarrow> endpoint"
    and same :: "'n \<Rightarrow> 'n \<Rightarrow> bool"
    and pub :: "'n \<Rightarrow> target \<Rightarrow> string \<Rightarrow> bool"
    and srv :: "'n \<Rightarrow> target \<Rightarrow> string \<Rightarrow> bool"
    and info :: "'n \<Rightarrow> target \<Rightarrow> string \<Rightarrow> smap \<times> err"
    and stores :: "'w http \<Rightarrow> ('n \<times> 'w, LvStore list \<times> err) go"
    and getv :: "'w http \<Rightarrow> string \<Rightarrow> string \<Rightarrow> ('n \<times> 'w, string \<times> err) go"
    and create :: "'w http \<Rightarrow> string \<Rightarrow> string \<Rightarrow> int64 \<Rightarrow> ('n \<times> 'w, string \<times> err) go"
    and clone :: "'w http \<Rightarrow> string \<Rightarrow> string \<Rightarrow> string \<Rightarrow> ('n \<times> 'w, string \<times> err) go"
    and snapshot :: "'w http \<Rightarrow> string \<Rightarrow> string \<Rightarrow> ('n \<times> 'w, string \<times> err) go"
    and delete :: "'w http \<Rightarrow> string \<Rightarrow> ('n \<times> 'w, err) go"
    and publish :: "'w http \<Rightarrow> string \<Rightarrow> ('n \<times> 'w, err) go"
    and unpublish :: "'w http \<Rightarrow> string \<Rightarrow> ('n \<times> 'w, err) go"
    and volinfo :: "'w http \<Rightarrow> string \<Rightarrow> ('n \<times> 'w, smap \<times> err) go"
  assumes same_refl [simp]: "conforms http view n \<Longrightarrow> same n n"
    and same_trans: "same n n' \<Longrightarrow> same n' n'' \<Longrightarrow> same n n''"
    and same_conforms: "same n n' \<Longrightarrow> conforms http view n \<Longrightarrow> conforms http view n'"
    and same_ep: "same n n' \<Longrightarrow> ep n' = ep n"
    and same_pub: "same n n' \<Longrightarrow> pub n' = pub n"
    and same_info: "same n n' \<Longrightarrow> info n' = info n"
    and pub_add [simp]: "pub n (add_bdev a b t) = pub n t"
    and pub_del [simp]: "pub n (del_bdev i t) = pub n t"
    and stores_wp: "\<lbrakk>conforms http view n;
        \<And>n' w'. same n n' \<Longrightarrow> view w' = view w \<Longrightarrow> Qs (map LvStore_of_reply (tg_lvstores (view w (ep n))), None) (n', w')\<rbrakk>
      \<Longrightarrow> go_wp (stores http) Qs E (n, w)"
    and getv_wp: "\<lbrakk>conforms http view n;
        \<And>n' w'. same n n' \<Longrightarrow> view w' = view w \<Longrightarrow> Q (get_spec lvs name (view w (ep n))) (n', w')\<rbrakk>
      \<Longrightarrow> go_wp (getv http name lvs) Q E (n, w)"
    and create_wp: "\<lbrakk>conforms http view n;
        \<And>r t' n' w'. same n n' \<Longrightarrow> view w' = (view w)(ep n := t') \<Longrightarrow>
          create_spec lvs name (view w (ep n)) r t' \<Longrightarrow> Q r (n', w')\<rbrakk>
      \<Longrightarrow> go_wp (create http name lvs sz) Q E (n, w)"
    and clone_wp: "\<lbrakk>conforms http view n; lvstore_of (view w (ep n)) src = (lvs, None);
        \<And>r t' n' w'. same n n' \<Longrightarrow> view w' = (view w)(ep n := t') \<Longrightarrow>
          create_spec lvs name (view w (ep n)) r t' \<Longrightarrow> Q r (n', w')\<rbrakk>
      \<Longrightarrow> go_wp (clone http name lvs src) Q E (n, w)"
    and snapshot_wp: "\<lbrakk>conforms http view n;
        \<And>r t' n' w'. same n n' \<Longrightarrow> view w' = (view w)(ep n := t') \<Longrightarrow>
          snapshot_spec src name (view w (ep n)) r t' \<Longrightarrow> Q r (n', w')\<rbrakk>
      \<Longrightarrow> go_wp (snapshot http src name) Q E (n, w)"
    and delete_wp: "\<lbrakk>conforms http view n;
        \<And>e t' n' w'. same n n' \<Longrightarrow> view w' = (view w)(ep n := t') \<Longrightarrow>
          delete_spec (may_refuse http view (ep n)) i (view w (ep n)) e t' \<Longrightarrow> Qe e (n', w')\<rbrakk>
      \<Longrightarrow> go_wp (delete http i) Qe E (n, w)"
    and publish_wp: "\<lbrakk>conforms http view n;
        \<And>e t' n' w'. same n n' \<Longrightarrow> view w' = (view w)(ep n := t') \<Longrightarrow>
          publish_spec (pub n) (srv n) i (view w (ep n)) e t' \<Longrightarrow> Qe e (n', w')\<rbrakk>
      \<Longrightarrow> go_wp (publish http i) Qe E (n, w)"
    and unpublish_wp: "\<lbrakk>conforms http view n;
        \<And>e t' n' w'. same n n' \<Longrightarrow> view w' = (view w)(ep n := t') \<Longrightarrow>
          unpublish_spec (pub n) i (view w (ep n)) e t' \<Longrightarrow> Qe e (n', w')\<rbrakk>
      \<Longrightarrow> go_wp (unpublish http i) Qe E (n, w)"
    and volinfo_wp: "\<lbrakk>conforms http view n;
        \<And>n' w'. same n n' \<Longrightarrow> view w' = view w \<Longrightarrow> Qi (info n (view w (ep n)) i) (n', w')\<rbrakk>
      \<Longrightarrow> go_wp (volinfo http i) Qi E (n, w)"
    and srv_pub: "srv n t i \<Longrightarrow> pub n t i"
    and srv_add [simp]: "srv n (add_bdev a b t) = srv n t"
begin

lemma op_wp:
  assumes c: "conforms http view n"
    and Q: "\<And>e t' n' w'. same n n' \<Longrightarrow> view w' = (view w)(ep n := t') \<Longrightarrow> tg_bdev t' = tg_bdev (view w (ep n)) \<Longrightarrow>
      abs_op (dom (tg_bdev (view w (ep n)))) {i. pub n (view w (ep n)) i} op e {i. pub n t' i} \<Longrightarrow> Q e (n', w')"
  shows "go_wp (case op of Publish i \<Rightarrow> publish http i | Unpublish i \<Rightarrow> unpublish http i) Q E (n, w)"
proof (cases op)
  case (Publish i)
  have spec: "abs_op (dom (tg_bdev t)) {i. pub n t i} (Publish i) e {i. pub n t' i}"
    if "publish_spec (pub n) (srv n) i t e t'" for t e t'
    using that by (auto simp: publish_spec_def dom_def split: if_splits)
  show ?thesis
    unfolding Publish node_op.case
    by (rule publish_wp [OF c], rule Q, assumption, assumption, simp add: publish_spec_def, unfold Publish, rule spec)
next
  case (Unpublish i)
  have spec: "abs_op (dom (tg_bdev t)) {i. pub n t i} (Unpublish i) e {i. pub n t' i}"
    if "unpublish_spec (pub n) i t e t'" for t e t'
    using that by (auto simp: unpublish_spec_def dom_def split: if_splits)
  show ?thesis
    unfolding Unpublish node_op.case
    by (rule unpublish_wp [OF c], rule Q, assumption, assumption, simp add: unpublish_spec_def, unfold Unpublish, rule spec)
qed

theorem session_wp:
  assumes "conforms http view n"
    and "\<And>es t' n' w'. same n n' \<Longrightarrow> view w' = (view w)(ep n := t') \<Longrightarrow>
      tg_bdev t' = tg_bdev (view w (ep n)) \<Longrightarrow>
      abs_run (dom (tg_bdev (view w (ep n)))) {i. pub n (view w (ep n)) i} ops es {i. pub n t' i} \<Longrightarrow> Q es (n', w')"
  shows "go_wp (run_ops (publish http) (unpublish http) ops) Q E (n, w)"
  using assms
proof (induction ops arbitrary: n w Q)
  case Nil
  then show ?case by (metis (no_types, lifting) abs_nil fun_upd_triv go_wp_return run_ops.simps(1) same_refl)
next
  case (Cons op ops)
  show ?case
    unfolding run_ops.simps go_wp_bind
  proof (rule op_wp [OF Cons.prems(1)])
    fix e t' n' w' assume s: "same n n'" and v: "view w' = (view w)(ep n := t')"
      and b: "tg_bdev t' = tg_bdev (view w (ep n))"
      and op: "abs_op (dom (tg_bdev (view w (ep n)))) {i. pub n (view w (ep n)) i} op e {i. pub n t' i}"
    show "go_wp (run_ops (publish http) (unpublish http) ops) (\<lambda>x. go_wp (go_return (e # x)) Q E) E (n', w')"
    proof (rule Cons.IH [OF same_conforms [OF s Cons.prems(1)]], unfold go_wp_return)
      fix es u n'' w''
      assume "same n' n''" "view w'' = (view w')(ep n' := u)" "tg_bdev u = tg_bdev (view w' (ep n'))"
        "abs_run (dom (tg_bdev (view w' (ep n')))) {i. pub n' (view w' (ep n')) i} ops es {i. pub n' u i}"
      with s v b op show "Q (e # es) (n'', w'')"
        by (intro Cons.prems(2) [of n'' w'' u]) (auto simp: same_ep same_pub intro: same_trans abs_cons)
    qed
  qed
qed

lemma session_total:
  assumes "conforms http view n"
  shows "\<exists>es n' w'. run_ops (publish http) (unpublish http) ops (n, w) = (Ret es, n', w') \<and>
     tg_bdev (view w' (ep n)) = tg_bdev (view w (ep n)) \<and> (\<forall>e. e \<noteq> ep n \<longrightarrow> view w' e = view w e) \<and>
     abs_run (dom (tg_bdev (view w (ep n)))) {i. pub n (view w (ep n)) i} ops es {i. pub n (view w' (ep n)) i}"
proof -
  have "go_wp (run_ops (publish http) (unpublish http) ops)
      (\<lambda>es (n', w'). tg_bdev (view w' (ep n)) = tg_bdev (view w (ep n)) \<and> (\<forall>e. e \<noteq> ep n \<longrightarrow> view w' e = view w e) \<and>
         abs_run (dom (tg_bdev (view w (ep n)))) {i. pub n (view w (ep n)) i} ops es {i. pub n (view w' (ep n)) i})
      (\<lambda>_ _. False) (n, w)"
    by (rule session_wp [OF assms]) simp
  from go_wp_runD [OF this] show ?thesis by auto
qed

text \<open>A volume published once stays published by every further publish request, which changes nothing.\<close>

lemma publish_again:
  assumes c: "conforms http view n" and p: "pub n (view w (ep n)) i" and b: "tg_bdev (view w (ep n)) i \<noteq> None"
  shows "\<exists>n' w'. publish http i (n, w) = (Ret None, n', w') \<and> view w' = view w"
proof -
  have "go_wp (publish http i) (\<lambda>e (n', w'). e = None \<and> view w' = view w) (\<lambda>_ _. False) (n, w)"
    by (rule publish_wp [OF c]) (use p b in \<open>auto simp: publish_spec_def\<close>)
  from go_wp_runD [OF this] show ?thesis by auto
qed

end

section \<open>The NVMe-oF node\<close>

definition nv_conforms :: "'w http \<Rightarrow> ('w \<Rightarrow> endpoint \<Rightarrow> target) \<Rightarrow> nodeNVMf \<Rightarrow> bool" where
  "nv_conforms http view n \<longleftrightarrow> nvmf_ok http view n \<and> lvol_ok http (endpoint (nv_client n)) view"

definition nv_info :: "nodeNVMf \<Rightarrow> target \<Rightarrow> string \<Rightarrow> smap \<times> err" where
  "nv_info n t i = (case tg_bdev t i of
     None \<Rightarrow> (Map.empty, Some ErrJSONNoSuchDevice)
   | Some b \<Rightarrow> (case lvstore_of t i of
       (_, Some e) \<Rightarrow> (Map.empty, Some e)
     | (lvs, None) \<Rightarrow>
         ([''targetType'' \<mapsto> nv_targetType n, ''targetAddr'' \<mapsto> nv_targetAddr n,
           ''targetPort'' \<mapsto> nv_targetPort n, ''nqn'' \<mapsto> nodeNVMf_getVolumeNqn i,
           ''model'' \<mapsto> nodeNVMf_getVolumeModel i,
           ''lvolSize'' \<mapsto> strconv_FormatInt (BlockSize b * NumBlocks b), ''lvstore'' \<mapsto> lvs], None)))"

lemma wp_nv_VolumeInfo:
  assumes c: "nv_conforms http view n"
    and Q: "\<And>n' w'. nv_same n n' \<Longrightarrow> view w' = view w \<Longrightarrow> Q (nv_info n (nv_target view n w) i) (n', w')"
  shows "go_wp (nodeNVMf_VolumeInfo http i) Q E (n, w)"
proof -
  have ok: "lvol_ok http (endpoint (nv_client n)) view" using c by (simp add: nv_conforms_def)
  let ?t = "nv_target view n w"
  obtain lvs e where l: "lvstore_of ?t i = (lvs, e)" by (cases "lvstore_of ?t i")
  show ?thesis
    unfolding nodeNVMf_VolumeInfo_def
    apply (rule nv_lvol.wp_lookup [OF ok])
    subgoal for b c w'
      apply (simp, rule wp_getLvstore [where view = view])
      subgoal using lvol_ok_queries [OF ok] by simp
      subgoal using Q by (cases e) (auto simp: l nv_info_def)
      done
    subgoal using Q by (simp add: nv_info_def)
    done
qed

lemma nv_getVolumeNqn_inj [simp]: "nodeNVMf_getVolumeNqn i = nodeNVMf_getVolumeNqn j \<longleftrightarrow> i = j"
  by (simp add: nodeNVMf_getVolumeNqn_def nodeNVMf_getVolumeModel_def)

text \<open>The volume's subsystem has the node's address and a namespace on the volume's bdev.\<close>

definition nv_serves :: "nodeNVMf \<Rightarrow> target \<Rightarrow> string \<Rightarrow> bool" where
  "nv_serves n t i \<longleftrightarrow> (case tg_subs t (nodeNVMf_getVolumeNqn i) of
     None \<Rightarrow> False
   | Some s \<Rightarrow> nv_address n \<in> set (sub_listeners s) \<and> i \<in> BdevName ` set (sub_ns s))"

lemma nv_publish_spec:
  assumes "nv_publish_post n i t e t'" shows "publish_spec (nv_published n) (nv_serves n) i t e t'"
proof (cases "tg_bdev t i = None \<or> nv_published n t i")
  case True
  with assms show ?thesis by (auto simp: nv_publish_post_def publish_spec_def)
next
  case False
  then show ?thesis
    using assms by (cases e)
      (auto simp: nv_publish_post_def publish_spec_def nv_published_def nv_serves_def set_sub_def split: option.splits)
qed

lemma nv_unpublish_spec:
  "nv_unpublish_post n i t e t' \<Longrightarrow> unpublish_spec (nv_published n) i t e t'"
  by (auto simp: nv_unpublish_post_def unpublish_spec_def nv_published_def split: if_splits option.splits)

lemma nv_published_bdev [simp]:
  "nv_published n (add_bdev a b t) = nv_published n t" "nv_published n (del_bdev i t) = nv_published n t"
  by (simp_all add: nv_published_def add_bdev_def del_bdev_def fun_eq_iff)

interpretation nv: volume_node nv_conforms "\<lambda>n. endpoint (nv_client n)" nv_same nv_published nv_serves nv_info
  nodeNVMf_LvStores nodeNVMf_GetVolume nodeNVMf_CreateVolume nodeNVMf_CloneVolume nodeNVMf_CreateSnapshot
  nodeNVMf_DeleteVolume nodeNVMf_PublishVolume nodeNVMf_UnpublishVolume nodeNVMf_VolumeInfo
proof (unfold_locales, goal_cases)
  case (3 n n' http view) then show ?case by (auto simp: nv_conforms_def nv_same_ok nv_same_endpoint)
next
  case (9 http view n w Q E)
  then show ?case unfolding nodeNVMf_LvStores_def by (intro nv_lvol.wp_stores [where view = view]) (auto simp: nv_conforms_def)
next
  case (10 http view n w Q lvs name E)
  then show ?case unfolding nodeNVMf_GetVolume_def by (intro nv_lvol.wp_get [where view = view]) (auto simp: nv_conforms_def)
next
  case (11 http view n w lvs name Q sz E)
  then show ?case unfolding nodeNVMf_CreateVolume_def by (intro nv_lvol.wp_create [where view = view]) (auto simp: nv_conforms_def)
next
  case (12 http view n w src lvs name Q E)
  then show ?case unfolding nodeNVMf_CloneVolume_def by (intro nv_lvol.wp_clone [where view = view]) (auto simp: nv_conforms_def)
next
  case (13 http view n w src name Q E)
  then show ?case unfolding nodeNVMf_CreateSnapshot_def by (intro nv_lvol.wp_snapshot [where view = view]) (auto simp: nv_conforms_def)
next
  case (14 http view n w i Q E)
  then show ?case unfolding nodeNVMf_DeleteVolume_def by (intro nv_lvol.wp_delete [where view = view]) (auto simp: nv_conforms_def)
next
  case (15 http view n w i Q E)
  then have ok: "nvmf_ok http view n" by (simp add: nv_conforms_def)
  show ?case by (rule wp_nv_PublishVolume [OF ok], rule 15(2)) (assumption | erule nv_publish_spec)+
next
  case (16 http view n w i Q E)
  then have ok: "nvmf_ok http view n" by (simp add: nv_conforms_def)
  show ?case by (rule wp_nv_UnpublishVolume [OF ok], rule 16(2)) (assumption | erule nv_unpublish_spec)+
next
  case (17 http view n w Q i E)
  then show ?case by (intro wp_nv_VolumeInfo [where view = view])
qed (auto simp: nv_same_def nv_published_def nv_serves_def nv_address_def nv_info_def fun_eq_iff add_bdev_def del_bdev_def
       split: option.splits cong: option.case_cong)

section \<open>The iSCSI node\<close>

definition is_conforms :: "'w http \<Rightarrow> ('w \<Rightarrow> endpoint \<Rightarrow> target) \<Rightarrow> nodeISCSI \<Rightarrow> bool" where
  "is_conforms http view n \<longleftrightarrow> iscsi_ok http view n \<and> lvol_ok http (endpoint (is_client n)) view"

definition is_published :: "nodeISCSI \<Rightarrow> target \<Rightarrow> string \<Rightarrow> bool" where
  "is_published n t i \<longleftrightarrow> i \<in> tg_tnodes t"

definition is_info :: "nodeISCSI \<Rightarrow> target \<Rightarrow> string \<Rightarrow> smap \<times> err" where
  "is_info n t i =
     (if tg_bdev t i = None then (Map.empty, Some (Errorf (''volume not exists: '' @ i)))
      else (case lvstore_of t i of
         (_, Some e) \<Rightarrow> (Map.empty, Some e)
       | (lvs, None) \<Rightarrow>
           ([''targetAddr'' \<mapsto> is_targetAddr n, ''targetPort'' \<mapsto> is_targetPort n,
             ''iqn'' \<mapsto> iqnPrefixName @ i, ''targetType'' \<mapsto> ''iscsi'', ''lvstore'' \<mapsto> lvs], None)))"

lemma wp_is_VolumeInfo:
  assumes c: "is_conforms http view n"
    and Q: "\<And>n' w'. is_same n n' \<Longrightarrow> view w' = view w \<Longrightarrow> Q (is_info n (is_target view n w) i) (n', w')"
  shows "go_wp (nodeISCSI_VolumeInfo http i) Q E (n, w)"
proof -
  have ok: "iscsi_ok http view n" and lok: "lvol_ok http (endpoint (is_client n)) view"
    using c by (simp_all add: is_conforms_def)
  let ?t = "is_target view n w"
  obtain lvs e where l: "lvstore_of ?t i = (lvs, e)" by (cases "lvstore_of ?t i")
  show ?thesis
    unfolding nodeISCSI_VolumeInfo_def go_wp_bind
    apply (rule wp_is_isVolumeCreated [OF is_same_refl ok])
    apply (cases "tg_bdev ?t i")
    subgoal using Q by (simp add: is_info_def)
    apply simp
    apply (rule wp_getLvstore [where view = view])
    subgoal using lvol_ok_queries [OF lok] by (simp add: is_same_def)
    subgoal using Q by (cases e) (auto simp: l is_info_def is_same_def)
    done
qed

lemma is_publish_spec:
  assumes "is_publish_post i t e t'" shows "publish_spec (is_published n) (is_published n) i t e t'"
proof (cases "tg_bdev t i = None \<or> i \<in> tg_tnodes t")
  case True
  with assms show ?thesis by (auto simp: is_publish_post_def publish_spec_def is_published_def)
next
  case False
  then show ?thesis
    using assms unfolding is_publish_post_def publish_spec_def is_published_def by (cases e) fastforce+
qed

lemma is_unpublish_spec: "is_unpublish_post i t e t' \<Longrightarrow> unpublish_spec (is_published n) i t e t'"
  by (auto simp: is_unpublish_post_def unpublish_spec_def is_published_def split: if_splits)

interpretation isn: volume_node is_conforms "\<lambda>n. endpoint (is_client n)" is_same is_published is_published is_info
  nodeISCSI_LvStores nodeISCSI_GetVolume nodeISCSI_CreateVolume nodeISCSI_CloneVolume nodeISCSI_CreateSnapshot
  nodeISCSI_DeleteVolume nodeISCSI_PublishVolume nodeISCSI_UnpublishVolume nodeISCSI_VolumeInfo
proof (unfold_locales, goal_cases)
  case (3 n n' http view) then show ?case by (auto simp: is_conforms_def is_same_ok) (simp add: is_same_def)
next
  case (9 http view n w Q E)
  then show ?case
    unfolding nodeISCSI_LvStores_def by (intro is_lvol.wp_stores [where view = view]) (auto simp: is_conforms_def)
next
  case (10 http view n w Q lvs name E)
  then show ?case
    unfolding nodeISCSI_GetVolume_def by (intro is_lvol.wp_get [where view = view]) (auto simp: is_conforms_def)
next
  case (11 http view n w lvs name Q sz E)
  then show ?case
    unfolding nodeISCSI_CreateVolume_def by (intro is_lvol.wp_create [where view = view]) (auto simp: is_conforms_def)
next
  case (12 http view n w src lvs name Q E)
  then show ?case
    unfolding nodeISCSI_CloneVolume_def by (intro is_lvol.wp_clone [where view = view]) (auto simp: is_conforms_def)
next
  case (13 http view n w src name Q E)
  then show ?case
    unfolding nodeISCSI_CreateSnapshot_def
    by (intro is_lvol.wp_snapshot [where view = view]) (auto simp: is_conforms_def)
next
  case (14 http view n w i Q E)
  then show ?case
    unfolding nodeISCSI_DeleteVolume_def by (intro is_lvol.wp_delete [where view = view]) (auto simp: is_conforms_def)
next
  case (15 http view n w i Q E)
  then have ok: "iscsi_ok http view n" by (simp add: is_conforms_def)
  show ?case by (rule wp_is_PublishVolume [OF ok], rule 15(2)) (assumption | erule is_publish_spec)+
next
  case (16 http view n w i Q E)
  then have ok: "iscsi_ok http view n" by (simp add: is_conforms_def)
  show ?case by (rule wp_is_UnpublishVolume [OF ok], rule 16(2)) (assumption | erule is_unpublish_spec)+
next
  case (17 http view n w Q i E)
  then show ?case by (intro wp_is_VolumeInfo [where view = view])
qed (auto simp: is_same_def is_published_def is_info_def fun_eq_iff add_bdev_def del_bdev_def
       split: prod.splits option.splits)

section \<open>The interface value\<close>

fun sn_conforms :: "'w http \<Rightarrow> ('w \<Rightarrow> endpoint \<Rightarrow> target) \<Rightarrow> SpdkNode option \<Rightarrow> bool" where
  "sn_conforms http view None = False"
| "sn_conforms http view (Some (NodeNVMf x)) = nv_conforms http view x"
| "sn_conforms http view (Some (NodeISCSI x)) = is_conforms http view x"

fun sn_endpoint :: "SpdkNode option \<Rightarrow> endpoint" where
  "sn_endpoint None = ([], [], [])"
| "sn_endpoint (Some (NodeNVMf x)) = endpoint (nv_client x)"
| "sn_endpoint (Some (NodeISCSI x)) = endpoint (is_client x)"

fun sn_same :: "SpdkNode option \<Rightarrow> SpdkNode option \<Rightarrow> bool" where
  "sn_same (Some (NodeNVMf x)) (Some (NodeNVMf y)) = nv_same x y"
| "sn_same (Some (NodeISCSI x)) (Some (NodeISCSI y)) = is_same x y"
| "sn_same _ _ = False"

fun sn_published :: "SpdkNode option \<Rightarrow> target \<Rightarrow> string \<Rightarrow> bool" where
  "sn_published None = (\<lambda>t i. False)"
| "sn_published (Some (NodeNVMf x)) = nv_published x"
| "sn_published (Some (NodeISCSI x)) = is_published x"

fun sn_serves :: "SpdkNode option \<Rightarrow> target \<Rightarrow> string \<Rightarrow> bool" where
  "sn_serves None = (\<lambda>t i. False)"
| "sn_serves (Some (NodeNVMf x)) = nv_serves x"
| "sn_serves (Some (NodeISCSI x)) = is_published x"

fun sn_info :: "SpdkNode option \<Rightarrow> target \<Rightarrow> string \<Rightarrow> smap \<times> err" where
  "sn_info None = (\<lambda>t i. (Map.empty, None))"
| "sn_info (Some (NodeNVMf x)) = nv_info x"
| "sn_info (Some (NodeISCSI x)) = is_info x"

text \<open>A call through the interface runs the method of what the interface value holds.\<close>

lemma wp_dispatch:
  "go_wp (node_dispatch f g) Q E (Some (NodeNVMf x), w) =
     go_wp f (\<lambda>r (x', w'). Q r (Some (NodeNVMf x'), w')) (\<lambda>s (x', w'). E s (Some (NodeNVMf x'), w')) (x, w)"
  "go_wp (node_dispatch f g) Q E (Some (NodeISCSI y), w) =
     go_wp g (\<lambda>r (x', w'). Q r (Some (NodeISCSI x'), w')) (\<lambda>s (x', w'). E s (Some (NodeISCSI x'), w')) (y, w)"
  by (simp_all add: go_wp_def node_dispatch_def split: prod.split outcome.split)

lemma sn_cases:
  assumes "sn_conforms http view n"
  obtains (nvmf) x where "n = Some (NodeNVMf x)" "nv_conforms http view x"
    | (iscsi) x where "n = Some (NodeISCSI x)" "is_conforms http view x"
  using assms by (cases "(http, view, n)" rule: sn_conforms.cases) auto

lemma sn_same_cases:
  assumes "sn_same n n'"
  obtains (nvmf) x y where "n = Some (NodeNVMf x)" "n' = Some (NodeNVMf y)" "nv_same x y"
    | (iscsi) x y where "n = Some (NodeISCSI x)" "n' = Some (NodeISCSI y)" "is_same x y"
  using assms by (cases "(n, n')" rule: sn_same.cases) auto

lemma sn_published_bdev [simp]:
  "sn_published n (add_bdev a b t) = sn_published n t" "sn_published n (del_bdev i t) = sn_published n t"
  by (cases n rule: sn_published.cases; simp)+

lemma sn_serves_laws:
  "sn_serves n t i \<Longrightarrow> sn_published n t i" "sn_serves n (add_bdev a b t) = sn_serves n t"
  by (cases n rule: sn_serves.cases; simp add: nv.srv_pub)+

interpretation sn: volume_node sn_conforms sn_endpoint sn_same sn_published sn_serves sn_info
  SpdkNode_LvStores SpdkNode_GetVolume SpdkNode_CreateVolume SpdkNode_CloneVolume SpdkNode_CreateSnapshot
  SpdkNode_DeleteVolume SpdkNode_PublishVolume SpdkNode_UnpublishVolume SpdkNode_VolumeInfo
proof (unfold_locales, goal_cases)
  case (1 http view n) then show ?case by (cases rule: sn_cases) auto
next
  case (2 n n' n'') then show ?case
    by (cases rule: sn_same_cases; cases n''; cases "the n''"; auto simp: nv_same_def is_same_def)
next
  case (3 n n' http view)
  then show ?case by (cases rule: sn_same_cases) (auto intro: nv.same_conforms isn.same_conforms)
next
  case (4 n n') then show ?case by (cases rule: sn_same_cases) (auto simp: nv_same_def is_same_def)
next
  case (5 n n')
  then show ?case by (cases rule: sn_same_cases) (auto simp: fun_eq_iff nv.same_pub isn.same_pub)
next
  case (6 n n')
  then show ?case by (cases rule: sn_same_cases) (auto simp: fun_eq_iff nv.same_info isn.same_info)
next
  case (9 http view n w Q E)
  show ?case unfolding SpdkNode_LvStores_def
    by (rule sn_cases [OF 9(1)]; simp add: wp_dispatch; erule nv.stores_wp isn.stores_wp; use 9(2) in simp)
next
  case (10 http view n w Q lvs name E)
  show ?case unfolding SpdkNode_GetVolume_def
    by (rule sn_cases [OF 10(1)]; simp add: wp_dispatch; erule nv.getv_wp isn.getv_wp; use 10(2) in simp)
next
  case (11 http view n w lvs name Q sz E)
  show ?case unfolding SpdkNode_CreateVolume_def
    by (rule sn_cases [OF 11(1)]; simp add: wp_dispatch; erule nv.create_wp isn.create_wp; use 11(2) in simp)
next
  case (12 http view n w src lvs name Q E)
  show ?case unfolding SpdkNode_CloneVolume_def
    by (rule sn_cases [OF 12(1)]; simp add: wp_dispatch; erule nv.clone_wp isn.clone_wp; use 12(2,3) in simp)
next
  case (13 http view n w src name Q E)
  show ?case unfolding SpdkNode_CreateSnapshot_def
    by (rule sn_cases [OF 13(1)]; simp add: wp_dispatch; erule nv.snapshot_wp isn.snapshot_wp; use 13(2) in simp)
next
  case (14 http view n w i Q E)
  show ?case unfolding SpdkNode_DeleteVolume_def
    by (rule sn_cases [OF 14(1)]; simp add: wp_dispatch; erule nv.delete_wp isn.delete_wp; use 14(2) in simp)
next
  case (15 http view n w i Q E)
  show ?case unfolding SpdkNode_PublishVolume_def
    by (rule sn_cases [OF 15(1)]; simp add: wp_dispatch; erule nv.publish_wp isn.publish_wp; use 15(2) in simp)
next
  case (16 http view n w i Q E)
  show ?case unfolding SpdkNode_UnpublishVolume_def
    by (rule sn_cases [OF 16(1)]; simp add: wp_dispatch; erule nv.unpublish_wp isn.unpublish_wp; use 16(2) in simp)
next
  case (17 http view n w Q i E)
  show ?case unfolding SpdkNode_VolumeInfo_def
    by (rule sn_cases [OF 17(1)]; simp add: wp_dispatch; erule nv.volinfo_wp isn.volinfo_wp; use 17(2) in simp)
qed (fact sn_published_bdev sn_serves_laws)+

end
