(* ===== verification/Target_Sim.thy ===== *)
theory Target_Sim
  imports Node_Interface
begin

text \<open>
  An executable SPDK target: it parses the request body, carries out the method on a small store and
  prints the reply. It satisfies every clause of the contracts of the storage nodes, at every
  endpoint, so the hypotheses of the properties about nodes and controllers can hold.
\<close>

section \<open>The store\<close>

record sim =
  sm_stores :: "lvstore_reply list"
  sm_bdevs :: "(string \<times> BDev) list"
  sm_trans :: "string list"
  sm_subs :: "(string \<times> nvmf_subsystem) list"
  sm_pgs :: "int64 list"
  sm_igs :: "int64 list"
  sm_tnodes :: "string list"

definition sim_target :: "sim \<Rightarrow> target" where
  "sim_target s = \<lparr>tg_lvstores = sm_stores s, tg_bdev = map_of (sm_bdevs s), tg_transports = set (sm_trans s),
     tg_subs = map_of (sm_subs s), tg_pgs = sint ` set (sm_pgs s), tg_igs = sint ` set (sm_igs s),
     tg_tnodes = set (sm_tnodes s)\<rparr>"

type_synonym sim_world = "endpoint \<Rightarrow> sim"

definition sim_view :: "sim_world \<Rightarrow> endpoint \<Rightarrow> target" where
  "sim_view w = (\<lambda>ep. sim_target (w ep))"

text \<open>Removing a key, and the entries without duplicates.\<close>

definition drop_key :: "'a \<Rightarrow> ('a \<times> 'b) list \<Rightarrow> ('a \<times> 'b) list" where
  "drop_key k xs = filter (\<lambda>(k', _). k' \<noteq> k) xs"

lemma map_of_drop_key [simp]: "map_of (drop_key k xs) = (map_of xs)(k := None)"
  by (induction xs) (auto simp: drop_key_def fun_eq_iff)

function dedup :: "('a \<times> 'b) list \<Rightarrow> ('a \<times> 'b) list" where
  "dedup [] = []"
| "dedup ((k, v) # xs) = (k, v) # dedup (drop_key k xs)"
  by pat_completeness auto
termination
  by (relation "measure length") (simp_all add: drop_key_def le_imp_less_Suc)

section \<open>Documents\<close>

definition enc_lvstore :: "lvstore_reply \<Rightarrow> json" where
  "enc_lvstore r = JObj [(''free_clusters'', jint (sint (FreeClusters r))),
     (''cluster_size'', jint (sint (ClusterSize r))), (''total_data_clusters'', jint (sint (TotalClusters r))),
     (''name'', JStr (lr_Name r)), (''uuid'', JStr (lr_UUID r))]"

definition enc_bdev :: "BDev \<Rightarrow> json" where
  "enc_bdev b = JObj [(''name'', JStr (bd_Name b)), (''uuid'', JStr (bd_UUID b)),
     (''block_size'', jint (sint (BlockSize b))), (''num_blocks'', jint (sint (NumBlocks b))),
     (''driver_specific'', (case DriverSpecific b of None \<Rightarrow> JNull
        | Some u \<Rightarrow> JObj [(''lvol'', JObj [(''lvol_store_uuid'', JStr u)])]))]"

definition enc_listener :: "listen_address \<Rightarrow> json" where
  "enc_listener a = JObj [(''address'', JObj [(''trtype'', JStr (TrType a)), (''adrfam'', JStr (AdrFam a)),
     (''traddr'', JStr (TrAddr a)), (''trsvcid'', JStr (TrSvcID a))])]"

definition enc_ns :: "ns_reply \<Rightarrow> json" where
  "enc_ns n = JObj [(''nsid'', jint (sint (NSID n))), (''bdev_name'', JStr (BdevName n))]"

definition enc_subsystem :: "string \<times> nvmf_subsystem \<Rightarrow> json" where
  "enc_subsystem = (\<lambda>(nqn, s). JObj [(''nqn'', JStr nqn), (''namespaces'', JArr (map enc_ns (sub_ns s)))])"

definition enc_tnode :: "string \<Rightarrow> json" where
  "enc_tnode i = JObj [(''name'', JStr (iqnPrefixName @ i)), (''alias_name'', JStr i)]"

definition enc_tag :: "int64 \<Rightarrow> json" where
  "enc_tag t = JObj [(''tag'', jint (sint t))]"

lemmas enc_defs = enc_lvstore_def enc_bdev_def enc_listener_def enc_ns_def enc_subsystem_def enc_tnode_def enc_tag_def

lemma wf_enc [simp]: "wf_json (enc_lvstore r)" "wf_json (enc_bdev b)" "wf_json (enc_listener a)"
    "wf_json (enc_ns n)" "wf_json (enc_tnode i)" "wf_json (enc_tag t)"
  by (auto simp: enc_defs split: option.split)

lemma wf_enc_subsystem [simp]: "wf_json (enc_subsystem x)"
  by (auto simp: enc_subsystem_def split: prod.split)

lemma dec_int64_sint [simp]: "dec_int64 (jint (sint v)) z = (v, None)"
  using sint_ge [of v] sint_lt [of v] by (simp add: dec_int64_jint)

lemma dec_elems_map: "(\<And>x. x \<in> set xs \<Longrightarrow> d (f x) z = (g x, None)) \<Longrightarrow> dec_elems z d (map f xs) = (map g xs, None)"
  by (induction xs) auto

lemma dec_enc [simp]:
  "dec_lvstore_reply (enc_lvstore r) zero_lvstore_reply = (r, None)"
  "dec_BDev (enc_bdev b) zero_BDev = (b, None)"
  "dec_listener (enc_listener a) zero_listen_address = (a, None)"
  "dec_ns (enc_ns n) \<lparr>NSID = 0, BdevName = []\<rparr> = (n, None)"
  "dec_target_node (enc_tnode i) \<lparr>tn_Name = [], tn_AliasName = []\<rparr> = (\<lparr>tn_Name = iqnPrefixName @ i, tn_AliasName = i\<rparr>, None)"
  "dec_tag (enc_tag t) 0 = (t, None)"
  by (simp_all add: enc_defs dec_lvstore_reply_def zero_lvstore_reply_def dec_BDev_def zero_BDev_def dec_listener_def
      zero_listen_address_def dec_ns_def dec_target_node_def dec_tag_def find_field_def fld_def dec_ptr_def
      split: option.split)

lemma dec_enc_subsystem [simp]:
  "dec_subsystem (enc_subsystem x) \<lparr>sub_Nqn = [], sub_Namespace = []\<rparr> =
     (\<lparr>sub_Nqn = fst x, sub_Namespace = sub_ns (snd x)\<rparr>, None)"
  using dec_elems_map [of "sub_ns (snd x)" dec_ns enc_ns "\<lparr>NSID = 0, BdevName = []\<rparr>" "\<lambda>y. y"]
  by (cases x) (simp add: enc_subsystem_def dec_subsystem_def find_field_def fld_def)

section \<open>The methods\<close>

definition fresh_name :: "(string \<times> 'b) list \<Rightarrow> string" where
  "fresh_name xs = replicate (Suc (foldr (max \<circ> length \<circ> fst) xs 0)) CHR ''u''"

definition invalid_params :: "sim \<Rightarrow> rpc_reply \<times> sim" where
  "invalid_params s = (RErr (-32602) ''Invalid parameters'', s)"

definition no_device :: "sim \<Rightarrow> rpc_reply \<times> sim" where
  "no_device s = (RErr (-19) ''No such device'', s)"

definition sim_new :: "string \<Rightarrow> lvstore_reply \<Rightarrow> sim \<Rightarrow> rpc_reply \<times> sim" where
  "sim_new alias l s = (let u = fresh_name (sm_bdevs s);
       b = \<lparr>bd_Name = u, bd_UUID = u, BlockSize = 512, NumBlocks = 2048, DriverSpecific = Some (lr_UUID l)\<rparr>
     in (ROk (JStr u), s\<lparr>sm_bdevs := (alias, b) # (u, b) # sm_bdevs s\<rparr>))"

definition sim_copy :: "string \<Rightarrow> string \<Rightarrow> sim \<Rightarrow> rpc_reply \<times> sim" where
  "sim_copy src name s = (case lvstore_of (sim_target s) src of
     (lvs, None) \<Rightarrow> (case find (\<lambda>l. lr_Name l = lvs) (sm_stores s) of
        Some l \<Rightarrow> sim_new (lvol_alias lvs name) l s | None \<Rightarrow> no_device s)
   | (_, Some _) \<Rightarrow> no_device s)"

definition sim_sub :: "string \<Rightarrow> (nvmf_subsystem \<Rightarrow> rpc_reply \<times> sim) \<Rightarrow> sim \<Rightarrow> rpc_reply \<times> sim" where
  "sim_sub nqn f s = (case map_of (sm_subs s) nqn of None \<Rightarrow> invalid_params s | Some x \<Rightarrow> f x)"

definition put_sub :: "string \<Rightarrow> nvmf_subsystem \<Rightarrow> sim \<Rightarrow> sim" where
  "put_sub nqn x s = s\<lparr>sm_subs := (nqn, x) # sm_subs s\<rparr>"

definition sim_lvol :: "string \<Rightarrow> json option \<Rightarrow> sim \<Rightarrow> rpc_reply \<times> sim" where
  "sim_lvol m args s =
    (case args of
       None \<Rightarrow> (ROk (JArr (map enc_lvstore (sm_stores s))), s)
     | Some (JObj [(_, JStr n)]) \<Rightarrow> (case map_of (sm_bdevs s) n of
         None \<Rightarrow> no_device s
       | Some b \<Rightarrow> if m = ''bdev_get_bdevs'' then (ROk (JArr [enc_bdev b]), s)
                   else (ROk (JBool True), s\<lparr>sm_bdevs := filter (\<lambda>(k, _). map_of (sm_bdevs s) k \<noteq> Some b) (sm_bdevs s)\<rparr>))
     | Some (JObj [(_, JStr n), (_, JStr src)]) \<Rightarrow>
         if m = ''bdev_lvol_clone'' then sim_copy src n s else sim_copy n src s
     | Some (JObj [(_, JStr n), _, (_, JStr lvs), _, _]) \<Rightarrow>
         (case find (\<lambda>l. lr_Name l = lvs) (sm_stores s) of
            Some l \<Rightarrow> sim_new (lvol_alias lvs n) l s | None \<Rightarrow> no_device s)
     | _ \<Rightarrow> invalid_params s)"

definition sim_nvmf :: "string \<Rightarrow> json option \<Rightarrow> sim \<Rightarrow> rpc_reply \<times> sim" where
  "sim_nvmf m args s =
    (case args of
       None \<Rightarrow> (ROk (JArr (map enc_subsystem (dedup (sm_subs s)))), s)
     | Some (JObj [(_, JStr n)]) \<Rightarrow>
         if m = ''nvmf_create_transport'' then
           (if n \<in> set (sm_trans s) then (RErr (- 32602) ''already exists'', s)
            else (ROk (JBool True), s\<lparr>sm_trans := n # sm_trans s\<rparr>))
         else sim_sub n (\<lambda>x. if m = ''nvmf_subsystem_get_listeners''
            then (ROk (JArr (map enc_listener (sub_listeners x))), s)
            else (ROk (JBool True), s\<lparr>sm_subs := drop_key n (sm_subs s)\<rparr>)) s
     | Some (JObj [(_, JStr n), (_, JObj [(_, JStr bdev)])]) \<Rightarrow> sim_sub n (\<lambda>x.
         if sub_ns x = [] then (ROk (jint 1), put_sub n (x\<lparr>sub_ns := [\<lparr>NSID = 1, BdevName = bdev\<rparr>]\<rparr>) s)
         else invalid_params s) s
     | Some (JObj [(_, JStr n), (_, JNum v)]) \<Rightarrow> sim_sub n (\<lambda>x. (ROk (JBool True),
         put_sub n (x\<lparr>sub_ns := filter (\<lambda>y. JNum v \<noteq> jint (sint (NSID y))) (sub_ns x)\<rparr>) s)) s
     | Some (JObj [(_, JStr n), (_, JObj [(_, JStr a), (_, JStr b), (_, JStr c), (_, JStr d)])]) \<Rightarrow>
         if a \<in> set (sm_trans s)
         then sim_sub n (\<lambda>x. (ROk (JBool True), put_sub n (x\<lparr>sub_listeners := sub_listeners x @
            [\<lparr>TrType = a, AdrFam = b, TrAddr = c, TrSvcID = d\<rparr>]\<rparr>) s)) s
         else invalid_params s
     | Some (JObj [(_, JStr n), _, _, _]) \<Rightarrow>
         if map_of (sm_subs s) n = None
         then (ROk (JBool True), put_sub n \<lparr>sub_ns = [], sub_listeners = []\<rparr> s) else invalid_params s
     | _ \<Rightarrow> invalid_params s)"

definition sim_iscsi :: "string \<Rightarrow> json option \<Rightarrow> sim \<Rightarrow> rpc_reply \<times> sim" where
  "sim_iscsi m args s =
    (if m = ''iscsi_get_target_nodes'' then (ROk (JArr (map enc_tnode (sm_tnodes s))), s)
     else if m = ''iscsi_get_portal_groups'' then (ROk (JArr (map enc_tag (sm_pgs s))), s)
     else if m = ''iscsi_get_initiator_groups'' then (ROk (JArr (map enc_tag (sm_igs s))), s)
     else if m = ''iscsi_create_portal_group'' then (ROk (JBool True), s\<lparr>sm_pgs := 1 # sm_pgs s\<rparr>)
     else if m = ''iscsi_create_initiator_group'' then (ROk (JBool True), s\<lparr>sm_igs := 1 # sm_igs s\<rparr>)
     else (case args of
       Some (JObj (_ # (_, JStr n) # _)) \<Rightarrow> (ROk (JBool True), s\<lparr>sm_tnodes := n # sm_tnodes s\<rparr>)
     | Some (JObj [(_, JStr n)]) \<Rightarrow> (ROk (JBool True),
         s\<lparr>sm_tnodes := filter (\<lambda>i. iqnPrefixName @ i \<noteq> n) (sm_tnodes s)\<rparr>)
     | _ \<Rightarrow> invalid_params s))"

definition sim_step :: "string \<Rightarrow> json option \<Rightarrow> sim \<Rightarrow> rpc_reply \<times> sim" where
  "sim_step m args s =
     (if strings_HasPrefix m ''nvmf'' then sim_nvmf m args s
      else if strings_HasPrefix m ''iscsi'' then sim_iscsi m args s else sim_lvol m args s)"

definition sim_http :: "sim_world http" where
  "sim_http r w = (let ep = (hr_url r, hr_user r, hr_pass r) in
     case json_unmarshal (hr_body r) of
       Some (JObj (_ # (_, JNum i) # (_, JStr m) # rest)) \<Rightarrow>
         (let (rep, s) = sim_step m (case rest of [] \<Rightarrow> None | (_, p) # _ \<Rightarrow> Some p) (w ep)
          in (HttpResp 200 (json_text (JObj ([(''jsonrpc'', JStr ''2.0''), (''id'', JNum i)] @
                (case rep of ROk res \<Rightarrow> [(''result'', res)]
                 | RErr code msg \<Rightarrow> [(''error'', JObj [(''code'', jint code), (''message'', JStr msg)])])))),
              w(ep := s)))
     | _ \<Rightarrow> (HttpResp 400 [], w))"

section \<open>It is a conforming target\<close>

definition wf_args :: "json option \<Rightarrow> bool" where
  "wf_args args = (case args of None \<Rightarrow> True | Some p \<Rightarrow> wf_json p)"

lemma wf_args_simps [simp]: "wf_args None" "wf_args (Some p) = wf_json p"
  by (simp_all add: wf_args_def)

lemma sim_replies:
  assumes "sim_step m args (w ep) = (rep, s)" and "wf_args args"
    and "case rep of ROk r \<Rightarrow> wf_json r | RErr code _ \<Rightarrow> error_code code"
  shows "replies sim_http ep m args w rep (w(ep := s))"
proof -
  have "wf_json (request_doc m rid args)" for rid
    using assms(2) by (auto simp: request_doc_def split: option.splits)
  then have u: "json_unmarshal (json_text (request_doc m rid args)) = Some (request_doc m rid args)" for rid
    by simp
  have "wf_json (reply_doc rid rep)" for rid
    using assms(3) by (auto simp: reply_doc_def split: rpc_reply.splits)
  then have d: "json_decode (json_text (reply_doc rid rep)) = Some (reply_doc rid rep)" for rid by simp
  have doc: "request_doc m rid args = JObj ((''jsonrpc'', JStr ''2.0'') # (''id'', JNum (dec_int (sint rid))) #
      (''method'', JStr m) # (case args of None \<Rightarrow> [] | Some p \<Rightarrow> [(''params'', p)]))" for rid
    by (simp add: request_doc_def jint_def)
  have args: "(case (case args of None \<Rightarrow> [] | Some p \<Rightarrow> [(''params'', p)]) of [] \<Rightarrow> None | (_, p) # _ \<Rightarrow> Some p) = args"
    by (simp split: option.split)
  have "sim_http \<lparr>hr_url = fst ep, hr_user = fst (snd ep), hr_pass = snd (snd ep),
      hr_body = json_text (request_doc m rid args)\<rparr> w =
      (HttpResp 200 (json_text (reply_doc rid rep)), w(ep := s))" for rid
    unfolding sim_http_def http_request.simps u
    by (simp only: doc option.case json.case list.case prod.case Let_def args prod.collapse assms(1)
        reply_doc_def jint_def)
  then show ?thesis
    using assms(3) d unfolding replies_def by (auto split: rpc_reply.splits simp del: json_text.simps)
qed

lemma sim_performs:
  assumes "sim_step m args (w ep) = (ROk r, s)" and "wf_args args" and "wf_json r" and "d r z = (v, None)"
    and "sim_target s = t"
  shows "performs sim_http ep sim_view m args d z w v t"
proof -
  have "replies sim_http ep m args w (ROk r) (w(ep := s))"
    by (rule sim_replies) (use assms in simp_all)
  with assms(4,5) show ?thesis
    unfolding performs_def by (intro exI conjI) (assumption, assumption, simp add: sim_view_def fun_eq_iff)
qed

lemma sim_refuses:
  assumes "sim_step m args (w ep) = (RErr code msg, w ep)" and "wf_args args" and "error_code code"
  shows "refuses sim_http ep sim_view m args w msg"
proof -
  have "replies sim_http ep m args w (RErr code msg) (w(ep := w ep))"
    by (rule sim_replies) (use assms in simp_all)
  then show ?thesis unfolding refuses_def by auto
qed

lemma sim_attempts_ok:
  assumes "sim_step m args (w ep) = (ROk r, s)" and "wf_args args" and "wf_json r" and "d r z = (v, None)"
    and "P v (sim_target s)"
  shows "attempts sim_http ep sim_view m args d z w P"
  unfolding attempts_def using assms by (blast intro: sim_performs)

lemma sim_attempts_err:
  assumes "sim_step m args (w ep) = (RErr code msg, w ep)" and "wf_args args" and "error_code code"
  shows "attempts sim_http ep sim_view m args d z w P"
  unfolding attempts_def using assms by (blast intro: sim_refuses)

lemma error_code_sim [simp]: "error_code (-32602)" "error_code (-19)"
  by (simp_all add: error_code_def)

lemma sim_target_sel [simp]:
  "tg_lvstores (sim_target s) = sm_stores s" "tg_bdev (sim_target s) = map_of (sm_bdevs s)"
  "tg_transports (sim_target s) = set (sm_trans s)" "tg_subs (sim_target s) = map_of (sm_subs s)"
  "tg_pgs (sim_target s) = sint ` set (sm_pgs s)" "tg_igs (sim_target s) = sint ` set (sm_igs s)"
  "tg_tnodes (sim_target s) = set (sm_tnodes s)"
  by (simp_all add: sim_target_def)

lemma sim_view_at [simp]: "sim_view w ep = sim_target (w ep)"
  by (simp add: sim_view_def)

lemmas sim_run = sim_step_def strings_HasPrefix_def sim_lvol_def sim_nvmf_def sim_iscsi_def sim_sub_def
  invalid_params_def no_device_def

lemma fresh_name_not_in: "map_of xs (fresh_name xs) = None"
proof -
  have len: "(k, v) \<in> set xs \<Longrightarrow> length k \<le> foldr (max \<circ> length \<circ> fst) xs 0" for k v
    by (induction xs) auto
  have "fresh_name xs \<notin> fst ` set xs"
  proof
    assume "fresh_name xs \<in> fst ` set xs"
    then obtain v where "(fresh_name xs, v) \<in> set xs" by auto
    from len [OF this] show False by (simp add: fresh_name_def)
  qed
  then show ?thesis by (simp add: map_of_eq_None_iff)
qed

lemma fresh_name_chars: "CHR '':'' \<notin> set (fresh_name xs)" "CHR ''/'' \<notin> set (fresh_name xs)"
  by (simp_all add: fresh_name_def)

text \<open>Logical volumes.\<close>

lemma sim_lvol_queries: "lvol_queries sim_http ep sim_view"
  unfolding lvol_queries_def
proof (intro conjI allI impI)
  fix w n b assume "tg_bdev (sim_view w ep) n = Some b"
  then show "answers sim_http ep sim_view ''bdev_get_bdevs'' (name_arg n) (dec_slice zero_BDev dec_BDev) [] w [b]"
    by (intro sim_performs [where s = "w ep" and r = "JArr [enc_bdev b]"]) (simp_all add: sim_run name_arg_def)
next
  fix w n assume "tg_bdev (sim_view w ep) n = None"
  then show "refuses sim_http ep sim_view ''bdev_get_bdevs'' (name_arg n) w ''No such device''"
    by (intro sim_refuses [where code = "-19"]) (simp_all add: sim_run name_arg_def)
next
  fix w
  show "answers sim_http ep sim_view ''bdev_lvol_get_lvstores'' None (dec_slice zero_lvstore_reply dec_lvstore_reply) [] w
      (tg_lvstores (sim_view w ep))"
    using dec_elems_map [of "sm_stores (w ep)" dec_lvstore_reply enc_lvstore zero_lvstore_reply "\<lambda>x. x"]
    by (intro sim_performs [where s = "w ep" and r = "JArr (map enc_lvstore (sm_stores (w ep)))"])
      (simp_all add: sim_run)
qed

lemma map_of_filter_key: "map_of (filter (\<lambda>(k, _). P k) xs) = (\<lambda>k. if P k then map_of xs k else None)"
  by (induction xs) (auto simp: fun_eq_iff)

lemma sim_lvol_deletes: "lvol_deletes sim_http ep sim_view"
  unfolding lvol_deletes_def
proof (intro conjI allI impI)
  fix w n assume "tg_bdev (sim_view w ep) n = None"
  then show "refuses sim_http ep sim_view ''bdev_lvol_delete'' (name_arg n) w ''No such device''"
    by (intro sim_refuses [where code = "-19"]) (simp_all add: sim_run name_arg_def)
next
  fix w n assume "tg_bdev (sim_view w ep) n \<noteq> None"
  then obtain b where b: "map_of (sm_bdevs (w ep)) n = Some b" by auto
  let ?s = "(w ep)\<lparr>sm_bdevs := filter (\<lambda>(k, _). map_of (sm_bdevs (w ep)) k \<noteq> Some b) (sm_bdevs (w ep))\<rparr>"
  have "sim_target ?s = del_bdev n (sim_view w ep)"
    using b by (simp add: sim_target_def del_bdev_def map_of_filter_key fun_eq_iff)
  with b have "performs sim_http ep sim_view ''bdev_lvol_delete'' (name_arg n) dec_any () w () (del_bdev n (sim_view w ep))"
    by (intro sim_performs [where s = ?s and r = "JBool True"]) (simp_all add: sim_run name_arg_def dec_any_def)
  then show "performs sim_http ep sim_view ''bdev_lvol_delete'' (name_arg n) dec_any () w () (del_bdev n (sim_view w ep)) \<or>
      (\<exists>msg. \<not> errorMatches (Some (rpc_error ''bdev_lvol_delete'' msg)) ErrJSONNoSuchDevice \<and>
         refuses sim_http ep sim_view ''bdev_lvol_delete'' (name_arg n) w msg)" ..
qed

lemma sim_new_performs:
  assumes step: "sim_step m args (w ep) = sim_new (lvol_alias lvs name) l (w ep)" and "wf_args args"
    and l: "l \<in> set (sm_stores (w ep))" "lr_Name l = lvs"
  shows "\<exists>b. new_lvol lvs (sim_view w ep) b \<and> performs sim_http ep sim_view m args dec_string [] w
     (bd_UUID b) (add_bdev (lvol_alias lvs name) b (sim_view w ep))"
proof -
  let ?u = "fresh_name (sm_bdevs (w ep))"
  let ?b = "\<lparr>bd_Name = ?u, bd_UUID = ?u, BlockSize = 512, NumBlocks = 2048, DriverSpecific = Some (lr_UUID l)\<rparr>"
  let ?s = "(w ep)\<lparr>sm_bdevs := (lvol_alias lvs name, ?b) # (?u, ?b) # sm_bdevs (w ep)\<rparr>"
  have "new_lvol lvs (sim_view w ep) ?b"
    using l by (auto simp: new_lvol_def fresh_name_not_in fresh_name_chars)
  moreover have "sim_target ?s = add_bdev (lvol_alias lvs name) ?b (sim_view w ep)"
    by (simp add: sim_target_def add_bdev_def)
  ultimately show ?thesis
    using assms(2) by (intro exI [where x = ?b] conjI sim_performs [where s = ?s and r = "JStr ?u"])
      (simp_all add: step sim_new_def Let_def)
qed

lemma sim_new_attempts:
  assumes "sim_step m args (w ep) = sim_new (lvol_alias lvs name) l (w ep)" and "wf_args args"
    and "l \<in> set (sm_stores (w ep))" "lr_Name l = lvs"
  shows "attempts sim_http ep sim_view m args dec_string [] w
     (\<lambda>u t. \<exists>b. u = bd_UUID b \<and> new_lvol lvs (sim_view w ep) b \<and> t = add_bdev (lvol_alias lvs name) b (sim_view w ep))"
  using sim_new_performs [where w = w and ep = ep, OF assms] unfolding attempts_def by blast

lemma find_storeD: "find (\<lambda>l. lr_Name l = lvs) ls = Some l \<Longrightarrow> l \<in> set ls \<and> lr_Name l = lvs"
  by (induction ls) (auto split: if_splits)

lemma sim_lvol_creates: "lvol_creates sim_http ep sim_view"
  unfolding lvol_creates_def
proof (intro allI impI)
  fix w :: sim_world and name lvs sz
  show "attempts sim_http ep sim_view ''bdev_lvol_create'' (Some (createVolume_params name lvs sz)) dec_string [] w
      (\<lambda>u t. \<exists>b. u = bd_UUID b \<and> new_lvol lvs (sim_view w ep) b \<and> t = add_bdev (lvol_alias lvs name) b (sim_view w ep))"
  proof (cases "find (\<lambda>l. lr_Name l = lvs) (sm_stores (w ep))")
    case None
    then show ?thesis
      by (intro sim_attempts_err [where code = "-19"]) (simp_all add: sim_run createVolume_params_def jint_def)
  next
    case (Some l)
    with find_storeD [OF Some] show ?thesis
      by (intro sim_new_attempts [where l = l]) (simp_all add: sim_run createVolume_params_def jint_def)
  qed
qed

lemma sim_lvol_copies: "lvol_copies sim_http ep sim_view"
  unfolding lvol_copies_def
proof (intro allI impI)
  fix w :: sim_world and name src lvs
  assume "lvstore_of (sim_view w ep) src = (lvs, None)"
  then have l: "lvstore_of (sim_target (w ep)) src = (lvs, None)" by simp
  let ?P = "\<lambda>u t. \<exists>b. u = bd_UUID b \<and> new_lvol lvs (sim_view w ep) b \<and> t = add_bdev (lvol_alias lvs name) b (sim_view w ep)"
  show "attempts sim_http ep sim_view ''bdev_lvol_clone'' (copy_args ''clone_name'' name ''snapshot_name'' src) dec_string [] w ?P \<and>
      attempts sim_http ep sim_view ''bdev_lvol_snapshot'' (copy_args ''lvol_name'' src ''snapshot_name'' name) dec_string [] w ?P"
  proof (cases "find (\<lambda>l. lr_Name l = lvs) (sm_stores (w ep))")
    case None
    then show ?thesis
      by (intro conjI sim_attempts_err [where code = "-19"]) (simp_all add: sim_run copy_args_def sim_copy_def l)
  next
    case (Some l')
    with find_storeD [OF Some] show ?thesis
      by (intro conjI sim_new_attempts [where l = l']) (simp_all add: sim_run copy_args_def sim_copy_def l)
  qed
qed

lemma sim_lvol_ok: "lvol_ok sim_http ep sim_view"
  by (simp add: lvol_ok_def sim_lvol_queries sim_lvol_creates sim_lvol_deletes sim_lvol_copies)

text \<open>NVMe-oF subsystems.\<close>

lemma put_sub_target: "sim_target (put_sub n x s) = set_sub n (Some x) (sim_target s)"
  by (simp add: put_sub_def sim_target_def set_sub_def)

lemma drop_key_comm: "drop_key a (drop_key b xs) = drop_key b (drop_key a xs)"
  by (simp add: drop_key_def conj_commute split_def)

lemma drop_key_Cons: "drop_key k ((a, v) # xs) = (if a = k then drop_key k xs else (a, v) # drop_key k xs)"
  by (simp add: drop_key_def)

lemma drop_key_idem: "drop_key k (drop_key k xs) = drop_key k xs"
  by (simp add: drop_key_def)

lemma dedup_drop_key: "dedup (drop_key k xs) = drop_key k (dedup xs)"
proof (induction xs rule: dedup.induct)
  case (2 a v xs)
  show ?case
  proof (cases "a = k")
    case True
    with 2 show ?thesis by (simp add: drop_key_Cons drop_key_idem)
  next
    case False
    then have "dedup (drop_key k ((a, v) # xs)) = (a, v) # dedup (drop_key k (drop_key a xs))"
      by (simp add: drop_key_Cons drop_key_comm [of a k])
    with False 2 show ?thesis by (simp add: drop_key_Cons)
  qed
qed (simp add: drop_key_def)

lemma dedup_at: "filter (\<lambda>x. fst x = k) (dedup xs) = (case map_of xs k of None \<Rightarrow> [] | Some v \<Rightarrow> [(k, v)])"
proof (induction xs rule: dedup.induct)
  case (2 a v xs)
  have "filter (\<lambda>x. fst x = a) (drop_key a ys) = []" for ys :: "('a \<times> 'b) list"
    by (auto simp: drop_key_def filter_empty_conv)
  with 2 show ?case by (auto simp: dedup_drop_key split: option.split)
qed simp

lemma sim_nvmf_queries: "nvmf_queries sim_http ep sim_view"
  unfolding nvmf_queries_def
proof (intro conjI allI impI)
  fix w nqn s assume "tg_subs (sim_view w ep) nqn = Some s"
  then show "answers sim_http ep sim_view ''nvmf_subsystem_get_listeners'' (nqn_arg nqn)
      (dec_slice zero_listen_address dec_listener) [] w (sub_listeners s)"
    using dec_elems_map [of "sub_listeners s" dec_listener enc_listener zero_listen_address "\<lambda>x. x"]
    by (intro sim_performs [where s = "w ep" and r = "JArr (map enc_listener (sub_listeners s))"])
      (simp_all add: sim_run nqn_arg_def)
next
  fix w nqn assume "tg_subs (sim_view w ep) nqn = None"
  then show "refuses sim_http ep sim_view ''nvmf_subsystem_get_listeners'' (nqn_arg nqn) w ''Invalid parameters''"
    by (intro sim_refuses [where code = "-32602"]) (simp_all add: sim_run nqn_arg_def)
next
  fix w :: sim_world
  let ?g = "\<lambda>x. \<lparr>sub_Nqn = fst x, sub_Namespace = sub_ns (snd x)\<rparr>"
  let ?rs = "map ?g (dedup (sm_subs (w ep)))"
  have "lists_subs (sim_view w ep) ?rs"
    by (auto simp: lists_subs_def filter_map o_def dedup_at split: option.split)
  moreover have "answers sim_http ep sim_view ''nvmf_get_subsystems'' None
      (dec_slice \<lparr>sub_Nqn = [], sub_Namespace = []\<rparr> dec_subsystem) [] w ?rs"
    using dec_elems_map [of "dedup (sm_subs (w ep))" dec_subsystem enc_subsystem "\<lparr>sub_Nqn = [], sub_Namespace = []\<rparr>" ?g]
    by (intro sim_performs [where s = "w ep" and r = "JArr (map enc_subsystem (dedup (sm_subs (w ep))))"])
      (simp_all add: sim_run)
  ultimately show "\<exists>rs. lists_subs (sim_view w ep) rs \<and> answers sim_http ep sim_view ''nvmf_get_subsystems'' None
      (dec_slice \<lparr>sub_Nqn = [], sub_Namespace = []\<rparr> dec_subsystem) [] w rs" by blast
qed

lemma sim_nvmf_create_transport: "nvmf_create_transport sim_http ep sim_view"
  unfolding nvmf_create_transport_def
proof (intro allI)
  fix w :: sim_world and tr
  show "attempts sim_http ep sim_view ''nvmf_create_transport'' (Some (JObj [(''trtype'', JStr tr)])) dec_any () w
      (\<lambda>_ t. t = (sim_view w ep)\<lparr>tg_transports := insert tr (tg_transports (sim_view w ep))\<rparr>)"
  proof (cases "tr \<in> set (sm_trans (w ep))")
    case True
    then show ?thesis
      by (intro sim_attempts_err [where code = "- 32602" and msg = "''already exists''"]) (simp_all add: sim_run)
  next
    case False
    then show ?thesis
      by (intro sim_attempts_ok [where s = "(w ep)\<lparr>sm_trans := tr # sm_trans (w ep)\<rparr>" and r = "JBool True"])
        (simp_all add: sim_run dec_any_def sim_target_def)
  qed
qed

lemma sim_nvmf_create_subsystem: "nvmf_create_subsystem sim_http ep sim_view"
  unfolding nvmf_create_subsystem_def
proof (intro allI)
  fix w :: sim_world and i
  let ?n = "nodeNVMf_getVolumeNqn i" and ?x = "\<lparr>sub_ns = [], sub_listeners = []\<rparr>"
  show "attempts sim_http ep sim_view ''nvmf_create_subsystem'' (subsystem_arg i) dec_any () w
      (\<lambda>_ t. tg_subs (sim_view w ep) ?n = None \<and> t = set_sub ?n (Some ?x) (sim_view w ep))"
  proof (cases "map_of (sm_subs (w ep)) ?n")
    case None
    then show ?thesis
      by (intro sim_attempts_ok [where s = "put_sub ?n ?x (w ep)" and r = "JBool True"])
        (simp_all add: sim_run dec_any_def subsystem_arg_def put_sub_target)
  next
    case (Some x)
    then show ?thesis
      by (intro sim_attempts_err [where code = "-32602"]) (simp_all add: sim_run subsystem_arg_def)
  qed
qed

lemma sim_nvmf_add_ns: "nvmf_add_ns sim_http ep sim_view"
  unfolding nvmf_add_ns_def
proof (intro allI)
  fix w :: sim_world and nqn bdev
  let ?P = "\<lambda>v t. \<exists>s. tg_subs (sim_view w ep) nqn = Some s \<and> v \<notin> NSID ` set (sub_ns s) \<and>
       t = set_sub nqn (Some (s\<lparr>sub_ns := sub_ns s @ [\<lparr>NSID = v, BdevName = bdev\<rparr>]\<rparr>)) (sim_view w ep)"
  show "attempts sim_http ep sim_view ''nvmf_subsystem_add_ns'' (add_ns_arg nqn bdev) dec_int64 0 w ?P"
  proof (cases "\<exists>x. map_of (sm_subs (w ep)) nqn = Some x \<and> sub_ns x = []")
    case True
    then obtain x where x: "map_of (sm_subs (w ep)) nqn = Some x" "sub_ns x = []" by blast
    let ?s = "put_sub nqn (x\<lparr>sub_ns := [\<lparr>NSID = 1, BdevName = bdev\<rparr>]\<rparr>) (w ep)"
    have "dec_int64 (jint 1) 0 = (1, None)" by (simp add: dec_int64_jint)
    moreover have "?P 1 (sim_target ?s)" using x by (simp add: put_sub_target)
    ultimately show ?thesis
      by (intro sim_attempts_ok [where s = ?s and r = "jint 1"]) (simp_all add: sim_run add_ns_arg_def x)
  next
    case False
    then show ?thesis
      by (intro sim_attempts_err [where code = "-32602" and msg = "''Invalid parameters''"])
        (auto simp: sim_run add_ns_arg_def split: option.split)
  qed
qed

lemma sim_sub_attempts:
  assumes "\<And>x. map_of (sm_subs (w ep)) nqn = Some x \<Longrightarrow>
      sim_step m args (w ep) = (ROk (JBool True), put_sub nqn (f x) (w ep))"
    and "map_of (sm_subs (w ep)) nqn = None \<Longrightarrow> sim_step m args (w ep) = invalid_params (w ep)"
    and "wf_args args"
  shows "attempts sim_http ep sim_view m args dec_any () w
     (\<lambda>_ t. \<exists>s. tg_subs (sim_view w ep) nqn = Some s \<and> t = set_sub nqn (Some (f s)) (sim_view w ep))"
proof (cases "map_of (sm_subs (w ep)) nqn")
  case None
  with assms show ?thesis
    by (intro sim_attempts_err [where code = "-32602"]) (simp_all add: invalid_params_def)
next
  case (Some x)
  with assms show ?thesis
    by (intro sim_attempts_ok [where s = "put_sub nqn (f x) (w ep)" and r = "JBool True"])
      (simp_all add: put_sub_target dec_any_def)
qed

lemma sim_nvmf_add_listener: "nvmf_add_listener sim_http ep sim_view"
  unfolding nvmf_add_listener_def
proof (intro allI)
  fix w :: sim_world and nqn a
  show "attempts sim_http ep sim_view ''nvmf_subsystem_add_listener'' (listener_arg nqn a) dec_any () w
      (\<lambda>_ t. \<exists>s. tg_subs (sim_view w ep) nqn = Some s \<and>
         t = set_sub nqn (Some (s\<lparr>sub_listeners := sub_listeners s @ [a]\<rparr>)) (sim_view w ep))"
  proof (cases "TrType a \<in> set (sm_trans (w ep))")
    case True
    then show ?thesis by (cases a, intro sim_sub_attempts) (simp_all add: sim_run listener_arg_def)
  next
    case False
    then show ?thesis
      by (cases a, intro sim_attempts_err [where code = "-32602" and msg = "''Invalid parameters''"])
        (simp_all add: sim_run listener_arg_def)
  qed
qed

lemma jint_sint_inj: "jint (sint (a :: int64)) = jint (sint b) \<longleftrightarrow> a = b"
  using parse_int_dec_int by (metis jint_def json.inject(2) option.inject signed_word_eqI)

lemma sim_nvmf_remove_ns: "nvmf_remove_ns sim_http ep sim_view"
  unfolding nvmf_remove_ns_def
proof (intro allI)
  fix w :: sim_world and nqn v
  have "(JNum (dec_int (sint v)) \<noteq> jint (sint (NSID y))) = (NSID y \<noteq> v)" for y :: ns_reply
    using jint_sint_inj [of v "NSID y"] by (auto simp: jint_def)
  then show "attempts sim_http ep sim_view ''nvmf_subsystem_remove_ns'' (remove_ns_arg nqn v) dec_any () w
      (\<lambda>_ t. \<exists>s. tg_subs (sim_view w ep) nqn = Some s \<and>
         t = set_sub nqn (Some (s\<lparr>sub_ns := filter (\<lambda>n. NSID n \<noteq> v) (sub_ns s)\<rparr>)) (sim_view w ep))"
    by (intro sim_sub_attempts) (simp_all add: sim_run remove_ns_arg_def jint_def)
qed

lemma sim_nvmf_delete_subsystem: "nvmf_delete_subsystem sim_http ep sim_view"
  unfolding nvmf_delete_subsystem_def
proof (intro allI impI)
  fix w nqn assume "tg_subs (sim_view w ep) nqn \<noteq> None"
  then show "performs sim_http ep sim_view ''nvmf_delete_subsystem'' (nqn_arg nqn) dec_any () w ()
      (set_sub nqn None (sim_view w ep))"
    by (intro sim_performs [where s = "(w ep)\<lparr>sm_subs := drop_key nqn (sm_subs (w ep))\<rparr>" and r = "JBool True"])
      (auto simp: sim_run nqn_arg_def dec_any_def sim_target_def set_sub_def)
qed

lemmas sim_nvmf_ok = sim_nvmf_queries sim_nvmf_create_transport sim_nvmf_create_subsystem sim_nvmf_add_ns
  sim_nvmf_add_listener sim_nvmf_remove_ns sim_nvmf_delete_subsystem

theorem sim_nv_conforms: "nv_conforms sim_http sim_view n"
  by (simp add: nv_conforms_def nvmf_ok_def Let_def sim_lvol_ok sim_lvol_queries sim_nvmf_ok)

text \<open>iSCSI target nodes.\<close>

lemma sim_iscsi_queries: "iscsi_queries sim_http ep sim_view"
  unfolding iscsi_queries_def
proof (intro conjI allI)
  fix w :: sim_world
  let ?g = "\<lambda>i. \<lparr>tn_Name = iqnPrefixName @ i, tn_AliasName = i\<rparr>"
  show "\<exists>rs. tn_AliasName ` set rs = tg_tnodes (sim_view w ep) \<and> answers sim_http ep sim_view ''iscsi_get_target_nodes''
      None (dec_slice \<lparr>tn_Name = [], tn_AliasName = []\<rparr> dec_target_node) [] w rs"
    using dec_elems_map [of "sm_tnodes (w ep)" dec_target_node enc_tnode "\<lparr>tn_Name = [], tn_AliasName = []\<rparr>" ?g]
    by (intro exI [where x = "map ?g (sm_tnodes (w ep))"] conjI
        sim_performs [where s = "w ep" and r = "JArr (map enc_tnode (sm_tnodes (w ep)))"])
      (simp_all add: sim_run image_image)
  show "\<exists>rs. sint ` set rs = tg_pgs (sim_view w ep) \<and>
      answers sim_http ep sim_view ''iscsi_get_portal_groups'' None (dec_slice 0 dec_tag) [] w rs"
    using dec_elems_map [of "sm_pgs (w ep)" dec_tag enc_tag 0 "\<lambda>x. x"]
    by (intro exI [where x = "sm_pgs (w ep)"] conjI
        sim_performs [where s = "w ep" and r = "JArr (map enc_tag (sm_pgs (w ep)))"]) (simp_all add: sim_run)
  show "\<exists>rs. sint ` set rs = tg_igs (sim_view w ep) \<and>
      answers sim_http ep sim_view ''iscsi_get_initiator_groups'' None (dec_slice 0 dec_tag) [] w rs"
    using dec_elems_map [of "sm_igs (w ep)" dec_tag enc_tag 0 "\<lambda>x. x"]
    by (intro exI [where x = "sm_igs (w ep)"] conjI
        sim_performs [where s = "w ep" and r = "JArr (map enc_tag (sm_igs (w ep)))"]) (simp_all add: sim_run)
qed

lemma sim_iscsi_create_groups: "iscsi_create_groups sim_http ep sim_view"
  unfolding iscsi_create_groups_def
proof (intro conjI allI)
  fix w :: sim_world and host port
  show "attempts sim_http ep sim_view ''iscsi_create_portal_group'' (tag_arg host port) dec_bool False w
      (\<lambda>v t. v \<and> t = (sim_view w ep)\<lparr>tg_pgs := insert numberPortalGroupTag (tg_pgs (sim_view w ep))\<rparr>)"
    by (rule sim_attempts_ok [where s = "(w ep)\<lparr>sm_pgs := 1 # sm_pgs (w ep)\<rparr>" and r = "JBool True"])
      (simp_all add: sim_run tag_arg_def sim_target_def numberPortalGroupTag_def)
next
  fix w :: sim_world
  show "attempts sim_http ep sim_view ''iscsi_create_initiator_group'' initiators_arg dec_bool False w
      (\<lambda>v t. v \<and> t = (sim_view w ep)\<lparr>tg_igs := insert numberInitiatorGroupTag (tg_igs (sim_view w ep))\<rparr>)"
    by (rule sim_attempts_ok [where s = "(w ep)\<lparr>sm_igs := 1 # sm_igs (w ep)\<rparr>" and r = "JBool True"])
      (simp_all add: sim_run initiators_arg_def sim_target_def numberInitiatorGroupTag_def)
qed

lemma sim_iscsi_create_target: "iscsi_create_target sim_http ep sim_view"
  unfolding iscsi_create_target_def
proof (intro allI)
  fix w :: sim_world and i
  show "attempts sim_http ep sim_view ''iscsi_create_target_node'' (Some (createTargetNode_params i i)) dec_bool False w
      (\<lambda>v t. v \<and> t = (sim_view w ep)\<lparr>tg_tnodes := insert i (tg_tnodes (sim_view w ep))\<rparr>)"
    by (rule sim_attempts_ok [where s = "(w ep)\<lparr>sm_tnodes := i # sm_tnodes (w ep)\<rparr>" and r = "JBool True"])
      (simp_all add: sim_run createTargetNode_params_def sim_target_def)
qed

lemma sim_iscsi_delete_target: "iscsi_delete_target sim_http ep sim_view"
  unfolding iscsi_delete_target_def
proof (intro allI impI)
  fix w i assume "i \<in> tg_tnodes (sim_view w ep)"
  show "performs sim_http ep sim_view ''iscsi_delete_target_node'' (iqn_arg i) dec_bool False w True
      ((sim_view w ep)\<lparr>tg_tnodes := tg_tnodes (sim_view w ep) - {i}\<rparr>)"
    by (rule sim_performs [where s = "(w ep)\<lparr>sm_tnodes := filter (\<lambda>j. iqnPrefixName @ j \<noteq> iqnPrefixName @ i) (sm_tnodes (w ep))\<rparr>"
          and r = "JBool True"])
      (auto simp: sim_run iqn_arg_def sim_target_def)
qed

theorem sim_is_conforms: "is_conforms sim_http sim_view n"
  by (simp add: is_conforms_def iscsi_ok_def Let_def sim_lvol_ok sim_lvol_queries sim_iscsi_queries
      sim_iscsi_create_groups sim_iscsi_create_target sim_iscsi_delete_target)

theorem sim_sn_conforms: "sn_conforms sim_http sim_view (Some n)"
  by (cases n) (simp_all add: sim_nv_conforms sim_is_conforms)

end
