(* ===== verification/Csi_Common.thy ===== *)
theory Csi_Common
  imports Go_Prelude
begin

text \<open>
  The common CSI driver code of \<open>pkg/csi-common\<close> and the identity server of
  \<open>pkg/spdk/identityserver.go\<close>: the driver object with its capabilities, the default servers and
  the endpoint parser. The enumerations are those of the CSI specification.
\<close>

datatype AccessMode =
    AM_UNKNOWN | SINGLE_NODE_WRITER | SINGLE_NODE_READER_ONLY | MULTI_NODE_READER_ONLY
  | MULTI_NODE_SINGLE_WRITER | MULTI_NODE_MULTI_WRITER | SINGLE_NODE_SINGLE_WRITER
  | SINGLE_NODE_MULTI_WRITER

datatype ControllerCap =
    RPC_UNKNOWN | CREATE_DELETE_VOLUME | PUBLISH_UNPUBLISH_VOLUME | LIST_VOLUMES | GET_CAPACITY
  | CREATE_DELETE_SNAPSHOT | LIST_SNAPSHOTS | CLONE_VOLUME | PUBLISH_READONLY | EXPAND_VOLUME
  | LIST_VOLUMES_PUBLISHED_NODES | VOLUME_CONDITION | GET_VOLUME | SINGLE_NODE_MULTI_WRITER_CAP

datatype NodeCap =
    NODE_UNKNOWN | STAGE_UNSTAGE_VOLUME | GET_VOLUME_STATS | NODE_EXPAND_VOLUME | NODE_VOLUME_CONDITION
  | NODE_SINGLE_NODE_MULTI_WRITER | VOLUME_MOUNT_GROUP

datatype PluginCap = CONTROLLER_SERVICE | VOLUME_EXPANSION_UNKNOWN

fun ControllerCap_String :: "ControllerCap \<Rightarrow> string" where
  "ControllerCap_String RPC_UNKNOWN = ''UNKNOWN''"
| "ControllerCap_String CREATE_DELETE_VOLUME = ''CREATE_DELETE_VOLUME''"
| "ControllerCap_String PUBLISH_UNPUBLISH_VOLUME = ''PUBLISH_UNPUBLISH_VOLUME''"
| "ControllerCap_String LIST_VOLUMES = ''LIST_VOLUMES''"
| "ControllerCap_String GET_CAPACITY = ''GET_CAPACITY''"
| "ControllerCap_String CREATE_DELETE_SNAPSHOT = ''CREATE_DELETE_SNAPSHOT''"
| "ControllerCap_String LIST_SNAPSHOTS = ''LIST_SNAPSHOTS''"
| "ControllerCap_String CLONE_VOLUME = ''CLONE_VOLUME''"
| "ControllerCap_String PUBLISH_READONLY = ''PUBLISH_READONLY''"
| "ControllerCap_String EXPAND_VOLUME = ''EXPAND_VOLUME''"
| "ControllerCap_String LIST_VOLUMES_PUBLISHED_NODES = ''LIST_VOLUMES_PUBLISHED_NODES''"
| "ControllerCap_String VOLUME_CONDITION = ''VOLUME_CONDITION''"
| "ControllerCap_String GET_VOLUME = ''GET_VOLUME''"
| "ControllerCap_String SINGLE_NODE_MULTI_WRITER_CAP = ''SINGLE_NODE_MULTI_WRITER''"

section \<open>The driver\<close>

record CSIDriver =
  drv_name :: string
  drv_nodeID :: string
  drv_version :: string
  drv_cap :: "ControllerCap list"
  drv_vc :: "AccessMode list"

definition NewCSIDriver :: "string \<Rightarrow> string \<Rightarrow> string \<Rightarrow> CSIDriver option" where
  "NewCSIDriver name v nodeID =
     (if name = [] then None
      else if nodeID = [] then None
      else if v = [] then None
      else Some \<lparr>drv_name = name, drv_nodeID = nodeID, drv_version = v, drv_cap = [], drv_vc = []\<rparr>)"

definition CSIDriver_ValidateControllerServiceRequest :: "CSIDriver \<Rightarrow> ControllerCap \<Rightarrow> err" where
  "CSIDriver_ValidateControllerServiceRequest d c =
     (if c = RPC_UNKNOWN then None
      else if list_ex (\<lambda>x. c = x) (drv_cap d) then None
      else Some (StatusError InvalidArgument (ControllerCap_String c)))"

definition NewControllerServiceCapability :: "ControllerCap \<Rightarrow> ControllerCap" where
  "NewControllerServiceCapability captype = captype"

definition NewVolumeCapabilityAccessMode :: "AccessMode \<Rightarrow> AccessMode" where
  "NewVolumeCapabilityAccessMode mode = mode"

definition CSIDriver_AddControllerServiceCapabilities :: "CSIDriver \<Rightarrow> ControllerCap list \<Rightarrow> CSIDriver" where
  "CSIDriver_AddControllerServiceCapabilities d cl = d\<lparr>drv_cap := map NewControllerServiceCapability cl\<rparr>"

definition CSIDriver_AddVolumeCapabilityAccessModes ::
  "CSIDriver \<Rightarrow> AccessMode list \<Rightarrow> CSIDriver \<times> AccessMode list" where
  "CSIDriver_AddVolumeCapabilityAccessModes d vc =
     (let vca = map NewVolumeCapabilityAccessMode vc in (d\<lparr>drv_vc := vca\<rparr>, vca))"

definition CSIDriver_GetVolumeCapabilityAccessModes :: "CSIDriver \<Rightarrow> AccessMode list" where
  "CSIDriver_GetVolumeCapabilityAccessModes d = drv_vc d"

section \<open>The default servers\<close>

text \<open>The methods of the default servers that a server does not override, one constructor each.\<close>

datatype DefaultControllerMethod =
    M_CreateVolume | M_DeleteVolume | M_ControllerPublishVolume | M_ControllerUnpublishVolume
  | M_ValidateVolumeCapabilities | M_ListVolumes | M_GetCapacity | M_ControllerGetVolume
  | M_CreateSnapshot | M_DeleteSnapshot | M_ListSnapshots | M_ControllerExpandVolume

definition unimplemented :: go_error where
  "unimplemented = StatusError Unimplemented []"

fun DefaultControllerServer_call :: "DefaultControllerMethod \<Rightarrow> go_error" where
  "DefaultControllerServer_call m = unimplemented"

definition DefaultControllerServer_ControllerGetCapabilities :: "CSIDriver \<Rightarrow> ControllerCap list \<times> err" where
  "DefaultControllerServer_ControllerGetCapabilities d = (drv_cap d, None)"

datatype DefaultNodeMethod =
    M_NodePublishVolume | M_NodeUnpublishVolume | M_NodeGetVolumeStats | M_NodeStageVolume
  | M_NodeUnstageVolume | M_NodeExpandVolume

fun DefaultNodeServer_call :: "DefaultNodeMethod \<Rightarrow> go_error" where
  "DefaultNodeServer_call m = unimplemented"

definition DefaultIdentityServer_Probe :: err where
  "DefaultIdentityServer_Probe = None"

definition DefaultNodeServer_NodeGetInfo :: "CSIDriver \<Rightarrow> string \<times> err" where
  "DefaultNodeServer_NodeGetInfo d = (drv_nodeID d, None)"

definition DefaultNodeServer_NodeGetCapabilities :: "NodeCap list \<times> err" where
  "DefaultNodeServer_NodeGetCapabilities = ([NODE_UNKNOWN], None)"

record PluginInfo =
  pi_Name :: string
  pi_VendorVersion :: string

definition DefaultIdentityServer_GetPluginInfo :: "CSIDriver \<Rightarrow> go_error + PluginInfo" where
  "DefaultIdentityServer_GetPluginInfo d =
     (if drv_name d = [] then Inl (StatusError Unavailable ''Driver name not configured'')
      else if drv_version d = [] then Inl (StatusError Unavailable ''Driver is missing version'')
      else Inr \<lparr>pi_Name = drv_name d, pi_VendorVersion = drv_version d\<rparr>)"

definition DefaultIdentityServer_GetPluginCapabilities :: "PluginCap list \<times> err" where
  "DefaultIdentityServer_GetPluginCapabilities = ([CONTROLLER_SERVICE], None)"

definition identityServer_GetPluginCapabilities :: "PluginCap list \<times> err" where
  "identityServer_GetPluginCapabilities = ([CONTROLLER_SERVICE, VOLUME_EXPANSION_UNKNOWN], None)"

section \<open>Endpoints\<close>

text \<open>\<open>strings.SplitN(ep, sep, 2)\<close>: the parts before and after the first separator, or the whole string.\<close>

fun split_first :: "string \<Rightarrow> string \<Rightarrow> (string \<times> string) option" where
  "split_first [] sep = (if sep = [] then Some ([], []) else None)"
| "split_first (c # cs) sep =
     (if prefix sep (c # cs) then Some ([], drop (length sep) (c # cs))
      else map_option (\<lambda>(a, b). (c # a, b)) (split_first cs sep))"

definition parseEndpoint :: "string \<Rightarrow> (string \<times> string) \<times> err" where
  "parseEndpoint ep =
     (let invalid = (([], []), Some (Errorf (''invalid endpoint: '' @ ep))) in
      if strings_HasPrefix (strings_ToLower ep) ''unix://'' \<or> strings_HasPrefix (strings_ToLower ep) ''tcp://''
      then (case split_first ep ''://'' of
              Some (proto, addr) \<Rightarrow> if addr \<noteq> [] then ((proto, addr), None) else invalid
            | None \<Rightarrow> invalid)
      else invalid)"

end
