(* ===== verification/Vol_Locks.thy ===== *)
theory Vol_Locks
  imports Go_Prelude
begin

text \<open>
  The volume locks of \<open>pkg/util/idlocker.go\<close>: a mutex per volume ID, created on first use and never
  removed. \<open>with_volume_lock\<close> is a request handler that takes the lock of its volume first and
  releases it by \<open>defer\<close>, on every way out.
\<close>

text \<open>The \<open>sync.Map\<close> of mutexes: an ID has no mutex yet, or one that is locked or not.\<close>

type_synonym VolumeLocks = "string \<rightharpoonup> bool"

definition NewVolumeLocks :: VolumeLocks where
  "NewVolumeLocks = Map.empty"

definition LoadOrStore :: "string \<Rightarrow> VolumeLocks \<Rightarrow> VolumeLocks" where
  "LoadOrStore i m = (case m i of Some _ \<Rightarrow> m | None \<Rightarrow> m(i \<mapsto> False))"

definition lock_held :: "VolumeLocks \<Rightarrow> string \<Rightarrow> bool" where
  "lock_held m i \<longleftrightarrow> m i = Some True"

text \<open>\<open>Lock\<close>: \<open>None\<close> when the caller blocks, as the mutex is locked.\<close>

definition VolumeLocks_Lock :: "string \<Rightarrow> VolumeLocks \<Rightarrow> VolumeLocks option" where
  "VolumeLocks_Lock i m =
     (let m' = LoadOrStore i m in if lock_held m' i then None else Some (m'(i \<mapsto> True)))"

definition VolumeLocks_unlock :: "string \<Rightarrow> VolumeLocks \<Rightarrow> VolumeLocks" where
  "VolumeLocks_unlock i m = m(i \<mapsto> False)"

definition with_volume_lock :: "string \<Rightarrow> ('w, 'a) go \<Rightarrow> (VolumeLocks \<times> 'w, 'a) go" where
  "with_volume_lock i body = (\<lambda>(m, w). case VolumeLocks_Lock i m of
     None \<Rightarrow> (Panic ''fatal error: all goroutines are asleep - deadlock!'', LoadOrStore i m, w)
   | Some m1 \<Rightarrow> (case body w of (r, w') \<Rightarrow> (r, VolumeLocks_unlock i m1, w')))"

text \<open>\<open>TryLock\<close> of \<open>pkg/util/util.go\<close>: a compare-and-swap on one word.\<close>

definition TryLock_Lock :: "int32 \<Rightarrow> bool \<times> int32" where
  "TryLock_Lock locked = (if locked = 0 then (True, 1) else (False, locked))"

definition TryLock_Unlock :: "int32 \<Rightarrow> int32" where
  "TryLock_Unlock locked = 0"

section \<open>Threads and locks\<close>

text \<open>
  Handlers run concurrently. A thread is outside, has asked for the lock of an ID (for the volume
  locks: has run \<open>LoadOrStore\<close> and waits in \<open>Mutex.Lock\<close>), or is inside; \<open>prep\<close>, \<open>lock\<close> and \<open>unlock\<close>
  are the operations of the lock object.
\<close>

datatype 'k pc = Outside | Waiting 'k | Inside 'k

inductive lock_step ::
  "('k \<Rightarrow> 'm \<Rightarrow> 'm) \<Rightarrow> ('k \<Rightarrow> 'm \<Rightarrow> 'm option) \<Rightarrow> ('k \<Rightarrow> 'm \<Rightarrow> 'm) \<Rightarrow>
     'm \<times> ('t \<Rightarrow> 'k pc) \<Rightarrow> 'm \<times> ('t \<Rightarrow> 'k pc) \<Rightarrow> bool"
  for prep lock unlock where
  request: "pcs t = Outside \<Longrightarrow> lock_step prep lock unlock (m, pcs) (prep k m, pcs(t := Waiting k))"
| enter: "pcs t = Waiting k \<Longrightarrow> lock k m = Some m' \<Longrightarrow>
    lock_step prep lock unlock (m, pcs) (m', pcs(t := Inside k))"
| leave: "pcs t = Inside k \<Longrightarrow> lock_step prep lock unlock (m, pcs) (unlock k m, pcs(t := Outside))"

inductive lock_reach ::
  "('k \<Rightarrow> 'm \<Rightarrow> 'm) \<Rightarrow> ('k \<Rightarrow> 'm \<Rightarrow> 'm option) \<Rightarrow> ('k \<Rightarrow> 'm \<Rightarrow> 'm) \<Rightarrow> 'm \<Rightarrow>
     'm \<times> ('t \<Rightarrow> 'k pc) \<Rightarrow> bool"
  for prep lock unlock m0 where
  start: "lock_reach prep lock unlock m0 (m0, \<lambda>_. Outside)"
| step: "lock_reach prep lock unlock m0 s \<Longrightarrow> lock_step prep lock unlock s s' \<Longrightarrow>
    lock_reach prep lock unlock m0 s'"

inductive_cases lock_stepE: "lock_step prep lock unlock s s'"

locale id_mutex =
  fixes prep :: "'k \<Rightarrow> 'm \<Rightarrow> 'm" and lock :: "'k \<Rightarrow> 'm \<Rightarrow> 'm option" and unlock :: "'k \<Rightarrow> 'm \<Rightarrow> 'm"
    and held :: "'m \<Rightarrow> 'k \<Rightarrow> bool"
  assumes prep_held [simp]: "held (prep k m) j = held m j"
    and lock_None: "lock k m = None \<longleftrightarrow> held m k"
    and lock_Some: "lock k m = Some m' \<Longrightarrow> held m' j \<longleftrightarrow> j = k \<or> held m j"
    and unlock_held [simp]: "held (unlock k m) j \<longleftrightarrow> j \<noteq> k \<and> held m j"
begin

text \<open>The lock of an ID is held exactly when a thread is inside with it, and only one is.\<close>

lemma reach_invariant:
  assumes "lock_reach prep lock unlock m0 s" and "\<And>k. \<not> held m0 k"
  shows "(\<forall>k. held (fst s) k \<longleftrightarrow> (\<exists>t. snd s t = Inside k)) \<and>
     (\<forall>t u k. snd s t = Inside k \<longrightarrow> snd s u = Inside k \<longrightarrow> t = u)"
  using assms
proof induction
  case (step s s')
  then have inv: "\<And>k. held (fst s) k \<longleftrightarrow> (\<exists>t. snd s t = Inside k)"
    and uniq: "\<And>t u k. snd s t = Inside k \<Longrightarrow> snd s u = Inside k \<Longrightarrow> t = u" by blast+
  from step.hyps(2) show ?case
  proof (cases rule: lock_step.cases)
    case (request pcs t m k)
    then have "(pcs(t := Waiting k)) u = Inside j \<longleftrightarrow> pcs u = Inside j" for u j
      by simp
    with request inv uniq show ?thesis by simp
  next
    case (enter pcs t k m m')
    then have "\<not> held m k" by (metis lock_None option.discI)
    with enter inv have free: "pcs u \<noteq> Inside k" for u by (metis fst_conv snd_conv)
    have at: "(pcs(t := Inside k)) u = Inside j \<longleftrightarrow> (u = t \<and> j = k) \<or> pcs u = Inside j" for u j
      using enter(3) by auto
    have ex: "(\<exists>u. (pcs(t := Inside k)) u = Inside j) \<longleftrightarrow> j = k \<or> (\<exists>u. pcs u = Inside j)" for j
      unfolding at by auto
    show ?thesis
      using enter inv uniq free by (simp only: fst_conv snd_conv ex lock_Some [OF enter(4)]) (auto simp: at)
  next
    case (leave pcs t k m)
    then have out: "pcs u = Inside k \<longleftrightarrow> u = t" for u using uniq by auto
    have at: "(pcs(t := Outside)) u = Inside j \<longleftrightarrow> j \<noteq> k \<and> pcs u = Inside j" for u j
      using leave(3) out [of u] by (cases "u = t") auto
    show ?thesis
      using leave inv uniq by (simp only: fst_conv snd_conv at unlock_held) auto
  qed
qed simp

lemma mutual_exclusion:
  assumes "lock_reach prep lock unlock m0 (m, pcs)" and "\<And>k. \<not> held m0 k"
    and "pcs t = Inside k" and "pcs u = Inside k"
  shows "t = u"
  using reach_invariant [OF assms(1,2)] assms(3,4) by auto

lemma leave_held:
  assumes "lock_reach prep lock unlock m0 (m, pcs)" and "\<And>k. \<not> held m0 k" and "pcs t = Inside k"
  shows "held m k"
  using reach_invariant [OF assms(1,2)] assms(3) by auto

text \<open>No deadlock: while some thread waits or is inside, one of these threads can move.\<close>

lemma progress:
  assumes r: "lock_reach prep lock unlock m0 (m, pcs)" and h: "\<And>k. \<not> held m0 k" and "pcs t \<noteq> Outside"
  shows "\<exists>u s'. pcs u \<noteq> Outside \<and> lock_step prep lock unlock (m, pcs) s' \<and> snd s' u \<noteq> pcs u"
proof (cases "pcs t")
  case (Waiting k)
  show ?thesis
  proof (cases "lock k m")
    case None
    then obtain u where u: "pcs u = Inside k" using reach_invariant [OF r h] lock_None by auto
    have "lock_step prep lock unlock (m, pcs) (unlock k m, pcs(u := Outside))"
      by (rule lock_step.leave [where k = k]) (rule u)
    with u show ?thesis by (intro exI [of _ u] exI [of _ "(unlock k m, pcs(u := Outside))"]) simp
  next
    case (Some m')
    have "lock_step prep lock unlock (m, pcs) (m', pcs(t := Inside k))"
      by (rule lock_step.enter) (use Waiting Some in simp_all)
    with Waiting show ?thesis by (intro exI [of _ t] exI [of _ "(m', pcs(t := Inside k))"]) simp
  qed
next
  case (Inside k)
  have "lock_step prep lock unlock (m, pcs) (unlock k m, pcs(t := Outside))"
    by (rule lock_step.leave [where k = k]) (rule Inside)
  with Inside show ?thesis by (intro exI [of _ t] exI [of _ "(unlock k m, pcs(t := Outside))"]) simp
qed (use assms in simp)

end

lemma lock_held_simps [simp]:
  "lock_held (LoadOrStore i m) j = lock_held m j"
  "lock_held (VolumeLocks_unlock i m) j \<longleftrightarrow> j \<noteq> i \<and> lock_held m j"
  "\<not> lock_held NewVolumeLocks j"
  by (auto simp: lock_held_def LoadOrStore_def VolumeLocks_unlock_def NewVolumeLocks_def split: option.split)

interpretation vl: id_mutex LoadOrStore VolumeLocks_Lock VolumeLocks_unlock lock_held
  by unfold_locales (auto simp: VolumeLocks_Lock_def Let_def lock_held_def LoadOrStore_def VolumeLocks_unlock_def
      split: option.splits if_splits)

definition TryLock_lock :: "unit \<Rightarrow> int32 \<Rightarrow> int32 option" where
  "TryLock_lock _ l = (case TryLock_Lock l of (True, l') \<Rightarrow> Some l' | (False, _) \<Rightarrow> None)"

interpretation tl: id_mutex "\<lambda>_ l. l" TryLock_lock "\<lambda>_. TryLock_Unlock" "\<lambda>l _. l \<noteq> 0"
  by unfold_locales (auto simp: TryLock_lock_def TryLock_Lock_def TryLock_Unlock_def split: if_splits)

section \<open>A handler under its lock\<close>

text \<open>A handler that finds the lock free runs its body and leaves the lock free, however it ends.\<close>

lemma wp_with_volume_lock:
  assumes free: "\<not> lock_held m i"
    and body: "go_wp body (\<lambda>x w'. \<forall>m'. (\<forall>j. lock_held m' j = lock_held m j) \<longrightarrow> Q x (m', w'))
       (\<lambda>s w'. \<forall>m'. (\<forall>j. lock_held m' j = lock_held m j) \<longrightarrow> E s (m', w')) w"
  shows "go_wp (with_volume_lock i body) Q E (m, w)"
proof -
  obtain m1 where l: "VolumeLocks_Lock i m = Some m1" using free vl.lock_None by (metis not_Some_eq)
  have "lock_held (VolumeLocks_unlock i m1) j = lock_held m j" for j
    using vl.lock_Some [OF l] free by auto
  with body show ?thesis
    by (auto simp: go_wp_def with_volume_lock_def l split: prod.splits outcome.splits)
qed

lemma with_volume_lock_run:
  assumes "\<not> lock_held m i" and "body w = (r, w')"
  shows "\<exists>m'. with_volume_lock i body (m, w) = (r, m', w') \<and> (\<forall>j. lock_held m' j = lock_held m j)"
proof -
  obtain m1 where l: "VolumeLocks_Lock i m = Some m1" using assms(1) vl.lock_None by (metis not_Some_eq)
  have "lock_held (VolumeLocks_unlock i m1) j = lock_held m j" for j
    using vl.lock_Some [OF l] assms(1) by auto
  with assms(2) l show ?thesis by (auto simp: with_volume_lock_def)
qed

end
