(* ===== verification/Controller.thy ===== *)
theory Controller
  imports Spdk_Node Csi_Common Vol_Locks
begin

text \<open>
  The CSI controller service of \<open>pkg/spdk/controllerserver.go\<close>, with the configuration types of
  \<open>pkg/util/config.go\<close> and \<open>util.ToMiB\<close>. A handler runs on the volume locks and the world; the
  functions it calls run on the world. Go's iteration order over a map is unspecified: the loops
  over the configured nodes take the order in which they meet the keys as an argument (\<open>ord\<close>), and
  every property is stated for all orders.
\<close>

section \<open>Configuration\<close>

record SpdkNodeConfig =
  cfg_Name :: string
  cfg_URL :: string
  cfg_TargetType :: string
  cfg_TargetAddr :: string

definition dec_SpdkNodeConfig :: "SpdkNodeConfig dec" where
  "dec_SpdkNodeConfig = dec_struct
     [(''name'', fld cfg_Name cfg_Name_update dec_string),
      (''rpcURL'', fld cfg_URL cfg_URL_update dec_string),
      (''targetType'', fld cfg_TargetType cfg_TargetType_update dec_string),
      (''targetAddr'', fld cfg_TargetAddr cfg_TargetAddr_update dec_string)]"

definition zero_SpdkNodeConfig :: SpdkNodeConfig where
  "zero_SpdkNodeConfig = \<lparr>cfg_Name = [], cfg_URL = [], cfg_TargetType = [], cfg_TargetAddr = []\<rparr>"

record SpdkToken =
  tok_Name :: string
  tok_UserName :: string
  tok_Password :: string

definition dec_SpdkToken :: "SpdkToken dec" where
  "dec_SpdkToken = dec_struct
     [(''name'', fld tok_Name tok_Name_update dec_string),
      (''username'', fld tok_UserName tok_UserName_update dec_string),
      (''password'', fld tok_Password tok_Password_update dec_string)]"

definition invalid_json :: go_error where
  "invalid_json = Errorf ''invalid JSON''"

definition NewSpdkSecrets :: "string \<Rightarrow> go_error + SpdkToken list" where
  "NewSpdkSecrets jsonSecrets = (case json_unmarshal jsonSecrets of
     None \<Rightarrow> Inl invalid_json
   | Some doc \<Rightarrow>
       (case dec_struct [(''rpcTokens'',
                dec_slice \<lparr>tok_Name = [], tok_UserName = [], tok_Password = []\<rparr> dec_SpdkToken)] doc [] of
          (_, Some e) \<Rightarrow> Inl e
        | (tokens, None) \<Rightarrow> Inr tokens))"

text \<open>\<open>ParseJSONFile\<close> on a file read as \<open>file\<close> (\<open>Inl\<close>: it could not be read).\<close>

definition NewCSIControllerConfig :: "(go_error + string) \<Rightarrow> go_error + SpdkNodeConfig list" where
  "NewCSIControllerConfig file = (case file of
     Inl e \<Rightarrow> Inl e
   | Inr bytes \<Rightarrow> (case json_unmarshal bytes of
       None \<Rightarrow> Inl invalid_json
     | Some doc \<Rightarrow>
         (case dec_struct [(''Nodes'', dec_slice zero_SpdkNodeConfig dec_SpdkNodeConfig)] doc [] of
            (_, Some e) \<Rightarrow> Inl e
          | (nodes, None) \<Rightarrow> Inr nodes)))"

record controllerServer =
  cs_Driver :: CSIDriver
  spdkNodeConfigs :: "string \<rightharpoonup> SpdkNodeConfig"

text \<open>The map of configurations is empty exactly when the file lists no node.\<close>

definition newControllerServer ::
  "CSIDriver \<Rightarrow> (go_error + string) \<Rightarrow> go_error + (controllerServer \<times> VolumeLocks)" where
  "newControllerServer d file = (case NewCSIControllerConfig file of
     Inl e \<Rightarrow> Inl e
   | Inr nodes \<Rightarrow>
       (let configs = foldl (\<lambda>m c. m(cfg_Name c \<mapsto> c)) Map.empty nodes in
        if nodes = [] then Inl (Errorf ''no valid spdk node found'')
        else Inr (\<lparr>cs_Driver = d, spdkNodeConfigs = configs\<rparr>, NewVolumeLocks)))"

definition ToMiB :: "int64 \<Rightarrow> int64" where
  "ToMiB bytes = div64 (bytes + 1048576 - 1) 1048576"

section \<open>Requests and responses\<close>

text \<open>A content source is a snapshot, another volume, or (in a malformed request) neither.\<close>

datatype VolumeContentSource = SnapshotSource string | VolumeSource string | NoSource

record CreateVolumeRequest =
  cv_Name :: string
  cv_RequiredBytes :: int64
  cv_Parameters :: smap
  cv_Secrets :: smap
  cv_ContentSource :: "VolumeContentSource option"

record csiVolume =
  CapacityBytes :: int64
  VolumeId :: string
  VolumeContext :: smap
  ContentSource :: "VolumeContentSource option"

record Snapshot =
  SizeBytes :: int64
  SnapshotId :: string
  SourceVolumeId :: string
  CreationTime :: int
  ReadyToUse :: bool

record spdkVolume =
  sv_lvolID :: string
  sv_nodeName :: string

definition getSPDKVol :: "string \<Rightarrow> go_error + spdkVolume" where
  "getSPDKVol csiVolumeID = (case strings_Split csiVolumeID CHR '':'' of
     [a, b] \<Rightarrow> Inr \<lparr>sv_lvolID = b, sv_nodeName = a\<rparr>
   | _ \<Rightarrow> Inl (Errorf (''missing nodeName in volume: '' @ csiVolumeID)))"

section \<open>Nodes\<close>

text \<open>
  On an unknown node name the source formats \<open>node.Name\<close> of the nil pointer it has just read; an
  unknown target type is logged and the nil node is returned without an error.
\<close>

definition controllerServer_getSpdkNode ::
  "controllerServer \<Rightarrow> string \<Rightarrow> smap \<Rightarrow> ('w, SpdkNode option \<times> err) go" where
  "controllerServer_getSpdkNode cs nodeName secrets =
     (case NewSpdkSecrets (mget secrets ''secret.json'') of
        Inl e \<Rightarrow> go_return (None, Some e)
      | Inr tokens \<Rightarrow> (case spdkNodeConfigs cs nodeName of
          None \<Rightarrow> go_panic nil_deref
        | Some node \<Rightarrow> (case find (\<lambda>t. tok_Name t = nodeName) tokens of
            Some token \<Rightarrow>
              (let (spdkNode, _) = NewSpdkNode (cfg_URL node) (tok_UserName token) (tok_Password token)
                     (cfg_TargetType node) (cfg_TargetAddr node)
               in go_return (spdkNode, None))
          | None \<Rightarrow> go_return (None, Some (Errorf (''failed to find secret for spdk node '' @ cfg_Name node))))))"

text \<open>The first lvstore of the node that has a volume of that name.\<close>

fun getVolume_lvs :: "'w http \<Rightarrow> string \<Rightarrow> LvStore list \<Rightarrow> (SpdkNode option \<times> 'w, string option) go" where
  "getVolume_lvs http name [] = go_return None"
| "getVolume_lvs http name (l # ls) =
     go_bind (SpdkNode_GetVolume http name (lvs_Name l))
       (\<lambda>(volumeID, e). if e = None then go_return (Some volumeID) else getVolume_lvs http name ls)"

fun getVolume_nodes ::
  "'w http \<Rightarrow> controllerServer \<Rightarrow> CreateVolumeRequest \<Rightarrow> SpdkNodeConfig list \<Rightarrow> ('w, string \<times> err) go" where
  "getVolume_nodes http cs req [] = go_return ([], Some (Errorf ''volume not found''))"
| "getVolume_nodes http cs req (cfg # cfgs) =
     go_bind (controllerServer_getSpdkNode cs (cfg_Name cfg) (cv_Secrets req)) (\<lambda>(node, e). case e of
       Some x \<Rightarrow> go_return (''nil'', Some (Errorf (''failed to get spdkNode '' @ cfg_Name cfg @ '': '' @ err_Error x)))
     | None \<Rightarrow> go_bind (go_with node (SpdkNode_LvStores http)) (\<lambda>((lvStores, e), node). case e of
         Some x \<Rightarrow> go_return ([], Some (Wrapf (''get lvstores of node:'' @ cfg_Name cfg @ '' failed: '') x))
       | None \<Rightarrow> go_bind (go_with node (getVolume_lvs http (cv_Name req) lvStores)) (\<lambda>(found, _). case found of
           Some volumeID \<Rightarrow> go_return (cfg_Name cfg @ '':'' @ volumeID, None)
         | None \<Rightarrow> getVolume_nodes http cs req cfgs)))"

text \<open>The configurations a loop over the map meets, in the order of the keys \<open>ord\<close>.\<close>

definition configs_in :: "controllerServer \<Rightarrow> string list \<Rightarrow> SpdkNodeConfig list" where
  "configs_in cs ord = List.map_filter (spdkNodeConfigs cs) ord"

definition controllerServer_getVolume ::
  "'w http \<Rightarrow> string list \<Rightarrow> controllerServer \<Rightarrow> CreateVolumeRequest \<Rightarrow> ('w, string \<times> err) go" where
  "controllerServer_getVolume http ord cs req = getVolume_nodes http cs req (configs_in cs ord)"

fun schedule_nodes ::
  "'w http \<Rightarrow> controllerServer \<Rightarrow> int64 \<Rightarrow> smap \<Rightarrow> SpdkNodeConfig list \<Rightarrow> ('w, (string \<times> string) \<times> err) go" where
  "schedule_nodes http cs sizeMiB secrets [] =
     go_return (([], []), Some (Errorf ''failed to find node with enough free space''))"
| "schedule_nodes http cs sizeMiB secrets (cfg # cfgs) =
     go_bind (controllerServer_getSpdkNode cs (cfg_Name cfg) secrets) (\<lambda>(spdkNode, e).
     if e \<noteq> None then schedule_nodes http cs sizeMiB secrets cfgs
     else go_bind (go_with spdkNode (SpdkNode_LvStores http)) (\<lambda>((lvstores, e), _).
     if e \<noteq> None then schedule_nodes http cs sizeMiB secrets cfgs
     else (case find (\<lambda>l. sint (FreeSizeMiB l) > sint sizeMiB) lvstores of
         Some l \<Rightarrow> go_return ((cfg_Name cfg, lvs_Name l), None)
       | None \<Rightarrow> schedule_nodes http cs sizeMiB secrets cfgs)))"

definition controllerServer_schedule ::
  "'w http \<Rightarrow> string list \<Rightarrow> controllerServer \<Rightarrow> int64 \<Rightarrow> smap \<Rightarrow> ('w, (string \<times> string) \<times> err) go" where
  "controllerServer_schedule http ord cs sizeMiB secrets =
     schedule_nodes http cs sizeMiB secrets (configs_in cs ord)"

section \<open>Volumes\<close>

definition controllerServer_unpublishVolume ::
  "'w http \<Rightarrow> controllerServer \<Rightarrow> string \<Rightarrow> smap \<Rightarrow> ('w, err) go" where
  "controllerServer_unpublishVolume http cs volumeID secrets = (case getSPDKVol volumeID of
     Inl e \<Rightarrow> go_return (Some e)
   | Inr v \<Rightarrow> go_bind (controllerServer_getSpdkNode cs (sv_nodeName v) secrets) (\<lambda>(node, e).
       if e \<noteq> None then go_return e
       else go_bind (go_with node (SpdkNode_UnpublishVolume http (sv_lvolID v))) (\<lambda>(e, _). go_return e)))"

definition controllerServer_deleteVolume ::
  "'w http \<Rightarrow> controllerServer \<Rightarrow> string \<Rightarrow> smap \<Rightarrow> ('w, err) go" where
  "controllerServer_deleteVolume http cs volumeID secrets = (case getSPDKVol volumeID of
     Inl e \<Rightarrow> go_return (Some e)
   | Inr v \<Rightarrow> go_bind (controllerServer_getSpdkNode cs (sv_nodeName v) secrets) (\<lambda>(node, e).
       if e \<noteq> None then go_return e
       else go_bind (go_with node (SpdkNode_DeleteVolume http (sv_lvolID v))) (\<lambda>(e, _). go_return e)))"

definition controllerServer_publishVolume ::
  "'w http \<Rightarrow> controllerServer \<Rightarrow> string \<Rightarrow> smap \<Rightarrow> ('w, smap \<times> err) go" where
  "controllerServer_publishVolume http cs volumeID secrets = (case getSPDKVol volumeID of
     Inl e \<Rightarrow> go_return (Map.empty, Some e)
   | Inr v \<Rightarrow> go_bind (controllerServer_getSpdkNode cs (sv_nodeName v) secrets) (\<lambda>(node, e). case e of
       Some x \<Rightarrow> go_return (Map.empty, Some (internal x))
     | None \<Rightarrow> go_bind (go_with node (SpdkNode_PublishVolume http (sv_lvolID v))) (\<lambda>(e, node).
         if e \<noteq> None then go_return (Map.empty, e)
         else go_bind (go_with node (SpdkNode_VolumeInfo http (sv_lvolID v))) (\<lambda>((volumeInfo, e), _).
         if e \<noteq> None then
           go_bind (controllerServer_unpublishVolume http cs volumeID secrets)
             (\<lambda>_. go_return (Map.empty, e))
         else go_return (volumeInfo, None)))))"

definition controllerServer_getSnapshotInfo ::
  "'w http \<Rightarrow> controllerServer \<Rightarrow> VolumeContentSource \<Rightarrow> smap \<Rightarrow>
     ('w, (string \<times> string \<times> string) \<times> err) go" where
  "controllerServer_getSnapshotInfo http cs vcs secrets = (case vcs of
     SnapshotSource snapshotId \<Rightarrow> (case getSPDKVol snapshotId of
         Inl e \<Rightarrow> go_return (([], [], []), Some e)
       | Inr v \<Rightarrow> go_bind (controllerServer_getSpdkNode cs (sv_nodeName v) secrets) (\<lambda>(node, e).
           if e \<noteq> None then go_return ((sv_nodeName v, [], sv_lvolID v), e)
           else go_bind (go_with node (SpdkNode_VolumeInfo http (sv_lvolID v))) (\<lambda>((info, e), _).
           if e \<noteq> None then go_return ((sv_nodeName v, [], sv_lvolID v), e)
           else go_return ((sv_nodeName v, mget info ''lvstore'', sv_lvolID v), None))))
   | _ \<Rightarrow> go_return (([], [], []),
            Some (Errorf ''invalid volume content source, only snapshot source is supported'')))"

definition request_size :: "CreateVolumeRequest \<Rightarrow> int64" where
  "request_size req = (if cv_RequiredBytes req = 0 then 1024 * 1024 * 1024 else cv_RequiredBytes req)"

definition controllerServer_createVolume ::
  "'w http \<Rightarrow> string list \<Rightarrow> string list \<Rightarrow> controllerServer \<Rightarrow> CreateVolumeRequest \<Rightarrow>
     ('w, go_error + csiVolume) go" where
  "controllerServer_createVolume http ord1 ord2 cs req =
     (let sizeMiB = ToMiB (request_size req);
          vol = \<lparr>CapacityBytes = sizeMiB * 1024 * 1024, VolumeId = [],
                 VolumeContext = cv_Parameters req, ContentSource = cv_ContentSource req\<rparr>
      in
      go_bind (controllerServer_getVolume http ord1 cs req) (\<lambda>(volumeID, e).
      if e = None then go_return (Inr (vol\<lparr>VolumeId := volumeID\<rparr>))
      else (case cv_ContentSource req of
        Some vcs \<Rightarrow>
          go_bind (controllerServer_getSnapshotInfo http cs vcs (cv_Secrets req))
            (\<lambda>((nodeName, lvstore, sourceLvolID), e2). case e2 of
              Some x \<Rightarrow> go_return (Inl x)
            | None \<Rightarrow> go_bind (controllerServer_getSpdkNode cs nodeName (cv_Secrets req)) (\<lambda>(node, e2). case e2 of
                Some x \<Rightarrow> go_return (Inl (internal x))
              | None \<Rightarrow> go_bind (go_with node (SpdkNode_CloneVolume http (cv_Name req) lvstore sourceLvolID))
                  (\<lambda>((lvolID, e), _). case e of
                     Some x \<Rightarrow> go_return (Inl x)
                   | None \<Rightarrow> go_return (Inr (vol\<lparr>VolumeId := nodeName @ '':'' @ lvolID\<rparr>)))))
      | None \<Rightarrow>
          go_bind (controllerServer_schedule http ord2 cs sizeMiB (cv_Secrets req))
            (\<lambda>((nodeName, lvstore), e2). case e2 of
              Some x \<Rightarrow> go_return (Inl x)
            | None \<Rightarrow> go_bind (controllerServer_getSpdkNode cs nodeName (cv_Secrets req)) (\<lambda>(node, e2). case e2 of
                Some x \<Rightarrow> go_return (Inl (internal x))
              | None \<Rightarrow> go_bind (go_with node (SpdkNode_CreateVolume http (cv_Name req) lvstore sizeMiB))
                  (\<lambda>((lvolID, e), _). case e of
                     Some x \<Rightarrow> go_return (Inl x)
                   | None \<Rightarrow> go_return (Inr (vol\<lparr>VolumeId := nodeName @ '':'' @ lvolID\<rparr>))))))))"

section \<open>The handlers\<close>

definition controllerServer_CreateVolume ::
  "'w http \<Rightarrow> string list \<Rightarrow> string list \<Rightarrow> controllerServer \<Rightarrow> CreateVolumeRequest \<Rightarrow>
     (VolumeLocks \<times> 'w, go_error + csiVolume) go" where
  "controllerServer_CreateVolume http ord1 ord2 cs req = with_volume_lock (cv_Name req)
     (go_bind (controllerServer_createVolume http ord1 ord2 cs req) (\<lambda>r. case r of
        Inl e \<Rightarrow> go_return (Inl (internal e))
      | Inr csiVolume \<Rightarrow>
          go_bind (controllerServer_publishVolume http cs (VolumeId csiVolume) (cv_Secrets req))
            (\<lambda>(volumeInfo, e). case e of
               Some x \<Rightarrow> go_bind (controllerServer_deleteVolume http cs (VolumeId csiVolume) (cv_Secrets req))
                 (\<lambda>_. go_return (Inl (internal x)))
             | None \<Rightarrow> go_return (Inr (csiVolume\<lparr>VolumeContext := VolumeContext csiVolume ++ volumeInfo\<rparr>)))))"

definition controllerServer_DeleteVolume ::
  "'w http \<Rightarrow> controllerServer \<Rightarrow> string \<Rightarrow> smap \<Rightarrow> (VolumeLocks \<times> 'w, err) go" where
  "controllerServer_DeleteVolume http cs volumeID secrets = with_volume_lock volumeID
     (go_bind (controllerServer_unpublishVolume http cs volumeID secrets) (\<lambda>e.
        let delete = go_bind (controllerServer_deleteVolume http cs volumeID secrets) (\<lambda>e. case e of
              None \<Rightarrow> go_return None
            | Some x \<Rightarrow> if errors_Is x ErrJSONNoSuchDevice then go_return None
                        else go_return (Some (internal x)))
        in case e of
             None \<Rightarrow> delete
           | Some x \<Rightarrow> if errors_Is x ErrVolumeUnpublished then delete
                       else if errors_Is x ErrVolumeDeleted then go_return None
                       else go_return (Some (internal x))))"

definition controllerServer_ValidateVolumeCapabilities ::
  "controllerServer \<Rightarrow> AccessMode list \<Rightarrow> AccessMode list option" where
  "controllerServer_ValidateVolumeCapabilities cs caps =
     (if list_all (\<lambda>cap. list_ex (\<lambda>m. cap = m) (CSIDriver_GetVolumeCapabilityAccessModes (cs_Driver cs))) caps
      then Some caps else None)"

definition controllerServer_CreateSnapshot ::
  "'w http \<Rightarrow> int \<Rightarrow> controllerServer \<Rightarrow> string \<Rightarrow> string \<Rightarrow> smap \<Rightarrow>
     (VolumeLocks \<times> 'w, go_error + Snapshot) go" where
  "controllerServer_CreateSnapshot http now cs volumeID snapshotName secrets = with_volume_lock volumeID
     (case getSPDKVol volumeID of
        Inl e \<Rightarrow> go_return (Inl e)
      | Inr v \<Rightarrow> go_bind (controllerServer_getSpdkNode cs (sv_nodeName v) secrets) (\<lambda>(node, e). case e of
          Some x \<Rightarrow> go_return (Inl (internal x))
        | None \<Rightarrow> go_bind (go_with node (SpdkNode_CreateSnapshot http (sv_lvolID v) snapshotName))
            (\<lambda>((snapshotID, e), node). case e of
               Some x \<Rightarrow> go_return (Inl (internal x))
             | None \<Rightarrow> go_bind (go_with node (SpdkNode_VolumeInfo http (sv_lvolID v)))
                 (\<lambda>((volInfo, e), _). case e of
                    Some x \<Rightarrow> go_return (Inl (internal x))
                  | None \<Rightarrow> (case strconv_ParseInt (mget volInfo ''lvolSize'') of
                      None \<Rightarrow> go_return (Inl (internal (ParseInt_error (mget volInfo ''lvolSize''))))
                    | Some bytes \<Rightarrow> go_return (Inr
                        \<lparr>SizeBytes = bytes,
                         SnapshotId = sv_nodeName v @ '':'' @ snapshotID,
                         SourceVolumeId = sv_lvolID v,
                         CreationTime = now,
                         ReadyToUse = True\<rparr>))))))"

definition controllerServer_DeleteSnapshot ::
  "'w http \<Rightarrow> controllerServer \<Rightarrow> string \<Rightarrow> smap \<Rightarrow> (VolumeLocks \<times> 'w, err) go" where
  "controllerServer_DeleteSnapshot http cs snapshotID secrets = with_volume_lock snapshotID
     (case getSPDKVol snapshotID of
        Inl e \<Rightarrow> go_return (Some e)
      | Inr v \<Rightarrow> go_bind (controllerServer_getSpdkNode cs (sv_nodeName v) secrets) (\<lambda>(node, e). case e of
          Some x \<Rightarrow> go_return (Some (internal x))
        | None \<Rightarrow> go_bind (go_with node (SpdkNode_DeleteVolume http (sv_lvolID v))) (\<lambda>(e, _). case e of
            Some x \<Rightarrow> go_return (Some (internal x))
          | None \<Rightarrow> go_return None)))"

end
