(* ===== verification/Controller_Correct.thy ===== *)
theory Controller_Correct
  imports Controller Node_Interface
begin

text \<open>
  The controller service on nodes whose targets behave as documented: the node a name resolves to,
  what looking up, scheduling, publishing and deleting a volume do to the targets, and from these the
  behaviour of the handlers. The nodes are used through the facts of the \<open>volume_node\<close> contract.
\<close>

section \<open>Nodes\<close>

text \<open>The node object that \<open>getSpdkNode\<close> makes for a node name.\<close>

definition node_of :: "controllerServer \<Rightarrow> smap \<Rightarrow> string \<Rightarrow> SpdkNode option" where
  "node_of cs secrets name = (case NewSpdkSecrets (mget secrets ''secret.json'') of
     Inl _ \<Rightarrow> None
   | Inr tokens \<Rightarrow> (case spdkNodeConfigs cs name of
       None \<Rightarrow> None
     | Some cfg \<Rightarrow> (case find (\<lambda>t. tok_Name t = name) tokens of
         None \<Rightarrow> None
       | Some tok \<Rightarrow> fst (NewSpdkNode (cfg_URL cfg) (tok_UserName tok) (tok_Password tok)
           (cfg_TargetType cfg) (cfg_TargetAddr cfg)))))"

abbreviation node_ready :: "'w http \<Rightarrow> ('w \<Rightarrow> endpoint \<Rightarrow> target) \<Rightarrow> controllerServer \<Rightarrow> smap \<Rightarrow> string \<Rightarrow> bool" where
  "node_ready http view cs secrets name \<equiv> sn_conforms http view (node_of cs secrets name)"

abbreviation node_target :: "('w \<Rightarrow> endpoint \<Rightarrow> target) \<Rightarrow> SpdkNode option \<Rightarrow> 'w \<Rightarrow> target" where
  "node_target view n w \<equiv> view w (sn_endpoint n)"

lemma getSpdkNode_ready:
  assumes "node_ready http view cs secrets name"
  shows "controllerServer_getSpdkNode cs name secrets = go_return (node_of cs secrets name, None)"
proof -
  have "node_of cs secrets name \<noteq> None" using assms by (metis sn_conforms.simps(1))
  then show ?thesis
    by (auto simp: node_of_def controllerServer_getSpdkNode_def split: sum.splits option.splits prod.splits)
qed

text \<open>A configuration is filed under its own name.\<close>

definition configs_ok :: "controllerServer \<Rightarrow> bool" where
  "configs_ok cs \<longleftrightarrow> (\<forall>name cfg. spdkNodeConfigs cs name = Some cfg \<longrightarrow> cfg_Name cfg = name)"

lemma foldl_configs:
  "foldl (\<lambda>m c. m(cfg_Name c \<mapsto> c)) m cs name = Some c \<Longrightarrow> m name = Some c \<or> c \<in> set cs \<and> cfg_Name c = name"
  by (induction cs arbitrary: m) (fastforce split: if_splits)+

lemma newControllerServer_configs_ok: "newControllerServer d file = Inr (cs, locks) \<Longrightarrow> configs_ok cs"
  by (auto simp: newControllerServer_def configs_ok_def Let_def split: sum.splits if_splits dest!: foldl_configs)

section \<open>Publishing, unpublishing and deleting\<close>

definition ctl_publish_spec ::
  "SpdkNode option \<Rightarrow> string \<Rightarrow> target \<Rightarrow> smap \<times> err \<Rightarrow> target \<Rightarrow> bool" where
  "ctl_publish_spec n i t r t' \<longleftrightarrow>
     tg_bdev t' = tg_bdev t \<and> tg_lvstores t' = tg_lvstores t \<and>
     (\<forall>j. j \<noteq> i \<longrightarrow> sn_published n t' j = sn_published n t j) \<and>
     (tg_bdev t i \<noteq> None \<and> sn_published n t i \<and> snd (sn_info n t i) = None \<longrightarrow> r = sn_info n t i \<and> t' = t) \<and>
     (case snd r of
        None \<Rightarrow> tg_bdev t i \<noteq> None \<and> sn_published n t' i \<and> r = sn_info n t' i
      | Some _ \<Rightarrow> fst r = Map.empty \<and> (if tg_bdev t i = None then t' = t else \<not> sn_published n t' i)) \<and>
     (snd r = None \<longrightarrow> (if sn_published n t i then t' = t else sn_serves n t' i))"

lemma wp_ctl_unpublishVolume:
  assumes vol: "getSPDKVol volumeID = Inr \<lparr>sv_lvolID = i, sv_nodeName = name\<rparr>"
    and ok: "node_ready http view cs secrets name" and n: "n = node_of cs secrets name"
    and Q: "\<And>e t' w'. view w' = (view w)(sn_endpoint n := t') \<Longrightarrow>
       unpublish_spec (sn_published n) i (node_target view n w) e t' \<Longrightarrow> Q e w'"
  shows "go_wp (controllerServer_unpublishVolume http cs volumeID secrets) Q E w"
  unfolding controllerServer_unpublishVolume_def vol
  by (simp add: getSpdkNode_ready [OF ok] n [symmetric])
    (rule sn.unpublish_wp [where view = view], use ok n Q in auto)

lemma wp_ctl_deleteVolume:
  assumes vol: "getSPDKVol volumeID = Inr \<lparr>sv_lvolID = i, sv_nodeName = name\<rparr>"
    and ok: "node_ready http view cs secrets name" and n: "n = node_of cs secrets name"
    and Q: "\<And>e t' w'. view w' = (view w)(sn_endpoint n := t') \<Longrightarrow>
       delete_spec (may_refuse http view (sn_endpoint n)) i (node_target view n w) e t' \<Longrightarrow> Q e w'"
  shows "go_wp (controllerServer_deleteVolume http cs volumeID secrets) Q E w"
  unfolding controllerServer_deleteVolume_def vol
  by (simp add: getSpdkNode_ready [OF ok] n [symmetric])
    (rule sn.delete_wp [where view = view], use ok n Q in auto)

lemma wp_ctl_publishVolume:
  assumes vol: "getSPDKVol volumeID = Inr \<lparr>sv_lvolID = i, sv_nodeName = name\<rparr>"
    and ok: "node_ready http view cs secrets name" and n: "n = node_of cs secrets name"
    and Q: "\<And>r t' w'. view w' = (view w)(sn_endpoint n := t') \<Longrightarrow>
       ctl_publish_spec n i (node_target view n w) r t' \<Longrightarrow> Q r w'"
  shows "go_wp (controllerServer_publishVolume http cs volumeID secrets) Q E w"
proof -
  let ?t = "node_target view n w"
  have okn: "sn_conforms http view n" using ok n by simp
  show ?thesis
    unfolding controllerServer_publishVolume_def vol
    apply (simp add: getSpdkNode_ready [OF ok] n [symmetric])
    apply (rule sn.publish_wp [OF okn])
    subgoal for e t1 n1 w1
      apply (cases e)
       prefer 2
       subgoal by (simp, rule Q, assumption, auto simp: ctl_publish_spec_def publish_spec_def split: if_splits)
      apply simp
      apply (rule sn.volinfo_wp [OF sn.same_conforms [OF _ okn]], assumption)
      subgoal for n2 w2
        apply (simp add: sn.same_ep sn.same_info)
        apply (cases "sn_info n t1 i")
        subgoal for ctx e2
          apply (cases e2)
          subgoal by (simp, rule Q [where t' = t1], simp, auto simp: ctl_publish_spec_def publish_spec_def split: if_splits)
          apply simp
          apply (rule wp_ctl_unpublishVolume [OF vol ok n])
          apply simp
          subgoal by (rule Q, simp, auto simp: ctl_publish_spec_def publish_spec_def unpublish_spec_def split: if_splits)
          done
        done
      done
    done
qed

text \<open>The effect of \<open>DeleteVolume\<close> on the target of the volume's node.\<close>

definition ctl_delete_spec :: "(endpoint \<Rightarrow> bool) \<Rightarrow> SpdkNode option \<Rightarrow> string \<Rightarrow> target \<Rightarrow> err \<Rightarrow> target \<Rightarrow> bool" where
  "ctl_delete_spec rf n i t e t' \<longleftrightarrow> tg_lvstores t' = tg_lvstores t \<and>
     (\<forall>j. j \<noteq> i \<longrightarrow> sn_published n t' j = sn_published n t j) \<and>
     (if tg_bdev t i = None then e = None \<and> t' = t
      else \<not> sn_published n t' i \<and>
        (case e of
           None \<Rightarrow> tg_bdev t' = tg_bdev (del_bdev i t)
         | Some x \<Rightarrow> rf (sn_endpoint n) \<and> (\<exists>msg. x = StatusError Internal msg) \<and> tg_bdev t' = tg_bdev t))"

lemma tg_bdev_del_cong: "tg_bdev t = tg_bdev t' \<Longrightarrow> tg_bdev (del_bdev i t) = tg_bdev (del_bdev i t')"
  by (simp add: del_bdev_def fun_eq_iff)

lemma wp_ctl_DeleteVolume:
  assumes vol: "getSPDKVol volumeID = Inr \<lparr>sv_lvolID = i, sv_nodeName = name\<rparr>"
    and ok: "node_ready http view cs secrets name" and n: "n = node_of cs secrets name"
    and free: "\<not> lock_held m volumeID"
    and Q: "\<And>e t' m' w'. view w' = (view w)(sn_endpoint n := t') \<Longrightarrow> (\<And>j. lock_held m' j = lock_held m j) \<Longrightarrow>
       ctl_delete_spec (may_refuse http view) n i (node_target view n w) e t' \<Longrightarrow> Q e (m', w')"
  shows "go_wp (controllerServer_DeleteVolume http cs volumeID secrets) Q E (m, w)"
  unfolding controllerServer_DeleteVolume_def
  apply (rule wp_with_volume_lock [OF free])
  apply (simp only: go_wp_bind Let_def)
  apply (rule wp_ctl_unpublishVolume [OF vol ok n])
  subgoal for e t1 w1
    apply (cases "tg_bdev (node_target view n w) i")
    subgoal by (auto simp: unpublish_spec_def ctl_delete_spec_def intro!: Q [where t' = "node_target view n w"])
    apply (simp add: unpublish_spec_def)
    apply (rule wp_ctl_deleteVolume [OF vol ok n])
    subgoal for b e2 t2 w2
      apply (cases e2)
      subgoal by (auto simp: delete_spec_def ctl_delete_spec_def intro!: Q [where t' = t2] tg_bdev_del_cong)
      subgoal by (auto simp: delete_spec_def ctl_delete_spec_def internal_def intro!: Q [where t' = t2])
      done
    done
  done

lemma wp_ctl_DeleteSnapshot:
  assumes vol: "getSPDKVol snapshotID = Inr \<lparr>sv_lvolID = i, sv_nodeName = name\<rparr>"
    and ok: "node_ready http view cs secrets name" and n: "n = node_of cs secrets name"
    and free: "\<not> lock_held m snapshotID"
    and Q: "\<And>e t' m' w'. view w' = (view w)(sn_endpoint n := t') \<Longrightarrow> (\<And>j. lock_held m' j = lock_held m j) \<Longrightarrow>
       delete_spec (may_refuse http view (sn_endpoint n)) i (node_target view n w) e t' \<Longrightarrow>
       Q (map_option internal e) (m', w')"
  shows "go_wp (controllerServer_DeleteSnapshot http cs snapshotID secrets) Q E (m, w)"
proof -
  have body: "go_wp (go_bind (go_with n (SpdkNode_DeleteVolume http i)) (\<lambda>(e, _). case e of
      Some x \<Rightarrow> go_return (Some (internal x)) | None \<Rightarrow> go_return None)) Q' E' w"
    if "\<And>e t' w'. view w' = (view w)(sn_endpoint n := t') \<Longrightarrow>
        delete_spec (may_refuse http view (sn_endpoint n)) i (node_target view n w) e t' \<Longrightarrow> Q' (map_option internal e) w'"
    for Q' E'
    by simp (rule sn.delete_wp [OF ok [folded n]], use that in \<open>fastforce split: option.split\<close>)
  show ?thesis
    unfolding controllerServer_DeleteSnapshot_def vol sum.case spdkVolume.select_convs getSpdkNode_ready [OF ok] n [symmetric]
    by (rule wp_with_volume_lock [OF free], simp only: go_wp_bind go_wp_return prod.case option.case, fold go_wp_bind)
      (rule body, use Q in auto)
qed

section \<open>Looking up a volume by name\<close>

text \<open>The node names a loop over the configurations meets.\<close>

definition keys_in :: "controllerServer \<Rightarrow> string list \<Rightarrow> string list" where
  "keys_in cs ord = filter (\<lambda>k. spdkNodeConfigs cs k \<noteq> None) ord"

lemma keys_in_simps [simp]:
  "keys_in cs [] = []"
  "keys_in cs (k # ks) = (if spdkNodeConfigs cs k = None then keys_in cs ks else k # keys_in cs ks)"
  by (simp_all add: keys_in_def)

lemma keys_in_mem: "k \<in> set (keys_in cs ord) \<longleftrightarrow> k \<in> set ord \<and> spdkNodeConfigs cs k \<noteq> None"
  by (auto simp: keys_in_def)

text \<open>The first lvstore of a target with a volume of that name: the UUID of the volume.\<close>

fun find_in_stores :: "target \<Rightarrow> string \<Rightarrow> LvStore list \<Rightarrow> string option" where
  "find_in_stores t name [] = None"
| "find_in_stores t name (l # ls) = (case tg_bdev t (lvol_alias (lvs_Name l) name) of
     Some b \<Rightarrow> Some (bd_UUID b) | None \<Rightarrow> find_in_stores t name ls)"

abbreviation stores_of :: "target \<Rightarrow> LvStore list" where
  "stores_of t \<equiv> map LvStore_of_reply (tg_lvstores t)"

text \<open>The first of the nodes with such a volume, and the volume ID.\<close>

fun find_in_nodes ::
  "('w \<Rightarrow> endpoint \<Rightarrow> target) \<Rightarrow> 'w \<Rightarrow> controllerServer \<Rightarrow> smap \<Rightarrow> string \<Rightarrow> string list \<Rightarrow> (string \<times> string) option" where
  "find_in_nodes view w cs secrets name [] = None"
| "find_in_nodes view w cs secrets name (k # ks) =
     (let t = node_target view (node_of cs secrets k) w in
      case find_in_stores t name (stores_of t) of
        Some i \<Rightarrow> Some (k, i) | None \<Rightarrow> find_in_nodes view w cs secrets name ks)"

lemma wp_getVolume_lvs:
  assumes "sn_conforms http view n"
    and "\<And>n' w'. sn_same n n' \<Longrightarrow> view w' = view w \<Longrightarrow> Q (find_in_stores (node_target view n w) name ls) (n', w')"
  shows "go_wp (getVolume_lvs http name ls) Q E (n, w)"
  using assms
proof (induction ls arbitrary: n w)
  case Nil
  from Nil.prems(2) [OF sn.same_refl [OF Nil.prems(1)] refl] show ?case by simp
next
  case (Cons l ls)
  let ?t = "node_target view n w"
  have rest: "go_wp (getVolume_lvs http name ls) Q E (n', w')"
    if s: "sn_same n n'" "view w' = view w" "tg_bdev ?t (lvol_alias (lvs_Name l) name) = None" for n' w'
  proof (rule Cons.IH [OF sn.same_conforms [OF s(1) Cons.prems(1)]])
    fix n'' w'' assume "sn_same n' n''" "view w'' = view w'"
    then show "Q (find_in_stores (node_target view n' w') name ls) (n'', w'')"
      using Cons.prems(2) [of n'' w''] s by (simp add: sn.same_ep sn.same_trans)
  qed
  show ?case
    unfolding getVolume_lvs.simps go_wp_bind
    by (rule sn.getv_wp [OF Cons.prems(1)])
      (use Cons.prems(2) rest in \<open>cases "tg_bdev ?t (lvol_alias (lvs_Name l) name)"; simp add: get_spec_def\<close>)
qed

lemma wp_getVolume_nodes:
  assumes ok: "\<And>k cfg. spdkNodeConfigs cs k = Some cfg \<Longrightarrow> node_ready http view cs (cv_Secrets req) k"
    and cfgs: "configs_ok cs" and Q: "\<And>w'. view w' = view w \<Longrightarrow>
      Q (case find_in_nodes view w cs (cv_Secrets req) (cv_Name req) (keys_in cs ord) of
           Some (k, i) \<Rightarrow> (k @ '':'' @ i, None) | None \<Rightarrow> ([], Some (Errorf ''volume not found''))) w'"
  shows "go_wp (controllerServer_getVolume http ord cs req) Q E w"
  using Q unfolding controllerServer_getVolume_def configs_in_def
proof (induction ord arbitrary: w)
  case Nil
  then show ?case by (simp add: map_filter_simps)
next
  case (Cons k ks)
  show ?case
  proof (cases "spdkNodeConfigs cs k")
    case None
    with Cons show ?thesis by (simp add: map_filter_simps)
  next
    case (Some cfg)
    let ?n = "node_of cs (cv_Secrets req) k" let ?t = "node_target view ?n w"
    have name: "cfg_Name cfg = k" using cfgs Some by (auto simp: configs_ok_def)
    note okn = ok [OF Some]
    have rest: "go_wp (getVolume_nodes http cs req (List.map_filter (spdkNodeConfigs cs) ks)) Q E w'"
      if "view w' = view w" "find_in_stores ?t (cv_Name req) (stores_of ?t) = None" for w'
    proof (rule Cons.IH)
      have eq: "find_in_nodes view w' cs (cv_Secrets req) (cv_Name req) ls =
          find_in_nodes view w cs (cv_Secrets req) (cv_Name req) ls" for ls
        using that(1) by (induction ls) (simp_all add: Let_def split: option.split)
      fix w'' assume "view w'' = view w'"
      with that Cons.prems [of w''] Some
      show "Q (case find_in_nodes view w' cs (cv_Secrets req) (cv_Name req) (keys_in cs ks) of
           Some (k, i) \<Rightarrow> (k @ '':'' @ i, None) | None \<Rightarrow> ([], Some (Errorf ''volume not found''))) w''"
        by (simp add: eq Let_def)
    qed
    show ?thesis
      unfolding map_filter_simps Some option.case getVolume_nodes.simps name getSpdkNode_ready [OF okn]
      apply simp
      apply (rule sn.stores_wp [OF okn])
      apply simp
      apply (rule wp_getVolume_lvs [OF sn.same_conforms [OF _ okn]], assumption)
      using Cons.prems rest Some
      by (cases "find_in_stores ?t (cv_Name req) (stores_of ?t)") (auto simp: sn.same_ep Let_def)
  qed
qed

section \<open>Scheduling\<close>

text \<open>The first lvstore, in the order of the nodes and then of the lvstores, with more free space than asked for.\<close>

fun find_space ::
  "('w \<Rightarrow> endpoint \<Rightarrow> target) \<Rightarrow> 'w \<Rightarrow> controllerServer \<Rightarrow> smap \<Rightarrow> int64 \<Rightarrow> string list \<Rightarrow> (string \<times> string) option" where
  "find_space view w cs secrets sz [] = None"
| "find_space view w cs secrets sz (k # ks) =
     (case find (\<lambda>l. sint (FreeSizeMiB l) > sint sz) (stores_of (node_target view (node_of cs secrets k) w)) of
        Some l \<Rightarrow> Some (k, lvs_Name l) | None \<Rightarrow> find_space view w cs secrets sz ks)"

lemma wp_schedule:
  assumes ok: "\<And>k cfg. spdkNodeConfigs cs k = Some cfg \<Longrightarrow> node_ready http view cs secrets k"
    and cfgs: "configs_ok cs" and Q: "\<And>w'. view w' = view w \<Longrightarrow>
      Q (case find_space view w cs secrets sz (keys_in cs ord) of
           Some p \<Rightarrow> (p, None)
         | None \<Rightarrow> (([], []), Some (Errorf ''failed to find node with enough free space''))) w'"
  shows "go_wp (controllerServer_schedule http ord cs sz secrets) Q E w"
  using Q unfolding controllerServer_schedule_def configs_in_def
proof (induction ord arbitrary: w)
  case Nil
  then show ?case by (simp add: map_filter_simps)
next
  case (Cons k ks)
  show ?case
  proof (cases "spdkNodeConfigs cs k")
    case None
    with Cons show ?thesis by (simp add: map_filter_simps)
  next
    case (Some cfg)
    let ?t = "node_target view (node_of cs secrets k) w"
    have name: "cfg_Name cfg = k" using cfgs Some by (auto simp: configs_ok_def)
    note okn = ok [OF Some]
    have rest: "go_wp (schedule_nodes http cs sz secrets (List.map_filter (spdkNodeConfigs cs) ks)) Q E w'"
      if "view w' = view w" "find (\<lambda>l. sint (FreeSizeMiB l) > sint sz) (stores_of ?t) = None" for w'
    proof (rule Cons.IH)
      have eq: "find_space view w' cs secrets sz ls = find_space view w cs secrets sz ls" for ls
        using that(1) by (induction ls) (simp_all split: option.split)
      fix w'' assume "view w'' = view w'"
      with that Cons.prems [of w''] Some
      show "Q (case find_space view w' cs secrets sz (keys_in cs ks) of
           Some p \<Rightarrow> (p, None)
         | None \<Rightarrow> (([], []), Some (Errorf ''failed to find node with enough free space''))) w''"
        by (simp add: eq)
    qed
    show ?thesis
      unfolding map_filter_simps Some option.case schedule_nodes.simps name getSpdkNode_ready [OF okn]
      apply simp
      apply (rule sn.stores_wp [OF okn])
      using Cons.prems rest Some
      by (cases "find (\<lambda>l. sint (FreeSizeMiB l) > sint sz) (stores_of ?t)") auto
  qed
qed

section \<open>Creating a volume\<close>

text \<open>What one controller relies on: every configured node is ready.\<close>

definition cs_ready :: "'w http \<Rightarrow> ('w \<Rightarrow> endpoint \<Rightarrow> target) \<Rightarrow> controllerServer \<Rightarrow> smap \<Rightarrow> bool" where
  "cs_ready http view cs secrets \<longleftrightarrow> configs_ok cs \<and>
     (\<forall>k. spdkNodeConfigs cs k \<noteq> None \<longrightarrow> node_ready http view cs secrets k)"

lemma cs_readyD:
  assumes "cs_ready http view cs secrets"
  shows "configs_ok cs" and "spdkNodeConfigs cs k = Some cfg \<Longrightarrow> node_ready http view cs secrets k"
  using assms by (auto simp: cs_ready_def)

lemma find_in_nodes_mem:
  "find_in_nodes view w cs secrets name ks = Some (k, i) \<Longrightarrow> k \<in> set ks"
  by (induction ks) (auto simp: Let_def split: option.splits)

lemma find_space_mem:
  "find_space view w cs secrets sz ks = Some (k, lvs) \<Longrightarrow> k \<in> set ks \<and>
     (\<exists>l \<in> set (stores_of (node_target view (node_of cs secrets k) w)). lvs_Name l = lvs \<and> sint (FreeSizeMiB l) > sint sz)"
  by (induction ks) (auto split: option.splits simp: find_Some_iff)

text \<open>
  A request with a content source names a snapshot of a configured node. (For a name that cannot be
  parsed, and for a source that is not a snapshot, \<open>createVolume\<close> returns an error; for a node that is
  not configured \<open>getSpdkNode\<close> panics.)
\<close>

definition source_ok :: "controllerServer \<Rightarrow> CreateVolumeRequest \<Rightarrow> bool" where
  "source_ok cs req \<longleftrightarrow> (case cv_ContentSource req of
     Some (SnapshotSource s) \<Rightarrow> (case getSPDKVol s of Inl _ \<Rightarrow> True | Inr v \<Rightarrow> spdkNodeConfigs cs (sv_nodeName v) \<noteq> None)
   | _ \<Rightarrow> True)"

lemma source_ok_None [simp]: "cv_ContentSource req = None \<Longrightarrow> source_ok cs req"
  by (simp add: source_ok_def)

text \<open>Where a new volume is made: in the scheduled lvstore, or, for a clone, in the lvstore of its snapshot.\<close>

definition ctl_place ::
  "('w \<Rightarrow> endpoint \<Rightarrow> target) \<Rightarrow> 'w \<Rightarrow> controllerServer \<Rightarrow> CreateVolumeRequest \<Rightarrow> string list \<Rightarrow> (string \<times> string) option" where
  "ctl_place view w cs req ks = (case cv_ContentSource req of
     None \<Rightarrow> find_space view w cs (cv_Secrets req) (ToMiB (request_size req)) ks
   | Some (SnapshotSource s) \<Rightarrow> (case getSPDKVol s of
       Inl _ \<Rightarrow> None
     | Inr v \<Rightarrow> if spdkNodeConfigs cs (sv_nodeName v) = None then None
         else (case lvstore_of (node_target view (node_of cs (cv_Secrets req) (sv_nodeName v)) w) (sv_lvolID v) of
           (lvs, None) \<Rightarrow> Some (sv_nodeName v, lvs)
         | _ \<Rightarrow> None))
   | Some _ \<Rightarrow> None)"

lemma lvstore_of_mem: "lvstore_of t i = (lvs, None) \<Longrightarrow> \<exists>l \<in> set (tg_lvstores t). lr_Name l = lvs"
  by (auto simp: lvstore_of_def split: option.splits dest!: find_SomeD)

lemma ctl_place_mem:
  assumes "ctl_place view w cs req (keys_in cs ord) = Some (k, lvs)"
  shows "spdkNodeConfigs cs k \<noteq> None" "\<exists>l \<in> set (tg_lvstores (node_target view (node_of cs (cv_Secrets req) k) w)). lr_Name l = lvs"
  using assms
  by (auto 4 4 simp: ctl_place_def keys_in_mem LvStore_of_reply_def dest!: find_space_mem lvstore_of_mem
      split: option.splits VolumeContentSource.splits sum.splits if_splits prod.splits)

text \<open>
  The result of \<open>createVolume\<close>: an existing volume of that name, which is returned as it is; or one
  that is made in the place for it; or an error, with every target as before.
\<close>

definition ctl_create_spec ::
  "('w \<Rightarrow> endpoint \<Rightarrow> target) \<Rightarrow> controllerServer \<Rightarrow> CreateVolumeRequest \<Rightarrow> string list \<Rightarrow> string list \<Rightarrow> 'w \<Rightarrow>
     (go_error + string \<times> string) \<Rightarrow> (endpoint \<Rightarrow> target) \<Rightarrow> bool" where
  "ctl_create_spec view cs req ks1 ks2 w r v' \<longleftrightarrow>
     (case find_in_nodes view w cs (cv_Secrets req) (cv_Name req) ks1 of
        Some p \<Rightarrow> r = Inr p \<and> v' = view w
      | None \<Rightarrow> (case ctl_place view w cs req ks2 of
          None \<Rightarrow> (\<exists>x. r = Inl x) \<and> v' = view w
        | Some (k, lvs) \<Rightarrow>
            (let n = node_of cs (cv_Secrets req) k; t = node_target view n w in
             \<exists>c t'. create_spec lvs (cv_Name req) t c t' \<and> v' = (view w)(sn_endpoint n := t') \<and>
               (case c of (i, None) \<Rightarrow> r = Inr (k, i) | (_, Some x) \<Rightarrow> r = Inl x))))"

definition volume_of :: "CreateVolumeRequest \<Rightarrow> string \<times> string \<Rightarrow> csiVolume" where
  "volume_of req = (\<lambda>(k, i).
     \<lparr>CapacityBytes = ToMiB (request_size req) * 1024 * 1024, VolumeId = k @ '':'' @ i,
      VolumeContext = cv_Parameters req, ContentSource = cv_ContentSource req\<rparr>)"

lemma wp_make_on_node:
  assumes ok: "node_ready http view cs secrets k"
    and mk: "\<And>Q. (\<And>c t' n' w'. create_spec lvs name (node_target view (node_of cs secrets k) w) c t' \<Longrightarrow>
         view w' = (view w)(sn_endpoint (node_of cs secrets k) := t') \<Longrightarrow> Q c (n', w')) \<Longrightarrow>
       go_wp mk Q E' (node_of cs secrets k, w)" and E': "E' = (\<lambda>s (_, w). E s w)"
    and Q: "\<And>c t' w'. create_spec lvs name (node_target view (node_of cs secrets k) w) c t' \<Longrightarrow>
       view w' = (view w)(sn_endpoint (node_of cs secrets k) := t') \<Longrightarrow>
       Q (case c of (i, None) \<Rightarrow> Inr (g i) | (_, Some x) \<Rightarrow> Inl x) w'"
  shows "go_wp (controllerServer_getSpdkNode cs k secrets)
     (\<lambda>x. go_wp (case x of (node, e2) \<Rightarrow> (case e2 of
         Some x \<Rightarrow> go_return (Inl (internal x))
       | None \<Rightarrow> go_bind (go_with node mk)
           (\<lambda>((lvolID, e), _). case e of
              Some x \<Rightarrow> go_return (Inl x)
            | None \<Rightarrow> go_return (Inr (g lvolID))))) Q E) E w"
proof -
  have ok': "Q (Inr (g i)) w'" if "create_spec lvs name (node_target view (node_of cs secrets k) w) (i, None) t'"
      "view w' = (view w)(sn_endpoint (node_of cs secrets k) := t')" for i t' w'
    using Q [OF that] by simp
  have err: "Q (Inl x) w'" if "create_spec lvs name (node_target view (node_of cs secrets k) w) (i, Some x) t'"
      "view w' = (view w)(sn_endpoint (node_of cs secrets k) := t')" for i x t' w'
    using Q [OF that] by simp
  show ?thesis
    unfolding getSpdkNode_ready [OF ok]
    by simp (rule mk [unfolded E'], auto split: option.splits intro: ok' err)
qed

lemma ctl_create_specI:
  assumes "find_in_nodes view w cs (cv_Secrets req) (cv_Name req) ks1 = None"
    and "ctl_place view w cs req ks2 = Some (k, lvs)"
    and "create_spec lvs (cv_Name req) (node_target view (node_of cs (cv_Secrets req) k) w) c t'"
    and "v' = (view w)(sn_endpoint (node_of cs (cv_Secrets req) k) := t')"
  shows "ctl_create_spec view cs req ks1 ks2 w (case c of (i, None) \<Rightarrow> Inr (k, i) | (_, Some x) \<Rightarrow> Inl x) v'"
  unfolding ctl_create_spec_def assms(1,2) option.case prod.case Let_def
  by (intro exI [of _ c] exI [of _ t'] conjI) (use assms(3,4) in \<open>auto split: prod.splits option.splits\<close>)

text \<open>The volume info of a node says in which lvstore a volume is.\<close>

lemma sn_info_lvstore:
  assumes "sn_conforms http view n"
  shows "case lvstore_of t i of
       (lvs, None) \<Rightarrow> \<exists>ctx. sn_info n t i = (ctx, None) \<and> mget ctx ''lvstore'' = lvs
     | (_, Some _) \<Rightarrow> \<exists>x. sn_info n t i = (Map.empty, Some x)"
  using assms
  by (cases rule: sn_cases)
    (auto simp: nv_info_def is_info_def lvstore_of_def mget_def split: option.splits prod.splits)

lemma wp_getSnapshotInfo:
  assumes ok: "cs_ready http view cs (cv_Secrets req)" and src: "cv_ContentSource req = Some vcs" "source_ok cs req"
    and none: "\<And>x y w'. view w' = view w \<Longrightarrow> ctl_place view w cs req ks = None \<Longrightarrow> Q (y, Some x) w'"
    and some: "\<And>k lvs s w'. view w' = view w \<Longrightarrow> ctl_place view w cs req ks = Some (k, lvs) \<Longrightarrow>
       lvstore_of (node_target view (node_of cs (cv_Secrets req) k) w) s = (lvs, None) \<Longrightarrow> Q ((k, lvs, s), None) w'"
  shows "go_wp (controllerServer_getSnapshotInfo http cs vcs (cv_Secrets req)) Q E w"
proof (cases "\<exists>s v. vcs = SnapshotSource s \<and> getSPDKVol s = Inr v")
  case False
  then have "ctl_place view w cs req ks = None"
    using src(1) by (auto simp: ctl_place_def split: VolumeContentSource.splits sum.splits)
  with False none show ?thesis
    by (auto simp: controllerServer_getSnapshotInfo_def split: VolumeContentSource.splits sum.splits)
next
  case True
  then obtain s v where vcs: "vcs = SnapshotSource s" and v: "getSPDKVol s = Inr v" by blast
  let ?n = "node_of cs (cv_Secrets req) (sv_nodeName v)"
  have k: "spdkNodeConfigs cs (sv_nodeName v) \<noteq> None" using src vcs v by (simp add: source_ok_def)
  then have okn: "sn_conforms http view ?n" using cs_readyD(2) [OF ok] by blast
  have place: "ctl_place view w cs req ks =
      (case lvstore_of (node_target view ?n w) (sv_lvolID v) of (lvs, None) \<Rightarrow> Some (sv_nodeName v, lvs) | _ \<Rightarrow> None)"
    using src vcs v k by (auto simp: ctl_place_def)
  have "Q (if e \<noteq> None then ((sv_nodeName v, [], sv_lvolID v), e)
       else ((sv_nodeName v, mget info ''lvstore'', sv_lvolID v), None)) w'"
    if "view w' = view w" "sn_info ?n (node_target view ?n w) (sv_lvolID v) = (info, e)" for w' info e
    using sn_info_lvstore [OF okn, of "node_target view ?n w" "sv_lvolID v"] that none some
    by (auto simp: place split: prod.splits option.splits)
  then show ?thesis
    unfolding controllerServer_getSnapshotInfo_def vcs VolumeContentSource.case v sum.case getSpdkNode_ready [OF okn]
    by simp (rule sn.volinfo_wp [OF okn], auto split: prod.splits)
qed

lemma wp_ctl_createVolume_found:
  assumes ok: "cs_ready http view cs (cv_Secrets req)"
    and f: "find_in_nodes view w cs (cv_Secrets req) (cv_Name req) (keys_in cs ord1) = Some p"
    and Q: "\<And>w'. view w' = view w \<Longrightarrow> Q (Inr (volume_of req p)) w'"
  shows "go_wp (controllerServer_createVolume http ord1 ord2 cs req) Q E w"
  unfolding controllerServer_createVolume_def Let_def go_wp_bind
  by (intro wp_getVolume_nodes [OF cs_readyD(2,1) [OF ok]]) (use Q in \<open>auto simp: f volume_of_def split: prod.splits\<close>)

lemma wp_ctl_createVolume:
  assumes ok: "cs_ready http view cs (cv_Secrets req)" and src: "source_ok cs req"
    and Q: "\<And>r w'. ctl_create_spec view cs req (keys_in cs ord1) (keys_in cs ord2) w r (view w') \<Longrightarrow>
       Q (case r of Inl x \<Rightarrow> Inl x | Inr p \<Rightarrow> Inr (volume_of req p)) w'"
  shows "go_wp (controllerServer_createVolume http ord1 ord2 cs req) Q E w"
proof (cases "find_in_nodes view w cs (cv_Secrets req) (cv_Name req) (keys_in cs ord1)")
  case (Some p)
  then show ?thesis
    by (rule wp_ctl_createVolume_found [OF ok]) (use Q [of "Inr p"] Some in \<open>simp add: ctl_create_spec_def\<close>)
next
  case none: None
  note D = cs_readyD [OF ok]
  let ?sz = "ToMiB (request_size req)" and ?p = "\<lambda>w. ctl_place view w cs req (keys_in cs ord2)"
  have fs: "find_space view w1 cs (cv_Secrets req) ?sz ks = find_space view w cs (cv_Secrets req) ?sz ks"
    if "view w1 = view w" for w1 ks using that by (induction ks) (simp_all split: option.split)
  have place: "?p w1 = ?p w" if "view w1 = view w" for w1
    using that fs [OF that] by (simp add: ctl_place_def split: option.splits VolumeContentSource.splits sum.splits)
  have Qerr: "Q (Inl x) w'" if "?p w = None" "view w' = view w" for x w'
    using Q [of "Inl x" w'] that none by (simp add: ctl_create_spec_def)
  have Qmade: "Q (case c of (i, None) \<Rightarrow> Inr (volume_of req (k, i)) | (_, Some x) \<Rightarrow> Inl x) w'"
    if "?p w = Some (k, lvs)" "view w1 = view w"
      "create_spec lvs (cv_Name req) (node_target view (node_of cs (cv_Secrets req) k) w1) c t'"
      "view w' = (view w1)(sn_endpoint (node_of cs (cv_Secrets req) k) := t')" for k lvs c t' w1 w'
    using Q [OF ctl_create_specI [OF none that(1), where c = c and t' = t' and v' = "view w'"]] that
    by (cases c; cases "snd c") auto
  have ready: "node_ready http view cs (cv_Secrets req) k" if "?p w = Some (k, lvs)" for k lvs
    using ctl_place_mem(1) [OF that] D(2) by blast
  show ?thesis
  proof (cases "cv_ContentSource req")
    case None
    then have space: "find_space view w cs (cv_Secrets req) ?sz (keys_in cs ord2) = ?p w" by (simp add: ctl_place_def)
    have sched: "go_wp (controllerServer_schedule http ord2 cs ?sz (cv_Secrets req)) Q' E w1"
      if v: "view w1 = view w" and "\<And>w'. view w' = view w \<Longrightarrow> Q' (case ?p w of Some p \<Rightarrow> (p, None)
         | None \<Rightarrow> (([], []), Some (Errorf ''failed to find node with enough free space''))) w'" for Q' w1
      by (rule wp_schedule [OF D(2) D(1)]) (use that fs [OF v] space in simp_all)
    show ?thesis
      unfolding controllerServer_createVolume_def Let_def go_wp_bind
      apply (rule wp_getVolume_nodes [OF D(2) D(1)], assumption)
      apply (simp add: none None)
      apply (rule sched, assumption)
      apply (cases "?p w")
      subgoal by (simp add: Qerr)
      subgoal for w1 w2 p
        apply (cases p)
        subgoal for k lvs
          apply (simp del: go_wp_with)
          apply (rule wp_make_on_node [OF ready _ refl, where lvs = lvs and name = "cv_Name req"], assumption)
          subgoal by (rule sn.create_wp [OF ready]) auto
          subgoal for c t' w'
            using Qmade [of k lvs w2 c t' w'] None by (cases c; cases "snd c") (auto simp: volume_of_def)
          done
        done
      done
  next
    case (Some vcs)
    have source: "go_wp (controllerServer_getSnapshotInfo http cs vcs (cv_Secrets req)) Q' E w1"
      if v: "view w1 = view w" and "\<And>x y w'. view w' = view w \<Longrightarrow> ?p w = None \<Longrightarrow> Q' (y, Some x) w'"
        "\<And>k lvs s w'. view w' = view w \<Longrightarrow> ?p w = Some (k, lvs) \<Longrightarrow>
          lvstore_of (node_target view (node_of cs (cv_Secrets req) k) w') s = (lvs, None) \<Longrightarrow> Q' ((k, lvs, s), None) w'"
      for Q' w1
      by (rule wp_getSnapshotInfo [OF ok Some src, where ks = "keys_in cs ord2"]) (use that place [OF v] in simp_all)
    show ?thesis
      unfolding controllerServer_createVolume_def Let_def go_wp_bind
      apply (rule wp_getVolume_nodes [OF D(2) D(1)], assumption)
      apply (simp add: none Some)
      apply (rule source, assumption)
      subgoal by (simp add: Qerr split: prod.split)
      subgoal for w1 k lvs s w2
        apply (simp del: go_wp_with)
        apply (rule wp_make_on_node [OF ready _ refl, where lvs = lvs and name = "cv_Name req"], assumption)
        subgoal by (rule sn.clone_wp [OF ready]) auto
        subgoal for c t' w'
          using Qmade [of k lvs w2 c t' w'] Some by (cases c; cases "snd c") (auto simp: volume_of_def)
        done
      done
  qed
qed

section \<open>Volume IDs\<close>

definition plain :: "string \<Rightarrow> bool" where
  "plain s \<longleftrightarrow> CHR '':'' \<notin> set s"

lemma getSPDKVol_Inr_iff:
  "getSPDKVol s = Inr v \<longleftrightarrow>
     s = sv_nodeName v @ '':'' @ sv_lvolID v \<and> plain (sv_nodeName v) \<and> plain (sv_lvolID v)"
proof -
  have "getSPDKVol s = Inr v \<longleftrightarrow> strings_Split s CHR '':'' = [sv_nodeName v, sv_lvolID v]"
    by (cases v) (auto simp: getSPDKVol_def split: list.splits)
  then show ?thesis by (simp add: strings_Split_two_iff plain_def)
qed

lemma getSPDKVol_id:
  "plain k \<Longrightarrow> plain i \<Longrightarrow> getSPDKVol (k @ '':'' @ i) = Inr \<lparr>sv_lvolID = i, sv_nodeName = k\<rparr>"
  by (simp add: getSPDKVol_Inr_iff)

lemma getSPDKVol_colon:
  assumes "\<not> (plain k \<and> plain i)" shows "\<exists>x. getSPDKVol (k @ '':'' @ i) = Inl x"
proof (cases "getSPDKVol (k @ '':'' @ i)")
  case (Inr v)
  then have s: "k @ '':'' @ i = sv_nodeName v @ '':'' @ sv_lvolID v" and p: "plain (sv_nodeName v)" "plain (sv_lvolID v)"
    by (simp_all only: getSPDKVol_Inr_iff)
  have "count_list (k @ '':'' @ i) CHR '':'' = 1"
    unfolding s using p by (simp add: plain_def count_list_0_iff)
  then have "plain k \<and> plain i" by (simp add: plain_def count_list_0_iff)
  with assms show ?thesis by simp
qed simp

section \<open>The CreateVolume handler\<close>

text \<open>
  \<open>CreateVolume\<close>: the volume is found or made, then published; if that
  fails, it is deleted again (a volume whose ID cannot be parsed is neither published nor deleted).
\<close>

definition ctl_finish_spec ::
  "(endpoint \<Rightarrow> bool) \<Rightarrow> controllerServer \<Rightarrow> CreateVolumeRequest \<Rightarrow> string \<Rightarrow> string \<Rightarrow> (endpoint \<Rightarrow> target) \<Rightarrow>
     (go_error + csiVolume) \<Rightarrow> (endpoint \<Rightarrow> target) \<Rightarrow> bool" where
  "ctl_finish_spec rf cs req k i v res v' \<longleftrightarrow>
     (let n = node_of cs (cv_Secrets req) k in
      if \<not> (plain k \<and> plain i) then (\<exists>x. res = Inl (internal x)) \<and> v' = v
      else \<exists>ctx e t. ctl_publish_spec n i (v (sn_endpoint n)) (ctx, e) t \<and> (case e of
         None \<Rightarrow> v' = v(sn_endpoint n := t) \<and>
           res = Inr ((volume_of req (k, i))\<lparr>VolumeContext := cv_Parameters req ++ ctx\<rparr>)
       | Some x \<Rightarrow> res = Inl (internal x) \<and>
           (\<exists>d t'. delete_spec (rf (sn_endpoint n)) i t d t' \<and> v' = v(sn_endpoint n := t'))))"

definition ctl_CreateVolume_spec ::
  "(endpoint \<Rightarrow> bool) \<Rightarrow> ('w \<Rightarrow> endpoint \<Rightarrow> target) \<Rightarrow> controllerServer \<Rightarrow> CreateVolumeRequest \<Rightarrow> string list \<Rightarrow> string list \<Rightarrow> 'w \<Rightarrow>
     (go_error + csiVolume) \<Rightarrow> (endpoint \<Rightarrow> target) \<Rightarrow> bool" where
  "ctl_CreateVolume_spec rf view cs req ks1 ks2 w res v' \<longleftrightarrow>
     (\<exists>r v. ctl_create_spec view cs req ks1 ks2 w r v \<and> (case r of
        Inl x \<Rightarrow> res = Inl (internal x) \<and> v' = v
      | Inr (k, i) \<Rightarrow> ctl_finish_spec rf cs req k i v res v'))"

lemma ctl_create_spec_ready:
  assumes "ctl_create_spec view cs req (keys_in cs ord1) (keys_in cs ord2) w (Inr (k, i)) v"
    and "cs_ready http view cs (cv_Secrets req)"
  shows "node_ready http view cs (cv_Secrets req) k"
proof -
  have "spdkNodeConfigs cs k \<noteq> None"
    using assms(1) unfolding ctl_create_spec_def
    by (auto simp: Let_def keys_in_mem split: option.splits dest!: find_in_nodes_mem ctl_place_mem(1))
  with assms(2) show ?thesis by (simp add: cs_ready_def)
qed

lemma wp_CreateVolume_tail:
  assumes ready: "node_ready http view cs (cv_Secrets req) k"
    and Q: "\<And>res w'. ctl_finish_spec (may_refuse http view) cs req k i (view w) res (view w') \<Longrightarrow> Q res w'"
  shows "go_wp (controllerServer_publishVolume http cs (k @ '':'' @ i) (cv_Secrets req))
     (\<lambda>x. go_wp (case x of (volumeInfo, e) \<Rightarrow> (case e of
         Some x \<Rightarrow> go_bind (controllerServer_deleteVolume http cs (k @ '':'' @ i) (cv_Secrets req))
           (\<lambda>_. go_return (Inl (internal x)))
       | None \<Rightarrow> go_return (Inr ((volume_of req (k, i))\<lparr>VolumeContext := cv_Parameters req ++ volumeInfo\<rparr>)))) Q E) E w"
proof (cases "plain k \<and> plain i")
  case False
  then obtain x where "getSPDKVol (k @ '':'' @ i) = Inl x" using getSPDKVol_colon by blast
  moreover have "Q (Inl (internal x)) w" by (rule Q) (use False in \<open>auto simp: ctl_finish_spec_def\<close>)
  ultimately show ?thesis
    by (simp add: controllerServer_publishVolume_def controllerServer_deleteVolume_def)
next
  case True
  let ?n = "node_of cs (cv_Secrets req) k"
  have vol: "getSPDKVol (k @ '':'' @ i) = Inr \<lparr>sv_lvolID = i, sv_nodeName = k\<rparr>"
    using True by (simp only: getSPDKVol_id)
  then have vol': "getSPDKVol (k @ CHR '':'' # i) = Inr \<lparr>sv_lvolID = i, sv_nodeName = k\<rparr>" by simp
  have finish: "Q (Inr ((volume_of req (k, i))\<lparr>VolumeContext := cv_Parameters req ++ ctx\<rparr>)) w'"
    if "ctl_publish_spec ?n i (node_target view ?n w) (ctx, None) t" "view w' = (view w)(sn_endpoint ?n := t)" for ctx t w'
    by (rule Q, unfold ctl_finish_spec_def Let_def, simp only: True simp_thms if_False)
      (rule exI [of _ ctx], rule exI [of _ None], rule exI [of _ t], use that in simp)
  have fail: "Q (Inl (internal x)) w'"
    if "ctl_publish_spec ?n i (node_target view ?n w) (ctx, Some x) t" "delete_spec (may_refuse http view (sn_endpoint ?n)) i t d t'"
      "view w' = (view w)(sn_endpoint ?n := t')" for ctx x t d t' w'
    by (rule Q, unfold ctl_finish_spec_def Let_def, simp only: True simp_thms if_False)
      (rule exI [of _ ctx], rule exI [of _ "Some x"], rule exI [of _ t], use that in auto)
  show ?thesis
    apply (rule wp_ctl_publishVolume [OF vol ready refl])
    subgoal for r t w'
      apply (cases r)
      subgoal for ctx e
        apply (cases e)
        subgoal by (simp add: finish)
        apply simp
        apply (rule wp_ctl_deleteVolume [OF vol' ready refl])
        apply (simp add: fail)
        done
      done
    done
qed

lemma volume_of_sel:
  "VolumeId (volume_of req (k, i)) = k @ '':'' @ i"
  "VolumeContext (volume_of req (k, i)) = cv_Parameters req"
  by (simp_all add: volume_of_def)

lemma wp_ctl_CreateVolume:
  assumes ok: "cs_ready http view cs (cv_Secrets req)" and src: "source_ok cs req"
    and free: "\<not> lock_held m (cv_Name req)"
    and Q: "\<And>res m' w'. (\<And>j. lock_held m' j = lock_held m j) \<Longrightarrow>
       ctl_CreateVolume_spec (may_refuse http view) view cs req (keys_in cs ord1) (keys_in cs ord2) w res (view w') \<Longrightarrow> Q res (m', w')"
  shows "go_wp (controllerServer_CreateVolume http ord1 ord2 cs req) Q E (m, w)"
proof -
  have Q': "Q res (m', w')" if "\<forall>j. lock_held m' j = lock_held m j"
      "ctl_create_spec view cs req (keys_in cs ord1) (keys_in cs ord2) w r v"
      "case r of Inl x \<Rightarrow> res = Inl (internal x) \<and> view w' = v | Inr (k, i) \<Rightarrow> ctl_finish_spec (may_refuse http view) cs req k i v res (view w')"
    for res m' w' r v
    by (rule Q) (use that in \<open>auto simp: ctl_CreateVolume_spec_def\<close>)
  show ?thesis
    unfolding controllerServer_CreateVolume_def
    apply (rule wp_with_volume_lock [OF free])
    apply (simp only: go_wp_bind)
    apply (rule wp_ctl_createVolume [OF ok src])
    subgoal for r w1
      apply (cases r)
      subgoal by (auto intro: Q')
      subgoal for p
        apply (cases p)
        subgoal for k i
          apply (simp only: sum.case volume_of_sel go_wp_bind)
          apply (rule wp_CreateVolume_tail [where view = view], erule ctl_create_spec_ready [OF _ ok])
          subgoal by (auto intro: Q')
          done
        done
      done
    done
qed

end
