(* ===== verification/Sim_Cluster.thy ===== *)
theory Sim_Cluster
  imports Target_Sim Controller_Correct
begin

text \<open>
  A concrete cluster: a controller with an NVMe-oF node and an iSCSI node, its secrets, and executable
  targets behind both nodes. It meets the hypotheses of the properties of the controller.
\<close>

definition cfg_nvmf :: SpdkNodeConfig where
  "cfg_nvmf = \<lparr>cfg_Name = ''n1'', cfg_URL = ''http://10.0.0.1:9009'', cfg_TargetType = ''nvme-tcp'', cfg_TargetAddr = ''10.0.0.1''\<rparr>"

definition cfg_iscsi :: SpdkNodeConfig where
  "cfg_iscsi = \<lparr>cfg_Name = ''n2'', cfg_URL = ''http://10.0.0.2:9009'', cfg_TargetType = ''iscsi'', cfg_TargetAddr = ''10.0.0.2''\<rparr>"

definition demo_cs :: controllerServer where
  "demo_cs = \<lparr>cs_Driver = \<lparr>drv_name = ''csi.spdk.io'', drv_nodeID = ''node'', drv_version = ''0.1'',
       drv_cap = [CREATE_DELETE_VOLUME], drv_vc = [SINGLE_NODE_WRITER]\<rparr>,
     spdkNodeConfigs = [''n1'' \<mapsto> cfg_nvmf, ''n2'' \<mapsto> cfg_iscsi]\<rparr>"

definition token_doc :: "string \<Rightarrow> json" where
  "token_doc n = JObj [(''name'', JStr n), (''username'', JStr ''user''), (''password'', JStr ''pass'')]"

definition demo_secrets :: smap where
  "demo_secrets = [''secret.json'' \<mapsto> json_text (JObj [(''rpcTokens'', JArr [token_doc ''n1'', token_doc ''n2''])])]"

definition demo_store :: lvstore_reply where
  "demo_store = \<lparr>FreeClusters = 1000, ClusterSize = 4194304, TotalClusters = 1000, lr_Name = ''lvs0'', lr_UUID = ''store-uuid''\<rparr>"

definition demo_sim :: sim where
  "demo_sim = \<lparr>sm_stores = [demo_store], sm_bdevs = [], sm_trans = [], sm_subs = [], sm_pgs = [], sm_igs = [], sm_tnodes = []\<rparr>"

definition demo_world :: sim_world where
  "demo_world = (\<lambda>_. demo_sim)"

definition demo_req :: CreateVolumeRequest where
  "demo_req = \<lparr>cv_Name = ''pvc-1'', cv_RequiredBytes = 1000000, cv_Parameters = Map.empty,
     cv_Secrets = demo_secrets, cv_ContentSource = None\<rparr>"

definition demo_nvmf :: nodeNVMf where
  "demo_nvmf = newNVMf \<lparr>rpcURL = ''http://10.0.0.1:9009'', rpcUser = ''user'', rpcPass = ''pass'', rpcID = 0\<rparr> ''TCP'' ''10.0.0.1''"

definition demo_iscsi :: nodeISCSI where
  "demo_iscsi = newISCSI \<lparr>rpcURL = ''http://10.0.0.2:9009'', rpcUser = ''user'', rpcPass = ''pass'', rpcID = 0\<rparr> ''10.0.0.2''"

lemma demo_tokens:
  "NewSpdkSecrets (mget demo_secrets ''secret.json'') =
     Inr [\<lparr>tok_Name = ''n1'', tok_UserName = ''user'', tok_Password = ''pass''\<rparr>,
          \<lparr>tok_Name = ''n2'', tok_UserName = ''user'', tok_Password = ''pass''\<rparr>]"
proof -
  have wf: "wf_json (JObj [(''rpcTokens'', JArr [token_doc ''n1'', token_doc ''n2''])])"
    by (simp add: token_doc_def)
  show ?thesis
    unfolding NewSpdkSecrets_def mget_def demo_secrets_def fun_upd_same option.case json_unmarshal_text [OF wf]
    by (simp add: token_doc_def find_field_def dec_SpdkToken_def fld_def)
qed

lemma node_of_demo:
  "node_of demo_cs demo_secrets ''n1'' = Some (NodeNVMf demo_nvmf)"
  "node_of demo_cs demo_secrets ''n2'' = Some (NodeISCSI demo_iscsi)"
  by (simp_all add: node_of_def demo_tokens demo_cs_def cfg_nvmf_def cfg_iscsi_def NewSpdkNode_def strings_ToLower_def
      demo_nvmf_def demo_iscsi_def)

lemma demo_ready: "cs_ready sim_http sim_view demo_cs demo_secrets"
proof -
  have "k = ''n1'' \<or> k = ''n2''" if "spdkNodeConfigs demo_cs k \<noteq> None" for k
    using that by (auto simp: demo_cs_def split: if_splits)
  then have "node_ready sim_http sim_view demo_cs demo_secrets k" if "spdkNodeConfigs demo_cs k \<noteq> None" for k
    using that by (metis node_of_demo sim_sn_conforms)
  moreover have "configs_ok demo_cs"
    by (auto simp: configs_ok_def demo_cs_def cfg_nvmf_def cfg_iscsi_def split: if_splits)
  ultimately show ?thesis by (simp add: cs_ready_def)
qed

section \<open>Running the model on the executable targets\<close>

text \<open>
  Weakest preconditions of a call to the executable target as rewrite rules: with weak congruences on
  the calculus, the simplifier runs a whole handler on a concrete world, one call after the other.
\<close>

lemma wp_sim_call_simp:
  "wf_args args \<Longrightarrow> sim_step m args (w (endpoint c)) = (ROk r, s) \<Longrightarrow> wf_json r \<Longrightarrow> d r z = (v, None) \<Longrightarrow>
   go_wp (rpcClient_call sim_http m args d z) Q E (c, w) = Q (None, v) (c\<lparr>rpcID := rpcID c + 1\<rparr>, w(endpoint c := s))"
  "wf_args args \<Longrightarrow> sim_step m args (w (endpoint c)) = (RErr code msg, s) \<Longrightarrow> error_code code \<Longrightarrow>
   go_wp (rpcClient_call sim_http m args d z) Q E (c, w) =
     Q (Some (rpc_error m msg), z) (c\<lparr>rpcID := rpcID c + 1\<rparr>, w(endpoint c := s))"
  subgoal
    using call_ok [of sim_http c m args w r "w(endpoint c := s)" d z v] sim_replies [of m args w "endpoint c" "ROk r" s]
    by (simp add: go_wp_def)
  subgoal
    using call_err [of sim_http c m args w code msg "w(endpoint c := s)" d z]
      sim_replies [of m args w "endpoint c" "RErr code msg" s]
    by (simp add: go_wp_def)
  done

lemma go_wp_weak_cong: "m = m' \<Longrightarrow> go_wp m Q E w = go_wp m' Q E w"
  by simp

lemma go_bind_weak_cong: "m = m' \<Longrightarrow> go_bind m f = go_bind m' f"
  by simp

lemma errorMatches_None [simp]: "errorMatches None x = False"
  by (simp add: errorMatches_def)

lemmas sim_eval = sim_run wp_sim_call_simp wp_dispatch demo_world_def demo_sim_def demo_store_def endpoint_def demo_nvmf_def
  newNVMf_def demo_iscsi_def newISCSI_def put_sub_def dec_any_def cfgNVMfSvcPort_def cfgISCSISvcPort_def
  sim_new_def fresh_name_def lvol_alias_def lvstore_of_def

lemmas sim_weak = go_wp_weak_cong go_bind_weak_cong

lemmas nvmf_methods = nodeNVMf_LvStores_def nodeNVMf_GetVolume_def nodeNVMf_CreateVolume_def nodeNVMf_VolumeInfo_def
  nodeNVMf_PublishVolume_def nodeNVMf_isVolumeCreated_def nodeNVMf_isVolumePublished_def
  nodeNVMf_createTransport_def nodeNVMf_createSubsystem_def nodeNVMf_subsystemAddNs_def
  nodeNVMf_subsystemAddListener_def

lemmas client_methods = rpcClient_isVolumeCreated_def rpcClient_getVolume_def rpcClient_lvStores_def
  rpcClient_createVolume_def rpcClient_getLvstore_def

lemmas interface_methods = SpdkNode_LvStores_def SpdkNode_GetVolume_def SpdkNode_CreateVolume_def
  SpdkNode_PublishVolume_def SpdkNode_VolumeInfo_def

lemma getSpdkNode_demo:
  "controllerServer_getSpdkNode demo_cs ''n1'' demo_secrets = go_return (Some (NodeNVMf demo_nvmf), None)"
  "controllerServer_getSpdkNode demo_cs ''n2'' demo_secrets = go_return (Some (NodeISCSI demo_iscsi), None)"
  using getSpdkNode_ready [of sim_http sim_view demo_cs demo_secrets "''n1''"]
    getSpdkNode_ready [of sim_http sim_view demo_cs demo_secrets "''n2''"]
  by (simp_all add: node_of_demo sim_nv_conforms sim_is_conforms)

lemma demo_configs_in: "configs_in demo_cs [''n1'', ''n2''] = [cfg_nvmf, cfg_iscsi]"
  by (simp add: configs_in_def map_filter_simps demo_cs_def)

lemma cfg_Name_demo: "cfg_Name cfg_nvmf = ''n1''" "cfg_Name cfg_iscsi = ''n2''"
  by (simp_all add: cfg_nvmf_def cfg_iscsi_def)

lemma demo_req_sel: "cv_Name demo_req = ''pvc-1''" "cv_Secrets demo_req = demo_secrets" "cv_ContentSource demo_req = None"
   "request_size demo_req = 1000000" "cv_Parameters demo_req = Map.empty" "source_ok cs demo_req"
  by (simp_all add: demo_req_def request_size_def)

lemma demo_sizes: "ToMiB 1000000 = 1" "div64 (div64 4194304000 1024) 1024 = 4000"
  by (simp_all add: ToMiB_def div64_def)

lemmas demo_eval = controllerServer_createVolume_def controllerServer_getVolume_def controllerServer_schedule_def
  controllerServer_publishVolume_def controllerServer_unpublishVolume_def controllerServer_deleteVolume_def
  getSPDKVol_def createVolume_params_def jint_def strconv_ParseInt_def
  demo_configs_in cfg_Name_demo demo_req_sel demo_sizes getSpdkNode_demo interface_methods nvmf_methods
  nodeISCSI_LvStores_def nodeISCSI_GetVolume_def client_methods sim_eval LvStore_of_reply_def Let_def get_spec_def
  NoSuchDevice_rpc_error errorMatches_InvalidParameters bd_uuid_of_def

lemma demo_create:
  "go_wp (controllerServer_CreateVolume sim_http [''n1'', ''n2''] [''n1'', ''n2''] demo_cs demo_req)
     (\<lambda>res (m', w'). \<exists>vol. res = Inr vol) (\<lambda>_ _. False) (NewVolumeLocks, demo_world)"
  unfolding controllerServer_CreateVolume_def
  by (rule wp_with_volume_lock, simp) (simp add: demo_eval cong: sim_weak)

text \<open>A request that no lvstore has space for.\<close>

definition demo_big :: CreateVolumeRequest where
  "demo_big = demo_req\<lparr>cv_RequiredBytes := 1000000000000\<rparr>"

lemma demo_big_sel: "cv_Name demo_big = ''pvc-1''" "cv_Secrets demo_big = demo_secrets" "cv_ContentSource demo_big = None"
   "request_size demo_big = 1000000000000" "cv_Parameters demo_big = Map.empty" "source_ok cs demo_big"
  by (simp_all add: demo_big_def demo_req_def request_size_def)

lemma demo_big_size: "ToMiB 1000000000000 = 953675"
  by (simp add: ToMiB_def div64_def)

lemma demo_no_space:
  "go_wp (controllerServer_CreateVolume sim_http [''n1'', ''n2''] [''n1'', ''n2''] demo_cs demo_big)
     (\<lambda>res (m', w'). \<exists>e. res = Inl e) (\<lambda>_ _. False) (NewVolumeLocks, demo_world)"
  unfolding controllerServer_CreateVolume_def
  by (rule wp_with_volume_lock, simp) (simp add: demo_eval demo_big_sel demo_big_size cong: sim_weak)

text \<open>A volume that exists but whose lvstore the target does not report.\<close>

definition demo_bdev :: BDev where
  "demo_bdev = \<lparr>bd_Name = ''u'', bd_UUID = ''u'', BlockSize = 512, NumBlocks = 2048, DriverSpecific = None\<rparr>"

definition demo_world_old :: sim_world where
  "demo_world_old = demo_world((''http://10.0.0.1:9009'', ''user'', ''pass'') :=
     demo_sim\<lparr>sm_bdevs := [(''lvs0/pvc-1'', demo_bdev), (''u'', demo_bdev)]\<rparr>)"

lemma demo_publish_fails:
  "go_wp (controllerServer_CreateVolume sim_http [''n1'', ''n2''] [''n1'', ''n2''] demo_cs demo_req)
     (\<lambda>res (m', w'). (\<exists>e. res = Inl e) \<and> tg_bdev (sim_view w' (''http://10.0.0.1:9009'', ''user'', ''pass'')) ''u'' = None)
     (\<lambda>_ _. False) (NewVolumeLocks, demo_world_old)"
  unfolding controllerServer_CreateVolume_def
  by (rule wp_with_volume_lock, simp)
    (simp add: demo_eval demo_world_old_def demo_bdev_def SpdkNode_UnpublishVolume_def SpdkNode_DeleteVolume_def
      nodeNVMf_UnpublishVolume_def nodeNVMf_DeleteVolume_def nodeNVMf_subsystemRemoveNs_def nodeNVMf_subsystemGetNsID_def
      nodeNVMf_deleteSubsystem_def rpcClient_deleteVolume_def listener_matches_def drop_key_def find_nsid_def
      cong: sim_weak)

end
