(* ===== verification/Controller_Props.thy ===== *)
theory Controller_Props
  imports Sim_Cluster
begin

text \<open>
  What the handlers of the controller service guarantee, on every configuration whose nodes are ready
  and for every order in which Go iterates over the configured nodes: creating, retrying and deleting
  volumes.
\<close>

section \<open>Helpers\<close>

text \<open>A volume of that name is in one of the lvstores of the target.\<close>

definition has_volume :: "target \<Rightarrow> string \<Rightarrow> string \<Rightarrow> bool" where
  "has_volume t name i \<longleftrightarrow> (\<exists>l \<in> set (tg_lvstores t). \<exists>b. tg_bdev t (lvol_alias (lr_Name l) name) = Some b \<and> bd_UUID b = i)"

lemma lvs_Name_reply [simp]: "lvs_Name (LvStore_of_reply l) = lr_Name l"
  by (simp add: LvStore_of_reply_def)

lemma find_in_stores_Some:
  "find_in_stores t name (map LvStore_of_reply ls) = Some i \<Longrightarrow>
     \<exists>l \<in> set ls. \<exists>b. tg_bdev t (lvol_alias (lr_Name l) name) = Some b \<and> bd_UUID b = i"
  by (induction ls) (auto split: option.splits)

lemma find_in_stores_None:
  "find_in_stores t name (map LvStore_of_reply ls) = None \<longleftrightarrow>
     (\<forall>l \<in> set ls. tg_bdev t (lvol_alias (lr_Name l) name) = None)"
  by (induction ls) (auto split: option.splits)

lemma find_in_nodes_Some:
  assumes "find_in_nodes view w cs secrets name ks = Some (k, i)"
  shows "k \<in> set ks \<and> has_volume (node_target view (node_of cs secrets k) w) name i"
  using assms
  by (induction ks) (auto simp: Let_def has_volume_def split: option.splits dest!: find_in_stores_Some)

lemma find_in_nodes_None:
  "find_in_nodes view w cs secrets name ks = None \<longleftrightarrow>
     (\<forall>k \<in> set ks. \<forall>i. \<not> has_volume (node_target view (node_of cs secrets k) w) name i)"
  by (induction ks) (auto simp: Let_def has_volume_def find_in_stores_None split: option.splits dest!: find_in_stores_Some)

lemma has_volume_bdev:
  "tg_bdev t' = tg_bdev t \<Longrightarrow> tg_lvstores t' = tg_lvstores t \<Longrightarrow> has_volume t' = has_volume t"
  by (simp add: has_volume_def fun_eq_iff)

lemma new_lvol_has_volume: "new_lvol lvs t b \<Longrightarrow> has_volume (add_bdev (lvol_alias lvs name) b t) name (bd_UUID b)"
  by (auto simp: new_lvol_def has_volume_def add_bdev_def)

lemma create_spec_has_volume:
  assumes c: "create_spec lvs name t (i, None) t'" and l: "\<exists>l \<in> set (tg_lvstores t). lr_Name l = lvs"
  shows "has_volume t' name i"
proof (cases "tg_bdev t (lvol_alias lvs name)")
  case None
  with c obtain b where "new_lvol lvs t b" "i = bd_UUID b" "t' = add_bdev (lvol_alias lvs name) b t"
    by (auto simp: create_spec_def)
  then show ?thesis by (simp add: new_lvol_has_volume)
next
  case (Some b)
  with c l show ?thesis by (auto simp: create_spec_def has_volume_def)
qed

lemma ctl_create_spec_has_volume:
  assumes "ctl_create_spec view cs req (keys_in cs ord1) (keys_in cs ord2) w (Inr (k, i)) v"
  shows "spdkNodeConfigs cs k \<noteq> None" "has_volume (v (sn_endpoint (node_of cs (cv_Secrets req) k))) (cv_Name req) i"
proof -
  have "spdkNodeConfigs cs k \<noteq> None \<and> has_volume (v (sn_endpoint (node_of cs (cv_Secrets req) k))) (cv_Name req) i"
  proof (cases "find_in_nodes view w cs (cv_Secrets req) (cv_Name req) (keys_in cs ord1)")
    case (Some p)
    with assms show ?thesis by (auto simp: ctl_create_spec_def keys_in_mem dest!: find_in_nodes_Some)
  next
    case None
    with assms obtain lvs t' where
      s: "ctl_place view w cs req (keys_in cs ord2) = Some (k, lvs)"
      and c: "create_spec lvs (cv_Name req) (node_target view (node_of cs (cv_Secrets req) k) w) (i, None) t'"
      and v: "v = (view w)(sn_endpoint (node_of cs (cv_Secrets req) k) := t')"
      by (auto simp: ctl_create_spec_def Let_def split: option.splits prod.splits)
    with create_spec_has_volume [OF c ctl_place_mem(2) [OF s]] ctl_place_mem(1) [OF s] show ?thesis by simp
  qed
  then show "spdkNodeConfigs cs k \<noteq> None" "has_volume (v (sn_endpoint (node_of cs (cv_Secrets req) k))) (cv_Name req) i"
    by simp_all
qed

lemma ctl_finish_specE:
  assumes "ctl_finish_spec rf cs req k i v res v'" and "n = node_of cs (cv_Secrets req) k"
  obtains (unparsable) x where "\<not> (plain k \<and> plain i)" "res = Inl (internal x)" "v' = v"
    | (served) ctx t where "plain k" "plain i" "ctl_publish_spec n i (v (sn_endpoint n)) (ctx, None) t"
        "v' = v(sn_endpoint n := t)" "res = Inr ((volume_of req (k, i))\<lparr>VolumeContext := cv_Parameters req ++ ctx\<rparr>)"
    | (failed) ctx x t d t' where "plain k" "plain i" "ctl_publish_spec n i (v (sn_endpoint n)) (ctx, Some x) t"
        "delete_spec (rf (sn_endpoint n)) i t d t'" "v' = v(sn_endpoint n := t')" "res = Inl (internal x)"
proof (cases "plain k \<and> plain i")
  case False
  with assms unparsable show thesis by (auto simp: ctl_finish_spec_def)
next
  case True
  with assms obtain ctx e t where p: "ctl_publish_spec n i (v (sn_endpoint n)) (ctx, e) t"
    and r: "case e of
         None \<Rightarrow> v' = v(sn_endpoint n := t) \<and>
           res = Inr ((volume_of req (k, i))\<lparr>VolumeContext := cv_Parameters req ++ ctx\<rparr>)
       | Some x \<Rightarrow> res = Inl (internal x) \<and> (\<exists>d t'. delete_spec (rf (sn_endpoint n)) i t d t' \<and> v' = v(sn_endpoint n := t'))"
    by (auto simp: ctl_finish_spec_def Let_def)
  show thesis
  proof (cases e)
    case None with True p r served show thesis by simp
  next
    case (Some x) with True p r failed show thesis by auto
  qed
qed

lemmas ctl_finish_cases = ctl_finish_specE [OF _ refl, consumes 1, case_names unparsable served failed]

lemma ctl_CreateVolume_specE:
  assumes "ctl_CreateVolume_spec rf view cs req ks1 ks2 w res v'"
  obtains (none) x where "ctl_create_spec view cs req ks1 ks2 w (Inl x) v'" "res = Inl (internal x)"
    | (volume) k i v where "ctl_create_spec view cs req ks1 ks2 w (Inr (k, i)) v" "ctl_finish_spec rf cs req k i v res v'"
proof -
  obtain r v where c: "ctl_create_spec view cs req ks1 ks2 w r v"
    and r: "case r of Inl x \<Rightarrow> res = Inl (internal x) \<and> v' = v | Inr (k, i) \<Rightarrow> ctl_finish_spec rf cs req k i v res v'"
    using assms by (auto simp: ctl_CreateVolume_spec_def)
  show thesis
  proof (cases r)
    case (Inl x) with c r none show thesis by simp
  next
    case (Inr p) with c r volume show thesis by (cases p) simp
  qed
qed

lemma ctl_CreateVolume_Inl:
  assumes "ctl_CreateVolume_spec rf view cs req ks1 ks2 w (Inl e) v'"
  shows "\<exists>msg. e = StatusError Internal msg"
  using assms
proof (cases rule: ctl_CreateVolume_specE)
  case (volume k i v)
  from volume(2) show ?thesis by (cases rule: ctl_finish_cases) (auto simp: internal_def)
qed (simp add: internal_def)

lemma CreateVolume_runs:
  assumes "cs_ready http view cs (cv_Secrets req)" and "source_ok cs req"
    and "\<not> lock_held m (cv_Name req)"
  obtains res m' w' where "controllerServer_CreateVolume http ord1 ord2 cs req (m, w) = (Ret res, m', w')"
    "\<forall>j. lock_held m' j = lock_held m j"
    "ctl_CreateVolume_spec (may_refuse http view) view cs req (keys_in cs ord1) (keys_in cs ord2) w res (view w')"
proof -
  have "go_wp (controllerServer_CreateVolume http ord1 ord2 cs req)
     (\<lambda>res (m', w'). (\<forall>j. lock_held m' j = lock_held m j) \<and>
        ctl_CreateVolume_spec (may_refuse http view) view cs req (keys_in cs ord1) (keys_in cs ord2) w res (view w'))
     (\<lambda>_ _. False) (m, w)"
    by (rule wp_ctl_CreateVolume [OF assms]) simp
  from go_wp_runD [OF this] that show thesis by auto
qed

section \<open>Creating volumes\<close>

text \<open>The volume a successful \<open>CreateVolume\<close> returns.\<close>

definition volume_served ::
  "(endpoint \<Rightarrow> target) \<Rightarrow> controllerServer \<Rightarrow> CreateVolumeRequest \<Rightarrow> csiVolume \<Rightarrow> string \<Rightarrow> string \<Rightarrow> bool" where
  "volume_served v cs req vol k i \<longleftrightarrow>
     (let n = node_of cs (cv_Secrets req) k; t = v (sn_endpoint n) in
      getSPDKVol (VolumeId vol) = Inr \<lparr>sv_lvolID = i, sv_nodeName = k\<rparr> \<and>
      has_volume t (cv_Name req) i \<and> tg_bdev t i \<noteq> None \<and> sn_published n t i \<and>
      (\<exists>ctx. sn_info n t i = (ctx, None) \<and> VolumeContext vol = cv_Parameters req ++ ctx) \<and>
      CapacityBytes vol = ToMiB (request_size req) * 1024 * 1024)"

lemma finish_served:
  assumes c: "ctl_create_spec view cs req (keys_in cs ord1) (keys_in cs ord2) w (Inr (k, i)) v" and f: "ctl_finish_spec rf cs req k i v (Inr vol) v'"
  shows "volume_served v' cs req vol k i"
  using f
proof (cases rule: ctl_finish_cases)
  case (served ctx t)
  let ?n = "node_of cs (cv_Secrets req) k"
  note p = served(3) and v' = served(4) and vol = served(5)
  from served have "getSPDKVol (VolumeId vol) = Inr \<lparr>sv_lvolID = i, sv_nodeName = k\<rparr>"
    using getSPDKVol_id [of k i] by (simp add: volume_of_def)
  moreover have "has_volume t (cv_Name req) i"
    using ctl_create_spec_has_volume(2) [OF c] p has_volume_bdev [of t "v (sn_endpoint ?n)"]
    by (simp add: ctl_publish_spec_def)
  moreover have "sn_info ?n t i = (ctx, None)" using p by (simp add: ctl_publish_spec_def)
  ultimately show ?thesis
    using p v' vol by (auto simp: volume_served_def Let_def ctl_publish_spec_def volume_of_def)
qed simp_all

text \<open>
  C1: CreateVolume, of an empty volume or of a clone of a snapshot of a configured node, on a
  controller whose nodes are ready and whose volume lock is free: it returns (no panic, whatever
  the iteration order over the nodes), the locks are as before, an error is a gRPC Internal
  status, and a returned volume has an ID that parses to a configured node and a UUID, exists in
  that node's target under the requested name, is published there, carries the request parameters
  overlaid with the node's volume info, and has the rounded-up capacity.
\<close>

theorem CreateVolume_serves:
  assumes "cs_ready http view cs (cv_Secrets req)" and "source_ok cs req"
    and "\<not> lock_held m (cv_Name req)"
  shows "\<exists>res m' w'. controllerServer_CreateVolume http ord1 ord2 cs req (m, w) = (Ret res, m', w') \<and>
     (\<forall>j. lock_held m' j = lock_held m j) \<and>
     (case res of
        Inl e \<Rightarrow> \<exists>msg. e = StatusError Internal msg
      | Inr vol \<Rightarrow> \<exists>k i. spdkNodeConfigs cs k \<noteq> None \<and> volume_served (view w') cs req vol k i)"
proof (rule CreateVolume_runs [OF assms, of ord1 ord2 w])
  fix res m' w' assume run: "controllerServer_CreateVolume http ord1 ord2 cs req (m, w) = (Ret res, m', w')"
    and locks: "\<forall>j. lock_held m' j = lock_held m j"
    and spec: "ctl_CreateVolume_spec (may_refuse http view) view cs req (keys_in cs ord1) (keys_in cs ord2) w res (view w')"
  have "case res of Inl e \<Rightarrow> \<exists>msg. e = StatusError Internal msg
      | Inr vol \<Rightarrow> \<exists>k i. spdkNodeConfigs cs k \<noteq> None \<and> volume_served (view w') cs req vol k i"
  proof (cases res)
    case (Inl e)
    with spec ctl_CreateVolume_Inl show ?thesis by auto
  next
    case (Inr vol)
    from spec show ?thesis
    proof (cases rule: ctl_CreateVolume_specE)
      case (volume k i v)
      have "spdkNodeConfigs cs k \<noteq> None"
        by (rule ctl_create_spec_has_volume(1) [OF volume(1)])
      with finish_served [OF volume(1) volume(2) [unfolded Inr]] Inr show ?thesis by auto
    qed (use Inr in simp)
  qed
  with run locks show ?thesis by blast
qed

theorem CreateVolume_serves_witness:
  "\<exists>res m' w'. controllerServer_CreateVolume sim_http [''n1'', ''n2''] [''n1'', ''n2''] demo_cs demo_req
       (NewVolumeLocks, demo_world) = (Ret res, m', w') \<and>
     (\<forall>j. lock_held m' j = lock_held NewVolumeLocks j) \<and>
     (case res of
        Inl e \<Rightarrow> \<exists>msg. e = StatusError Internal msg
      | Inr vol \<Rightarrow> \<exists>k i. spdkNodeConfigs demo_cs k \<noteq> None \<and> volume_served (sim_view w') demo_cs demo_req vol k i)"
  using CreateVolume_serves [of sim_http sim_view demo_cs demo_req NewVolumeLocks] demo_ready
  by (simp only: demo_req_sel lock_held_simps not_False_eq_True simp_thms)

text \<open>Different nodes are different targets, and a volume name is used at most once.\<close>

definition apart :: "controllerServer \<Rightarrow> smap \<Rightarrow> bool" where
  "apart cs secrets \<longleftrightarrow> (\<forall>k k'. k \<in> dom (spdkNodeConfigs cs) \<longrightarrow> k' \<in> dom (spdkNodeConfigs cs) \<longrightarrow> k \<noteq> k' \<longrightarrow>
     sn_endpoint (node_of cs secrets k) \<noteq> sn_endpoint (node_of cs secrets k'))"

definition volumes_named :: "(endpoint \<Rightarrow> target) \<Rightarrow> controllerServer \<Rightarrow> smap \<Rightarrow> string \<Rightarrow> (string \<times> string) set" where
  "volumes_named v cs secrets name =
     {(k, i). k \<in> dom (spdkNodeConfigs cs) \<and> has_volume (v (sn_endpoint (node_of cs secrets k))) name i}"

definition complete_order :: "controllerServer \<Rightarrow> string list \<Rightarrow> bool" where
  "complete_order cs ord \<longleftrightarrow> (\<forall>k. k \<in> dom (spdkNodeConfigs cs) \<longrightarrow> k \<in> set ord)"

lemma find_in_nodes_complete:
  assumes "complete_order cs ord"
  shows "find_in_nodes view w cs secrets name (keys_in cs ord) = None \<longleftrightarrow> volumes_named (view w) cs secrets name = {}"
proof -
  have "k \<in> set (keys_in cs ord) \<longleftrightarrow> k \<in> dom (spdkNodeConfigs cs)" for k
    using assms by (auto simp: keys_in_mem complete_order_def)
  then show ?thesis by (auto simp: find_in_nodes_None volumes_named_def simp del: domIff)
qed

lemma find_in_nodes_named:
  "find_in_nodes view w cs secrets name (keys_in cs ord) = Some p \<Longrightarrow> p \<in> volumes_named (view w) cs secrets name"
  by (cases p) (auto dest!: find_in_nodes_Some simp: volumes_named_def keys_in_mem)

lemma has_volume_add:
  assumes "\<And>j. \<not> has_volume t name j" and "has_volume (add_bdev a b t) name i"
  shows "i = bd_UUID b"
  using assms by (auto simp: has_volume_def add_bdev_def split: if_splits)

lemma volumes_named_bdev:
  assumes "\<And>k. k \<in> dom (spdkNodeConfigs cs) \<Longrightarrow>
      tg_bdev (v' (sn_endpoint (node_of cs secrets k))) = tg_bdev (v (sn_endpoint (node_of cs secrets k))) \<and>
      tg_lvstores (v' (sn_endpoint (node_of cs secrets k))) = tg_lvstores (v (sn_endpoint (node_of cs secrets k)))"
  shows "volumes_named v' cs secrets name = volumes_named v cs secrets name"
proof -
  have "has_volume (v' (sn_endpoint (node_of cs secrets k))) = has_volume (v (sn_endpoint (node_of cs secrets k)))"
    if "k \<in> dom (spdkNodeConfigs cs)" for k
    using assms [OF that] by (intro has_volume_bdev) auto
  then show ?thesis by (simp add: volumes_named_def cong: conj_cong)
qed

lemma create_spec_new:
  assumes "create_spec lvs name t (i, None) t'" and "\<exists>l \<in> set (tg_lvstores t). lr_Name l = lvs"
    and "\<And>j. \<not> has_volume t name j"
  obtains b where "new_lvol lvs t b" "i = bd_UUID b" "t' = add_bdev (lvol_alias lvs name) b t"
  using assms by (fastforce simp: create_spec_def has_volume_def split: option.splits)

text \<open>On a name that is not in use, \<open>createVolume\<close> makes a new volume.\<close>

lemma ctl_create_new:
  assumes c: "ctl_create_spec view cs req (keys_in cs ord1) (keys_in cs ord2) w (Inr (k, i)) v"
    and ord: "complete_order cs ord1"
    and new: "volumes_named (view w) cs (cv_Secrets req) (cv_Name req) = {}"
    and n: "n = node_of cs (cv_Secrets req) k" and t: "t = node_target view n w"
  obtains lvs b where "k \<in> dom (spdkNodeConfigs cs)" "new_lvol lvs t b" "i = bd_UUID b"
    "tg_bdev t (lvol_alias lvs (cv_Name req)) = None"
    "v = (view w)(sn_endpoint n := add_bdev (lvol_alias lvs (cv_Name req)) b t)"
proof -
  have "find_in_nodes view w cs (cv_Secrets req) (cv_Name req) (keys_in cs ord1) = None"
    using new unfolding find_in_nodes_complete [OF ord] .
  then obtain lvs t' where
    s: "ctl_place view w cs req (keys_in cs ord2) = Some (k, lvs)"
    and cr: "create_spec lvs (cv_Name req) t (i, None) t'" and v: "v = (view w)(sn_endpoint n := t')"
    using c n t by (auto simp: ctl_create_spec_def Let_def split: option.splits prod.splits)
  have k: "k \<in> dom (spdkNodeConfigs cs)" and l: "\<exists>l \<in> set (tg_lvstores t). lr_Name l = lvs"
    using ctl_place_mem [OF s] n t by auto
  have no: "\<not> has_volume t (cv_Name req) j" for j
    using new k n t by (auto simp: volumes_named_def simp del: domIff)
  have "tg_bdev t (lvol_alias lvs (cv_Name req)) = None"
    using no l by (auto simp: has_volume_def) (metis option.exhaust)
  with create_spec_new [OF cr l no] k v that show thesis by metis
qed

lemmas ctl_create_new_cases = ctl_create_new [OF _ _ _ refl refl]

text \<open>After \<open>createVolume\<close> on names used at most once, the volume it returns is the only one of that name.\<close>

lemma ctl_create_unique:
  assumes c: "ctl_create_spec view cs req (keys_in cs ord1) (keys_in cs ord2) w (Inr (k, i)) v"
    and ord: "complete_order cs ord1" and apart: "apart cs (cv_Secrets req)"
    and uniq: "\<And>p q. p \<in> volumes_named (view w) cs (cv_Secrets req) (cv_Name req) \<Longrightarrow>
        q \<in> volumes_named (view w) cs (cv_Secrets req) (cv_Name req) \<Longrightarrow> p = q"
  shows "volumes_named v cs (cv_Secrets req) (cv_Name req) = {(k, i)}"
proof (cases "find_in_nodes view w cs (cv_Secrets req) (cv_Name req) (keys_in cs ord1)")
  case (Some p)
  with c have "p = (k, i)" "v = view w" by (auto simp: ctl_create_spec_def)
  with find_in_nodes_named [OF Some] uniq show ?thesis by blast
next
  case None
  let ?e = "\<lambda>k. sn_endpoint (node_of cs (cv_Secrets req) k)"
  have new: "volumes_named (view w) cs (cv_Secrets req) (cv_Name req) = {}"
    using None unfolding find_in_nodes_complete [OF ord] .
  then have none: "\<not> has_volume (view w (?e k')) (cv_Name req) j" if "k' \<in> dom (spdkNodeConfigs cs)" for k' j
    using that by (auto simp: volumes_named_def simp del: domIff)
  obtain lvs b where k: "k \<in> dom (spdkNodeConfigs cs)" and b: "new_lvol lvs (view w (?e k)) b" "i = bd_UUID b"
      and v: "v = (view w)(?e k := add_bdev (lvol_alias lvs (cv_Name req)) b (view w (?e k)))"
    by (rule ctl_create_new_cases [OF c ord new])
  have at_k: "has_volume (v (?e k)) (cv_Name req) j \<longleftrightarrow> j = i" for j
    unfolding v b(2) fun_upd_same
    using has_volume_add [OF none [OF k]] new_lvol_has_volume [OF b(1)] by metis
  have other: "?e k' \<noteq> ?e k" if "k' \<in> dom (spdkNodeConfigs cs)" "k' \<noteq> k" for k'
    using apart k that by (simp add: apart_def)
  have "has_volume (v (?e k')) (cv_Name req) j \<longleftrightarrow> k' = k \<and> j = i" if "k' \<in> dom (spdkNodeConfigs cs)" for k' j
    using at_k none [OF that] other [OF that] by (cases "k' = k") (simp_all add: v)
  with k show ?thesis by (auto simp: volumes_named_def simp del: domIff)
qed

text \<open>The concrete cluster.\<close>

abbreviation demo_order :: "string list" where
  "demo_order \<equiv> [''n1'', ''n2'']"

lemma dom_demo: "dom (spdkNodeConfigs demo_cs) = {''n1'', ''n2''}"
  by (auto simp: demo_cs_def split: if_splits)

lemma demo_complete: "complete_order demo_cs demo_order"
  by (simp add: complete_order_def dom_demo)

lemma demo_apart: "apart demo_cs (cv_Secrets demo_req)"
  unfolding apart_def dom_demo demo_req_sel
  by (simp add: node_of_demo demo_nvmf_def demo_iscsi_def newNVMf_def newISCSI_def endpoint_def)

lemma demo_new: "volumes_named (sim_view demo_world) demo_cs secrets name = {}"
  by (simp add: volumes_named_def has_volume_def demo_world_def demo_sim_def)

lemma demo_run:
  obtains vol m' w' where "controllerServer_CreateVolume sim_http demo_order demo_order demo_cs demo_req
     (NewVolumeLocks, demo_world) = (Ret (Inr vol), m', w')"
  using go_wp_runD [OF demo_create] by auto

section \<open>Retrying\<close>

lemma ctl_publish_bdev:
  assumes "ctl_publish_spec n i t r t'"
  shows "tg_bdev t' = tg_bdev t" "tg_lvstores t' = tg_lvstores t"
  using assms by (simp_all add: ctl_publish_spec_def)

lemma finish_named:
  assumes "ctl_finish_spec rf cs req k i v (Inr vol) v'"
  shows "volumes_named v' cs secrets name = volumes_named v cs secrets name"
  using assms
proof (cases rule: ctl_finish_cases)
  case (served ctx t)
  then show ?thesis
    using ctl_publish_bdev [OF served(3)] by (intro volumes_named_bdev) auto
qed simp_all

text \<open>A volume that is served is found again, published again without effect and described the same way.\<close>

lemma finish_again:
  assumes f: "ctl_finish_spec rf cs req k i v (Inr vol) v'" and g: "ctl_finish_spec rf cs req k i v' res v''"
  shows "res = Inr vol \<and> v'' = v'"
  using f
proof (cases rule: ctl_finish_cases)
  case (served ctx t)
  note first = served
  let ?n = "node_of cs (cv_Secrets req) k"
  have t: "tg_bdev t i \<noteq> None" "sn_published ?n t i" "sn_info ?n t i = (ctx, None)"
    using first(3) by (auto simp: ctl_publish_spec_def)
  have at: "v' (sn_endpoint ?n) = t" using first(4) by simp
  from g show ?thesis
  proof (cases rule: ctl_finish_cases)
    case (unparsable x)
    with first show ?thesis by simp
  next
    case (served ctx' t')
    have "(ctx', None) = sn_info ?n t i \<and> t' = t"
      using served(3) t unfolding at ctl_publish_spec_def by simp
    with t served first at show ?thesis by auto
  next
    case (failed ctx' x t' d t'')
    have "(ctx', Some x) = sn_info ?n t i"
      using failed(3) t unfolding at ctl_publish_spec_def by simp
    with t show ?thesis by simp
  qed
qed simp_all

text \<open>
  C2: Idempotence: when volume names are used at most once and distinct nodes are distinct
  targets, repeating a CreateVolume that succeeded returns exactly the same volume and changes no
  target, whatever the iteration orders of both calls.
\<close>

theorem CreateVolume_retry:
  assumes ready: "cs_ready http view cs (cv_Secrets req)" and src: "source_ok cs req"
    and free: "\<not> lock_held m (cv_Name req)"
    and apart: "apart cs (cv_Secrets req)" and ord: "complete_order cs ord1" "complete_order cs ord3"
    and uniq: "\<And>p q. p \<in> volumes_named (view w) cs (cv_Secrets req) (cv_Name req) \<Longrightarrow>
        q \<in> volumes_named (view w) cs (cv_Secrets req) (cv_Name req) \<Longrightarrow> p = q"
    and run: "controllerServer_CreateVolume http ord1 ord2 cs req (m, w) = (Ret (Inr vol), m', w')"
  shows "\<exists>m'' w''. controllerServer_CreateVolume http ord3 ord4 cs req (m', w') = (Ret (Inr vol), m'', w'') \<and>
     view w'' = view w'"
proof -
  let ?named = "\<lambda>v. volumes_named v cs (cv_Secrets req) (cv_Name req)"
  obtain "ctl_CreateVolume_spec (may_refuse http view) view cs req (keys_in cs ord1) (keys_in cs ord2) w (Inr vol) (view w')"
      and locks: "\<forall>j. lock_held m' j = lock_held m j"
    by (rule CreateVolume_runs [OF ready src free, of ord1 ord2 w]) (use run in auto)
  then obtain k i v where c: "ctl_create_spec view cs req (keys_in cs ord1) (keys_in cs ord2) w (Inr (k, i)) v"
      and f: "ctl_finish_spec (may_refuse http view) cs req k i v (Inr vol) (view w')"
    by (cases rule: ctl_CreateVolume_specE) auto
  have named: "?named (view w') = {(k, i)}"
    using ctl_create_unique [OF c ord(1) apart uniq] finish_named [OF f] by simp
  have find: "find_in_nodes view w' cs (cv_Secrets req) (cv_Name req) (keys_in cs ord3) = Some (k, i)"
  proof (cases "find_in_nodes view w' cs (cv_Secrets req) (cv_Name req) (keys_in cs ord3)")
    case None
    with named show ?thesis unfolding find_in_nodes_complete [OF ord(2)] by simp
  next
    case (Some p)
    from find_in_nodes_named [OF Some] Some show ?thesis unfolding named by simp
  qed
  have free': "\<not> lock_held m' (cv_Name req)" using locks free by simp
  obtain res m'' w'' where run2: "controllerServer_CreateVolume http ord3 ord4 cs req (m', w') = (Ret res, m'', w'')"
      and spec: "ctl_CreateVolume_spec (may_refuse http view) view cs req (keys_in cs ord3) (keys_in cs ord4) w' res (view w'')"
    by (rule CreateVolume_runs [OF ready src free', of ord3 ord4 w'])
  from spec have "ctl_finish_spec (may_refuse http view) cs req k i (view w') res (view w'')"
    by (cases rule: ctl_CreateVolume_specE) (auto simp: ctl_create_spec_def find)
  from finish_again [OF f this] run2 show ?thesis by auto
qed

theorem CreateVolume_retry_witness:
  "\<exists>vol m' w' m'' w''.
     controllerServer_CreateVolume sim_http [''n1'', ''n2''] [''n1'', ''n2''] demo_cs demo_req
       (NewVolumeLocks, demo_world) = (Ret (Inr vol), m', w') \<and>
     controllerServer_CreateVolume sim_http [''n1'', ''n2''] [''n2'', ''n1''] demo_cs demo_req (m', w') =
       (Ret (Inr vol), m'', w'') \<and> sim_view w'' = sim_view w'"
proof (rule demo_run)
  fix vol m' w' assume run: "controllerServer_CreateVolume sim_http demo_order demo_order demo_cs demo_req
      (NewVolumeLocks, demo_world) = (Ret (Inr vol), m', w')"
  have "\<exists>m'' w''. controllerServer_CreateVolume sim_http demo_order [''n2'', ''n1''] demo_cs demo_req (m', w') =
      (Ret (Inr vol), m'', w'') \<and> sim_view w'' = sim_view w'"
    by (rule CreateVolume_retry [OF _ _ _ demo_apart demo_complete demo_complete _ run])
      (simp_all add: demo_ready demo_req_sel demo_new)
  with run show ?thesis by blast
qed

section \<open>Failing\<close>

text \<open>Every name of a bdev, alias or UUID, denotes a bdev that its UUID denotes too.\<close>

definition tg_wf :: "target \<Rightarrow> bool" where
  "tg_wf t \<longleftrightarrow> (\<forall>n b. tg_bdev t n = Some b \<longrightarrow> tg_bdev t (bd_UUID b) = Some b)"

lemma demo_wf: "tg_wf (sim_view demo_world ep)"
  by (simp add: tg_wf_def demo_world_def demo_sim_def)

lemma del_add_bdev:
  assumes "tg_wf t" and "new_lvol lvs t b" and "tg_bdev t (lvol_alias lvs name) = None"
    and "tg_bdev t1 = tg_bdev (add_bdev (lvol_alias lvs name) b t)"
  shows "tg_bdev (del_bdev (bd_UUID b) t1) = tg_bdev t"
proof -
  have "tg_bdev t n \<noteq> Some b" for n using assms(1,2) by (auto simp: tg_wf_def new_lvol_def)
  moreover have "tg_bdev t (bd_UUID b) = None" using assms(2) by (simp add: new_lvol_def)
  ultimately show ?thesis using assms(3,4) by (auto simp: del_bdev_def add_bdev_def fun_eq_iff)
qed

text \<open>What is left of a volume that \<open>CreateVolume\<close> has made before it failed: nothing, or what the target refused to delete.\<close>

definition clean_or_refused :: "(endpoint \<Rightarrow> bool) \<Rightarrow> SpdkNode option \<Rightarrow> target \<Rightarrow> target \<Rightarrow> bool" where
  "clean_or_refused rf n t t' \<longleftrightarrow> tg_bdev t' = tg_bdev t \<or>
     rf (sn_endpoint n) \<and> (\<exists>i. tg_bdev t i = None \<and> tg_bdev t' i \<noteq> None \<and> \<not> sn_published n t' i)"

lemma finish_failed_clean:
  assumes f: "ctl_finish_spec rf cs req k i v (Inl e) v'" and n: "n = node_of cs (cv_Secrets req) k"
    and pl: "plain k" "plain i" and wf: "tg_wf t" and b: "new_lvol lvs t b" "i = bd_UUID b"
    and al: "tg_bdev t (lvol_alias lvs name) = None"
    and v: "v (sn_endpoint n) = add_bdev (lvol_alias lvs name) b t"
  shows "clean_or_refused rf n t (v' (sn_endpoint n))" and "ep \<noteq> sn_endpoint n \<Longrightarrow> v' ep = v ep"
proof -
  let ?ep = "sn_endpoint (node_of cs (cv_Secrets req) k)"
  have "clean_or_refused rf n t (v' (sn_endpoint n)) \<and> (\<forall>ep. ep \<noteq> sn_endpoint n \<longrightarrow> v' ep = v ep)"
    using f
  proof (cases rule: ctl_finish_cases)
    case (failed ctx x t1 d t')
    have t1: "tg_bdev t1 = tg_bdev (add_bdev (lvol_alias lvs name) b t)" and np: "\<not> sn_published n t1 i"
      using failed(3) v b n by (auto simp: ctl_publish_spec_def add_bdev_def split: if_splits)
    then have some: "tg_bdev t1 i \<noteq> None" using b by (simp add: add_bdev_def)
    have "tg_bdev t i = None" using b by (simp add: new_lvol_def)
    moreover from failed(4) some n have "t' = del_bdev i t1 \<or> rf (sn_endpoint n) \<and> t' = t1" by (auto simp: delete_spec_def)
    ultimately have "clean_or_refused rf n t t'"
      using del_add_bdev [OF wf b(1) al t1] b(2) np some by (auto simp: clean_or_refused_def)
    with failed(5) n show ?thesis by simp
  qed (use pl in auto)
  then show "clean_or_refused rf n t (v' (sn_endpoint n))" and "ep \<noteq> sn_endpoint n \<Longrightarrow> v' ep = v ep" by blast+
qed

text \<open>
  C4: A CreateVolume for an unused name that fails leaves at most one target changed, and there
  exactly the volumes of before are left, unless the target is one that refuses to delete volumes:
  then one that is not published may be left.
\<close>

theorem CreateVolume_failure:
  assumes ready: "cs_ready http view cs (cv_Secrets req)" and src: "source_ok cs req"
    and free: "\<not> lock_held m (cv_Name req)" and ord: "complete_order cs ord1"
    and new: "volumes_named (view w) cs (cv_Secrets req) (cv_Name req) = {}"
    and names: "\<And>k. k \<in> dom (spdkNodeConfigs cs) \<Longrightarrow> plain k" and wf: "\<And>ep. tg_wf (view w ep)"
    and run: "controllerServer_CreateVolume http ord1 ord2 cs req (m, w) = (Ret (Inl e), m', w')"
  shows "\<exists>k. (\<forall>ep. ep \<noteq> sn_endpoint (node_of cs (cv_Secrets req) k) \<longrightarrow> view w' ep = view w ep) \<and>
     clean_or_refused (may_refuse http view) (node_of cs (cv_Secrets req) k)
       (node_target view (node_of cs (cv_Secrets req) k) w) (node_target view (node_of cs (cv_Secrets req) k) w')"
proof -
  have none: "find_in_nodes view w cs (cv_Secrets req) (cv_Name req) (keys_in cs ord1) = None"
    using new unfolding find_in_nodes_complete [OF ord] .
  have "ctl_CreateVolume_spec (may_refuse http view) view cs req (keys_in cs ord1) (keys_in cs ord2) w (Inl e) (view w')"
    by (rule CreateVolume_runs [OF ready src free, of ord1 ord2 w]) (use run in auto)
  then show ?thesis
  proof (cases rule: ctl_CreateVolume_specE)
    case (none x)
    then have "view w' = view w"
      using \<open>find_in_nodes view w cs (cv_Secrets req) (cv_Name req) (keys_in cs ord1) = None\<close>
      by (auto simp: ctl_create_spec_def create_spec_def Let_def split: option.splits prod.splits)
    then show ?thesis by (auto simp: clean_or_refused_def)
  next
    case (volume k i v)
    let ?n = "node_of cs (cv_Secrets req) k" let ?t = "node_target view ?n w"
    obtain lvs b where k: "k \<in> dom (spdkNodeConfigs cs)" and b: "new_lvol lvs ?t b" "i = bd_UUID b"
      and al: "tg_bdev ?t (lvol_alias lvs (cv_Name req)) = None"
      and v: "v = (view w)(sn_endpoint ?n := add_bdev (lvol_alias lvs (cv_Name req)) b ?t)"
      by (rule ctl_create_new_cases [OF volume(1) ord new])
    have pl: "plain k" "plain i" using names [OF k] b by (auto simp: plain_def new_lvol_def)
    have at: "v (sn_endpoint ?n) = add_bdev (lvol_alias lvs (cv_Name req)) b ?t" using v by simp
    note F = finish_failed_clean [OF volume(2) refl pl wf b al at]
    from F v show ?thesis by (intro exI [of _ k]) auto
  qed
qed

theorem CreateVolume_failure_witness:
  "\<exists>e m' w' k. controllerServer_CreateVolume sim_http [''n1'', ''n2''] [''n1'', ''n2''] demo_cs demo_big
       (NewVolumeLocks, demo_world) = (Ret (Inl e), m', w') \<and>
     (\<forall>ep. ep \<noteq> sn_endpoint (node_of demo_cs demo_secrets k) \<longrightarrow> sim_view w' ep = sim_view demo_world ep) \<and>
     clean_or_refused (may_refuse sim_http sim_view) (node_of demo_cs demo_secrets k)
       (node_target sim_view (node_of demo_cs demo_secrets k) demo_world)
       (node_target sim_view (node_of demo_cs demo_secrets k) w')"
proof -
  obtain e m' w' where run: "controllerServer_CreateVolume sim_http demo_order demo_order demo_cs demo_big
      (NewVolumeLocks, demo_world) = (Ret (Inl e), m', w')"
    using go_wp_runD [OF demo_no_space] by auto
  have names: "plain k" if "k \<in> dom (spdkNodeConfigs demo_cs)" for k
    using that unfolding dom_demo by (auto simp: plain_def)
  have "\<exists>k. (\<forall>ep. ep \<noteq> sn_endpoint (node_of demo_cs (cv_Secrets demo_big) k) \<longrightarrow> sim_view w' ep = sim_view demo_world ep) \<and>
     clean_or_refused (may_refuse sim_http sim_view) (node_of demo_cs (cv_Secrets demo_big) k)
       (node_target sim_view (node_of demo_cs (cv_Secrets demo_big) k) demo_world)
       (node_target sim_view (node_of demo_cs (cv_Secrets demo_big) k) w')"
    by (rule CreateVolume_failure [where view = sim_view, OF _ _ _ demo_complete _ names demo_wf run])
      (simp_all add: demo_big_sel demo_new demo_ready)
  with run show ?thesis unfolding demo_big_sel by blast
qed

section \<open>Deleting\<close>

text \<open>
  C5: DeleteVolume of a parsable ID on a ready node: it returns without panic, the locks are as
  before, no other target and no other volume's publication changes; a volume that does not exist
  is success without effect; otherwise the volume is unpublished and, on success, deleted; an
  error occurs only on a target that refuses to delete volumes, is an Internal status, and the
  volume is still there.
\<close>

theorem DeleteVolume_result:
  assumes vol: "getSPDKVol volumeID = Inr \<lparr>sv_lvolID = i, sv_nodeName = k\<rparr>"
    and ready: "node_ready http view cs secrets k" and free: "\<not> lock_held m volumeID"
  shows "\<exists>e m' w'. controllerServer_DeleteVolume http cs volumeID secrets (m, w) = (Ret e, m', w') \<and>
     (\<forall>j. lock_held m' j = lock_held m j) \<and>
     (\<forall>ep. ep \<noteq> sn_endpoint (node_of cs secrets k) \<longrightarrow> view w' ep = view w ep) \<and>
     ctl_delete_spec (may_refuse http view) (node_of cs secrets k) i (node_target view (node_of cs secrets k) w) e
       (node_target view (node_of cs secrets k) w')"
proof -
  have "go_wp (controllerServer_DeleteVolume http cs volumeID secrets)
     (\<lambda>e (m', w'). (\<forall>j. lock_held m' j = lock_held m j) \<and>
        (\<forall>ep. ep \<noteq> sn_endpoint (node_of cs secrets k) \<longrightarrow> view w' ep = view w ep) \<and>
        ctl_delete_spec (may_refuse http view) (node_of cs secrets k) i (node_target view (node_of cs secrets k) w) e
          (node_target view (node_of cs secrets k) w')) (\<lambda>_ _. False) (m, w)"
    by (rule wp_ctl_DeleteVolume [OF vol ready refl free]) auto
  from go_wp_runD [OF this] show ?thesis by auto
qed

theorem DeleteVolume_result_witness:
  "\<exists>e m' w'. controllerServer_DeleteVolume sim_http demo_cs ''n1:u'' demo_secrets (NewVolumeLocks, demo_world_old) =
       (Ret e, m', w') \<and>
     (\<forall>j. lock_held m' j = lock_held NewVolumeLocks j) \<and>
     (\<forall>ep. ep \<noteq> sn_endpoint (node_of demo_cs demo_secrets ''n1'') \<longrightarrow> sim_view w' ep = sim_view demo_world_old ep) \<and>
     ctl_delete_spec (may_refuse sim_http sim_view) (node_of demo_cs demo_secrets ''n1'') ''u''
       (node_target sim_view (node_of demo_cs demo_secrets ''n1'') demo_world_old) e
       (node_target sim_view (node_of demo_cs demo_secrets ''n1'') w')"
  by (rule DeleteVolume_result [where view = sim_view])
    (simp_all add: getSPDKVol_def node_of_demo sim_nv_conforms)

lemma DeleteVolume_runs:
  assumes "getSPDKVol volumeID = Inr \<lparr>sv_lvolID = i, sv_nodeName = k\<rparr>"
    and "node_ready http view cs secrets k" and "\<not> lock_held m volumeID" and n: "n = node_of cs secrets k"
  obtains e m' w' t' where "controllerServer_DeleteVolume http cs volumeID secrets (m, w) = (Ret e, m', w')"
    "\<And>j. lock_held m' j = lock_held m j" "view w' = (view w)(sn_endpoint n := t')"
    "ctl_delete_spec (may_refuse http view) n i (node_target view n w) e t'"
proof -
  have "go_wp (controllerServer_DeleteVolume http cs volumeID secrets)
     (\<lambda>e (m', w'). (\<forall>j. lock_held m' j = lock_held m j) \<and>
        (\<exists>t'. view w' = (view w)(sn_endpoint n := t') \<and> ctl_delete_spec (may_refuse http view) n i (node_target view n w) e t')) (\<lambda>_ _. False) (m, w)"
    by (rule wp_ctl_DeleteVolume [OF assms(1,2,4,3)]) auto
  from go_wp_runD [OF this] that show thesis by auto
qed

lemma ctl_delete_gone: "ctl_delete_spec rf n i t None t' \<Longrightarrow> tg_bdev t' i = None"
  by (auto simp: ctl_delete_spec_def del_bdev_def split: if_splits)

text \<open>
  C6: Idempotence of DeleteVolume: after a success, the same request succeeds again and changes no
  target.
\<close>

theorem DeleteVolume_again:
  assumes vol: "getSPDKVol volumeID = Inr \<lparr>sv_lvolID = i, sv_nodeName = k\<rparr>"
    and ready: "node_ready http view cs secrets k" and free: "\<not> lock_held m volumeID"
    and run: "controllerServer_DeleteVolume http cs volumeID secrets (m, w) = (Ret None, m', w')"
  shows "\<exists>m'' w''. controllerServer_DeleteVolume http cs volumeID secrets (m', w') = (Ret None, m'', w'') \<and>
     view w'' = view w'"
proof -
  let ?n = "node_of cs secrets k"
  obtain t' where v: "view w' = (view w)(sn_endpoint ?n := t')" and d: "ctl_delete_spec (may_refuse http view) ?n i (node_target view ?n w) None t'"
      and free': "\<not> lock_held m' volumeID"
    by (rule DeleteVolume_runs [OF vol ready free refl, of w]) (use run free in auto)
  have gone: "tg_bdev (node_target view ?n w') i = None" using ctl_delete_gone [OF d] v by simp
  show ?thesis
    by (rule DeleteVolume_runs [OF vol ready free' refl, of w']) (use gone in \<open>auto simp: ctl_delete_spec_def\<close>)
qed

theorem DeleteVolume_again_witness:
  "\<exists>m' w' m'' w''.
     controllerServer_DeleteVolume sim_http demo_cs ''n2:u'' demo_secrets (NewVolumeLocks, demo_world) = (Ret None, m', w') \<and>
     controllerServer_DeleteVolume sim_http demo_cs ''n2:u'' demo_secrets (m', w') = (Ret None, m'', w'') \<and>
     sim_view w'' = sim_view w'"
proof -
  have vol: "getSPDKVol ''n2:u'' = Inr \<lparr>sv_lvolID = ''u'', sv_nodeName = ''n2''\<rparr>" by (simp add: getSPDKVol_def)
  have ready: "node_ready sim_http sim_view demo_cs demo_secrets ''n2''" by (simp add: node_of_demo sim_is_conforms)
  have free: "\<not> lock_held NewVolumeLocks ''n2:u''" by simp
  obtain m' w' where run: "controllerServer_DeleteVolume sim_http demo_cs ''n2:u'' demo_secrets (NewVolumeLocks, demo_world) =
      (Ret None, m', w')"
    by (rule DeleteVolume_runs [OF vol ready free refl, of demo_world])
      (auto simp: ctl_delete_spec_def demo_world_def demo_sim_def)
  from DeleteVolume_again [OF vol ready free run] run show ?thesis by blast
qed

text \<open>
  C7: Deleting the volume that CreateVolume has made for an unused name: when DeleteVolume
  succeeds, every target has exactly the bdevs it had before the volume was created.
\<close>

theorem CreateVolume_DeleteVolume:
  assumes ready: "cs_ready http view cs (cv_Secrets req)" and src: "source_ok cs req"
    and free: "\<And>j. \<not> lock_held m j" and ord: "complete_order cs ord1"
    and new: "volumes_named (view w) cs (cv_Secrets req) (cv_Name req) = {}" and wf: "\<And>ep. tg_wf (view w ep)"
    and run: "controllerServer_CreateVolume http ord1 ord2 cs req (m, w) = (Ret (Inr vol), m', w')"
  shows "\<exists>e m'' w''. controllerServer_DeleteVolume http cs (VolumeId vol) (cv_Secrets req) (m', w') = (Ret e, m'', w'') \<and>
     (case e of None \<Rightarrow> \<forall>ep. tg_bdev (view w'' ep) = tg_bdev (view w ep) | Some x \<Rightarrow> \<exists>msg. x = StatusError Internal msg)"
proof -
  obtain "ctl_CreateVolume_spec (may_refuse http view) view cs req (keys_in cs ord1) (keys_in cs ord2) w (Inr vol) (view w')"
      and locks: "\<forall>j. lock_held m' j = lock_held m j"
    by (rule CreateVolume_runs [OF ready src free, of ord1 ord2 w]) (use run in auto)
  then obtain k i v where c: "ctl_create_spec view cs req (keys_in cs ord1) (keys_in cs ord2) w (Inr (k, i)) v"
      and f: "ctl_finish_spec (may_refuse http view) cs req k i v (Inr vol) (view w')"
    by (cases rule: ctl_CreateVolume_specE) auto
  let ?n = "node_of cs (cv_Secrets req) k" let ?t = "node_target view ?n w"
  have k: "node_ready http view cs (cv_Secrets req) k" by (rule ctl_create_spec_ready [OF c ready])
  obtain lvs b where b: "new_lvol lvs ?t b" "i = bd_UUID b" and al: "tg_bdev ?t (lvol_alias lvs (cv_Name req)) = None"
      and v: "v = (view w)(sn_endpoint ?n := add_bdev (lvol_alias lvs (cv_Name req)) b ?t)"
    by (rule ctl_create_new_cases [OF c ord new])
  have vol: "getSPDKVol (VolumeId vol) = Inr \<lparr>sv_lvolID = i, sv_nodeName = k\<rparr>"
    using finish_served [OF c f] by (simp add: volume_served_def Let_def)
  obtain t1 where w': "view w' = v(sn_endpoint ?n := t1)"
      and t1: "tg_bdev t1 = tg_bdev (add_bdev (lvol_alias lvs (cv_Name req)) b ?t)"
    using f by (cases rule: ctl_finish_cases) (auto simp: v ctl_publish_bdev)
  then have some: "tg_bdev t1 i \<noteq> None" using b by (simp add: add_bdev_def)
  have locks': "\<not> lock_held m' (VolumeId vol)" using locks free by simp
  show ?thesis
  proof (rule DeleteVolume_runs [OF vol k locks' refl, of w'])
    fix e m'' w'' t'' assume run2: "controllerServer_DeleteVolume http cs (VolumeId vol) (cv_Secrets req) (m', w') = (Ret e, m'', w'')"
      and w'': "view w'' = (view w')(sn_endpoint ?n := t'')" and d: "ctl_delete_spec (may_refuse http view) ?n i (node_target view ?n w') e t''"
    have "case e of None \<Rightarrow> \<forall>ep. tg_bdev (view w'' ep) = tg_bdev (view w ep) | Some x \<Rightarrow> \<exists>msg. x = StatusError Internal msg"
    proof (cases e)
      case None
      have "tg_bdev t'' = tg_bdev (del_bdev i t1)" using d some w' None by (simp add: ctl_delete_spec_def)
      also have "\<dots> = tg_bdev ?t" unfolding b(2) by (rule del_add_bdev [OF wf b(1) al t1])
      finally show ?thesis using None w'' w' v by simp
    qed (use d some w' in \<open>simp add: ctl_delete_spec_def\<close>)
    with run2 show ?thesis by blast
  qed
qed

theorem CreateVolume_DeleteVolume_witness:
  "\<exists>vol m' w' e m'' w''.
     controllerServer_CreateVolume sim_http [''n1'', ''n2''] [''n1'', ''n2''] demo_cs demo_req
       (NewVolumeLocks, demo_world) = (Ret (Inr vol), m', w') \<and>
     controllerServer_DeleteVolume sim_http demo_cs (VolumeId vol) demo_secrets (m', w') = (Ret e, m'', w'') \<and>
     (case e of None \<Rightarrow> \<forall>ep. tg_bdev (sim_view w'' ep) = tg_bdev (sim_view demo_world ep)
      | Some x \<Rightarrow> \<exists>msg. x = StatusError Internal msg)"
proof (rule demo_run)
  fix vol m' w' assume run: "controllerServer_CreateVolume sim_http demo_order demo_order demo_cs demo_req
      (NewVolumeLocks, demo_world) = (Ret (Inr vol), m', w')"
  have "\<exists>e m'' w''. controllerServer_DeleteVolume sim_http demo_cs (VolumeId vol) (cv_Secrets demo_req) (m', w') = (Ret e, m'', w'') \<and>
     (case e of None \<Rightarrow> \<forall>ep. tg_bdev (sim_view w'' ep) = tg_bdev (sim_view demo_world ep)
      | Some x \<Rightarrow> \<exists>msg. x = StatusError Internal msg)"
    by (rule CreateVolume_DeleteVolume [where view = sim_view, OF _ _ _ demo_complete _ demo_wf run])
      (simp_all add: demo_ready demo_req_sel demo_new)
  with run show ?thesis unfolding demo_req_sel by blast
qed

text \<open>
  C29: When CreateVolume is repeated for an existing volume and publishing it fails, the handler
  deletes the existing volume: afterwards it is deleted, unless the target is one that refuses to
  delete volumes (or its UUID denotes no bdev).
\<close>

theorem CreateVolume_existing_failure:
  assumes ready: "cs_ready http view cs (cv_Secrets req)" and src: "source_ok cs req"
    and free: "\<not> lock_held m (cv_Name req)" and ord: "complete_order cs ord1"
    and old: "volumes_named (view w) cs (cv_Secrets req) (cv_Name req) = {(k, i)}" and pl: "plain k" "plain i"
    and run: "controllerServer_CreateVolume http ord1 ord2 cs req (m, w) = (Ret (Inl e), m', w')"
  shows "let n = node_of cs (cv_Secrets req) k; t = node_target view n w; t' = node_target view n w' in
     tg_bdev t' = tg_bdev (del_bdev i t) \<or> tg_bdev t' = tg_bdev t \<and> (tg_bdev t i = None \<or> may_refuse http view (sn_endpoint n) \<and> \<not> sn_published n t' i)"
proof -
  let ?n = "node_of cs (cv_Secrets req) k" let ?t = "node_target view ?n w"
  have find: "find_in_nodes view w cs (cv_Secrets req) (cv_Name req) (keys_in cs ord1) = Some (k, i)"
  proof (cases "find_in_nodes view w cs (cv_Secrets req) (cv_Name req) (keys_in cs ord1)")
    case None
    with old show ?thesis unfolding find_in_nodes_complete [OF ord] by simp
  next
    case (Some p)
    from find_in_nodes_named [OF Some] Some show ?thesis unfolding old by simp
  qed
  have "ctl_CreateVolume_spec (may_refuse http view) view cs req (keys_in cs ord1) (keys_in cs ord2) w (Inl e) (view w')"
    by (rule CreateVolume_runs [OF ready src free, of ord1 ord2 w]) (use run in auto)
  then have "ctl_finish_spec (may_refuse http view) cs req k i (view w) (Inl e) (view w')"
    by (cases rule: ctl_CreateVolume_specE) (auto simp: ctl_create_spec_def find)
  then show ?thesis
  proof (cases rule: ctl_finish_cases)
    case (failed ctx x t1 d t')
    have t1: "tg_bdev t1 = tg_bdev ?t" using ctl_publish_bdev [OF failed(3)] by simp
    have np: "tg_bdev ?t i = None \<or> \<not> sn_published ?n t1 i"
      using failed(3) by (auto simp: ctl_publish_spec_def split: if_splits)
    have "t' = del_bdev i t1 \<or> t' = t1 \<and> (tg_bdev ?t i = None \<or> may_refuse http view (sn_endpoint ?n))"
      using failed(4) t1 by (auto simp: delete_spec_def split: option.splits)
    with t1 np failed(5) show ?thesis by (auto simp: Let_def tg_bdev_del_cong [OF t1])
  qed (use pl in auto)
qed

theorem CreateVolume_existing_failure_witness:
  "\<exists>e m' w'. controllerServer_CreateVolume sim_http [''n1'', ''n2''] [''n1'', ''n2''] demo_cs demo_req
       (NewVolumeLocks, demo_world_old) = (Ret (Inl e), m', w') \<and>
     (let n = node_of demo_cs demo_secrets ''n1''; t = node_target sim_view n demo_world_old; t' = node_target sim_view n w' in
      tg_bdev t' = tg_bdev (del_bdev ''u'' t) \<or> tg_bdev t' = tg_bdev t \<and> 
        (tg_bdev t ''u'' = None \<or> may_refuse sim_http sim_view (sn_endpoint n) \<and> \<not> sn_published n t' ''u''))"
proof -
  obtain e m' w' where run: "controllerServer_CreateVolume sim_http demo_order demo_order demo_cs demo_req
      (NewVolumeLocks, demo_world_old) = (Ret (Inl e), m', w')"
    using go_wp_runD [OF demo_publish_fails] by auto
  have old: "volumes_named (sim_view demo_world_old) demo_cs (cv_Secrets demo_req) (cv_Name demo_req) = {(''n1'', ''u'')}"
    unfolding volumes_named_def dom_demo demo_req_sel
    by (auto simp: has_volume_def node_of_demo demo_world_old_def demo_world_def demo_sim_def demo_store_def demo_nvmf_def
        demo_iscsi_def newNVMf_def newISCSI_def endpoint_def lvol_alias_def demo_bdev_def)
  show ?thesis
    using CreateVolume_existing_failure [where view = sim_view, OF _ _ _ demo_complete old _ _ run] run demo_ready
    by (simp add: demo_req_sel plain_def)
qed

end
