(* ===== verification/Storage_Props.thy ===== *)
theory Storage_Props
  imports Sim_Cluster
begin

text \<open>
  What the storage nodes and the functions of the controller guarantee one by one: the sessions of a
  node refine an abstract set of published volumes, publishing is all or nothing, the errors of a
  call reach its caller, and sizes and volume IDs are converted faithfully.
\<close>

section \<open>Storage nodes\<close>

text \<open>
  C17: Every session of publish and unpublish requests on a storage node refines the abstract
  machine whose state is the set of published volumes: it returns (no panic) with the results of a
  run of that machine from the set of volumes published before to the set published after, changes
  no other target and no bdev.
\<close>

theorem SpdkNode_session_refines:
  assumes "sn_conforms http view n"
  shows "\<exists>es n' w'. run_ops (SpdkNode_PublishVolume http) (SpdkNode_UnpublishVolume http) ops (n, w) = (Ret es, n', w') \<and>
     tg_bdev (view w' (sn_endpoint n)) = tg_bdev (view w (sn_endpoint n)) \<and>
     (\<forall>e. e \<noteq> sn_endpoint n \<longrightarrow> view w' e = view w e) \<and>
     abs_run (dom (tg_bdev (view w (sn_endpoint n)))) {i. sn_published n (view w (sn_endpoint n)) i} ops es
       {i. sn_published n (view w' (sn_endpoint n)) i}"
  by (rule sn.session_total [OF assms])

text \<open>A target that has one volume, which is not published.\<close>

definition one_volume :: sim_world where
  "one_volume = (\<lambda>_. demo_sim\<lparr>sm_bdevs := [(''u'', demo_bdev)]\<rparr>)"

lemma one_volume_target:
  "tg_bdev (sim_view one_volume ep) = [''u'' \<mapsto> demo_bdev]" "tg_subs (sim_view one_volume ep) = Map.empty"
  "tg_tnodes (sim_view one_volume ep) = {}"
  by (simp_all add: one_volume_def demo_sim_def)

theorem SpdkNode_session_refines_witness:
  "\<exists>e n' w'. run_ops (SpdkNode_PublishVolume sim_http) (SpdkNode_UnpublishVolume sim_http)
       [Publish ''u'', Unpublish ''u'', Publish ''x''] (Some (NodeNVMf demo_nvmf), one_volume) =
       (Ret [e, None, Some ErrVolumeDeleted], n', w') \<and>
     (\<forall>i. \<not> sn_published (Some (NodeNVMf demo_nvmf)) (sim_view w' (sn_endpoint (Some (NodeNVMf demo_nvmf)))) i)"
proof -
  have none: "{i. sn_published (Some (NodeNVMf demo_nvmf)) (sim_view one_volume (sn_endpoint (Some (NodeNVMf demo_nvmf)))) i} = {}"
    unfolding sn_published.simps nv_published_def one_volume_target by simp
  show ?thesis
    using SpdkNode_session_refines [OF sim_sn_conforms [of "NodeNVMf demo_nvmf"],
        of "[Publish ''u'', Unpublish ''u'', Publish ''x'']" one_volume]
    unfolding none one_volume_target by (auto simp: abs_run_cons_simp split: if_splits)
qed

text \<open>
  C20: Publishing over NVMe-oF is all or nothing: after success the subsystem of the volume has
  exactly its namespace and listener, after an error the subsystem that was created on the way is
  gone again; a volume that does not exist gives ErrVolumeDeleted, a published one is left alone;
  no other target changes.
\<close>

theorem nodeNVMf_PublishVolume_atomic:
  assumes "nvmf_ok http view n"
  shows "\<exists>e n' w'. nodeNVMf_PublishVolume http i (n, w) = (Ret e, n', w') \<and> nv_same n n' \<and>
     (\<forall>ep. ep \<noteq> endpoint (nv_client n) \<longrightarrow> view w' ep = view w ep) \<and>
     nv_publish_post n i (nv_target view n w) e (nv_target view n w')"
proof -
  have "go_wp (nodeNVMf_PublishVolume http i) (\<lambda>e (n', w'). nv_same n n' \<and>
     (\<forall>ep. ep \<noteq> endpoint (nv_client n) \<longrightarrow> view w' ep = view w ep) \<and>
     nv_publish_post n i (nv_target view n w) e (nv_target view n w')) (\<lambda>_ _. False) (n, w)"
    by (rule wp_nv_PublishVolume [OF assms]) auto
  from go_wp_runD [OF this] show ?thesis by auto
qed

theorem nodeNVMf_PublishVolume_atomic_witness:
  "\<exists>e n' w'. nodeNVMf_PublishVolume sim_http ''u'' (demo_nvmf, one_volume) = (Ret e, n', w') \<and>
     tg_subs (nv_target sim_view demo_nvmf w') (nodeNVMf_getVolumeNqn ''u'') \<in>
       (if e = None then range (\<lambda>v. Some \<lparr>sub_ns = [\<lparr>NSID = v, BdevName = ''u''\<rparr>], sub_listeners = [nv_address demo_nvmf]\<rparr>)
        else {None})"
proof -
  have ok: "nvmf_ok sim_http sim_view demo_nvmf" using sim_nv_conforms by (simp add: nv_conforms_def)
  obtain e n' w' where run: "nodeNVMf_PublishVolume sim_http ''u'' (demo_nvmf, one_volume) = (Ret e, n', w')"
      and post: "nv_publish_post demo_nvmf ''u'' (nv_target sim_view demo_nvmf one_volume) e (nv_target sim_view demo_nvmf w')"
    using nodeNVMf_PublishVolume_atomic [OF ok, of "''u''" one_volume] by auto
  have "tg_subs (nv_target sim_view demo_nvmf w') (nodeNVMf_getVolumeNqn ''u'') \<in>
       (if e = None then range (\<lambda>v. Some \<lparr>sub_ns = [\<lparr>NSID = v, BdevName = ''u''\<rparr>], sub_listeners = [nv_address demo_nvmf]\<rparr>)
        else {None})"
    using post unfolding nv_publish_post_def nv_published_def
    by (cases e) (auto simp del: sim_view_at simp: one_volume_target)
  with run show ?thesis by blast
qed

text \<open>
  C21: Publishing over iSCSI adds the target node of the volume on success and none on an error;
  only the shared portal and initiator groups may remain.
\<close>

theorem nodeISCSI_PublishVolume_atomic:
  assumes "iscsi_ok http view n"
  shows "\<exists>e n' w'. nodeISCSI_PublishVolume http i (n, w) = (Ret e, n', w') \<and> is_same n n' \<and>
     (\<forall>ep. ep \<noteq> endpoint (is_client n) \<longrightarrow> view w' ep = view w ep) \<and>
     is_publish_post i (is_target view n w) e (is_target view n w')"
proof -
  have "go_wp (nodeISCSI_PublishVolume http i) (\<lambda>e (n', w'). is_same n n' \<and>
     (\<forall>ep. ep \<noteq> endpoint (is_client n) \<longrightarrow> view w' ep = view w ep) \<and>
     is_publish_post i (is_target view n w) e (is_target view n w')) (\<lambda>_ _. False) (n, w)"
    by (rule wp_is_PublishVolume [OF assms]) auto
  from go_wp_runD [OF this] show ?thesis by auto
qed

lemma is_publish_tnodes:
  "is_publish_post i t e t' \<Longrightarrow> tg_bdev t i \<noteq> None \<Longrightarrow> i \<notin> tg_tnodes t \<Longrightarrow>
     tg_tnodes t' = (if e = None then insert i (tg_tnodes t) else tg_tnodes t)"
  by (cases e) (clarsimp simp: is_publish_post_def)+

theorem nodeISCSI_PublishVolume_atomic_witness:
  "\<exists>e n' w'. nodeISCSI_PublishVolume sim_http ''u'' (demo_iscsi, one_volume) = (Ret e, n', w') \<and>
     tg_tnodes (is_target sim_view demo_iscsi w') = (if e = None then {''u''} else {})"
proof -
  have ok: "iscsi_ok sim_http sim_view demo_iscsi" using sim_is_conforms by (simp add: is_conforms_def)
  obtain e n' w' where run: "nodeISCSI_PublishVolume sim_http ''u'' (demo_iscsi, one_volume) = (Ret e, n', w')"
      and post: "is_publish_post ''u'' (is_target sim_view demo_iscsi one_volume) e (is_target sim_view demo_iscsi w')"
    using nodeISCSI_PublishVolume_atomic [OF ok, of "''u''" one_volume] by auto
  have "tg_tnodes (is_target sim_view demo_iscsi w') = (if e = None then {''u''} else {})"
    using is_publish_tnodes [OF post] by (simp del: sim_view_at add: one_volume_target)
  with run show ?thesis by blast
qed

section \<open>Calls\<close>

text \<open>
  A reply of JSON-RPC, as its specification has it: an object of at most one version, one request ID,
  one result and one error object each, in any order.
\<close>

datatype rpc_member = MemVersion string | MemID int32 | MemResult json | MemError int64 string

fun member_of_reply :: "rpc_member \<Rightarrow> string \<times> json" where
  "member_of_reply (MemVersion v) = (''jsonrpc'', JStr v)"
| "member_of_reply (MemID i) = (''id'', jint (sint i))"
| "member_of_reply (MemResult j) = (''result'', j)"
| "member_of_reply (MemError code msg) = (''error'', JObj [(''code'', jint (sint code)), (''message'', JStr msg)])"

definition one_each :: "rpc_member list \<Rightarrow> bool" where
  "one_each ms \<longleftrightarrow> distinct (map (fst \<circ> member_of_reply) ms)"

lemma one_each_Cons:
  "one_each (m # ms) \<longleftrightarrow> one_each ms \<and> (\<forall>m' \<in> set ms. fst (member_of_reply m') \<noteq> fst (member_of_reply m))"
  by (auto simp: one_each_def) (metis image_eqI)+

lemma dec_members_reply:
  "dec_members (response_fields d) (member_of_reply (MemVersion v) # xs) s = dec_members (response_fields d) xs s"
  "dec_members (response_fields d) (member_of_reply (MemID i) # xs) s = dec_members (response_fields d) xs (s\<lparr>rs_ID := i\<rparr>)"
  "dec_members (response_fields d) (member_of_reply (MemError code msg) # xs) s =
     dec_members (response_fields d) xs (s\<lparr>rs_Code := code, rs_Message := msg\<rparr>)"
  "dec_members (response_fields d) (member_of_reply (MemResult j) # xs) s =
     (let (v, e) = d j (rs_Result s); (s', e') = dec_members (response_fields d) xs (s\<lparr>rs_Result := v\<rparr>) in (s', first_err e e'))"
  by (simp_all add: fld_def first_err_def dec_int64_sint split: prod.split)

text \<open>What the client's response variable holds after decoding such a reply, and the decoder's error.\<close>

definition decoded :: "'r dec \<Rightarrow> rpc_member list \<Rightarrow> 'r rpcResponse \<Rightarrow> 'r rpcResponse \<times> err \<Rightarrow> bool" where
  "decoded d ms s = (\<lambda>(s', e).
     (\<forall>i. MemID i \<in> set ms \<longrightarrow> rs_ID s' = i) \<and> ((\<forall>i. MemID i \<notin> set ms) \<longrightarrow> rs_ID s' = rs_ID s) \<and>
     (\<forall>code msg. MemError code msg \<in> set ms \<longrightarrow> rs_Code s' = code \<and> rs_Message s' = msg) \<and>
     ((\<forall>code msg. MemError code msg \<notin> set ms) \<longrightarrow> rs_Code s' = rs_Code s \<and> rs_Message s' = rs_Message s) \<and>
     (\<forall>j. MemResult j \<in> set ms \<longrightarrow> d j (rs_Result s) = (rs_Result s', e)) \<and>
     ((\<forall>j. MemResult j \<notin> set ms) \<longrightarrow> e = None \<and> rs_Result s' = rs_Result s))"

lemma decoded_reply: "one_each ms \<Longrightarrow> decoded d ms s (dec_members (response_fields d) (map member_of_reply ms) s)"
proof (induction ms arbitrary: s)
  case Nil
  show ?case by (simp add: decoded_def)
next
  case (Cons m ms)
  then have ms: "one_each ms" and new: "\<And>m'. m' \<in> set ms \<Longrightarrow> fst (member_of_reply m') \<noteq> fst (member_of_reply m)"
    by (simp_all add: one_each_Cons)
  note IH = Cons.IH [OF ms]
  show ?case
  proof (cases m)
    case (MemVersion v)
    with IH [of s] show ?thesis unfolding list.map MemVersion dec_members_reply by (auto simp: decoded_def)
  next
    case (MemID i)
    with new have "MemID i' \<notin> set ms" for i' by force
    with IH [of "s\<lparr>rs_ID := i\<rparr>"] show ?thesis unfolding list.map MemID dec_members_reply by (auto simp: decoded_def)
  next
    case (MemError code msg)
    with new have "MemError code' msg' \<notin> set ms" for code' msg' by force
    with IH [of "s\<lparr>rs_Code := code, rs_Message := msg\<rparr>"] show ?thesis
      unfolding list.map MemError dec_members_reply by (auto simp: decoded_def)
  next
    case (MemResult j)
    with new have no: "MemResult j' \<notin> set ms" for j' by force
    obtain v e where d: "d j (rs_Result s) = (v, e)" by fastforce
    obtain s' e' where rest: "dec_members (response_fields d) (map member_of_reply ms) (s\<lparr>rs_Result := v\<rparr>) = (s', e')" by fastforce
    from IH [of "s\<lparr>rs_Result := v\<rparr>"] no have "decoded d (m # ms) s (s', e)"
      unfolding rest by (auto simp: decoded_def MemResult d)
    moreover have "e' = None" using IH [of "s\<lparr>rs_Result := v\<rparr>"] no unfolding rest by (simp add: decoded_def)
    ultimately show ?thesis
      unfolding list.map MemResult dec_members_reply by (cases e) (simp_all add: d rest first_err_def)
  qed
qed

text \<open>
  What a caller can rely on when the target answers with a reply of JSON-RPC: the error e and the
  result r of a call of the request ID i, by the members of the reply.
\<close>

definition reply_result :: "string \<Rightarrow> int32 \<Rightarrow> 'r dec \<Rightarrow> 'r \<Rightarrow> rpc_member list \<Rightarrow> err \<Rightarrow> 'r \<Rightarrow> bool" where
  "reply_result meth i d r0 ms e r \<longleftrightarrow>
     (\<forall>j. MemResult j \<in> set ms \<longrightarrow> r = fst (d j r0) \<and> (snd (d j r0) \<noteq> None \<longrightarrow> e \<noteq> None)) \<and>
     ((\<forall>j. MemResult j \<notin> set ms) \<longrightarrow> r = r0) \<and>
     (\<forall>i'. MemID i' \<in> set ms \<longrightarrow> i' \<noteq> i \<longrightarrow> e \<noteq> None) \<and>
     ((\<forall>i'. MemID i' \<notin> set ms) \<longrightarrow> i \<noteq> 0 \<longrightarrow> e \<noteq> None) \<and>
     (MemID i \<in> set ms \<longrightarrow> (\<forall>j. MemResult j \<in> set ms \<longrightarrow> snd (d j r0) = None) \<longrightarrow>
        (\<forall>code msg. MemError code msg \<in> set ms \<longrightarrow> code \<noteq> 0 \<longrightarrow>
           e = Some (Errorf (meth @ '': json response error: '' @ msg))) \<and>
        ((\<forall>code msg. MemError code msg \<in> set ms \<longrightarrow> code = 0) \<longrightarrow> e = None))"

lemma decode_reply_result:
  assumes reply: "json_decode body = Some (JObj (map member_of_reply ms))" and one: "one_each ms" and status: "status < 400"
    and er: "decode_reply meth i d r0 (HttpResp status body) = (e, r)"
  shows "reply_result meth i d r0 ms e r"
proof -
  let ?s = "\<lparr>rs_ID = 0, rs_Code = 0, rs_Message = [], rs_Result = r0\<rparr>"
  obtain s' ed where dec: "dec_members (response_fields d) (map member_of_reply ms) ?s = (s', ed)" by fastforce
  note D = decoded_reply [OF one, of d ?s, unfolded dec decoded_def prod.case]
  have e: "e = (case ed of Some x \<Rightarrow> Some (Wrapf (meth @ '': '') x)
      | None \<Rightarrow> if rs_ID s' \<noteq> i then Some (Errorf (meth @ '': json response ID mismatch''))
          else if rs_Code s' \<noteq> 0 then Some (Errorf (meth @ '': json response error: '' @ rs_Message s')) else None)"
    and r: "r = rs_Result s'"
    using er reply status dec by (auto simp: decode_reply_def split: option.splits if_splits)
  from D have ids: "MemID i' \<in> set ms \<Longrightarrow> rs_ID s' = i'" "(\<forall>i'. MemID i' \<notin> set ms) \<Longrightarrow> rs_ID s' = 0" for i' by simp_all
  from D have codes: "MemError code msg \<in> set ms \<Longrightarrow> rs_Code s' = code \<and> rs_Message s' = msg"
    "(\<forall>code msg. MemError code msg \<notin> set ms) \<Longrightarrow> rs_Code s' = 0" for code msg by simp_all
  from D have res: "MemResult j \<in> set ms \<Longrightarrow> d j r0 = (r, ed)" "(\<forall>j. MemResult j \<notin> set ms) \<Longrightarrow> ed = None \<and> r = r0" for j
    by (simp_all add: r)
  have no_error: "rs_Code s' = 0" if "\<forall>code msg. MemError code msg \<in> set ms \<longrightarrow> code = 0"
    using codes that by blast
  have ok: "ed = None" if "\<forall>j. MemResult j \<in> set ms \<longrightarrow> snd (d j r0) = None"
  proof (cases "\<exists>j. MemResult j \<in> set ms")
    case True
    then obtain j where "MemResult j \<in> set ms" by blast
    with that res(1) show ?thesis by fastforce
  qed (use res(2) in blast)
  have failed: "e \<noteq> None" if "rs_ID s' \<noteq> i" using that unfolding e by (cases ed) simp_all
  have undecoded: "e \<noteq> None" if "ed \<noteq> None" using that unfolding e by (cases ed) simp_all
  have results: "r = fst (d j r0) \<and> (snd (d j r0) \<noteq> None \<longrightarrow> e \<noteq> None)" if "MemResult j \<in> set ms" for j
    using res(1) [OF that] undecoded by (simp only: fst_conv snd_conv) simp
  have missing: "e \<noteq> None" if "\<forall>i'. MemID i' \<notin> set ms" "i \<noteq> 0" using failed ids(2) [OF that(1)] that(2) by metis
  have target: "e = Some (Errorf (meth @ '': json response error: '' @ msg))"
    if "MemID i \<in> set ms" "\<forall>j. MemResult j \<in> set ms \<longrightarrow> snd (d j r0) = None" "MemError code msg \<in> set ms" "code \<noteq> 0" for code msg
    using ids(1) [OF that(1)] ok [OF that(2)] codes(1) [OF that(3)] that(4) unfolding e by simp
  have fine: "e = None"
    if "MemID i \<in> set ms" "\<forall>j. MemResult j \<in> set ms \<longrightarrow> snd (d j r0) = None" "\<forall>code msg. MemError code msg \<in> set ms \<longrightarrow> code = 0"
    using ids(1) [OF that(1)] ok [OF that(2)] no_error [OF that(3)] unfolding e by simp
  show ?thesis unfolding reply_result_def
  proof (intro conjI)
    show "\<forall>j. MemResult j \<in> set ms \<longrightarrow> r = fst (d j r0) \<and> (snd (d j r0) \<noteq> None \<longrightarrow> e \<noteq> None)" using results by blast
    show "(\<forall>j. MemResult j \<notin> set ms) \<longrightarrow> r = r0" using res(2) by blast
    show "\<forall>i'. MemID i' \<in> set ms \<longrightarrow> i' \<noteq> i \<longrightarrow> e \<noteq> None" using failed ids(1) by metis
    show "(\<forall>i'. MemID i' \<notin> set ms) \<longrightarrow> i \<noteq> 0 \<longrightarrow> e \<noteq> None" using missing by blast
  qed (use target fine in blast)
qed

text \<open>
  C32: A JSON-RPC call by the reply of JSON-RPC: the ID counter is advanced in every case; when
  the request could not be sent, or was answered with an HTTP status from 400 or with something
  that is no JSON, the call is an error and the result variable untouched. When the answer is a
  JSON-RPC reply, its members in any order: without an ID, with the ID of another request, or with
  a result that cannot be decoded, the call is an error; with the ID of the request and a result
  that can be decoded, or none, an error object of a code other than 0 makes the call return the
  error with the target's message, and without one the call succeeds with the decoded result.
\<close>

theorem rpcClient_call_result:
  assumes "http (post_request (c\<lparr>rpcID := rpcID c + 1\<rparr>) (request_doc meth (rpcID c + 1) args)) w = (answer, w')"
  shows "\<exists>e r. rpcClient_call http meth args d r0 (c, w) = (Ret (e, r), c\<lparr>rpcID := rpcID c + 1\<rparr>, w') \<and>
    (case answer of
       HttpFail _ \<Rightarrow> e \<noteq> None \<and> r = r0
     | HttpResp status body \<Rightarrow> (status \<ge> 400 \<or> json_decode body = None \<longrightarrow> e \<noteq> None \<and> r = r0) \<and>
        (\<forall>ms. status < 400 \<longrightarrow> json_decode body = Some (JObj (map member_of_reply ms)) \<longrightarrow> one_each ms \<longrightarrow>
           reply_result meth (rpcID c + 1) d r0 ms e r))"
proof (cases answer)
  case (HttpFail x)
  with assms show ?thesis by (simp add: rpcClient_call_def decode_reply_def)
next
  case (HttpResp status body)
  obtain e r where er: "decode_reply meth (rpcID c + 1) d r0 answer = (e, r)" by fastforce
  with assms have run: "rpcClient_call http meth args d r0 (c, w) = (Ret (e, r), c\<lparr>rpcID := rpcID c + 1\<rparr>, w')"
    by (simp add: rpcClient_call_def)
  have bad: "e \<noteq> None \<and> r = r0" if "status \<ge> 400 \<or> json_decode body = None"
    using er that by (auto simp: decode_reply_def HttpResp split: if_splits)
  have reply: "reply_result meth (rpcID c + 1) d r0 ms e r"
    if "status < 400" "json_decode body = Some (JObj (map member_of_reply ms))" "one_each ms" for ms
    using that er by (intro decode_reply_result [OF that(2,3,1)]) (simp add: HttpResp)
  from run bad reply show ?thesis unfolding HttpResp http_result.case
    by (intro exI [of _ e] exI [of _ r]) simp
qed

theorem rpcClient_call_result_witness:
  "\<exists>c'. rpcClient_call (\<lambda>_ w. (HttpResp 200 (json_text (JObj (map member_of_reply
       [MemVersion ''2.0'', MemID 1, MemError (- 32602) ''Invalid parameters'']))), w)) ''m'' None dec_bool False
       (\<lparr>rpcURL = [], rpcUser = [], rpcPass = [], rpcID = 0\<rparr>, ()) =
     (Ret (Some (Errorf ''m: json response error: Invalid parameters''), False), c', ())"
proof -
  let ?ms = "[MemVersion ''2.0'', MemID 1, MemError (- 32602) ''Invalid parameters'']"
  let ?answer = "HttpResp 200 (json_text (JObj (map member_of_reply ?ms)))"
  let ?http = "\<lambda>(_ :: http_request) (w :: unit). (?answer, w)"
    and ?c = "\<lparr>rpcURL = [], rpcUser = [], rpcPass = [], rpcID = 0\<rparr>"
  have json: "json_decode (json_text (JObj (map member_of_reply ?ms))) = Some (JObj (map member_of_reply ?ms))"
    by (rule json_decode_text) simp
  have ms: "one_each ?ms" by (simp add: one_each_def)
  have call: "?http (post_request (?c\<lparr>rpcID := rpcID ?c + 1\<rparr>) (request_doc ''m'' (rpcID ?c + 1) None)) () = (?answer, ())"
    by (rule refl)
  obtain e r where run: "rpcClient_call ?http ''m'' None dec_bool False (?c, ()) = (Ret (e, r), ?c\<lparr>rpcID := rpcID ?c + 1\<rparr>, ())"
    and e: "reply_result ''m'' (rpcID ?c + 1) dec_bool False ?ms e r"
    using rpcClient_call_result [where http = ?http and d = dec_bool and ?r0.0 = False and c = ?c and meth = "''m''" and args = None, OF call]
      json ms unfolding http_result.case by (elim exE conjE) fastforce
  from e have "e = Some (Errorf (''m'' @ '': json response error: '' @ ''Invalid parameters'')) \<and> r = False"
    by (simp add: reply_result_def)
  with run show ?thesis by auto
qed

text \<open>
  C39: When the target answers the lookup of a volume with one of the HTTP errors 401, 403, 500
  and 503, getVolume panics with an index out of range instead of returning the error.
\<close>

theorem rpcClient_getVolume_panics:
  assumes "http (post_request (c\<lparr>rpcID := rpcID c + 1\<rparr>)
      (request_doc ''bdev_get_bdevs'' (rpcID c + 1) (Some (JObj [(''name'', JStr lvolID)])))) w = (HttpResp status body, w')"
    and "status \<in> {401, 403, 500, 503}"
  shows "rpcClient_getVolume http lvolID (c, w) =
     (Panic ''runtime error: index out of range [0] with length 0'', c\<lparr>rpcID := rpcID c + 1\<rparr>, w')"
proof -
  have "\<not> errorMatches (Some (Errorf (''bdev_get_bdevs: HTTP error code: '' @ dec_int status))) ErrJSONNoSuchDevice"
    using assms(2)
    by (elim insertE emptyE)
      (simp_all add: errorMatches_NoSuchDevice_iff strings_ToLower_def
        dec_int_def dec_digits.simps)
  moreover have "400 \<le> status" using assms(2) by auto
  ultimately show ?thesis
    using assms(1) by (simp add: rpcClient_getVolume_def go_bind_def go_panic_def rpcClient_call_def decode_reply_def Let_def)
qed

theorem rpcClient_getVolume_panics_witness:
  "rpcClient_getVolume (\<lambda>_ w. (HttpResp 401 ''denied'', w)) ''u''
     (\<lparr>rpcURL = ''http://10.0.0.1'', rpcUser = ''user'', rpcPass = ''wrong'', rpcID = 6\<rparr>, ()) =
   (Panic ''runtime error: index out of range [0] with length 0'',
     \<lparr>rpcURL = ''http://10.0.0.1'', rpcUser = ''user'', rpcPass = ''wrong'', rpcID = 7\<rparr>, ())"
  using rpcClient_getVolume_panics [of "\<lambda>_ w. (HttpResp 401 ''denied'', w)"
      "\<lparr>rpcURL = ''http://10.0.0.1'', rpcUser = ''user'', rpcPass = ''wrong'', rpcID = 6\<rparr>" "''u''" "()" 401 "''denied''" "()"]
  by simp

end
