(* ===== verification/Control_Props.thy ===== *)
theory Control_Props
  imports Storage_Props
begin

text \<open>
  The functions of the controller one by one: sizes, scheduling, configuration,
  unknown nodes, and snapshots.
\<close>

section \<open>Sizes\<close>

lemma sdiv_pos: "0 \<le> (a :: int) \<Longrightarrow> 0 < b \<Longrightarrow> a sdiv b = a div b"
  by (simp add: signed_divide_int_def sgn_if)

text \<open>
  C25: For sizes from 0 to 2^63 - 2^20 the conversion to MiB neither loses space nor adds a whole
  MiB, and the capacity computed back from it does not overflow.
\<close>

theorem ToMiB_bounds:
  assumes "0 \<le> sint bytes" and "sint bytes \<le> 2 ^ 63 - 2 ^ 20"
  shows "sint bytes \<le> sint (ToMiB bytes) * 1048576 \<and> sint (ToMiB bytes) * 1048576 < sint bytes + 1048576 \<and>
     sint (ToMiB bytes * 1024 * 1024) = sint (ToMiB bytes) * 1048576"
proof -
  define b where "b = sint bytes"
  define q where "q = (b + 1048575) div 1048576"
  have b: "0 \<le> b" "b \<le> 9223372036853727232" using assms by (simp_all add: b_def)
  have w: "bytes + 1048576 - 1 = word_of_int (b + 1048575)" by (simp add: b_def)
  have s: "sint (bytes + 1048576 - 1) = b + 1048575"
    unfolding w by (rule sint_word_of_int_64) (use b in auto)
  have "q * 1048576 + (b + 1048575) mod 1048576 = b + 1048575" unfolding q_def by simp
  moreover have "0 \<le> (b + 1048575) mod 1048576" "(b + 1048575) mod 1048576 < 1048576" by simp_all
  ultimately have q: "0 \<le> q" "q * 1048576 \<le> b + 1048575" "b \<le> q * 1048576"
    using b by (simp add: q_def pos_imp_zdiv_nonneg_iff, linarith+)
  have t: "ToMiB bytes = word_of_int q"
    unfolding ToMiB_def div64_def s using b
    by (simp add: sdiv_pos q_def sint_word_of_int_64 [of 1048576, simplified])
  have "sint (ToMiB bytes) = q" unfolding t by (rule sint_word_of_int_64) (use q b in auto)
  moreover have "sint (ToMiB bytes * 1024 * 1024) = q * 1048576"
  proof -
    have "ToMiB bytes * 1024 * 1024 = word_of_int (q * 1048576)" unfolding t by simp
    then show ?thesis using sint_word_of_int_64 [of "q * 1048576"] q b by simp
  qed
  ultimately show ?thesis using q by (simp add: b_def)
qed

theorem ToMiB_bounds_witness:
  "sint (ToMiB 1000000) = 1 \<and> sint (ToMiB 1000000 * 1024 * 1024) = 1048576"
proof -
  have "sint (1000000 :: int64) = 1000000" using sint_word_of_int_64 [of 1000000] by simp
  with ToMiB_bounds [of 1000000] show ?thesis by auto
qed

section \<open>Scheduling\<close>

lemma find_space_Some:
  "find_space view w cs secrets sz ks = Some (k, lvs) \<Longrightarrow>
     k \<in> set ks \<and> (\<exists>l \<in> set (stores_of (node_target view (node_of cs secrets k) w)). lvs_Name l = lvs \<and> sint sz < sint (FreeSizeMiB l))"
  by (induction ks) (auto split: option.splits dest!: find_SomeD)

lemma find_space_None:
  "find_space view w cs secrets sz ks = None \<Longrightarrow> k \<in> set ks \<Longrightarrow>
     l \<in> set (stores_of (node_target view (node_of cs secrets k) w)) \<Longrightarrow> sint (FreeSizeMiB l) \<le> sint sz"
  by (induction ks) (auto simp: find_None_iff split: option.splits)

text \<open>
  C22: Scheduling returns a configured node with an lvstore that has more free space than asked
  for, or an error when no lvstore of any configured node has; it changes no target.
\<close>

theorem schedule_finds_space:
  assumes ready: "cs_ready http view cs secrets" and all: "dom (spdkNodeConfigs cs) \<subseteq> set ord"
  shows "\<exists>nodeName lvstore e w'. controllerServer_schedule http ord cs sizeMiB secrets w = (Ret ((nodeName, lvstore), e), w') \<and>
     view w' = view w \<and>
     (if e = None then spdkNodeConfigs cs nodeName \<noteq> None \<and>
        (\<exists>l \<in> set (stores_of (node_target view (node_of cs secrets nodeName) w)).
           lvs_Name l = lvstore \<and> sint sizeMiB < sint (FreeSizeMiB l))
      else \<forall>k l. spdkNodeConfigs cs k \<noteq> None \<longrightarrow> l \<in> set (stores_of (node_target view (node_of cs secrets k) w)) \<longrightarrow>
           sint (FreeSizeMiB l) \<le> sint sizeMiB)"
proof -
  let ?f = "find_space view w cs secrets sizeMiB (keys_in cs ord)"
  have "go_wp (controllerServer_schedule http ord cs sizeMiB secrets) (\<lambda>r w'. view w' = view w \<and>
      r = (case ?f of Some p \<Rightarrow> (p, None) | None \<Rightarrow> (([], []), Some (Errorf ''failed to find node with enough free space''))))
      (\<lambda>_ _. False) w"
    by (rule wp_schedule) (use ready in \<open>auto simp: cs_ready_def\<close>)
  from go_wp_runD [OF this] obtain w' where run: "controllerServer_schedule http ord cs sizeMiB secrets w =
      (Ret (case ?f of Some p \<Rightarrow> (p, None) | None \<Rightarrow> (([], []), Some (Errorf ''failed to find node with enough free space''))), w')"
    and v: "view w' = view w" by auto
  show ?thesis
  proof (cases ?f)
    case (Some p)
    obtain k l where p: "p = (k, l)" by (cases p)
    from find_space_Some [OF Some [unfolded p]] run Some v p show ?thesis by (auto simp: keys_in_mem)
  next
    case None
    have "k \<in> set (keys_in cs ord)" if "spdkNodeConfigs cs k \<noteq> None" for k
      using all that by (auto simp: keys_in_mem)
    with find_space_None [OF None] run None v show ?thesis by auto
  qed
qed

theorem schedule_finds_space_witness:
  "\<exists>nodeName lvstore w'. controllerServer_schedule sim_http [''n1'', ''n2''] demo_cs 3999 demo_secrets demo_world =
     (Ret ((nodeName, lvstore), None), w') \<and> lvstore = ''lvs0''"
proof -
  have store: "stores_of (node_target sim_view n demo_world) =
      [\<lparr>lvs_Name = ''lvs0'', lvs_UUID = ''store-uuid'', TotalSizeMiB = 4000, FreeSizeMiB = 4000\<rparr>]" for n
    by (simp add: demo_world_def demo_sim_def demo_store_def LvStore_of_reply_def demo_sizes)
  have size: "sint (3999 :: int64) < sint (4000 :: int64)"
    using sint_word_of_int_64 [of 3999] sint_word_of_int_64 [of 4000] by simp
  have all: "dom (spdkNodeConfigs demo_cs) \<subseteq> set [''n1'', ''n2'']" by (auto simp: demo_cs_def)
  have n1: "spdkNodeConfigs demo_cs ''n1'' \<noteq> None" by (simp add: demo_cs_def)
  show ?thesis
    using schedule_finds_space [OF demo_ready all, of 3999 demo_world] n1 size unfolding store
    by (fastforce split: if_splits)
qed

section \<open>Configuration\<close>

lemma foldl_configs_dom:
  "dom (foldl (\<lambda>m c. m(cfg_Name c \<mapsto> c)) m cs) = dom m \<union> cfg_Name ` set cs"
  by (induction cs arbitrary: m) auto

text \<open>
  C30: The controller that is made from a configuration file is well formed: it has at least one
  node and finitely many, each filed under its own name, taken from the file, and no lock is held.
\<close>

theorem newControllerServer_wellformed:
  assumes "newControllerServer d file = Inr (cs, locks)"
  shows "cs_Driver cs = d \<and> locks = NewVolumeLocks \<and> finite (dom (spdkNodeConfigs cs)) \<and> dom (spdkNodeConfigs cs) \<noteq> {} \<and>
     (\<exists>nodes. NewCSIControllerConfig file = Inr nodes \<and> dom (spdkNodeConfigs cs) = cfg_Name ` set nodes \<and>
        (\<forall>name cfg. spdkNodeConfigs cs name = Some cfg \<longrightarrow> cfg_Name cfg = name \<and> cfg \<in> set nodes))"
proof -
  from assms obtain nodes where n: "NewCSIControllerConfig file = Inr nodes" "nodes \<noteq> []"
      and cs: "cs = \<lparr>cs_Driver = d, spdkNodeConfigs = foldl (\<lambda>m c. m(cfg_Name c \<mapsto> c)) Map.empty nodes\<rparr>"
      and l: "locks = NewVolumeLocks"
    by (auto simp: newControllerServer_def Let_def split: sum.splits if_splits)
  have "dom (spdkNodeConfigs cs) = cfg_Name ` set nodes" by (simp add: cs foldl_configs_dom)
  moreover have "cfg_Name cfg = name \<and> cfg \<in> set nodes" if "spdkNodeConfigs cs name = Some cfg" for name cfg
    using foldl_configs [of Map.empty nodes name cfg] that by (simp add: cs)
  ultimately show ?thesis using n l by (auto simp: cs)
qed

definition demo_file :: json where
  "demo_file = JObj [(''Nodes'', JArr [JObj [(''name'', JStr ''n1''), (''rpcURL'', JStr ''http://10.0.0.1:9009''),
     (''targetType'', JStr ''nvme-tcp''), (''targetAddr'', JStr ''10.0.0.1'')]])]"

theorem newControllerServer_wellformed_witness:
  "\<exists>cs locks. newControllerServer (cs_Driver demo_cs) (Inr (json_text demo_file)) = Inr (cs, locks) \<and>
     dom (spdkNodeConfigs cs) = {''n1''}"
proof -
  have "wf_json demo_file" by (simp add: demo_file_def)
  then have nodes: "NewCSIControllerConfig (Inr (json_text demo_file)) = Inr [cfg_nvmf]"
    by (simp add: NewCSIControllerConfig_def)
      (simp add: demo_file_def find_field_def dec_SpdkNodeConfig_def fld_def zero_SpdkNodeConfig_def cfg_nvmf_def)
  then obtain cs locks where new: "newControllerServer (cs_Driver demo_cs) (Inr (json_text demo_file)) = Inr (cs, locks)"
    by (simp add: newControllerServer_def)
  from newControllerServer_wellformed [OF new] nodes new show ?thesis by (auto simp: cfg_nvmf_def)
qed

section \<open>Unknown nodes\<close>

text \<open>A volume ID of a node that is not configured: the handler panics with a nil dereference, and the lock is free again.\<close>

lemma DeleteVolume_unknown_node:
  assumes "getSPDKVol volumeID = Inr v" and "spdkNodeConfigs cs (sv_nodeName v) = None"
    and "NewSpdkSecrets (mget secrets ''secret.json'') = Inr tokens" and "\<not> lock_held m volumeID"
  shows "\<exists>m'. controllerServer_DeleteVolume http cs volumeID secrets (m, w) = (Panic nil_deref, m', w) \<and>
     (\<forall>j. lock_held m' j = lock_held m j)"
  unfolding controllerServer_DeleteVolume_def
  by (rule with_volume_lock_run [OF assms(4)])
    (simp add: controllerServer_unpublishVolume_def assms controllerServer_getSpdkNode_def go_bind_def go_panic_def)

section \<open>Snapshots\<close>

text \<open>
  What a snapshot request returns when the target has answered the node's request with \<open>(sid, e)\<close>,
  and the volume then has the description \<open>info\<close>.
\<close>

definition snapshot_result ::
  "int \<Rightarrow> string \<Rightarrow> string \<Rightarrow> string \<times> err \<Rightarrow> smap \<times> err \<Rightarrow> go_error + Snapshot \<Rightarrow> bool" where
  "snapshot_result now k i r info res \<longleftrightarrow> (case r of
     (_, Some x) \<Rightarrow> res = Inl (internal x)
   | (sid, None) \<Rightarrow> (case info of
       (_, Some x) \<Rightarrow> res = Inl (internal x)
     | (ctx, None) \<Rightarrow> (case strconv_ParseInt (mget ctx ''lvolSize'') of
         None \<Rightarrow> \<exists>x. res = Inl (internal x)
       | Some bytes \<Rightarrow> res = Inr \<lparr>SizeBytes = bytes, SnapshotId = k @ '':'' @ sid, SourceVolumeId = i,
           CreationTime = now, ReadyToUse = True\<rparr>)))"

lemma snapshot_result_simps [simp]:
  "snapshot_result now k i (sid, Some x) info res \<longleftrightarrow> res = Inl (internal x)"
  "snapshot_result now k i (sid, None) (ctx, Some x) res \<longleftrightarrow> res = Inl (internal x)"
  "snapshot_result now k i (sid, None) (ctx, None) res \<longleftrightarrow> (case strconv_ParseInt (mget ctx ''lvolSize'') of
     None \<Rightarrow> \<exists>x. res = Inl (internal x)
   | Some bytes \<Rightarrow> res = Inr \<lparr>SizeBytes = bytes, SnapshotId = k @ '':'' @ sid, SourceVolumeId = i,
       CreationTime = now, ReadyToUse = True\<rparr>)"
  by (simp_all add: snapshot_result_def)

lemma wp_CreateSnapshot:
  assumes vol: "getSPDKVol volumeID = Inr \<lparr>sv_lvolID = i, sv_nodeName = k\<rparr>"
    and ok: "node_ready http view cs secrets k" and n: "n = node_of cs secrets k" and free: "\<not> lock_held m volumeID"
  shows "go_wp (controllerServer_CreateSnapshot http now cs volumeID name secrets) (\<lambda>res (m', w').
      (\<forall>j. lock_held m' j = lock_held m j) \<and> (\<forall>ep. ep \<noteq> sn_endpoint n \<longrightarrow> view w' ep = view w ep) \<and>
      (\<exists>sid e. snapshot_spec i name (node_target view n w) (sid, e) (node_target view n w') \<and>
         snapshot_result now k i (sid, e) (sn_info n (node_target view n w') i) res)) (\<lambda>_ _. False) (m, w)"
  unfolding controllerServer_CreateSnapshot_def vol
  apply (rule wp_with_volume_lock [OF free])
  apply (simp add: getSpdkNode_ready [OF ok] n [symmetric])
  apply (rule sn.snapshot_wp [where view = view])
  subgoal using ok n by simp
  subgoal for r t' n' w1
    apply (cases r)
    subgoal for sid e
      apply (cases e)
       prefer 2 subgoal for x by (auto intro!: exI [of _ sid] exI [of _ "Some x"])
      apply simp
      apply (rule sn.volinfo_wp [where view = view])
      subgoal using ok n sn.same_conforms by blast
      subgoal
        by (cases "sn_info n t' i")
          (auto simp: sn.same_info sn.same_ep split: option.splits intro!: exI [of _ sid] exI [of _ None])
      done
    done
  done

text \<open>
  C34: CreateSnapshot of a parsable ID on a ready node: it returns without panic, the locks are as
  before, only that node's target may change, as the target's answer says, and the result is the
  error of the first failing step or the snapshot with the size of its volume.
\<close>

theorem CreateSnapshot_outcome:
  assumes "getSPDKVol volumeID = Inr \<lparr>sv_lvolID = i, sv_nodeName = k\<rparr>"
    and "node_ready http view cs secrets k" and "\<not> lock_held m volumeID"
  shows "\<exists>res m' w'. controllerServer_CreateSnapshot http now cs volumeID name secrets (m, w) = (Ret res, m', w') \<and>
     (\<forall>j. lock_held m' j = lock_held m j) \<and>
     (\<forall>ep. ep \<noteq> sn_endpoint (node_of cs secrets k) \<longrightarrow> view w' ep = view w ep) \<and>
     (\<exists>sid e. snapshot_spec i name (node_target view (node_of cs secrets k) w) (sid, e) (node_target view (node_of cs secrets k) w') \<and>
        snapshot_result now k i (sid, e) (sn_info (node_of cs secrets k) (node_target view (node_of cs secrets k) w') i) res)"
  using go_wp_runD [OF wp_CreateSnapshot [OF assms(1,2) refl assms(3), of now name w]] by auto

text \<open>A cluster whose two nodes have one logical volume each.\<close>

definition lvol_bdev :: BDev where
  "lvol_bdev = \<lparr>bd_Name = ''u'', bd_UUID = ''u'', BlockSize = 512, NumBlocks = 2048, DriverSpecific = Some ''store-uuid''\<rparr>"

definition lvol_world :: sim_world where
  "lvol_world = (\<lambda>_. demo_sim\<lparr>sm_bdevs := [(''u'', lvol_bdev)]\<rparr>)"

lemma lvol_world_target:
  "tg_bdev (sim_view lvol_world ep) = [''u'' \<mapsto> lvol_bdev]" "tg_lvstores (sim_view lvol_world ep) = [demo_store]"
  "lvstore_of (sim_view lvol_world ep) ''u'' = (''lvs0'', None)"
  by (simp_all add: lvol_world_def demo_sim_def lvstore_of_def lvol_bdev_def demo_store_def)

theorem CreateSnapshot_outcome_witness:
  "\<exists>res m' w'. controllerServer_CreateSnapshot sim_http 7 demo_cs ''n1:u'' ''snap'' demo_secrets (NewVolumeLocks, lvol_world) =
       (Ret res, m', w') \<and>
     (\<forall>snap. res = Inr snap \<longrightarrow> SizeBytes snap = 1048576 \<and> SourceVolumeId snap = ''u'' \<and>
        (\<exists>b. tg_bdev (node_target sim_view (node_of demo_cs demo_secrets ''n1'') w') (lvol_alias ''lvs0'' ''snap'') = Some b \<and>
           SnapshotId snap = ''n1:'' @ bd_UUID b))"
proof -
  let ?n = "node_of demo_cs demo_secrets ''n1''"
  have vol: "getSPDKVol ''n1:u'' = Inr \<lparr>sv_lvolID = ''u'', sv_nodeName = ''n1''\<rparr>" by (simp add: getSPDKVol_def)
  have ready: "node_ready sim_http sim_view demo_cs demo_secrets ''n1''" by (simp add: node_of_demo sim_nv_conforms)
  obtain res m' w' sid e where run: "controllerServer_CreateSnapshot sim_http 7 demo_cs ''n1:u'' ''snap'' demo_secrets
        (NewVolumeLocks, lvol_world) = (Ret res, m', w')"
      and spec: "snapshot_spec ''u'' ''snap'' (node_target sim_view ?n lvol_world) (sid, e) (node_target sim_view ?n w')"
      and res: "snapshot_result 7 ''n1'' ''u'' (sid, e) (sn_info ?n (node_target sim_view ?n w') ''u'') res"
    using CreateSnapshot_outcome [OF vol ready, of NewVolumeLocks 7 "''snap''" lvol_world] by auto
  have "SizeBytes snap = 1048576 \<and> SourceVolumeId snap = ''u'' \<and>
        (\<exists>b. tg_bdev (node_target sim_view ?n w') (lvol_alias ''lvs0'' ''snap'') = Some b \<and> SnapshotId snap = ''n1:'' @ bd_UUID b)"
    if "res = Inr snap" for snap
  proof -
    from res that have e: "e = None" by (cases e) auto
    from spec e obtain b where b: "new_lvol ''lvs0'' (node_target sim_view ?n lvol_world) b" "sid = bd_UUID b"
        and t': "node_target sim_view ?n w' = add_bdev (lvol_alias ''lvs0'' ''snap'') b (node_target sim_view ?n lvol_world)"
      unfolding snapshot_spec_def lvol_world_target
      by (auto simp del: sim_view_at simp: create_spec_def lvol_world_target lvol_alias_def)
    have u: "bd_UUID b \<noteq> ''u''" using b(1) unfolding new_lvol_def lvol_world_target by auto
    have at: "tg_bdev (node_target sim_view ?n w') ''u'' = Some lvol_bdev"
      "tg_bdev (node_target sim_view ?n w') (lvol_alias ''lvs0'' ''snap'') = Some b"
      unfolding t' add_bdev_def using u by (simp_all del: sim_view_at add: lvol_world_target lvol_alias_def)
    show ?thesis
      using res that b(2) at
      by (auto simp del: sim_view_at simp: e node_of_demo nv_info_def mget_def lvol_bdev_def split: option.splits prod.splits)
  qed
  with run show ?thesis by blast
qed

text \<open>
  C40: On an iSCSI node CreateSnapshot never succeeds, although the target may have made the
  snapshot: the volume info of such a node has no size.
\<close>

theorem CreateSnapshot_iscsi_fails:
  assumes vol: "getSPDKVol volumeID = Inr \<lparr>sv_lvolID = i, sv_nodeName = k\<rparr>"
    and n: "node_of cs secrets k = Some (NodeISCSI x)" and ok: "is_conforms http view x"
    and free: "\<not> lock_held m volumeID"
  shows "\<exists>e m' w' sid d. controllerServer_CreateSnapshot http now cs volumeID name secrets (m, w) = (Ret (Inl e), m', w') \<and>
     snapshot_spec i name (is_target view x w) (sid, d) (is_target view x w')"
proof -
  have ready: "node_ready http view cs secrets k" using n ok by simp
  have "\<exists>e. res = Inl e" if "snapshot_result now k i r (is_info x t i) res" for r t res
    using that by (auto simp: snapshot_result_def is_info_def mget_def strconv_ParseInt_def parse_int_def
      split: prod.splits option.splits if_splits)
  with go_wp_runD [OF wp_CreateSnapshot [OF vol ready n [symmetric] free, of now name w]]
  show ?thesis by fastforce
qed

theorem CreateSnapshot_iscsi_fails_witness:
  "\<exists>e m' w'. controllerServer_CreateSnapshot sim_http 7 demo_cs ''n2:u'' ''snap'' demo_secrets (NewVolumeLocks, lvol_world) =
     (Ret (Inl e), m', w')"
proof -
  have vol: "getSPDKVol ''n2:u'' = Inr \<lparr>sv_lvolID = ''u'', sv_nodeName = ''n2''\<rparr>" by (simp add: getSPDKVol_def)
  show ?thesis
    using CreateSnapshot_iscsi_fails [OF vol node_of_demo(2) sim_is_conforms, of NewVolumeLocks 7 "''snap''" lvol_world] by auto
qed

end
