(* ===== verification/Clone_Props.thy ===== *)
theory Clone_Props
  imports Controller_Props Control_Props
begin

text \<open>
  Snapshots and clones together: what a snapshot request leaves on the target is what a later request
  for a volume with that snapshot as its content source uses, and what a later deletion removes.
\<close>

section \<open>Making volumes\<close>

text \<open>The volumes and lvstores of a target are still there, whatever has been added.\<close>

definition keeps_volumes :: "target \<Rightarrow> target \<Rightarrow> bool" where
  "keeps_volumes t t' \<longleftrightarrow> tg_lvstores t' = tg_lvstores t \<and> (\<forall>x. tg_bdev t x \<noteq> None \<longrightarrow> tg_bdev t' x = tg_bdev t x)"

lemma keeps_volumes_trans [trans]: "keeps_volumes t t' \<Longrightarrow> keeps_volumes t' t'' \<Longrightarrow> keeps_volumes t t''"
  by (simp add: keeps_volumes_def)

lemma keeps_volumes_add: "new_lvol lvs t b \<Longrightarrow> tg_bdev t a = None \<Longrightarrow> keeps_volumes t (add_bdev a b t)"
  by (auto simp: keeps_volumes_def new_lvol_def add_bdev_def)

lemma keeps_volumes_publish: "ctl_publish_spec n i t r t' \<Longrightarrow> keeps_volumes t t'"
  by (simp add: keeps_volumes_def ctl_publish_spec_def)

lemma keeps_volumes_lvstore_of: "keeps_volumes t t' \<Longrightarrow> tg_bdev t i \<noteq> None \<Longrightarrow> lvstore_of t' i = lvstore_of t i"
  by (auto simp: keeps_volumes_def lvstore_of_def split: option.split)

lemma find_inj_on: "x \<in> set xs \<Longrightarrow> inj_on f (set xs) \<Longrightarrow> find (\<lambda>y. f y = f x) xs = Some x"
  by (induction xs) (auto simp: inj_on_def)

lemma lvstore_of_new:
  assumes "new_lvol lvs t b" and "inj_on lr_UUID (set (tg_lvstores t))"
  shows "lvstore_of (add_bdev a b t) (bd_UUID b) = (lvs, None)"
  using assms by (auto simp: new_lvol_def lvstore_of_def add_bdev_def find_inj_on)

lemma has_volume_free:
  assumes "\<And>u. \<not> has_volume t name u" and "\<exists>l \<in> set (tg_lvstores t). lr_Name l = lvs"
  shows "tg_bdev t (lvol_alias lvs name) = None"
  using assms by (auto simp: has_volume_def) (metis option.exhaust)

section \<open>A snapshot, then a clone of it\<close>

lemma CreateSnapshot_made:
  assumes vol: "getSPDKVol volumeID = Inr \<lparr>sv_lvolID = i, sv_nodeName = k\<rparr>" and ok: "node_ready http view cs secrets k"
    and n: "n = node_of cs secrets k" and t: "t = node_target view n w" and free: "\<not> lock_held m volumeID"
    and new: "\<And>u. \<not> has_volume t name u"
    and run: "controllerServer_CreateSnapshot http now cs volumeID name secrets (m, w) = (Ret (Inr snap), m1, w1)"
  obtains lvs b where "lvstore_of t i = (lvs, None)" "SnapshotId snap = k @ '':'' @ bd_UUID b" "new_lvol lvs t b"
    "tg_bdev t (lvol_alias lvs name) = None" "node_target view n w1 = add_bdev (lvol_alias lvs name) b t"
    "\<And>j. lock_held m1 j = lock_held m j" "\<And>ep. ep \<noteq> sn_endpoint n \<Longrightarrow> view w1 ep = view w ep"
    "getSPDKVol (SnapshotId snap) = Inr \<lparr>sv_lvolID = bd_UUID b, sv_nodeName = k\<rparr>"
proof -
  obtain sid e where locks: "\<And>j. lock_held m1 j = lock_held m j"
      and others: "\<And>ep. ep \<noteq> sn_endpoint n \<Longrightarrow> view w1 ep = view w ep"
      and spec: "snapshot_spec i name t (sid, e) (node_target view n w1)"
      and res: "snapshot_result now k i (sid, e) (sn_info n (node_target view n w1) i) (Inr snap)"
    using go_wp_runD [OF wp_CreateSnapshot [OF vol ok n free, of now name w]] run t by auto
  have e: "e = None" and sid: "SnapshotId snap = k @ '':'' @ sid"
    using res by (cases e; auto simp: snapshot_result_def split: prod.splits option.splits)+
  obtain lvs where lvs: "lvstore_of t i = (lvs, None)" and c: "create_spec lvs name t (sid, None) (node_target view n w1)"
    using spec e by (auto simp: snapshot_spec_def split: prod.splits option.splits)
  have alias_free: "tg_bdev t (lvol_alias lvs name) = None"
    using has_volume_free [OF new lvstore_of_mem [OF lvs]] .
  obtain b where b: "new_lvol lvs t b" "sid = bd_UUID b" "node_target view n w1 = add_bdev (lvol_alias lvs name) b t"
    using create_spec_new [OF c lvstore_of_mem [OF lvs] new] by metis
  have "getSPDKVol (SnapshotId snap) = Inr \<lparr>sv_lvolID = bd_UUID b, sv_nodeName = k\<rparr>"
    unfolding sid b(2) using vol b(1) by (intro getSPDKVol_id) (simp_all add: getSPDKVol_Inr_iff new_lvol_def plain_def)
  with that lvs alias_free sid locks others b show thesis by blast
qed

text \<open>A clone is made next to its snapshot.\<close>

lemma CreateVolume_clone_made:
  assumes ready: "cs_ready http view cs (cv_Secrets req)" and free: "\<not> lock_held m (cv_Name req)"
    and src: "cv_ContentSource req = Some (SnapshotSource s)" "getSPDKVol s = Inr \<lparr>sv_lvolID = i, sv_nodeName = k\<rparr>"
    and k: "spdkNodeConfigs cs k \<noteq> None" and n: "n = node_of cs (cv_Secrets req) k" and t: "t = node_target view n w"
    and lvs: "lvstore_of t i = (lvs, None)"
    and ord: "complete_order cs ord1" and new: "volumes_named (view w) cs (cv_Secrets req) (cv_Name req) = {}"
    and run: "controllerServer_CreateVolume http ord1 ord2 cs req (m, w) = (Ret (Inr vol), m', w')"
  obtains b t' where "getSPDKVol (VolumeId vol) = Inr \<lparr>sv_lvolID = bd_UUID b, sv_nodeName = k\<rparr>" "new_lvol lvs t b"
    "tg_bdev t (lvol_alias lvs (cv_Name req)) = None"
    "keeps_volumes (add_bdev (lvol_alias lvs (cv_Name req)) b t) (node_target view n w')"
    "sn_published n (node_target view n w') (bd_UUID b)"
proof -
  have ok: "source_ok cs req" using src k by (simp add: source_ok_def)
  have "ctl_CreateVolume_spec (may_refuse http view) view cs req (keys_in cs ord1) (keys_in cs ord2) w (Inr vol) (view w')"
    by (rule CreateVolume_runs [OF ready ok free, of ord1 ord2 w]) (use run in auto)
  then obtain k' j v where c: "ctl_create_spec view cs req (keys_in cs ord1) (keys_in cs ord2) w (Inr (k', j)) v"
      and f: "ctl_finish_spec (may_refuse http view) cs req k' j v (Inr vol) (view w')"
    by (cases rule: ctl_CreateVolume_specE) auto
  have none: "find_in_nodes view w cs (cv_Secrets req) (cv_Name req) (keys_in cs ord1) = None"
    using new unfolding find_in_nodes_complete [OF ord] .
  have "ctl_place view w cs req (keys_in cs ord2) = Some (k, lvs)"
    using src k lvs by (auto simp: ctl_place_def n t)
  with c none have k': "k' = k" and cr: "\<exists>t1. create_spec lvs (cv_Name req) t (j, None) t1 \<and> v = (view w)(sn_endpoint n := t1)"
    by (auto simp: ctl_create_spec_def Let_def n t split: prod.splits option.splits)
  have unused: "\<not> has_volume t (cv_Name req) u" for u
    using new k by (auto simp: volumes_named_def n t simp del: domIff)
  obtain b where b: "new_lvol lvs t b" "j = bd_UUID b"
      and v: "v = (view w)(sn_endpoint n := add_bdev (lvol_alias lvs (cv_Name req)) b t)"
    using cr create_spec_new [OF _ lvstore_of_mem [OF lvs] unused] by metis
  from f show thesis
  proof (cases rule: ctl_finish_cases)
    case (served ctx t2)
    then have "node_target view n w' = t2" and pub: "ctl_publish_spec n j (add_bdev (lvol_alias lvs (cv_Name req)) b t) (ctx, None) t2"
      by (simp_all add: k' n [symmetric] v)
    moreover have "getSPDKVol (VolumeId vol) = Inr \<lparr>sv_lvolID = j, sv_nodeName = k\<rparr>"
      using served getSPDKVol_id [of k j] by (simp add: volume_of_def k')
    moreover have "sn_published n t2 j" using pub by (simp add: ctl_publish_spec_def)
    ultimately show thesis
      using that b keeps_volumes_publish [OF pub] has_volume_free [OF unused lvstore_of_mem [OF lvs]] by simp
  qed simp_all
qed

text \<open>
  C10: A snapshot and then a volume made from it: the new volume is on the node of the snapshotted
  volume and in the same lvstore, it is published, it is neither the snapshot nor the old volume,
  and every volume that was on the target before is as it was.
\<close>

theorem CreateSnapshot_CreateVolume:
  assumes vol: "getSPDKVol volumeID = Inr \<lparr>sv_lvolID = i, sv_nodeName = k\<rparr>" and k: "spdkNodeConfigs cs k \<noteq> None"
    and ready: "cs_ready http view cs (cv_Secrets req)"
    and n: "n = node_of cs (cv_Secrets req) k" and t: "t = node_target view n w"
    and uuids: "inj_on lr_UUID (set (tg_lvstores t))"
    and free: "\<not> lock_held m volumeID" "\<not> lock_held m (cv_Name req)"
    and snew: "\<And>u. \<not> has_volume t name u"
    and run: "controllerServer_CreateSnapshot http now cs volumeID name (cv_Secrets req) (m, w) = (Ret (Inr snap), m1, w1)"
    and src: "cv_ContentSource req = Some (SnapshotSource (SnapshotId snap))"
    and ord: "complete_order cs ord1" and new: "volumes_named (view w1) cs (cv_Secrets req) (cv_Name req) = {}"
    and run2: "controllerServer_CreateVolume http ord1 ord2 cs req (m1, w1) = (Ret (Inr v), m2, w2)"
  shows "\<exists>j lvs. getSPDKVol (VolumeId v) = Inr \<lparr>sv_lvolID = j, sv_nodeName = k\<rparr> \<and>
     SnapshotId snap \<noteq> VolumeId v \<and> volumeID \<noteq> VolumeId v \<and>
     lvstore_of t i = (lvs, None) \<and> lvstore_of (node_target view n w2) j = (lvs, None) \<and>
     sn_published n (node_target view n w2) j \<and> keeps_volumes t (node_target view n w2)"
proof -
  have okn: "node_ready http view cs (cv_Secrets req) k" using ready k by (auto simp: cs_ready_def)
  obtain lvs b where lvs: "lvstore_of t i = (lvs, None)" and sid: "SnapshotId snap = k @ '':'' @ bd_UUID b"
      and b: "new_lvol lvs t b" "tg_bdev t (lvol_alias lvs name) = None"
      and t1: "node_target view n w1 = add_bdev (lvol_alias lvs name) b t" and locks: "\<And>j. lock_held m1 j = lock_held m j"
      and source: "getSPDKVol (SnapshotId snap) = Inr \<lparr>sv_lvolID = bd_UUID b, sv_nodeName = k\<rparr>"
    using CreateSnapshot_made [OF vol okn n t free(1) snew run] by metis
  let ?t1 = "add_bdev (lvol_alias lvs name) b t"
  have free1: "\<not> lock_held m1 (cv_Name req)" using locks free(2) by simp
  obtain c where c: "getSPDKVol (VolumeId v) = Inr \<lparr>sv_lvolID = bd_UUID c, sv_nodeName = k\<rparr>"
      and cnew: "new_lvol lvs ?t1 c" "tg_bdev ?t1 (lvol_alias lvs (cv_Name req)) = None"
      and keep: "keeps_volumes (add_bdev (lvol_alias lvs (cv_Name req)) c ?t1) (node_target view n w2)"
      and pub: "sn_published n (node_target view n w2) (bd_UUID c)"
    using CreateVolume_clone_made [OF ready free1 src source k n t1 [symmetric] lvstore_of_new [OF b(1) uuids] ord new run2] by metis
  have i: "tg_bdev t i \<noteq> None" using lvs by (auto simp: lvstore_of_def split: option.splits)
  have keep1: "keeps_volumes t ?t1" by (rule keeps_volumes_add [OF b])
  have "bd_UUID c \<noteq> i" "bd_UUID c \<noteq> bd_UUID b"
    using cnew(1) keep1 i by (auto simp: new_lvol_def keeps_volumes_def add_bdev_def split: if_splits)
  then have "volumeID \<noteq> VolumeId v" "SnapshotId snap \<noteq> VolumeId v"
    using vol c source by auto
  moreover have "lvstore_of (node_target view n w2) (bd_UUID c) = (lvs, None)"
    using keeps_volumes_lvstore_of [OF keep] lvstore_of_new [OF cnew(1)] uuids by (simp add: add_bdev_def)
  moreover have "keeps_volumes t (node_target view n w2)"
    using keep1 keeps_volumes_add [OF cnew] keep by (blast intro: keeps_volumes_trans)
  ultimately show ?thesis using c lvs pub by blast
qed

text \<open>The two requests on the concrete cluster.\<close>

definition clone_req :: "string \<Rightarrow> CreateVolumeRequest" where
  "clone_req s = demo_req\<lparr>cv_ContentSource := Some (SnapshotSource s)\<rparr>"

lemma clone_req_sel: "cv_Name (clone_req s) = ''pvc-1''" "cv_Secrets (clone_req s) = demo_secrets"
   "cv_ContentSource (clone_req s) = Some (SnapshotSource s)" "request_size (clone_req s) = 1000000" "cv_Parameters (clone_req s) = Map.empty"
  by (simp_all add: clone_req_def demo_req_def request_size_def)

lemmas clone_eval = demo_eval lvol_world_def lvol_bdev_def clone_req_sel controllerServer_getSnapshotInfo_def
  SpdkNode_CreateSnapshot_def SpdkNode_CloneVolume_def nodeNVMf_CreateSnapshot_def nodeNVMf_CloneVolume_def
  rpcClient_snapshot_def rpcClient_cloneVolume_def sim_copy_def mget_def strconv_FormatInt_def

lemma demo_clone:
  "go_wp (controllerServer_CreateSnapshot sim_http 7 demo_cs ''n1:u'' ''snap'' demo_secrets)
     (\<lambda>res (m1, w1). case res of Inl _ \<Rightarrow> False | Inr snap \<Rightarrow>
        volumes_named (sim_view w1) demo_cs demo_secrets ''pvc-1'' = {} \<and>
        go_wp (controllerServer_CreateVolume sim_http demo_order demo_order demo_cs (clone_req (SnapshotId snap)))
          (\<lambda>res _. \<exists>vol. res = Inr vol) (\<lambda>_ _. False) (m1, w1)) (\<lambda>_ _. False) (NewVolumeLocks, lvol_world)"
  unfolding controllerServer_CreateSnapshot_def
  apply (rule wp_with_volume_lock, simp)
  apply (simp add: clone_eval cong: sim_weak)
  apply (intro allI impI conjI)
  subgoal
    unfolding volumes_named_def dom_demo
    by (auto simp: has_volume_def node_of_demo lvol_alias_def demo_nvmf_def demo_iscsi_def newNVMf_def newISCSI_def endpoint_def)
  subgoal
    unfolding controllerServer_CreateVolume_def
    by (rule wp_with_volume_lock, simp add: clone_req_sel) (simp add: clone_eval cong: sim_weak)
  done

theorem CreateSnapshot_CreateVolume_witness:
  "\<exists>snap m1 w1 v m2 w2 j. controllerServer_CreateSnapshot sim_http 7 demo_cs ''n1:u'' ''snap'' demo_secrets (NewVolumeLocks, lvol_world) =
       (Ret (Inr snap), m1, w1) \<and>
     controllerServer_CreateVolume sim_http demo_order demo_order demo_cs (clone_req (SnapshotId snap)) (m1, w1) = (Ret (Inr v), m2, w2) \<and>
     getSPDKVol (VolumeId v) = Inr \<lparr>sv_lvolID = j, sv_nodeName = ''n1''\<rparr> \<and>
     lvstore_of (node_target sim_view (node_of demo_cs demo_secrets ''n1'') w2) j = (''lvs0'', None) \<and>
     keeps_volumes (node_target sim_view (node_of demo_cs demo_secrets ''n1'') lvol_world)
       (node_target sim_view (node_of demo_cs demo_secrets ''n1'') w2)"
proof -
  let ?n = "node_of demo_cs demo_secrets ''n1''" let ?t = "node_target sim_view ?n lvol_world"
  obtain res m1 w1 where run': "controllerServer_CreateSnapshot sim_http 7 demo_cs ''n1:u'' ''snap'' demo_secrets (NewVolumeLocks, lvol_world) =
      (Ret res, m1, w1)" and res: "case res of Inl _ \<Rightarrow> False | Inr snap \<Rightarrow>
        volumes_named (sim_view w1) demo_cs demo_secrets ''pvc-1'' = {} \<and>
        go_wp (controllerServer_CreateVolume sim_http demo_order demo_order demo_cs (clone_req (SnapshotId snap)))
          (\<lambda>res _. \<exists>vol. res = Inr vol) (\<lambda>_ _. False) (m1, w1)"
    using go_wp_runD [OF demo_clone] by auto
  then obtain snap where snap: "res = Inr snap" by (cases res) auto
  note run = run' [unfolded snap] and new = conjunct1 [OF res [unfolded snap sum.case]]
    and clone = conjunct2 [OF res [unfolded snap sum.case]]
  obtain v m2 w2 where run2: "controllerServer_CreateVolume sim_http demo_order demo_order demo_cs (clone_req (SnapshotId snap)) (m1, w1) =
      (Ret (Inr v), m2, w2)"
    using go_wp_runD [OF clone] by auto
  have vol: "getSPDKVol ''n1:u'' = Inr \<lparr>sv_lvolID = ''u'', sv_nodeName = ''n1''\<rparr>" by (simp add: getSPDKVol_def)
  have uuids: "inj_on lr_UUID (set (tg_lvstores ?t))" unfolding lvol_world_target by simp
  have snew: "\<not> has_volume ?t ''snap'' u" for u unfolding has_volume_def lvol_world_target by (simp add: lvol_alias_def)
  let ?req = "clone_req (SnapshotId snap)"
  obtain j lvs where "getSPDKVol (VolumeId v) = Inr \<lparr>sv_lvolID = j, sv_nodeName = ''n1''\<rparr>"
      and "lvstore_of ?t ''u'' = (lvs, None)" "lvstore_of (node_target sim_view ?n w2) j = (lvs, None)"
      and "keeps_volumes ?t (node_target sim_view ?n w2)"
    using CreateSnapshot_CreateVolume [where req = ?req and n = ?n and t = ?t and w = lvol_world and view = sim_view,
        unfolded clone_req_sel, OF vol _ demo_ready refl refl uuids _ _ snew run refl demo_complete new run2]
    by (auto simp: demo_cs_def)
  with run run2 show ?thesis unfolding lvol_world_target by auto
qed

section \<open>A snapshot, then its deletion\<close>

lemma DeleteSnapshot_runs:
  assumes "getSPDKVol snapshotID = Inr \<lparr>sv_lvolID = i, sv_nodeName = k\<rparr>"
    and "node_ready http view cs secrets k" and n: "n = node_of cs secrets k" and "\<not> lock_held m snapshotID"
  obtains e m' w' t' where
    "controllerServer_DeleteSnapshot http cs snapshotID secrets (m, w) = (Ret (map_option internal e), m', w')"
    "\<And>j. lock_held m' j = lock_held m j" "view w' = (view w)(sn_endpoint n := t')"
    "delete_spec (may_refuse http view (sn_endpoint n)) i (node_target view n w) e t'"
proof -
  have "go_wp (controllerServer_DeleteSnapshot http cs snapshotID secrets)
     (\<lambda>r (m', w'). \<exists>e t'. r = map_option internal e \<and> (\<forall>j. lock_held m' j = lock_held m j) \<and>
        view w' = (view w)(sn_endpoint n := t') \<and>
        delete_spec (may_refuse http view (sn_endpoint n)) i (node_target view n w) e t') (\<lambda>_ _. False) (m, w)"
    by (rule wp_ctl_DeleteSnapshot [OF assms]) blast
  from go_wp_runD [OF this] that show thesis by auto
qed

text \<open>
  C24: A snapshot under an unused name and then its deletion: DeleteSnapshot returns without panic
  and with the locks as before. On success every target has exactly the bdevs it had before the
  snapshot, and repeating the request then fails with the Internal status of a missing device and
  changes nothing; an error occurs only on a target that refuses to delete volumes, is an Internal
  status, and changes no target.
\<close>

theorem CreateSnapshot_DeleteSnapshot:
  assumes vol: "getSPDKVol volumeID = Inr \<lparr>sv_lvolID = i, sv_nodeName = k\<rparr>"
    and ready: "node_ready http view cs secrets k" and n: "n = node_of cs secrets k"
    and wf: "tg_wf (node_target view n w)" and free: "\<And>j. \<not> lock_held m j"
    and new: "\<And>u. \<not> has_volume (node_target view n w) name u"
    and run: "controllerServer_CreateSnapshot http now cs volumeID name secrets (m, w) = (Ret (Inr snap), m1, w1)"
  shows "\<exists>e m2 w2. controllerServer_DeleteSnapshot http cs (SnapshotId snap) secrets (m1, w1) = (Ret e, m2, w2) \<and>
     (\<forall>j. \<not> lock_held m2 j) \<and> (case e of
       None \<Rightarrow> (\<forall>ep. tg_bdev (view w2 ep) = tg_bdev (view w ep)) \<and>
         (\<exists>m3 w3. controllerServer_DeleteSnapshot http cs (SnapshotId snap) secrets (m2, w2) =
            (Ret (Some (internal ErrJSONNoSuchDevice)), m3, w3) \<and> view w3 = view w2)
     | Some x \<Rightarrow> may_refuse http view (sn_endpoint n) \<and> (\<exists>y. x = internal y) \<and> view w2 = view w1)"
proof -
  let ?t = "node_target view n w"
  obtain lvs b where b: "new_lvol lvs ?t b" "tg_bdev ?t (lvol_alias lvs name) = None"
      and t1: "node_target view n w1 = add_bdev (lvol_alias lvs name) b ?t" and locks: "\<And>j. lock_held m1 j = lock_held m j"
      and others: "\<And>ep. ep \<noteq> sn_endpoint n \<Longrightarrow> view w1 ep = view w ep"
      and sid: "getSPDKVol (SnapshotId snap) = Inr \<lparr>sv_lvolID = bd_UUID b, sv_nodeName = k\<rparr>"
    using CreateSnapshot_made [OF vol ready n refl free new run] by metis
  have free1: "\<not> lock_held m1 (SnapshotId snap)" using locks free by simp
  obtain e m2 w2 t2 where del: "controllerServer_DeleteSnapshot http cs (SnapshotId snap) secrets (m1, w1) =
        (Ret (map_option internal e), m2, w2)" and locks2: "\<And>j. \<not> lock_held m2 j"
      and w2: "view w2 = (view w1)(sn_endpoint n := t2)"
      and d: "delete_spec (may_refuse http view (sn_endpoint n)) (bd_UUID b) (node_target view n w1) e t2"
    by (rule DeleteSnapshot_runs [OF sid ready n free1, of w1]) (use locks free in auto)
  have some: "tg_bdev (node_target view n w1) (bd_UUID b) \<noteq> None" by (simp add: t1 add_bdev_def)
  show ?thesis
  proof (cases e)
    case None
    with d some have t2: "t2 = del_bdev (bd_UUID b) (node_target view n w1)" by (auto simp: delete_spec_def)
    have "tg_bdev t2 = tg_bdev ?t" unfolding t2 t1 by (rule del_add_bdev [OF wf b refl])
    then have restored: "tg_bdev (view w2 ep) = tg_bdev (view w ep)" for ep using w2 others by simp
    have gone: "tg_bdev (node_target view n w2) (bd_UUID b) = None" by (simp add: w2 t2 del_bdev_def)
    have "\<exists>m3 w3. controllerServer_DeleteSnapshot http cs (SnapshotId snap) secrets (m2, w2) =
        (Ret (Some (internal ErrJSONNoSuchDevice)), m3, w3) \<and> view w3 = view w2"
      by (rule DeleteSnapshot_runs [OF sid ready n locks2, of w2]) (use gone in \<open>auto simp: delete_spec_def\<close>)
    with del None locks2 restored show ?thesis by auto
  next
    case (Some y)
    with d some w2 have "may_refuse http view (sn_endpoint n)" "view w2 = view w1" by (auto simp: delete_spec_def)
    with del Some locks2 show ?thesis by auto
  qed
qed

theorem CreateSnapshot_DeleteSnapshot_witness:
  "\<exists>snap m1 w1 e m2 w2. controllerServer_CreateSnapshot sim_http 7 demo_cs ''n1:u'' ''snap'' demo_secrets
        (NewVolumeLocks, lvol_world) = (Ret (Inr snap), m1, w1) \<and>
     controllerServer_DeleteSnapshot sim_http demo_cs (SnapshotId snap) demo_secrets (m1, w1) = (Ret e, m2, w2) \<and>
     (case e of None \<Rightarrow> \<forall>ep. tg_bdev (sim_view w2 ep) = tg_bdev (sim_view lvol_world ep)
      | Some x \<Rightarrow> may_refuse sim_http sim_view (sn_endpoint (node_of demo_cs demo_secrets ''n1'')) \<and> sim_view w2 = sim_view w1)"
proof -
  let ?n = "node_of demo_cs demo_secrets ''n1''" let ?t = "node_target sim_view ?n lvol_world"
  obtain res m1 w1 where run': "controllerServer_CreateSnapshot sim_http 7 demo_cs ''n1:u'' ''snap'' demo_secrets (NewVolumeLocks, lvol_world) =
      (Ret res, m1, w1)" and res: "case res of Inl _ \<Rightarrow> False | Inr snap \<Rightarrow> True"
    using go_wp_runD [OF demo_clone] by (force split: sum.splits)
  then obtain snap where snap: "res = Inr snap" by (cases res) auto
  note run = run' [unfolded snap]
  have vol: "getSPDKVol ''n1:u'' = Inr \<lparr>sv_lvolID = ''u'', sv_nodeName = ''n1''\<rparr>" by (simp add: getSPDKVol_def)
  have ready: "node_ready sim_http sim_view demo_cs demo_secrets ''n1''"
    using demo_ready by (simp add: cs_ready_def demo_cs_def)
  have new: "\<not> has_volume ?t ''snap'' u" for u unfolding has_volume_def lvol_world_target by (simp add: lvol_alias_def)
  have wf: "tg_wf ?t" unfolding tg_wf_def lvol_world_target by (simp add: lvol_bdev_def)
  have free: "\<not> lock_held NewVolumeLocks j" for j by simp
  obtain e m2 w2 where del: "controllerServer_DeleteSnapshot sim_http demo_cs (SnapshotId snap) demo_secrets (m1, w1) = (Ret e, m2, w2)"
      and c: "case e of
         None \<Rightarrow> (\<forall>ep. tg_bdev (sim_view w2 ep) = tg_bdev (sim_view lvol_world ep)) \<and>
           (\<exists>m3 w3. controllerServer_DeleteSnapshot sim_http demo_cs (SnapshotId snap) demo_secrets (m2, w2) =
              (Ret (Some (internal ErrJSONNoSuchDevice)), m3, w3) \<and> sim_view w3 = sim_view w2)
       | Some x \<Rightarrow> may_refuse sim_http sim_view (sn_endpoint ?n) \<and> (\<exists>y. x = internal y) \<and> sim_view w2 = sim_view w1"
    using CreateSnapshot_DeleteSnapshot [OF vol ready refl wf free new run] by (elim exE conjE) (rule that)
  from c have "case e of None \<Rightarrow> \<forall>ep. tg_bdev (sim_view w2 ep) = tg_bdev (sim_view lvol_world ep)
      | Some x \<Rightarrow> may_refuse sim_http sim_view (sn_endpoint ?n) \<and> sim_view w2 = sim_view w1"
    unfolding option.case_eq_if by argo
  with run del show ?thesis by (intro exI conjI)
qed

end
