(* ===== verification/Controller_Machine.thy ===== *)
theory Controller_Machine
  imports Clone_Props
begin

text \<open>
  The controller service as a state machine: its state is the locks, the world and the set of volume
  IDs it has issued; a step is one request of the orchestrator. The invariant of its reachable states
  is proved from four facts about a single target: what making, publishing, unpublishing and deleting
  one volume keeps.
\<close>

section \<open>Requests\<close>

datatype request =
    ReqCreateVolume CreateVolumeRequest "string list" "string list"
  | ReqDeleteVolume string
  | ReqCreateSnapshot int string string
  | ReqDeleteSnapshot string

datatype response = RespVolume "go_error + csiVolume" | RespSnapshot "go_error + Snapshot" | RespEmpty err

fun serve_request ::
  "'w http \<Rightarrow> controllerServer \<Rightarrow> smap \<Rightarrow> request \<Rightarrow> (VolumeLocks \<times> 'w, response) go" where
  "serve_request http cs secrets (ReqCreateVolume req ord1 ord2) =
     go_bind (controllerServer_CreateVolume http ord1 ord2 cs req) (\<lambda>r. go_return (RespVolume r))"
| "serve_request http cs secrets (ReqDeleteVolume volumeID) =
     go_bind (controllerServer_DeleteVolume http cs volumeID secrets) (\<lambda>r. go_return (RespEmpty r))"
| "serve_request http cs secrets (ReqCreateSnapshot now volumeID name) =
     go_bind (controllerServer_CreateSnapshot http now cs volumeID name secrets) (\<lambda>r. go_return (RespSnapshot r))"
| "serve_request http cs secrets (ReqDeleteSnapshot snapshotID) =
     go_bind (controllerServer_DeleteSnapshot http cs snapshotID secrets) (\<lambda>r. go_return (RespEmpty r))"

text \<open>
  A volume ID of a configured node. Its second part is not the alias of a volume (these have a slash).
\<close>

definition node_id :: "controllerServer \<Rightarrow> string \<Rightarrow> bool" where
  "node_id cs volumeID \<longleftrightarrow> (case getSPDKVol volumeID of
     Inl _ \<Rightarrow> False
   | Inr v \<Rightarrow> spdkNodeConfigs cs (sv_nodeName v) \<noteq> None \<and> CHR ''/'' \<notin> set (sv_lvolID v))"

text \<open>
  What the orchestrator may ask for: volumes have names for volumes (\<open>vname\<close>), snapshots have other
  names; volumes are deleted by the IDs the service has issued for them (any number of times), and
  snapshots by other IDs. \<open>ord1\<close> is an order of all nodes, as Go's loop over the map visits them all.
\<close>

fun permitted :: "(string \<Rightarrow> bool) \<Rightarrow> controllerServer \<Rightarrow> smap \<Rightarrow> string set \<Rightarrow> request \<Rightarrow> bool" where
  "permitted vname cs secrets V (ReqCreateVolume req ord1 ord2) \<longleftrightarrow>
     vname (cv_Name req) \<and> cv_Secrets req = secrets \<and> source_ok cs req \<and> complete_order cs ord1"
| "permitted vname cs secrets V (ReqDeleteVolume volumeID) \<longleftrightarrow> volumeID \<in> V"
| "permitted vname cs secrets V (ReqCreateSnapshot now volumeID name) \<longleftrightarrow> node_id cs volumeID \<and> \<not> vname name"
| "permitted vname cs secrets V (ReqDeleteSnapshot snapshotID) \<longleftrightarrow> node_id cs snapshotID \<and> snapshotID \<notin> V"

fun issued :: "string set \<Rightarrow> response \<Rightarrow> string set" where
  "issued V (RespVolume (Inr vol)) = insert (VolumeId vol) V"
| "issued V _ = V"

inductive ctl_reach ::
  "'w http \<Rightarrow> controllerServer \<Rightarrow> smap \<Rightarrow> (string \<Rightarrow> bool) \<Rightarrow> VolumeLocks \<times> 'w \<times> string set \<Rightarrow>
     VolumeLocks \<times> 'w \<times> string set \<Rightarrow> bool"
  for http cs secrets vname s where
  start: "ctl_reach http cs secrets vname s s"
| step: "\<lbrakk>ctl_reach http cs secrets vname s (m, w, V); permitted vname cs secrets V r;
    serve_request http cs secrets r (m, w) = (Ret resp, m', w')\<rbrakk>
   \<Longrightarrow> ctl_reach http cs secrets vname s (m', w', issued V resp)"

section \<open>One target\<close>

text \<open>
  Every name of a volume is its UUID or an alias, its UUID is a name of it, and lvstore names have no
  slash, so that an alias belongs to one lvstore and one name.
\<close>

definition target_ok :: "target \<Rightarrow> bool" where
  "target_ok t \<longleftrightarrow> (\<forall>l \<in> set (tg_lvstores t). CHR ''/'' \<notin> set (lr_Name l)) \<and>
     (\<forall>x b. tg_bdev t x = Some b \<longrightarrow> tg_bdev t (bd_UUID b) = Some b \<and> CHR ''/'' \<notin> set (bd_UUID b) \<and>
        (x = bd_UUID b \<or> CHR ''/'' \<in> set x))"

lemma target_ok_cong:
  "tg_bdev t' = tg_bdev t \<Longrightarrow> tg_lvstores t' = tg_lvstores t \<Longrightarrow> target_ok t \<Longrightarrow> target_ok t'"
  by (simp add: target_ok_def)

lemma target_ok_uuid: "target_ok t \<Longrightarrow> tg_bdev t x = Some b \<Longrightarrow> CHR ''/'' \<notin> set x \<Longrightarrow> x = bd_UUID b"
  by (auto simp: target_ok_def)

lemma alias_slash: "CHR ''/'' \<in> set (lvol_alias lvs name)"
  by (simp add: lvol_alias_def)

lemma alias_inj:
  assumes "CHR ''/'' \<notin> set a" and "CHR ''/'' \<notin> set b"
  shows "lvol_alias a x = lvol_alias b y \<longleftrightarrow> a = b \<and> x = y"
proof -
  have "takeWhile (\<lambda>c. c \<noteq> CHR ''/'') (lvol_alias a x) = a" "takeWhile (\<lambda>c. c \<noteq> CHR ''/'') (lvol_alias b y) = b"
    using assms by (auto simp: lvol_alias_def takeWhile_append2 intro: takeWhile_append2 [THEN trans])
  then show ?thesis by (metis lvol_alias_def same_append_eq append_same_eq append_assoc)
qed

lemma target_ok_add:
  assumes ok: "target_ok t" and b: "new_lvol lvs t b"
  shows "target_ok (add_bdev (lvol_alias lvs name) b t)"
  using assms alias_slash [of lvs name] unfolding target_ok_def add_bdev_def new_lvol_def
  by (auto split: if_splits) (metis option.distinct(1))+

lemma target_ok_del: "target_ok t \<Longrightarrow> target_ok (del_bdev i t)"
  by (auto simp: target_ok_def del_bdev_def)

lemma has_volume_add_other:
  assumes ok: "target_ok t" and b: "new_lvol lvs t b" and h: "has_volume (add_bdev (lvol_alias lvs name) b t) name' j"
    and neq: "name' \<noteq> name"
  shows "has_volume t name' j"
proof -
  from h obtain l c where l: "l \<in> set (tg_lvstores t)" and j: "bd_UUID c = j"
      and c: "tg_bdev (add_bdev (lvol_alias lvs name) b t) (lvol_alias (lr_Name l) name') = Some c"
    by (auto simp: has_volume_def)
  obtain l' where "l' \<in> set (tg_lvstores t)" "lr_Name l' = lvs" using b by (auto simp: new_lvol_def)
  with l ok neq have "lvol_alias (lr_Name l) name' \<noteq> lvol_alias lvs name" by (auto simp: target_ok_def alias_inj)
  moreover have "lvol_alias (lr_Name l) name' \<noteq> bd_UUID b" using b alias_slash by (metis new_lvol_def)
  ultimately show ?thesis using c l j by (auto simp: has_volume_def add_bdev_def)
qed

lemma has_volume_del: "has_volume (del_bdev i t) name j \<Longrightarrow> has_volume t name j"
  by (auto simp: has_volume_def del_bdev_def split: if_splits)

lemma has_volume_uuid: "target_ok t \<Longrightarrow> has_volume t name i \<Longrightarrow> tg_bdev t i \<noteq> None \<and> CHR ''/'' \<notin> set i"
  by (auto simp: has_volume_def target_ok_def)

text \<open>What is published exists and has been issued.\<close>

definition node_ok :: "SpdkNode option \<Rightarrow> string \<Rightarrow> string set \<Rightarrow> target \<Rightarrow> bool" where
  "node_ok n k V t \<longleftrightarrow> target_ok t \<and>
     (\<forall>i. sn_published n t i \<longrightarrow> tg_bdev t i \<noteq> None \<and> CHR ''/'' \<notin> set i \<and> k @ '':'' @ i \<in> V)"

lemma node_okD: "node_ok n k V t \<Longrightarrow> target_ok t"
  "node_ok n k V t \<Longrightarrow> sn_published n t i \<Longrightarrow> tg_bdev t i \<noteq> None \<and> CHR ''/'' \<notin> set i \<and> k @ '':'' @ i \<in> V"
  by (simp_all add: node_ok_def)

lemma node_ok_add:
  assumes "node_ok n k V t" and "new_lvol lvs t b"
  shows "node_ok n k V (add_bdev (lvol_alias lvs name) b t)"
  using assms by (auto simp: node_ok_def target_ok_add) (auto simp: add_bdev_def)

lemma node_ok_publish:
  assumes "node_ok n k V t" and "tg_bdev t' = tg_bdev t" "tg_lvstores t' = tg_lvstores t"
    and "\<And>j. j \<noteq> i \<Longrightarrow> sn_published n t' j = sn_published n t j"
    and "sn_published n t' i \<Longrightarrow> tg_bdev t i \<noteq> None \<and> CHR ''/'' \<notin> set i \<and> k @ '':'' @ i \<in> V"
  shows "node_ok n k V t'"
  using assms target_ok_cong [of t' t] unfolding node_ok_def by metis

lemma node_ok_delete:
  assumes ok: "node_ok n k V t" and t': "tg_bdev t' = tg_bdev (del_bdev i t)" "tg_lvstores t' = tg_lvstores t"
    and pub: "\<And>j. j \<noteq> i \<Longrightarrow> sn_published n t' j = sn_published n t j" "\<not> sn_published n t' i"
    and i: "CHR ''/'' \<notin> set i"
  shows "node_ok n k V t'"
  unfolding node_ok_def
proof (intro conjI allI impI)
  note tok = node_okD(1) [OF ok]
  show "target_ok t'" using target_ok_cong [OF t'(1) _ target_ok_del [OF tok]] t'(2) by simp
  fix j assume j: "sn_published n t' j"
  then have neq: "j \<noteq> i" using pub(2) by auto
  from j have old: "tg_bdev t j \<noteq> None" "CHR ''/'' \<notin> set j" "k @ '':'' @ j \<in> V"
    using node_okD(2) [OF ok, of j] pub(1) [OF neq] by auto
  have "tg_bdev t j \<noteq> tg_bdev t i"
    using old(1,2) i neq target_ok_uuid [OF tok] by (metis option.exhaust)
  with old show "tg_bdev t' j \<noteq> None" by (simp add: t'(1) del_bdev_def)
  from old show "CHR ''/'' \<notin> set j" "k @ '':'' @ j \<in> V" by blast+
qed

section \<open>All targets\<close>

definition view_ok ::
  "controllerServer \<Rightarrow> smap \<Rightarrow> (string \<Rightarrow> bool) \<Rightarrow> string set \<Rightarrow> (endpoint \<Rightarrow> target) \<Rightarrow> bool" where
  "view_ok cs secrets vname V v \<longleftrightarrow>
     (\<forall>k \<in> dom (spdkNodeConfigs cs). node_ok (node_of cs secrets k) k V (v (sn_endpoint (node_of cs secrets k)))) \<and>
     (\<forall>name p q. vname name \<longrightarrow> p \<in> volumes_named v cs secrets name \<longrightarrow> q \<in> volumes_named v cs secrets name \<longrightarrow> p = q)"

lemma view_ok_upd:
  assumes ok: "view_ok cs secrets vname V v" and apart: "apart cs secrets" and k: "k \<in> dom (spdkNodeConfigs cs)"
    and n: "n = node_of cs secrets k" and t': "node_ok n k V t'"
    and vols: "\<And>name. vname name \<Longrightarrow> (\<forall>j. has_volume t' name j \<longrightarrow> has_volume (v (sn_endpoint n)) name j) \<or>
       volumes_named v cs secrets name = {} \<and> (\<forall>j j'. has_volume t' name j \<longrightarrow> has_volume t' name j' \<longrightarrow> j = j')"
  shows "view_ok cs secrets vname V (v(sn_endpoint n := t'))"
proof -
  let ?v = "v(sn_endpoint n := t')"
  have other: "sn_endpoint (node_of cs secrets k') \<noteq> sn_endpoint n" if "k' \<in> dom (spdkNodeConfigs cs)" "k' \<noteq> k" for k'
    using apart k that by (simp add: apart_def n)
  have nodes: "node_ok (node_of cs secrets k') k' V (?v (sn_endpoint (node_of cs secrets k')))"
    if "k' \<in> dom (spdkNodeConfigs cs)" for k'
    using ok t' other [OF that] that n by (cases "k' = k") (simp_all add: view_ok_def)
  have named: "(k', j) \<in> volumes_named ?v cs secrets name \<longleftrightarrow>
      (if k' = k then has_volume t' name j else (k', j) \<in> volumes_named v cs secrets name)" for k' j name
    using other [of k'] k n by (cases "k' = k") (auto simp: volumes_named_def simp del: domIff)
  have "p = q" if name: "vname name" and p: "p \<in> volumes_named ?v cs secrets name" and q: "q \<in> volumes_named ?v cs secrets name"
    for name p q
    using vols [OF name]
  proof (elim disjE conjE)
    assume sub: "\<forall>j. has_volume t' name j \<longrightarrow> has_volume (v (sn_endpoint n)) name j"
    have "r \<in> volumes_named v cs secrets name" if "r \<in> volumes_named ?v cs secrets name" for r
      using that sub k n by (cases r) (auto simp: named volumes_named_def simp del: domIff split: if_splits)
    with p q name ok show ?thesis unfolding view_ok_def by blast
  next
    assume "volumes_named v cs secrets name = {}" "\<forall>j j'. has_volume t' name j \<longrightarrow> has_volume t' name j' \<longrightarrow> j = j'"
    with p q show ?thesis by (cases p; cases q) (auto simp: named split: if_splits)
  qed
  with nodes show ?thesis by (auto simp: view_ok_def)
qed

lemma view_ok_mono: "view_ok cs secrets vname V v \<Longrightarrow> V \<subseteq> V' \<Longrightarrow> view_ok cs secrets vname V' v"
  by (auto simp: view_ok_def node_ok_def)

lemma view_okD:
  "view_ok cs secrets vname V v \<Longrightarrow> k \<in> dom (spdkNodeConfigs cs) \<Longrightarrow>
     node_ok (node_of cs secrets k) k V (v (sn_endpoint (node_of cs secrets k)))"
  by (simp add: view_ok_def)

text \<open>Making, publishing and deleting one volume.\<close>

lemma view_ok_create:
  assumes ok: "view_ok cs secrets vname V v" and apart: "apart cs secrets" and k: "k \<in> dom (spdkNodeConfigs cs)"
    and n: "n = node_of cs secrets k" and c: "create_spec lvs name (v (sn_endpoint n)) r t'"
    and new: "vname name \<Longrightarrow> volumes_named v cs secrets name = {}"
  shows "view_ok cs secrets vname V (v(sn_endpoint n := t'))"
proof (cases "t' = v (sn_endpoint n)")
  case True
  then show ?thesis using ok by simp
next
  case False
  let ?t = "v (sn_endpoint n)"
  from c False obtain b where b: "new_lvol lvs ?t b" and t': "t' = add_bdev (lvol_alias lvs name) b ?t"
    by (auto simp: create_spec_def split: option.splits)
  have nok: "node_ok n k V ?t" using view_okD [OF ok k] n by simp
  have none: "\<not> has_volume ?t name j" if "vname name" for j
    using new [OF that] k n by (auto simp: volumes_named_def simp del: domIff)
  show ?thesis
  proof (rule view_ok_upd [OF ok apart k n])
    show "node_ok n k V t'" unfolding t' by (rule node_ok_add [OF nok b])
    fix name' assume "vname name'"
    then show "(\<forall>j. has_volume t' name' j \<longrightarrow> has_volume ?t name' j) \<or>
        volumes_named v cs secrets name' = {} \<and> (\<forall>j j'. has_volume t' name' j \<longrightarrow> has_volume t' name' j' \<longrightarrow> j = j')"
      using new none has_volume_add [OF none] has_volume_add_other [OF node_okD(1) [OF nok] b]
      unfolding t' by (cases "name' = name") metis+
  qed
qed

lemma view_ok_publish:
  assumes ok: "view_ok cs secrets vname V v" and apart: "apart cs secrets" and k: "k \<in> dom (spdkNodeConfigs cs)"
    and n: "n = node_of cs secrets k" and t: "t = v (sn_endpoint n)"
    and same: "tg_bdev t' = tg_bdev t" "tg_lvstores t' = tg_lvstores t" "\<And>j. j \<noteq> i \<Longrightarrow> sn_published n t' j = sn_published n t j"
    and i: "sn_published n t' i \<Longrightarrow> tg_bdev t i \<noteq> None \<and> CHR ''/'' \<notin> set i \<and> k @ '':'' @ i \<in> V"
  shows "view_ok cs secrets vname V (v(sn_endpoint n := t'))"
proof (rule view_ok_upd [OF ok apart k n])
  show "node_ok n k V t'" using node_ok_publish [OF _ same i] view_okD [OF ok k] n t by simp
qed (use has_volume_bdev [OF same(1,2)] t in auto)

lemma view_ok_delete:
  assumes ok: "view_ok cs secrets vname V v" and apart: "apart cs secrets" and k: "k \<in> dom (spdkNodeConfigs cs)"
    and n: "n = node_of cs secrets k" and t: "t = v (sn_endpoint n)"
    and t': "tg_bdev t' = tg_bdev (del_bdev i t)" "tg_lvstores t' = tg_lvstores t"
    and pub: "\<And>j. j \<noteq> i \<Longrightarrow> sn_published n t' j = sn_published n t j" "\<not> sn_published n t' i"
    and i: "CHR ''/'' \<notin> set i"
  shows "view_ok cs secrets vname V (v(sn_endpoint n := t'))"
proof (rule view_ok_upd [OF ok apart k n])
  show "node_ok n k V t'" using node_ok_delete [OF _ t' pub i] view_okD [OF ok k] n t by simp
  have "has_volume t' = has_volume (del_bdev i t)" by (rule has_volume_bdev) (simp_all add: t')
  then show "(\<forall>j. has_volume t' name j \<longrightarrow> has_volume (v (sn_endpoint n)) name j) \<or>
      volumes_named v cs secrets name = {} \<and> (\<forall>j j'. has_volume t' name j \<longrightarrow> has_volume t' name j' \<longrightarrow> j = j')" for name
    using has_volume_del t by metis
qed

section \<open>The requests\<close>

definition cluster_ok ::
  "('w \<Rightarrow> endpoint \<Rightarrow> target) \<Rightarrow> controllerServer \<Rightarrow> smap \<Rightarrow> (string \<Rightarrow> bool) \<Rightarrow> VolumeLocks \<times> 'w \<times> string set \<Rightarrow> bool" where
  "cluster_ok view cs secrets vname = (\<lambda>(m, w, V). (\<forall>j. \<not> lock_held m j) \<and> (\<forall>i \<in> V. node_id cs i) \<and>
     view_ok cs secrets vname V (view w))"

lemma node_idE:
  assumes "node_id cs volumeID" and "cs_ready http view cs secrets"
  obtains k i where "getSPDKVol volumeID = Inr \<lparr>sv_lvolID = i, sv_nodeName = k\<rparr>" "k \<in> dom (spdkNodeConfigs cs)"
    "CHR ''/'' \<notin> set i" "node_ready http view cs secrets k" "volumeID = k @ '':'' @ i"
proof -
  obtain v where v: "getSPDKVol volumeID = Inr v" "spdkNodeConfigs cs (sv_nodeName v) \<noteq> None" "CHR ''/'' \<notin> set (sv_lvolID v)"
    using assms(1) by (auto simp: node_id_def split: sum.splits)
  show thesis
    by (rule that [of "sv_lvolID v" "sv_nodeName v"])
      (use v assms(2) in \<open>auto simp: cs_ready_def getSPDKVol_Inr_iff\<close>)
qed

text \<open>Creating: the volume is found or made, published or, failing that, deleted again.\<close>

lemma view_ok_finish:
  assumes ok: "view_ok cs secrets vname V v" and apart: "apart cs secrets" and k: "k \<in> dom (spdkNodeConfigs cs)"
    and sec: "cv_Secrets req = secrets" and h: "has_volume (v (sn_endpoint (node_of cs secrets k))) name i"
    and f: "ctl_finish_spec rf cs req k i v res v'"
  shows "view_ok cs secrets vname (issued V (RespVolume res)) v' \<and> (\<forall>j \<in> issued V (RespVolume res). j \<in> V \<or> node_id cs j)"
  using f
proof (cases rule: ctl_finish_cases)
  case (unparsable x)
  then show ?thesis using ok by simp
next
  case (served ctx t)
  let ?n = "node_of cs secrets k" let ?V = "insert (k @ '':'' @ i) V"
  have i: "tg_bdev (v (sn_endpoint ?n)) i \<noteq> None \<and> CHR ''/'' \<notin> set i"
    by (rule has_volume_uuid [OF node_okD(1) [OF view_okD [OF ok k]] h])
  have "view_ok cs secrets vname ?V v'"
    unfolding served(4) sec
    by (rule view_ok_publish [OF view_ok_mono [OF ok] apart k refl refl, where i = i])
      (use served(3) i in \<open>auto simp: ctl_publish_spec_def sec\<close>)
  moreover have "VolumeId (volume_of req (k, i)) = k @ '':'' @ i" by (rule volume_of_sel)
  moreover have "node_id cs (k @ '':'' @ i)"
    unfolding node_id_def getSPDKVol_id [OF served(1,2)] using i k by auto
  ultimately show ?thesis unfolding served(5) by auto
next
  case (failed ctx x t d t')
  let ?n = "node_of cs secrets k" let ?t = "v (sn_endpoint ?n)"
  have i: "tg_bdev ?t i \<noteq> None" "CHR ''/'' \<notin> set i"
    using has_volume_uuid [OF node_okD(1) [OF view_okD [OF ok k]] h] by auto
  note pub = failed(3) [unfolded sec ctl_publish_spec_def]
  have np: "\<not> sn_published ?n t i" using pub i(1) by simp
  have ok1: "view_ok cs secrets vname V (v(sn_endpoint ?n := t))"
    by (rule view_ok_publish [OF ok apart k refl refl, where i = i]) (use pub np in auto)
  have "view_ok cs secrets vname V (v(sn_endpoint ?n := t'))"
  proof (cases "t' = t")
    case True
    then show ?thesis using ok1 by simp
  next
    case False
    with failed(4) have t': "t' = del_bdev i t" by (auto simp: delete_spec_def split: option.splits)
    from view_ok_delete [OF ok1 apart k refl refl, where t' = t' and i = i] np i(2) show ?thesis
      by (simp add: t')
  qed
  then show ?thesis using failed(5,6) sec by simp
qed

lemma view_ok_made:
  assumes v: "view_ok cs secrets vname V (view w)" and apart: "apart cs secrets" and sec: "cv_Secrets req = secrets"
    and ord: "complete_order cs ord1"
    and c: "ctl_create_spec view cs req (keys_in cs ord1) (keys_in cs ord2) w r v1"
  shows "view_ok cs secrets vname V v1"
proof (cases "find_in_nodes view w cs secrets (cv_Name req) (keys_in cs ord1)")
  case (Some p)
  then show ?thesis using c v by (simp add: ctl_create_spec_def sec)
next
  case none: None
  then have new: "volumes_named (view w) cs secrets (cv_Name req) = {}"
    unfolding find_in_nodes_complete [OF ord] .
  show ?thesis
  proof (cases "ctl_place view w cs req (keys_in cs ord2)")
    case None
    then show ?thesis using c v none by (simp add: ctl_create_spec_def sec)
  next
    case (Some p)
    then obtain k lvs where p: "ctl_place view w cs req (keys_in cs ord2) = Some (k, lvs)" by (cases p) auto
    have k: "k \<in> dom (spdkNodeConfigs cs)" using ctl_place_mem(1) [OF p] by auto
    obtain d t' where d: "create_spec lvs (cv_Name req) (view w (sn_endpoint (node_of cs secrets k))) d t'"
        and v1: "v1 = (view w)(sn_endpoint (node_of cs secrets k) := t')"
      using c p none by (auto simp: ctl_create_spec_def sec Let_def)
    show ?thesis unfolding v1 by (rule view_ok_create [OF v apart k refl d new])
  qed
qed

lemma CreateVolume_step:
  assumes ready: "cs_ready http view cs secrets" and apart: "apart cs secrets"
    and ok: "cluster_ok view cs secrets vname (m, w, V)" and r: "permitted vname cs secrets V (ReqCreateVolume req ord1 ord2)"
  shows "go_wp (controllerServer_CreateVolume http ord1 ord2 cs req)
     (\<lambda>r (m', w'). cluster_ok view cs secrets vname (m', w', issued V (RespVolume r))) (\<lambda>_ _. False) (m, w)"
proof -
  have sec: "cv_Secrets req = secrets" and src: "source_ok cs req" and ord: "complete_order cs ord1"
    using r by simp_all
  have locks: "\<not> lock_held m j" and ids: "\<forall>i \<in> V. node_id cs i" and v: "view_ok cs secrets vname V (view w)" for j
    using ok by (auto simp: cluster_ok_def)
  have step: "view_ok cs secrets vname (issued V (RespVolume res)) v' \<and> (\<forall>j \<in> issued V (RespVolume res). j \<in> V \<or> node_id cs j)"
    if "ctl_CreateVolume_spec (may_refuse http view) view cs req (keys_in cs ord1) (keys_in cs ord2) w res v'" for res v'
    using that
  proof (cases rule: ctl_CreateVolume_specE)
    case (none x)
    then show ?thesis using view_ok_made [OF v apart sec ord none(1)] by simp
  next
    case (volume k i v1)
    note h = ctl_create_spec_has_volume [OF volume(1), unfolded sec]
    have "k \<in> dom (spdkNodeConfigs cs)" using h(1) by auto
    from view_ok_finish [OF view_ok_made [OF v apart sec ord volume(1)] apart this sec h(2) volume(2)] show ?thesis .
  qed
  have "cluster_ok view cs secrets vname (m', w', issued V (RespVolume res))"
    if "\<And>j. lock_held m' j = lock_held m j"
      "ctl_CreateVolume_spec (may_refuse http view) view cs req (keys_in cs ord1) (keys_in cs ord2) w res (view w')" for res m' w'
    using step [OF that(2)] that(1) locks ids unfolding cluster_ok_def by blast
  note Q = this
  show ?thesis
    apply (rule wp_ctl_CreateVolume [where view = view, OF _ src locks])
    subgoal using ready sec by simp
    subgoal unfolding prod.case by (rule Q)
    done
qed

text \<open>Deleting volumes and snapshots, and making snapshots.\<close>

lemma DeleteVolume_step:
  assumes ready: "cs_ready http view cs secrets" and apart: "apart cs secrets"
    and ok: "cluster_ok view cs secrets vname (m, w, V)" and r: "volumeID \<in> V"
  shows "go_wp (controllerServer_DeleteVolume http cs volumeID secrets)
     (\<lambda>r (m', w'). cluster_ok view cs secrets vname (m', w', V)) (\<lambda>_ _. False) (m, w)"
proof -
  have locks: "\<not> lock_held m j" and ids: "\<forall>i \<in> V. node_id cs i" and v: "view_ok cs secrets vname V (view w)" for j
    using ok by (auto simp: cluster_ok_def)
  from ids r have "node_id cs volumeID" by blast
  then obtain k i where vol: "getSPDKVol volumeID = Inr \<lparr>sv_lvolID = i, sv_nodeName = k\<rparr>" and k: "k \<in> dom (spdkNodeConfigs cs)"
      and i: "CHR ''/'' \<notin> set i" and rk: "node_ready http view cs secrets k"
    using ready by (rule node_idE)
  let ?n = "node_of cs secrets k" let ?t = "node_target view ?n w"
  have "view_ok cs secrets vname V ((view w)(sn_endpoint ?n := t'))" if d: "ctl_delete_spec (may_refuse http view) ?n i ?t e t'" for e t'
  proof (cases "tg_bdev ?t i = None \<or> e \<noteq> None")
    case True
    with d show ?thesis
      by (intro view_ok_publish [OF v apart k refl refl, where i = i])
        (use view_okD [OF v k] in \<open>auto simp: ctl_delete_spec_def node_ok_def split: if_splits\<close>)
  next
    case False
    with d show ?thesis
      by (intro view_ok_delete [OF v apart k refl refl _ _ _ _ i]) (auto simp: ctl_delete_spec_def)
  qed
  then show ?thesis
    by (intro wp_ctl_DeleteVolume [OF vol rk refl locks]) (use locks ids in \<open>auto simp: cluster_ok_def\<close>)
qed

lemma DeleteSnapshot_step:
  assumes ready: "cs_ready http view cs secrets" and apart: "apart cs secrets"
    and ok: "cluster_ok view cs secrets vname (m, w, V)" and r: "node_id cs snapshotID" "snapshotID \<notin> V"
  shows "go_wp (controllerServer_DeleteSnapshot http cs snapshotID secrets)
     (\<lambda>r (m', w'). cluster_ok view cs secrets vname (m', w', V)) (\<lambda>_ _. False) (m, w)"
proof -
  have locks: "\<not> lock_held m j" and ids: "\<forall>i \<in> V. node_id cs i" and v: "view_ok cs secrets vname V (view w)" for j
    using ok by (auto simp: cluster_ok_def)
  obtain k i where vol: "getSPDKVol snapshotID = Inr \<lparr>sv_lvolID = i, sv_nodeName = k\<rparr>" and k: "k \<in> dom (spdkNodeConfigs cs)"
      and i: "CHR ''/'' \<notin> set i" and rk: "node_ready http view cs secrets k" and sid: "snapshotID = k @ '':'' @ i"
    using r(1) ready by (rule node_idE)
  let ?n = "node_of cs secrets k" let ?t = "node_target view ?n w"
  have np: "\<not> sn_published ?n ?t i" using node_okD(2) [OF view_okD [OF v k]] r(2) sid by blast
  have del: "view_ok cs secrets vname V ((view w)(sn_endpoint ?n := t'))" if d: "delete_spec (may_refuse http view (sn_endpoint ?n)) i ?t e t'" for e t'
  proof (cases "t' = ?t")
    case True
    then show ?thesis using v by simp
  next
    case False
    with d have "t' = del_bdev i ?t" by (auto simp: delete_spec_def split: option.splits)
    with np show ?thesis by (intro view_ok_delete [OF v apart k refl refl _ _ _ _ i]) auto
  qed
  show ?thesis
    by (intro wp_ctl_DeleteSnapshot [OF vol rk refl locks]) (use locks ids del in \<open>auto simp: cluster_ok_def\<close>)
qed

lemma CreateSnapshot_step:
  assumes ready: "cs_ready http view cs secrets" and apart: "apart cs secrets"
    and ok: "cluster_ok view cs secrets vname (m, w, V)" and r: "node_id cs volumeID" "\<not> vname name"
  shows "go_wp (controllerServer_CreateSnapshot http now cs volumeID name secrets)
     (\<lambda>r (m', w'). cluster_ok view cs secrets vname (m', w', V)) (\<lambda>_ _. False) (m, w)"
proof -
  have locks: "\<not> lock_held m j" and ids: "\<forall>i \<in> V. node_id cs i" and v: "view_ok cs secrets vname V (view w)" for j
    using ok by (auto simp: cluster_ok_def)
  obtain k i where vol: "getSPDKVol volumeID = Inr \<lparr>sv_lvolID = i, sv_nodeName = k\<rparr>" and k: "k \<in> dom (spdkNodeConfigs cs)"
      and rk: "node_ready http view cs secrets k"
    using r(1) ready by (rule node_idE)
  let ?n = "node_of cs secrets k" let ?t = "node_target view ?n w"
  have "view_ok cs secrets vname V (view w')"
    if s: "snapshot_spec i name ?t c (node_target view ?n w')" and eq: "\<forall>ep. ep \<noteq> sn_endpoint ?n \<longrightarrow> view w' ep = view w ep" for c w'
  proof -
    have v': "view w' = (view w)(sn_endpoint ?n := node_target view ?n w')" using eq by auto
    show ?thesis
    proof (cases "node_target view ?n w' = ?t")
      case True
      then show ?thesis using v v' by simp
    next
      case False
      with s obtain lvs where "create_spec lvs name ?t c (node_target view ?n w')"
        by (auto simp: snapshot_spec_def split: prod.splits option.splits)
      from view_ok_create [OF v apart k refl this] r(2) v' show ?thesis by metis
    qed
  qed
  with locks ids show ?thesis
    by (intro go_wp_mono [OF wp_CreateSnapshot [OF vol rk refl locks]]) (auto simp: cluster_ok_def)
qed

section \<open>Reachable states\<close>

lemma serve_request_step:
  assumes "cs_ready http view cs secrets" "apart cs secrets" "cluster_ok view cs secrets vname (m, w, V)"
    and "permitted vname cs secrets V r"
  shows "go_wp (serve_request http cs secrets r)
     (\<lambda>resp (m', w'). cluster_ok view cs secrets vname (m', w', issued V resp)) (\<lambda>_ _. False) (m, w)"
proof -
  have ret: "go_wp (go_return x) Q E = Q x" for x Q and E :: "string \<Rightarrow> VolumeLocks \<times> 'a \<Rightarrow> bool" by (simp add: fun_eq_iff)
  show ?thesis
    using assms CreateVolume_step [OF assms(1-3)] DeleteVolume_step [OF assms(1-3)] CreateSnapshot_step [OF assms(1-3)]
      DeleteSnapshot_step [OF assms(1-3)]
    by (cases r) (simp_all add: ret)
qed

lemma serve_request_runs:
  assumes "cs_ready http view cs secrets" "apart cs secrets" "cluster_ok view cs secrets vname (m, w, V)"
    and "permitted vname cs secrets V r"
  obtains resp m' w' where "serve_request http cs secrets r (m, w) = (Ret resp, m', w')"
    "cluster_ok view cs secrets vname (m', w', issued V resp)"
  using go_wp_runD [OF serve_request_step [OF assms]] by auto

lemma ctl_reach_ok:
  assumes reach: "ctl_reach http cs secrets vname s s'" and "cs_ready http view cs secrets" "apart cs secrets"
    and "cluster_ok view cs secrets vname s"
  shows "cluster_ok view cs secrets vname s'"
  using reach
proof (induction rule: ctl_reach.induct)
  case start
  show ?case by (rule assms(4))
next
  case (step m w V r resp m' w')
  show ?case by (rule serve_request_runs [OF assms(2,3) step.IH step.hyps(2)]) (use step.hyps(3) in simp)
qed

text \<open>
  C3: The controller as a state machine: from a consistent cluster, after any sequence of
  permitted requests (volumes and clones are created, volumes deleted by issued IDs, snapshots
  created and deleted), no lock is held, a volume name is used at most once in the whole cluster,
  every published volume exists and its ID has been issued, the UUID of every volume denotes it,
  and every further permitted request returns without a panic.
\<close>

theorem controller_invariant:
  assumes ready: "cs_ready http view cs secrets" and apart: "apart cs secrets"
    and init: "cluster_ok view cs secrets vname s" and reach: "ctl_reach http cs secrets vname s (m, w, V)"
  shows "(\<forall>j. \<not> lock_held m j) \<and>
     (\<forall>name p q. vname name \<longrightarrow> p \<in> volumes_named (view w) cs secrets name \<longrightarrow>
        q \<in> volumes_named (view w) cs secrets name \<longrightarrow> p = q) \<and>
     (\<forall>k i. spdkNodeConfigs cs k \<noteq> None \<longrightarrow> sn_published (node_of cs secrets k) (node_target view (node_of cs secrets k) w) i \<longrightarrow>
        tg_bdev (node_target view (node_of cs secrets k) w) i \<noteq> None \<and> k @ '':'' @ i \<in> V) \<and>
     (\<forall>k. spdkNodeConfigs cs k \<noteq> None \<longrightarrow> tg_wf (node_target view (node_of cs secrets k) w)) \<and>
     (\<forall>r. permitted vname cs secrets V r \<longrightarrow> (\<exists>resp m' w'. serve_request http cs secrets r (m, w) = (Ret resp, m', w')))"
proof -
  note ok = ctl_reach_ok [OF reach ready apart init]
  have "node_ok (node_of cs secrets k) k V (node_target view (node_of cs secrets k) w)" if "spdkNodeConfigs cs k \<noteq> None" for k
    using ok that by (auto simp: cluster_ok_def view_ok_def)
  moreover have "tg_wf t" if "node_ok n k V t" for n k t
    using that by (auto simp: node_ok_def target_ok_def tg_wf_def)
  moreover have "\<exists>resp m' w'. serve_request http cs secrets r (m, w) = (Ret resp, m', w')" if "permitted vname cs secrets V r" for r
    by (rule serve_request_runs [OF ready apart ok that]) blast
  moreover have "\<forall>j. \<not> lock_held m j" "view_ok cs secrets vname V (view w)" using ok by (simp_all add: cluster_ok_def)
  ultimately show ?thesis
    unfolding view_ok_def by (intro conjI) (blast dest: node_okD(2))+
qed

text \<open>The concrete cluster, empty at the start, after its first volume.\<close>

definition pvc_name :: "string \<Rightarrow> bool" where
  "pvc_name name \<longleftrightarrow> take 4 name = ''pvc-''"

lemma demo_cluster_ok: "cluster_ok sim_view demo_cs demo_secrets pvc_name (NewVolumeLocks, demo_world, {})"
proof -
  have "node_ok (node_of demo_cs demo_secrets k) k {} (sim_view demo_world ep)" if "k \<in> {''n1'', ''n2''}" for k ep
    using that by (auto simp: node_ok_def target_ok_def node_of_demo nv_published_def is_published_def demo_world_def demo_sim_def demo_store_def)
  then show ?thesis by (simp add: cluster_ok_def view_ok_def dom_demo demo_new)
qed

theorem controller_invariant_witness:
  "\<exists>(vol :: csiVolume) m w. ctl_reach sim_http demo_cs demo_secrets pvc_name (NewVolumeLocks, demo_world, {}) (m, w, {VolumeId vol}) \<and>
     (\<exists>resp m' w'. serve_request sim_http demo_cs demo_secrets (ReqDeleteVolume (VolumeId vol)) (m, w) = (Ret resp, m', w'))"
proof (rule demo_run)
  fix vol m w
  assume run: "controllerServer_CreateVolume sim_http demo_order demo_order demo_cs demo_req (NewVolumeLocks, demo_world) =
      (Ret (Inr vol), m, w)"
  have "serve_request sim_http demo_cs demo_secrets (ReqCreateVolume demo_req demo_order demo_order) (NewVolumeLocks, demo_world) =
      (Ret (RespVolume (Inr vol)), m, w)"
    by (simp add: go_bind_def run go_return_def)
  from ctl_reach.step [OF ctl_reach.start _ this] 
  have reach: "ctl_reach sim_http demo_cs demo_secrets pvc_name (NewVolumeLocks, demo_world, {}) (m, w, {VolumeId vol})"
    by (simp add: demo_req_sel pvc_name_def demo_complete)
  have "permitted pvc_name demo_cs demo_secrets {VolumeId vol} (ReqDeleteVolume (VolumeId vol))" by simp
  with controller_invariant [OF demo_ready demo_apart [unfolded demo_req_sel] demo_cluster_ok reach]
  have "\<exists>resp m' w'. serve_request sim_http demo_cs demo_secrets (ReqDeleteVolume (VolumeId vol)) (m, w) = (Ret resp, m', w')"
    by blast
  with reach show ?thesis by blast
qed

end
