(* ===== verification/Node_Progress.thy ===== *)
theory Node_Progress
  imports Node_Interface
begin

text \<open>
  Storage nodes on targets that accept what they can serve: such a target makes a volume in an
  lvstore with enough free space, makes transports, subsystems, namespaces, groups and target nodes
  that do not exist yet, and listeners of a transport that has been made; it may say that a
  transport already exists when that is so. There creating and publishing a volume succeed. The locale \<open>accepting_node\<close> extends the contract of a
  storage node by this, and is interpreted for both kinds of node and for the interface over them.
\<close>

lemma go_wp_conj: "go_wp m Q E w \<Longrightarrow> go_wp m Q' E w \<Longrightarrow> go_wp m (\<lambda>x w'. Q x w' \<and> Q' x w') E w"
  by (auto simp: go_wp_def split: prod.splits outcome.splits)

section \<open>Accepting targets\<close>

definition has_space :: "target \<Rightarrow> string \<Rightarrow> int64 \<Rightarrow> bool" where
  "has_space t lvs sz \<longleftrightarrow> 0 < sint sz \<and>
     (\<exists>l \<in> set (tg_lvstores t). lr_Name l = lvs \<and> sint (FreeSizeMiB (LvStore_of_reply l)) > sint sz)"

definition lvol_accepts :: "'w http \<Rightarrow> endpoint \<Rightarrow> ('w \<Rightarrow> endpoint \<Rightarrow> target) \<Rightarrow> bool" where
  "lvol_accepts http ep view \<longleftrightarrow>
     (\<forall>w name lvs sz. tg_bdev (view w ep) (lvol_alias lvs name) = None \<longrightarrow> has_space (view w ep) lvs sz \<longrightarrow>
        (\<exists>b. new_lvol lvs (view w ep) b \<and>
           performs http ep view ''bdev_lvol_create'' (Some (createVolume_params name lvs sz)) dec_string [] w
             (bd_UUID b) (add_bdev (lvol_alias lvs name) b (view w ep))))"

definition nvmf_accepts :: "'w http \<Rightarrow> endpoint \<Rightarrow> ('w \<Rightarrow> endpoint \<Rightarrow> target) \<Rightarrow> bool" where
  "nvmf_accepts http ep view \<longleftrightarrow>
     (\<forall>w tr. performs http ep view ''nvmf_create_transport'' (Some (JObj [(''trtype'', JStr tr)])) dec_any () w ()
          ((view w ep)\<lparr>tg_transports := insert tr (tg_transports (view w ep))\<rparr>) \<or>
        tr \<in> tg_transports (view w ep) \<and>
        (\<exists>msg. strings_Contains msg ''already exists'' \<and>
           refuses http ep view ''nvmf_create_transport'' (Some (JObj [(''trtype'', JStr tr)])) w msg)) \<and>
     (\<forall>w i. tg_subs (view w ep) (nodeNVMf_getVolumeNqn i) = None \<longrightarrow>
        performs http ep view ''nvmf_create_subsystem'' (subsystem_arg i) dec_any () w ()
          (set_sub (nodeNVMf_getVolumeNqn i) (Some \<lparr>sub_ns = [], sub_listeners = []\<rparr>) (view w ep))) \<and>
     (\<forall>w nqn bdev s. tg_subs (view w ep) nqn = Some s \<longrightarrow> sub_ns s = [] \<longrightarrow>
        (\<exists>v. performs http ep view ''nvmf_subsystem_add_ns'' (add_ns_arg nqn bdev) dec_int64 0 w v
           (set_sub nqn (Some (s\<lparr>sub_ns := [\<lparr>NSID = v, BdevName = bdev\<rparr>]\<rparr>)) (view w ep)))) \<and>
     (\<forall>w nqn a s. tg_subs (view w ep) nqn = Some s \<longrightarrow> TrType a \<in> tg_transports (view w ep) \<longrightarrow>
        performs http ep view ''nvmf_subsystem_add_listener'' (listener_arg nqn a) dec_any () w ()
          (set_sub nqn (Some (s\<lparr>sub_listeners := sub_listeners s @ [a]\<rparr>)) (view w ep)))"

definition iscsi_accepts :: "'w http \<Rightarrow> endpoint \<Rightarrow> ('w \<Rightarrow> endpoint \<Rightarrow> target) \<Rightarrow> bool" where
  "iscsi_accepts http ep view \<longleftrightarrow>
     (\<forall>w host port. numberPortalGroupTag \<notin> tg_pgs (view w ep) \<longrightarrow>
        performs http ep view ''iscsi_create_portal_group'' (tag_arg host port) dec_bool False w True
          ((view w ep)\<lparr>tg_pgs := insert numberPortalGroupTag (tg_pgs (view w ep))\<rparr>)) \<and>
     (\<forall>w. numberInitiatorGroupTag \<notin> tg_igs (view w ep) \<longrightarrow>
        performs http ep view ''iscsi_create_initiator_group'' initiators_arg dec_bool False w True
          ((view w ep)\<lparr>tg_igs := insert numberInitiatorGroupTag (tg_igs (view w ep))\<rparr>)) \<and>
     (\<forall>w i. i \<notin> tg_tnodes (view w ep) \<longrightarrow>
        performs http ep view ''iscsi_create_target_node'' (Some (createTargetNode_params i i)) dec_bool False w True
          ((view w ep)\<lparr>tg_tnodes := insert i (tg_tnodes (view w ep))\<rparr>))"

section \<open>Creating\<close>

lemma wp_createVolume_ok:
  assumes "lvol_accepts http (endpoint c) view" "tg_bdev (view w (endpoint c)) (lvol_alias lvs name) = None"
    "has_space (view w (endpoint c)) lvs sz" and Q: "\<And>u c' w'. Q (u, None) (c', w')"
  shows "go_wp (rpcClient_createVolume http name lvs sz) Q E (c, w)"
proof -
  obtain b where "performs http (endpoint c) view ''bdev_lvol_create'' (Some (createVolume_params name lvs sz)) dec_string [] w
      (bd_UUID b) (add_bdev (lvol_alias lvs name) b (view w (endpoint c)))"
    using assms(1-3) unfolding lvol_accepts_def by blast
  then show ?thesis
    unfolding rpcClient_createVolume_def go_wp_bind
    by (rule wp_call_performs) (simp add: Let_def errorMatches_def [of None] Q)
qed

context rpc_embedding
begin

lemma wp_create_ok:
  assumes ok: "lvol_ok http (endpoint (client n)) view" and acc: "lvol_accepts http (endpoint (client n)) view"
    and free: "tg_bdev (view w (endpoint (client n))) (lvol_alias lvs name) = None"
    and space: "has_space (view w (endpoint (client n))) lvs sz"
  shows "go_wp (go_bind (on_client (rpcClient_getVolume http (lvol_alias lvs name)))
       (\<lambda>(lvol, e). if e = None then go_bind (bd_uuid_of lvol) (\<lambda>uuid. go_return (uuid, None))
          else go_bind (on_client (rpcClient_createVolume http name lvs sz))
            (\<lambda>(lvolID, e). if e \<noteq> None then go_return ([], e) else go_return (lvolID, None))))
       (\<lambda>r _. snd r = None) E (n, w)"
proof (rule wp_lookup [OF ok], goal_cases)
  case (2 c w')
  show ?case
    by simp (rule wp_createVolume_ok [where view = view], use 2 acc free space in simp_all)
qed (use free in simp)

end

section \<open>Publishing over NVMe-oF\<close>

text \<open>The node has not asked for its transport yet, or the target has it.\<close>

definition nv_transport_ready :: "nodeNVMf \<Rightarrow> target \<Rightarrow> bool" where
  "nv_transport_ready n t \<longleftrightarrow> transCreated n = 0 \<or> nv_targetType n \<in> tg_transports t"

lemma wp_nv_createTransport_ok:
  assumes same: "nv_same m n" and ok: "nvmf_ok http view m" and acc: "nvmf_accepts http (endpoint (nv_client m)) view"
    and ready: "nv_transport_ready n (nv_target view m w)"
  shows "go_wp (nodeNVMf_createTransport http)
     (\<lambda>e (n', w'). e = None \<and> nv_targetType m \<in> tg_transports (nv_target view m w')) E (n, w)"
proof (cases "transCreated n = 0")
  case True
  note D = nv_sameD [OF same ok]
  let ?a = "Some (JObj [(''trtype'', JStr (nv_targetType n))])"
  let ?t = "nv_target view n w"
  have ty: "nv_targetType n = nv_targetType m" using same by (simp add: nv_same_def)
  from acc consider (made) "performs http (endpoint (nv_client n)) view ''nvmf_create_transport'' ?a dec_any () w ()
        (?t\<lparr>tg_transports := insert (nv_targetType n) (tg_transports ?t)\<rparr>)"
    | (exists) msg where "nv_targetType n \<in> tg_transports ?t" "strings_Contains msg ''already exists''"
        "refuses http (endpoint (nv_client n)) view ''nvmf_create_transport'' ?a w msg"
    unfolding nvmf_accepts_def D(2) by blast
  then show ?thesis
  proof cases
    case made
    show ?thesis
      unfolding nodeNVMf_createTransport_def go_wp_bind go_wp_nv_self
      using True by simp (rule wp_call_performs [OF made], simp add: D(2) ty)
  next
    case (exists msg)
    have "strings_Contains (err_Error (rpc_error ''nvmf_create_transport'' msg)) ''already exists''"
      unfolding rpc_error_def err_Error.simps by (intro strings_Contains_append exists(2))
    with True show ?thesis
      unfolding nodeNVMf_createTransport_def go_wp_bind go_wp_nv_self
      by simp (rule wp_call_refuses [OF exists(3)], use exists(1) in \<open>simp add: D(2) ty\<close>)
  qed
next
  case False
  moreover have "nv_targetType n = nv_targetType m" using same by (simp add: nv_same_def)
  ultimately show ?thesis using ready by (simp add: nodeNVMf_createTransport_def nv_transport_ready_def)
qed

text \<open>After the transport: on a target that accepts, the subsystem is made and no step fails.\<close>

lemma wp_nv_publish_subsystem_ok:
  assumes same: "nv_same m n" and ok: "nvmf_ok http view m" and acc: "nvmf_accepts http (endpoint (nv_client m)) view"
    and free: "tg_subs (nv_target view m w) (nodeNVMf_getVolumeNqn i) = None"
    and trans: "nv_targetType m \<in> tg_transports (nv_target view m w)"
  shows "go_wp (go_bind (nodeNVMf_createSubsystem http i) (\<lambda>e.
     if e \<noteq> None then go_return e
     else go_bind (nodeNVMf_subsystemAddNs http i) (\<lambda>(_, e).
     if e \<noteq> None then
       go_bind (nodeNVMf_deleteSubsystem http i) (\<lambda>_. go_return e)
     else go_bind (nodeNVMf_subsystemAddListener http i) (\<lambda>e.
     if e \<noteq> None then
       go_bind (nodeNVMf_subsystemRemoveNs http i) (\<lambda>_.
       go_bind (nodeNVMf_deleteSubsystem http i) (\<lambda>_. go_return e))
     else go_return None)))) (\<lambda>e _. e = None) E (n, w)"
proof -
  let ?nqn = "nodeNVMf_getVolumeNqn i" and ?ep = "endpoint (nv_client m)"
  note A = acc [unfolded nvmf_accepts_def, THEN conjunct2]
  have sub: "go_wp (nodeNVMf_createSubsystem http i) Q E' (n, w)"
    if "\<And>n' w'. nv_same m n' \<Longrightarrow> tg_subs (nv_target view m w') ?nqn = Some \<lparr>sub_ns = [], sub_listeners = []\<rparr> \<Longrightarrow>
      nv_targetType m \<in> tg_transports (nv_target view m w') \<Longrightarrow> Q None (n', w')"
    for Q E'
    unfolding nodeNVMf_createSubsystem_def go_wp_bind go_wp_zoom subsystem_arg_def [symmetric]
    by (rule wp_call_performs [OF A [THEN conjunct1, rule_format, folded nv_same_endpoint [OF same], of w i]])
      (use free trans that same in \<open>simp_all add: nv_same_def\<close>)
  have ns: "go_wp (nodeNVMf_subsystemAddNs http i) Q E' (n', w')"
    if s: "nv_same m n'" and t: "tg_subs (nv_target view m w') ?nqn = Some \<lparr>sub_ns = [], sub_listeners = []\<rparr>"
      and tr: "nv_targetType m \<in> tg_transports (nv_target view m w')"
      and Q: "\<And>v s n'' w''. nv_same m n'' \<Longrightarrow> tg_subs (nv_target view m w'') ?nqn = Some s \<Longrightarrow>
        nv_targetType m \<in> tg_transports (nv_target view m w'') \<Longrightarrow> Q (v, None) (n'', w'')"
    for Q E' n' w'
  proof -
    obtain v where "performs http (endpoint (nv_client n')) view ''nvmf_subsystem_add_ns'' (add_ns_arg ?nqn i) dec_int64 0 w' v
        (set_sub ?nqn (Some \<lparr>sub_ns = [\<lparr>NSID = v, BdevName = i\<rparr>], sub_listeners = []\<rparr>) (nv_target view m w'))"
      using A [THEN conjunct2, THEN conjunct1, rule_format, OF t] nv_same_endpoint [OF s] by fastforce
    then show ?thesis
      unfolding nodeNVMf_subsystemAddNs_def go_wp_bind go_wp_zoom add_ns_arg_def [symmetric]
      by (rule wp_call_performs) (use s tr Q nv_same_endpoint [OF s] in \<open>simp_all add: nv_same_def\<close>)
  qed
  have listener: "go_wp (nodeNVMf_subsystemAddListener http i) Q E' (n', w')"
    if "nv_same m n'" "tg_subs (nv_target view m w') ?nqn = Some s" "nv_targetType m \<in> tg_transports (nv_target view m w')"
      "\<And>n'' w''. Q None (n'', w'')" for Q E' n' w' s
  proof -
    have arg: "Some (JObj [(''nqn'', JStr ?nqn), (''listen_address'', JObj
        [(''trtype'', JStr (nv_targetType n')), (''adrfam'', JStr cfgAddrFamily),
         (''traddr'', JStr (nv_targetAddr n')), (''trsvcid'', JStr (nv_targetPort n'))])]) = listener_arg ?nqn (nv_address m)"
      using that(1) by (simp add: listener_arg_def nv_address_def nv_same_def)
    show ?thesis
      unfolding nodeNVMf_subsystemAddListener_def go_wp_bind go_wp_nv_self go_wp_zoom arg
      by (rule wp_call_performs [OF A [THEN conjunct2, THEN conjunct2, rule_format, folded nv_same_endpoint [OF that(1)]]])
        (use that nv_same_endpoint [OF that(1)] in \<open>simp_all add: nv_address_def\<close>)
  qed
  show ?thesis
    unfolding go_wp_bind by (rule sub) (auto intro!: ns listener)
qed

definition nv_accepts :: "'w http \<Rightarrow> ('w \<Rightarrow> endpoint \<Rightarrow> target) \<Rightarrow> nodeNVMf \<Rightarrow> bool" where
  "nv_accepts http view n \<longleftrightarrow>
     lvol_accepts http (endpoint (nv_client n)) view \<and> nvmf_accepts http (endpoint (nv_client n)) view"

text \<open>
  No subsystem without the node's listener stands in the way of the volume, and a transport that the
  node believes to be there is there.
\<close>

definition nv_clear :: "nodeNVMf \<Rightarrow> target \<Rightarrow> string \<Rightarrow> bool" where
  "nv_clear n t i \<longleftrightarrow> nv_published n t i \<or> tg_subs t (nodeNVMf_getVolumeNqn i) = None \<and> nv_transport_ready n t"

lemma wp_nv_PublishVolume_ok:
  assumes ok: "nvmf_ok http view n" and acc: "nv_accepts http view n"
    and vol: "tg_bdev (nv_target view n w) i \<noteq> None" and clear: "nv_clear n (nv_target view n w) i"
  shows "go_wp (nodeNVMf_PublishVolume http i) (\<lambda>e _. e = None) E (n, w)"
proof -
  have a: "nvmf_accepts http (endpoint (nv_client n)) view" using acc by (simp add: nv_accepts_def)
  have trans: "go_wp (nodeNVMf_createTransport http) (\<lambda>e (n', w'). e = None \<and> nv_same n n' \<and>
      nv_targetType n \<in> tg_transports (nv_target view n w') \<and> tg_subs (nv_target view n w') = tg_subs (nv_target view n w)) E' (n1, w1)"
    if "nv_same n n1" "view w1 = view w" "transCreated n1 = transCreated n" "nv_transport_ready n (nv_target view n w)" for n1 w1 E'
  proof -
    have "go_wp (nodeNVMf_createTransport http) (\<lambda>_ (n', w'). nv_same n n' \<and>
        tg_subs (nv_target view n w') = tg_subs (nv_target view n w)) E' (n1, w1)"
      by (rule wp_nv_createTransport [OF that(1) ok]) (use that(2) in simp)
    note keeps = this
    have ready: "nv_transport_ready n1 (nv_target view n w1)"
      using that by (simp add: nv_transport_ready_def nv_same_def)
    show ?thesis
      by (rule go_wp_mono [OF go_wp_conj [OF wp_nv_createTransport_ok [OF that(1) ok a ready] keeps]]) auto
  qed
  show ?thesis
    unfolding nodeNVMf_PublishVolume_def go_wp_bind [of "nodeNVMf_isVolumeCreated http i"]
    apply (rule wp_nv_isVolumeCreated [OF nv_same_refl ok])
    apply (simp add: vol del: go_wp_bind not_None_eq add: go_wp_bind [of "nodeNVMf_isVolumePublished http i"])
    apply (rule wp_nv_isVolumePublished [OF _ ok], assumption)
    apply (cases "nv_published n (nv_target view n w) i")
    subgoal by simp
    apply (simp del: go_wp_bind not_None_eq add: go_wp_bind [of "nodeNVMf_createTransport http"])
    apply (rule go_wp_mono [OF trans], assumption, simp, simp, use clear in \<open>simp add: nv_clear_def\<close>)
     apply (clarsimp simp del: go_wp_bind not_None_eq)
     apply (rule wp_nv_publish_subsystem_ok [OF _ ok a], assumption)
    using clear by (simp_all add: nv_clear_def)
qed

section \<open>Publishing over iSCSI\<close>

lemma wp_is_createPortalGroup_ok:
  assumes same: "is_same m n" and ok: "iscsi_ok http view m" and acc: "iscsi_accepts http (endpoint (is_client m)) view"
  shows "go_wp (nodeISCSI_createPortalGroup http) (\<lambda>e _. e = None) E (n, w)"
proof -
  have create: "go_wp (nodeISCSI_iscsiCreatePortalGroup http) Q E' (n', w')"
    if s: "is_same m n'" and none: "numberPortalGroupTag \<notin> tg_pgs (is_target view m w')"
      and Q: "\<And>n'' w''. Q None (n'', w'')" for Q E' n' w'
  proof -
    have "performs http (endpoint (is_client n')) view ''iscsi_create_portal_group''
        (tag_arg (is_targetAddr n') (is_targetPort n')) dec_bool False w' True
        ((is_target view n' w')\<lparr>tg_pgs := insert numberPortalGroupTag (tg_pgs (is_target view n' w'))\<rparr>)"
      using acc none unfolding iscsi_accepts_def is_sameD(2) [OF s ok] by blast
    then show ?thesis
      unfolding nodeISCSI_iscsiCreatePortalGroup_def go_wp_bind go_wp_is_self go_wp_zoom tag_arg_def [symmetric]
      by (rule wp_call_performs) (simp add: Q)
  qed
  show ?thesis
    unfolding nodeISCSI_createPortalGroup_def go_wp_bind
    by (rule wp_is_getPortalGroups [OF same ok]) (auto intro!: create)
qed

lemma wp_is_createInitiatorGroup_ok:
  assumes same: "is_same m n" and ok: "iscsi_ok http view m" and acc: "iscsi_accepts http (endpoint (is_client m)) view"
  shows "go_wp (nodeISCSI_createInitiatorGroup http) (\<lambda>e _. e = None) E (n, w)"
proof -
  have create: "go_wp (nodeISCSI_iscsiCreateInitiatorGroup http [''ANY''] [''ANY'']) Q E' (n', w')"
    if s: "is_same m n'" and none: "numberInitiatorGroupTag \<notin> tg_igs (is_target view m w')"
      and Q: "\<And>n'' w''. Q None (n'', w'')" for Q E' n' w'
  proof -
    have "performs http (endpoint (is_client n')) view ''iscsi_create_initiator_group'' initiators_arg dec_bool False w' True
        ((is_target view n' w')\<lparr>tg_igs := insert numberInitiatorGroupTag (tg_igs (is_target view n' w'))\<rparr>)"
      using acc none unfolding iscsi_accepts_def is_sameD(2) [OF s ok] by blast
    then show ?thesis
      unfolding nodeISCSI_iscsiCreateInitiatorGroup_def go_wp_bind go_wp_zoom list.map initiators_arg_def [symmetric]
      by (rule wp_call_performs) (simp add: Q)
  qed
  show ?thesis
    unfolding nodeISCSI_createInitiatorGroup_def go_wp_bind
    by (rule wp_is_getInitiatorGroups [OF same ok]) (auto intro!: create)
qed

lemma wp_is_createTargetNode_ok:
  assumes same: "is_same m n" and ok: "iscsi_ok http view m" and acc: "iscsi_accepts http (endpoint (is_client m)) view"
    and none: "i \<notin> tg_tnodes (is_target view m w)"
  shows "go_wp (nodeISCSI_iscsiCreateTargetNode http i i) (\<lambda>e _. e = None) E (n, w)"
proof -
  have "performs http (endpoint (is_client n)) view ''iscsi_create_target_node'' (Some (createTargetNode_params i i)) dec_bool False w
      True ((is_target view n w)\<lparr>tg_tnodes := insert i (tg_tnodes (is_target view n w))\<rparr>)"
    using acc none unfolding iscsi_accepts_def is_sameD(2) [OF same ok] by blast
  then show ?thesis
    unfolding nodeISCSI_iscsiCreateTargetNode_def go_wp_bind go_wp_zoom
    by (rule wp_call_performs) simp
qed

definition is_accepts :: "'w http \<Rightarrow> ('w \<Rightarrow> endpoint \<Rightarrow> target) \<Rightarrow> nodeISCSI \<Rightarrow> bool" where
  "is_accepts http view n \<longleftrightarrow>
     lvol_accepts http (endpoint (is_client n)) view \<and> iscsi_accepts http (endpoint (is_client n)) view"

lemma wp_is_PublishVolume_ok:
  assumes ok: "iscsi_ok http view n" and acc: "is_accepts http view n"
    and vol: "tg_bdev (is_target view n w) i \<noteq> None"
  shows "go_wp (nodeISCSI_PublishVolume http i) (\<lambda>e _. e = None) E (n, w)"
proof -
  have a: "iscsi_accepts http (endpoint (is_client n)) view" using acc by (simp add: is_accepts_def)
  let ?T = "tg_tnodes (is_target view n w)"
  have pg: "go_wp (nodeISCSI_createPortalGroup http) (\<lambda>e (n', w'). e = None \<and> is_same n n' \<and>
      tg_tnodes (is_target view n w') = ?T) E' (n1, w1)"
    if s: "is_same n n1" and t: "tg_tnodes (is_target view n w1) = ?T" for n1 w1 E'
  proof -
    have "go_wp (nodeISCSI_createPortalGroup http) (\<lambda>_ (n', w'). is_same n n' \<and> tg_tnodes (is_target view n w') = ?T) E' (n1, w1)"
      by (rule wp_is_createPortalGroup [OF s ok]) (use t in simp)
    from go_wp_conj [OF wp_is_createPortalGroup_ok [OF s ok a] this] show ?thesis by (rule go_wp_mono) auto
  qed
  have ig: "go_wp (nodeISCSI_createInitiatorGroup http) (\<lambda>e (n', w'). e = None \<and> is_same n n' \<and>
      tg_tnodes (is_target view n w') = ?T) E' (n1, w1)"
    if s: "is_same n n1" and t: "tg_tnodes (is_target view n w1) = ?T" for n1 w1 E'
  proof -
    have "go_wp (nodeISCSI_createInitiatorGroup http) (\<lambda>_ (n', w'). is_same n n' \<and> tg_tnodes (is_target view n w') = ?T) E' (n1, w1)"
      by (rule wp_is_createInitiatorGroup [OF s ok]) (use t in simp)
    from go_wp_conj [OF wp_is_createInitiatorGroup_ok [OF s ok a] this] show ?thesis by (rule go_wp_mono) auto
  qed
  show ?thesis
    unfolding nodeISCSI_PublishVolume_def go_wp_bind
    apply (rule wp_is_isVolumeCreated [OF is_same_refl ok])
    apply (simp add: vol del: not_None_eq)
    apply (rule wp_is_isVolumePublished [OF _ ok], assumption)
    apply (cases "i \<in> ?T")
    subgoal by simp
    apply simp
    apply (rule go_wp_mono [OF pg], assumption, simp)
     apply clarsimp
     apply (rule go_wp_mono [OF ig], assumption, simp)
      apply clarsimp
      apply (rule go_wp_mono [OF wp_is_createTargetNode_ok [OF _ ok a]], assumption)
    by simp_all
qed

section \<open>The contract\<close>

text \<open>
  \<open>clear\<close>: nothing left from an earlier life of the volume ID stands in the way of publishing it.
\<close>

locale accepting_node = volume_node +
  fixes accepts and clear
  assumes create_ok: "\<lbrakk>conforms http view n; accepts http view n; tg_bdev (view w (ep n)) (lvol_alias lvs name) = None;
        has_space (view w (ep n)) lvs sz\<rbrakk> \<Longrightarrow> go_wp (create http name lvs sz) (\<lambda>r _. snd r = None) E (n, w)"
    and publish_ok: "\<lbrakk>conforms http view n; accepts http view n; tg_bdev (view w (ep n)) i \<noteq> None;
        clear n (view w (ep n)) i\<rbrakk> \<Longrightarrow> go_wp (publish http i) (\<lambda>e _. e = None) E (n, w)"
begin

lemma create_made:
  assumes c: "conforms http view n" and a: "accepts http view n"
    and free: "tg_bdev (view w (ep n)) (lvol_alias lvs name) = None" and space: "has_space (view w (ep n)) lvs sz"
    and Q: "\<And>b n' w'. same n n' \<Longrightarrow> new_lvol lvs (view w (ep n)) b \<Longrightarrow>
      view w' = (view w)(ep n := add_bdev (lvol_alias lvs name) b (view w (ep n))) \<Longrightarrow> Q (bd_UUID b, None) (n', w')"
  shows "go_wp (create http name lvs sz) Q E (n, w)"
proof -
  have "go_wp (create http name lvs sz) (\<lambda>r (n', w'). \<exists>t'. same n n' \<and> view w' = (view w)(ep n := t') \<and>
      create_spec lvs name (view w (ep n)) r t') E (n, w)"
    by (rule create_wp [OF c]) auto
  from go_wp_conj [OF create_ok [OF c a free space] this] show ?thesis
    by (rule go_wp_mono) (use free Q in \<open>auto simp: create_spec_def\<close>)
qed

lemma publish_made:
  assumes c: "conforms http view n" and a: "accepts http view n"
    and vol: "tg_bdev (view w (ep n)) i \<noteq> None" and clear: "clear n (view w (ep n)) i"
    and Q: "\<And>t' n' w'. same n n' \<Longrightarrow> view w' = (view w)(ep n := t') \<Longrightarrow>
      publish_spec (pub n) (srv n) i (view w (ep n)) None t' \<Longrightarrow> Q None (n', w')"
  shows "go_wp (publish http i) Q E (n, w)"
proof -
  have "go_wp (publish http i) (\<lambda>e (n', w'). \<exists>t'. same n n' \<and> view w' = (view w)(ep n := t') \<and>
      publish_spec (pub n) (srv n) i (view w (ep n)) e t') E (n, w)"
    by (rule publish_wp [OF c]) auto
  from go_wp_conj [OF publish_ok [OF c a vol clear] this] show ?thesis
    by (rule go_wp_mono) (use Q in auto)
qed

end

interpretation nva: accepting_node nv_conforms "\<lambda>n. endpoint (nv_client n)" nv_same nv_published nv_serves nv_info
  nodeNVMf_LvStores nodeNVMf_GetVolume nodeNVMf_CreateVolume nodeNVMf_CloneVolume nodeNVMf_CreateSnapshot
  nodeNVMf_DeleteVolume nodeNVMf_PublishVolume nodeNVMf_UnpublishVolume nodeNVMf_VolumeInfo nv_accepts nv_clear
proof (unfold_locales, goal_cases)
  case (1 http view n w lvs name sz E)
  then show ?case unfolding nodeNVMf_CreateVolume_def
    by (intro nv_lvol.wp_create_ok [where view = view]) (auto simp: nv_conforms_def nv_accepts_def)
next
  case (2 http view n w i E)
  then show ?case by (intro wp_nv_PublishVolume_ok [where view = view]) (auto simp: nv_conforms_def)
qed

interpretation isa: accepting_node is_conforms "\<lambda>n. endpoint (is_client n)" is_same is_published is_published is_info
  nodeISCSI_LvStores nodeISCSI_GetVolume nodeISCSI_CreateVolume nodeISCSI_CloneVolume nodeISCSI_CreateSnapshot
  nodeISCSI_DeleteVolume nodeISCSI_PublishVolume nodeISCSI_UnpublishVolume nodeISCSI_VolumeInfo is_accepts "\<lambda>_ _ _. True"
proof (unfold_locales, goal_cases)
  case (1 http view n w lvs name sz E)
  then show ?case unfolding nodeISCSI_CreateVolume_def
    by (intro is_lvol.wp_create_ok [where view = view]) (auto simp: is_conforms_def is_accepts_def)
next
  case (2 http view n w i E)
  then show ?case by (intro wp_is_PublishVolume_ok [where view = view]) (auto simp: is_conforms_def)
qed

fun sn_accepts :: "'w http \<Rightarrow> ('w \<Rightarrow> endpoint \<Rightarrow> target) \<Rightarrow> SpdkNode option \<Rightarrow> bool" where
  "sn_accepts http view None = False"
| "sn_accepts http view (Some (NodeNVMf x)) = nv_accepts http view x"
| "sn_accepts http view (Some (NodeISCSI x)) = is_accepts http view x"

fun sn_clear :: "SpdkNode option \<Rightarrow> target \<Rightarrow> string \<Rightarrow> bool" where
  "sn_clear (Some (NodeNVMf x)) t i = nv_clear x t i"
| "sn_clear _ t i = True"

interpretation sna: accepting_node sn_conforms sn_endpoint sn_same sn_published sn_serves sn_info
  SpdkNode_LvStores SpdkNode_GetVolume SpdkNode_CreateVolume SpdkNode_CloneVolume SpdkNode_CreateSnapshot
  SpdkNode_DeleteVolume SpdkNode_PublishVolume SpdkNode_UnpublishVolume SpdkNode_VolumeInfo sn_accepts sn_clear
proof (unfold_locales, goal_cases)
  case (1 http view n w lvs name sz E)
  then show ?case unfolding SpdkNode_CreateVolume_def
    by (cases rule: sn_cases; simp add: wp_dispatch; intro nva.create_made isa.create_made; simp)
next
  case (2 http view n w i E)
  then show ?case unfolding SpdkNode_PublishVolume_def
    by (cases rule: sn_cases; simp add: wp_dispatch; intro nva.publish_made isa.publish_made; simp)
qed

end
