(* ===== verification/Progress_Props.thy ===== *)
theory Progress_Props
  imports Controller_Props Node_Progress
begin

text \<open>
  That requests succeed: on a cluster whose targets accept what they can serve, \<open>CreateVolume\<close> makes
  and publishes a volume whenever some lvstore has enough free space.
\<close>

section \<open>The steps\<close>

lemma sn_info_cong:
  assumes "tg_bdev t' = tg_bdev t" and "tg_lvstores t' = tg_lvstores t"
  shows "sn_info n t' i = sn_info n t i"
  using assms
  by (cases n rule: sn_info.cases) (simp_all add: nv_info_def is_info_def lvstore_of_def cong: option.case_cong)

lemma wp_ctl_publishVolume_ok:
  assumes vol: "getSPDKVol volumeID = Inr \<lparr>sv_lvolID = i, sv_nodeName = k\<rparr>"
    and ok: "node_ready http view cs secrets k" and n: "n = node_of cs secrets k" and acc: "sn_accepts http view n"
    and bdev: "tg_bdev (node_target view n w) i \<noteq> None" and clear: "sn_clear n (node_target view n w) i"
    and info: "snd (sn_info n (node_target view n w) i) = None"
  shows "go_wp (controllerServer_publishVolume http cs volumeID secrets) (\<lambda>r _. snd r = None) E w"
proof -
  have okn: "sn_conforms http view n" using ok n by simp
  have vi: "go_wp (SpdkNode_VolumeInfo http i) (\<lambda>r _. snd r = None) E' (n', w')"
    if "sn_same n n'" "view w' = (view w)(sn_endpoint n := t')"
      "publish_spec (sn_published n) (sn_serves n) i (node_target view n w) None t'" for n' w' t' E'
    by (rule sn.volinfo_wp [OF sn.same_conforms [OF that(1) okn]])
      (use that info in \<open>simp add: sn.same_ep sn.same_info sn_info_cong [of t' "node_target view n w"] publish_spec_def\<close>)
  show ?thesis
    unfolding controllerServer_publishVolume_def vol
    apply (simp add: getSpdkNode_ready [OF ok] n [symmetric])
    apply (rule sna.publish_made [OF okn acc bdev clear])
    apply simp
    apply (rule go_wp_mono [OF vi], assumption+)
     apply auto
    done
qed

text \<open>Where a volume without a source is made, and that it is made there.\<close>

lemma wp_ctl_createVolume_made:
  assumes ok: "cs_ready http view cs (cv_Secrets req)" and src: "cv_ContentSource req = None"
    and none: "find_in_nodes view w cs (cv_Secrets req) (cv_Name req) (keys_in cs ord1) = None"
    and place: "find_space view w cs (cv_Secrets req) (ToMiB (request_size req)) (keys_in cs ord2) = Some (k, lvs)"
    and n: "n = node_of cs (cv_Secrets req) k" and t: "t = node_target view n w" and acc: "sn_accepts http view n"
    and free: "tg_bdev t (lvol_alias lvs (cv_Name req)) = None" and pos: "0 < sint (ToMiB (request_size req))"
    and Q: "\<And>b w'. new_lvol lvs t b \<Longrightarrow> view w' = (view w)(sn_endpoint n := add_bdev (lvol_alias lvs (cv_Name req)) b t) \<Longrightarrow>
       Q (Inr (volume_of req (k, bd_UUID b))) w'"
  shows "go_wp (controllerServer_createVolume http ord1 ord2 cs req) Q E w"
proof -
  note D = cs_readyD [OF ok]
  let ?sz = "ToMiB (request_size req)"
  have k: "k \<in> set (keys_in cs ord2)" and l: "\<exists>l \<in> set (stores_of t). lvs_Name l = lvs \<and> sint (FreeSizeMiB l) > sint ?sz"
    using find_space_mem [OF place] n t by simp_all
  then have okn: "node_ready http view cs (cv_Secrets req) k" using D(2) by (auto simp: keys_in_mem)
  have space: "has_space t lvs ?sz" using l pos by (auto simp: has_space_def LvStore_of_reply_def)
  have fs: "find_space view w1 cs (cv_Secrets req) ?sz ks = find_space view w cs (cv_Secrets req) ?sz ks"
    if "view w1 = view w" for w1 ks using that by (induction ks) (simp_all split: option.split)
  have make: "go_wp (SpdkNode_CreateVolume http (cv_Name req) lvs ?sz) Q' E' (n, w2)"
    if v: "view w2 = view w" and "\<And>b n' w'. new_lvol lvs t b \<Longrightarrow>
        view w' = (view w)(sn_endpoint n := add_bdev (lvol_alias lvs (cv_Name req)) b t) \<Longrightarrow> Q' (bd_UUID b, None) (n', w')"
    for Q' E' w2
    by (rule sna.create_made [OF okn [folded n] acc]) (use that free space t in simp_all)
  show ?thesis
    unfolding controllerServer_createVolume_def Let_def go_wp_bind
    apply (rule wp_getVolume_nodes [OF D(2) D(1)], assumption)
    apply (simp add: none src)
    apply (rule wp_schedule [OF D(2) D(1)], assumption)
    apply (simp add: fs place getSpdkNode_ready [OF okn] n [symmetric])
    apply (rule make, simp)
    using Q src by (simp add: volume_of_def)
qed

text \<open>Space is found when one of the configured nodes has it.\<close>

lemma find_space_complete:
  assumes "k0 \<in> set ks" and "l \<in> set (stores_of (node_target view (node_of cs secrets k0) w))"
    and "sint (FreeSizeMiB l) > sint sz"
  shows "\<exists>p. find_space view w cs secrets sz ks = Some p"
  using assms(1)
proof (induction ks)
  case (Cons k ks)
  show ?case
  proof (cases "find (\<lambda>l. sint (FreeSizeMiB l) > sint sz) (stores_of (node_target view (node_of cs secrets k) w))")
    case None
    with assms(2,3) have "k \<noteq> k0" unfolding find_None_iff by blast
    with Cons None show ?thesis by simp
  qed simp
qed simp

lemma sn_clear_bdev [simp]: "sn_clear n (add_bdev a b t) i = sn_clear n t i"
  by (cases "(n, t, i)" rule: sn_clear.cases) (simp_all add: nv_clear_def nv_transport_ready_def add_bdev_def nv_published_def cong: option.case_cong)

lemma sn_info_new:
  assumes "sn_conforms http view n" and "new_lvol lvs t b"
  shows "snd (sn_info n (add_bdev a b t) (bd_UUID b)) = None"
proof -
  have "\<exists>l. lvstore_of (add_bdev a b t) (bd_UUID b) = (l, None)"
    using assms(2) by (auto simp: new_lvol_def lvstore_of_def add_bdev_def find_None_iff split: option.split)
  with sn_info_lvstore [OF assms(1), of "add_bdev a b t" "bd_UUID b"] show ?thesis by auto
qed

section \<open>A volume is made\<close>

text \<open>
  What a node can serve: its name can be part of a volume ID, its target accepts, no subsystem is
  left of a volume that does not exist, and a transport that the node believes to be there is there.
\<close>

definition node_accepts :: "'w http \<Rightarrow> ('w \<Rightarrow> endpoint \<Rightarrow> target) \<Rightarrow> controllerServer \<Rightarrow> smap \<Rightarrow> 'w \<Rightarrow> string \<Rightarrow> bool" where
  "node_accepts http view cs secrets w k \<longleftrightarrow> plain k \<and> sn_accepts http view (node_of cs secrets k) \<and>
     (\<forall>i. tg_bdev (node_target view (node_of cs secrets k) w) i = None \<longrightarrow>
        sn_clear (node_of cs secrets k) (node_target view (node_of cs secrets k) w) i)"

lemma wp_CreateVolume_made:
  assumes ready: "cs_ready http view cs (cv_Secrets req)" and src: "cv_ContentSource req = None"
    and free: "\<not> lock_held m (cv_Name req)" and ord: "complete_order cs ord1" "complete_order cs ord2"
    and new: "volumes_named (view w) cs (cv_Secrets req) (cv_Name req) = {}"
    and acc: "\<And>k. k \<in> dom (spdkNodeConfigs cs) \<Longrightarrow> node_accepts http view cs (cv_Secrets req) w k"
    and pos: "0 < sint (ToMiB (request_size req))" and k0: "k0 \<in> dom (spdkNodeConfigs cs)"
    and space: "l \<in> set (stores_of (node_target view (node_of cs (cv_Secrets req) k0) w))"
      "sint (FreeSizeMiB l) > sint (ToMiB (request_size req))"
  shows "go_wp (controllerServer_CreateVolume http ord1 ord2 cs req) (\<lambda>res _. \<exists>vol. res = Inr vol) (\<lambda>_ _. False) (m, w)"
proof -
  have none: "find_in_nodes view w cs (cv_Secrets req) (cv_Name req) (keys_in cs ord1) = None"
    using new unfolding find_in_nodes_complete [OF ord(1)] .
  have "k0 \<in> set (keys_in cs ord2)" using k0 ord(2) by (auto simp: keys_in_mem complete_order_def)
  from find_space_complete [where view = view and w = w and cs = cs and secrets = "cv_Secrets req", OF this space] obtain k lvs where
    place: "find_space view w cs (cv_Secrets req) (ToMiB (request_size req)) (keys_in cs ord2) = Some (k, lvs)" by auto
  let ?n = "node_of cs (cv_Secrets req) k" let ?t = "node_target view ?n w"
  from find_space_mem [OF place] have k: "k \<in> dom (spdkNodeConfigs cs)" and l: "\<exists>l \<in> set (tg_lvstores ?t). lr_Name l = lvs"
    by (auto simp: keys_in_mem LvStore_of_reply_def)
  have okn: "node_ready http view cs (cv_Secrets req) k" using ready k by (auto simp: cs_ready_def)
  note a = acc [OF k, unfolded node_accepts_def]
  have "\<not> has_volume ?t (cv_Name req) i" for i using new k by (auto simp: volumes_named_def simp del: domIff)
  with l have unnamed: "tg_bdev ?t (lvol_alias lvs (cv_Name req)) = None" by (auto simp: has_volume_def) (metis option.exhaust)
  have publish: "go_wp (controllerServer_publishVolume http cs (k @ '':'' @ bd_UUID b) (cv_Secrets req))
      (\<lambda>r _. snd r = None) E w1"
    if b: "new_lvol lvs ?t b" and w1: "view w1 = (view w)(sn_endpoint ?n := add_bdev (lvol_alias lvs (cv_Name req)) b ?t)"
    for b w1 E
  proof (rule wp_ctl_publishVolume_ok [OF _ okn refl])
    show "getSPDKVol (k @ '':'' @ bd_UUID b) = Inr \<lparr>sv_lvolID = bd_UUID b, sv_nodeName = k\<rparr>"
      using a b by (intro getSPDKVol_id) (simp_all add: new_lvol_def plain_def)
    show "snd (sn_info ?n (node_target view ?n w1) (bd_UUID b)) = None" by (simp add: w1 sn_info_new [OF okn b])
    show "tg_bdev (node_target view ?n w1) (bd_UUID b) \<noteq> None" by (simp add: w1 add_bdev_def)
    show "sn_clear ?n (node_target view ?n w1) (bd_UUID b)" using a b by (simp add: w1 new_lvol_def)
  qed (use a in simp)
  show ?thesis
    unfolding controllerServer_CreateVolume_def
    apply (rule wp_with_volume_lock [OF free])
    apply (simp only: go_wp_bind)
    apply (rule wp_ctl_createVolume_made [OF ready src none place refl refl _ unnamed pos])
    subgoal using a by simp
    apply (simp only: sum.case volume_of_sel go_wp_bind)
    apply (rule go_wp_mono [OF publish], assumption+)
     apply (auto split: prod.splits)
    done
qed

text \<open>
  C8: CreateVolume succeeds: on a controller whose nodes are ready and accept what they can serve
  (over NVMe-oF a listener only when the transport has been created), with a free volume lock and
  an unused name, a request without a content source returns a volume whenever the size it asks
  for is positive and some lvstore of some configured node has more free space, whatever the
  iteration orders over the nodes; the volume exists, is published and has the properties of C1,
  and its UUID denoted nothing before.
\<close>

theorem CreateVolume_succeeds:
  assumes ready: "cs_ready http view cs (cv_Secrets req)" and src: "cv_ContentSource req = None"
    and free: "\<not> lock_held m (cv_Name req)" and ord: "complete_order cs ord1" "complete_order cs ord2"
    and new: "volumes_named (view w) cs (cv_Secrets req) (cv_Name req) = {}"
    and acc: "\<And>k. k \<in> dom (spdkNodeConfigs cs) \<Longrightarrow> node_accepts http view cs (cv_Secrets req) w k"
    and pos: "0 < sint (ToMiB (request_size req))" and k0: "k0 \<in> dom (spdkNodeConfigs cs)"
    and space: "l \<in> set (stores_of (node_target view (node_of cs (cv_Secrets req) k0) w))"
      "sint (FreeSizeMiB l) > sint (ToMiB (request_size req))"
  shows "\<exists>vol m' w' k i. controllerServer_CreateVolume http ord1 ord2 cs req (m, w) = (Ret (Inr vol), m', w') \<and>
     (\<forall>j. lock_held m' j = lock_held m j) \<and> k \<in> dom (spdkNodeConfigs cs) \<and> volume_served (view w') cs req vol k i \<and>
     tg_bdev (node_target view (node_of cs (cv_Secrets req) k) w) i = None"
proof -
  obtain vol m' w' where run: "controllerServer_CreateVolume http ord1 ord2 cs req (m, w) = (Ret (Inr vol), m', w')"
    using go_wp_runD [OF wp_CreateVolume_made [OF assms(1-7) pos k0 space]] by auto
  obtain spec: "ctl_CreateVolume_spec (may_refuse http view) view cs req (keys_in cs ord1) (keys_in cs ord2) w (Inr vol) (view w')"
      and locks: "\<forall>j. lock_held m' j = lock_held m j"
    by (rule CreateVolume_runs [OF ready source_ok_None [OF src] free, of ord1 ord2 w]) (use run in auto)
  then obtain k i v where c: "ctl_create_spec view cs req (keys_in cs ord1) (keys_in cs ord2) w (Inr (k, i)) v"
      and f: "ctl_finish_spec (may_refuse http view) cs req k i v (Inr vol) (view w')"
    by (cases rule: ctl_CreateVolume_specE) auto
  obtain "k \<in> dom (spdkNodeConfigs cs)" "tg_bdev (node_target view (node_of cs (cv_Secrets req) k) w) i = None"
    by (rule ctl_create_new_cases [OF c ord(1) new]) (auto simp: new_lvol_def simp del: domIff)
  with run locks finish_served [OF c f] show ?thesis by blast
qed

section \<open>The executable targets accept\<close>

lemma sim_lvol_accepts: "lvol_accepts sim_http ep sim_view"
  unfolding lvol_accepts_def
proof (intro allI impI)
  fix w :: sim_world and name lvs sz assume "has_space (sim_view w ep) lvs sz"
  then have "find (\<lambda>l. lr_Name l = lvs) (sm_stores (w ep)) \<noteq> None" by (auto simp: has_space_def find_None_iff)
  then obtain l where l: "find (\<lambda>l. lr_Name l = lvs) (sm_stores (w ep)) = Some l" by auto
  from find_storeD [OF l] show "\<exists>b. new_lvol lvs (sim_view w ep) b \<and>
      performs sim_http ep sim_view ''bdev_lvol_create'' (Some (createVolume_params name lvs sz)) dec_string [] w
        (bd_UUID b) (add_bdev (lvol_alias lvs name) b (sim_view w ep))"
    by (intro sim_new_performs [where l = l]) (simp_all add: sim_run createVolume_params_def jint_def l)
qed

lemma sim_nvmf_accepts: "nvmf_accepts sim_http ep sim_view"
  unfolding nvmf_accepts_def
proof (intro conjI allI impI)
  fix w :: sim_world and tr
  show "performs sim_http ep sim_view ''nvmf_create_transport'' (Some (JObj [(''trtype'', JStr tr)])) dec_any () w ()
      ((sim_view w ep)\<lparr>tg_transports := insert tr (tg_transports (sim_view w ep))\<rparr>) \<or>
      tr \<in> tg_transports (sim_view w ep) \<and> (\<exists>msg. strings_Contains msg ''already exists'' \<and>
         refuses sim_http ep sim_view ''nvmf_create_transport'' (Some (JObj [(''trtype'', JStr tr)])) w msg)"
  proof (cases "tr \<in> set (sm_trans (w ep))")
    case True
    then have "refuses sim_http ep sim_view ''nvmf_create_transport'' (Some (JObj [(''trtype'', JStr tr)])) w ''already exists''"
      by (intro sim_refuses [where code = "- 32602"]) (simp_all add: sim_run)
    moreover have "strings_Contains ''already exists'' ''already exists''" by simp
    ultimately show ?thesis using True by auto
  next
    case False
    then show ?thesis
      by (intro disjI1 sim_performs [where s = "(w ep)\<lparr>sm_trans := tr # sm_trans (w ep)\<rparr>" and r = "JBool True"])
        (simp_all add: sim_run dec_any_def sim_target_def)
  qed
next
  fix w :: sim_world and i
  let ?n = "nodeNVMf_getVolumeNqn i" and ?x = "\<lparr>sub_ns = [], sub_listeners = []\<rparr>"
  assume "tg_subs (sim_view w ep) ?n = None"
  then show "performs sim_http ep sim_view ''nvmf_create_subsystem'' (subsystem_arg i) dec_any () w ()
      (set_sub ?n (Some ?x) (sim_view w ep))"
    by (intro sim_performs [where s = "put_sub ?n ?x (w ep)" and r = "JBool True"])
      (simp_all add: sim_run dec_any_def subsystem_arg_def put_sub_target)
next
  fix w :: sim_world and nqn bdev s assume s: "tg_subs (sim_view w ep) nqn = Some s" "sub_ns s = []"
  let ?s = "put_sub nqn (s\<lparr>sub_ns := [\<lparr>NSID = 1, BdevName = bdev\<rparr>]\<rparr>) (w ep)"
  have "dec_int64 (jint 1) 0 = (1, None)" by (simp add: dec_int64_jint)
  with s show "\<exists>v. performs sim_http ep sim_view ''nvmf_subsystem_add_ns'' (add_ns_arg nqn bdev) dec_int64 0 w v
      (set_sub nqn (Some (s\<lparr>sub_ns := [\<lparr>NSID = v, BdevName = bdev\<rparr>]\<rparr>)) (sim_view w ep))"
    by (intro exI [where x = 1] sim_performs [where s = ?s and r = "jint 1"])
      (simp_all add: sim_run add_ns_arg_def put_sub_target)
next
  fix w :: sim_world and nqn s and a :: listen_address
  assume s: "tg_subs (sim_view w ep) nqn = Some s" "TrType a \<in> tg_transports (sim_view w ep)"
  let ?s = "put_sub nqn (s\<lparr>sub_listeners := sub_listeners s @ [a]\<rparr>) (w ep)"
  from s show "performs sim_http ep sim_view ''nvmf_subsystem_add_listener'' (listener_arg nqn a) dec_any () w ()
      (set_sub nqn (Some (s\<lparr>sub_listeners := sub_listeners s @ [a]\<rparr>)) (sim_view w ep))"
    by (cases a, intro sim_performs [where s = ?s and r = "JBool True"])
      (simp_all add: sim_run listener_arg_def dec_any_def put_sub_target)
qed

lemma sim_iscsi_accepts: "iscsi_accepts sim_http ep sim_view"
  unfolding iscsi_accepts_def
proof (intro conjI allI impI)
  fix w :: sim_world and host port
  show "performs sim_http ep sim_view ''iscsi_create_portal_group'' (tag_arg host port) dec_bool False w True
      ((sim_view w ep)\<lparr>tg_pgs := insert numberPortalGroupTag (tg_pgs (sim_view w ep))\<rparr>)"
    by (rule sim_performs [where s = "(w ep)\<lparr>sm_pgs := 1 # sm_pgs (w ep)\<rparr>" and r = "JBool True"])
      (simp_all add: sim_run tag_arg_def sim_target_def numberPortalGroupTag_def)
next
  fix w :: sim_world
  show "performs sim_http ep sim_view ''iscsi_create_initiator_group'' initiators_arg dec_bool False w True
      ((sim_view w ep)\<lparr>tg_igs := insert numberInitiatorGroupTag (tg_igs (sim_view w ep))\<rparr>)"
    by (rule sim_performs [where s = "(w ep)\<lparr>sm_igs := 1 # sm_igs (w ep)\<rparr>" and r = "JBool True"])
      (simp_all add: sim_run initiators_arg_def sim_target_def numberInitiatorGroupTag_def)
next
  fix w :: sim_world and i
  show "performs sim_http ep sim_view ''iscsi_create_target_node'' (Some (createTargetNode_params i i)) dec_bool False w True
      ((sim_view w ep)\<lparr>tg_tnodes := insert i (tg_tnodes (sim_view w ep))\<rparr>)"
    by (rule sim_performs [where s = "(w ep)\<lparr>sm_tnodes := i # sm_tnodes (w ep)\<rparr>" and r = "JBool True"])
      (simp_all add: sim_run createTargetNode_params_def sim_target_def)
qed

lemma demo_transport: "nv_transport_ready demo_nvmf t"
  by (simp add: nv_transport_ready_def demo_nvmf_def newNVMf_def)

lemma demo_accepts:
  assumes "k \<in> dom (spdkNodeConfigs demo_cs)"
  shows "node_accepts sim_http sim_view demo_cs demo_secrets demo_world k"
proof -
  from assms have "k = ''n1'' \<or> k = ''n2''" unfolding dom_demo by simp
  then show ?thesis
    by (auto simp: node_accepts_def plain_def node_of_demo nv_accepts_def is_accepts_def sim_lvol_accepts sim_nvmf_accepts
        sim_iscsi_accepts nv_clear_def demo_transport demo_world_def demo_sim_def)
qed

theorem CreateVolume_succeeds_witness:
  "\<exists>vol m' w' k i. controllerServer_CreateVolume sim_http [''n1'', ''n2''] [''n1'', ''n2''] demo_cs demo_req
       (NewVolumeLocks, demo_world) = (Ret (Inr vol), m', w') \<and>
     volume_served (sim_view w') demo_cs demo_req vol k i"
proof -
  have store: "LvStore_of_reply demo_store \<in> set (stores_of (node_target sim_view (node_of demo_cs (cv_Secrets demo_req) ''n2'') demo_world))"
    by (simp add: demo_world_def demo_sim_def)
  have space: "sint (FreeSizeMiB (LvStore_of_reply demo_store)) > sint (ToMiB (request_size demo_req))"
      and pos: "0 < sint (ToMiB (request_size demo_req))"
    unfolding demo_req_sel by (simp_all add: LvStore_of_reply_def demo_store_def ToMiB_def div64_def)
  have k: "''n2'' \<in> dom (spdkNodeConfigs demo_cs)" unfolding dom_demo by simp
  show ?thesis
    using CreateVolume_succeeds [where view = sim_view and http = sim_http and m = NewVolumeLocks and req = demo_req,
        OF _ _ _ demo_complete demo_complete _ _ pos k store space] demo_ready demo_new demo_accepts
    by (simp only: demo_req_sel lock_held_simps not_False_eq_True simp_thms) blast
qed

end
