(* ===== verification/Lock_Props.thy ===== *)
theory Lock_Props
  imports Vol_Locks
begin

text \<open>
  The volume locks under concurrent requests: a lock is held exactly while one thread is inside, and
  the threads never all wait for each other.
\<close>

text \<open>A run of two threads that ask for the same lock, of which the first has got it.\<close>

definition demo_threads :: "bool \<Rightarrow> string pc" where
  "demo_threads = (\<lambda>t. if t then Inside ''v'' else Waiting ''v'')"

lemma demo_reach:
  "lock_reach LoadOrStore VolumeLocks_Lock VolumeLocks_unlock NewVolumeLocks ([''v'' \<mapsto> True], demo_threads)"
proof -
  let ?reach = "lock_reach LoadOrStore VolumeLocks_Lock VolumeLocks_unlock NewVolumeLocks"
  have "?reach (NewVolumeLocks, \<lambda>_::bool. Outside)" by (rule lock_reach.start)
  then have "?reach (LoadOrStore ''v'' NewVolumeLocks, (\<lambda>_. Outside)(True := Waiting ''v''))"
    by (rule lock_reach.step) (rule lock_step.request, simp)
  then have "?reach (LoadOrStore ''v'' (LoadOrStore ''v'' NewVolumeLocks),
      (\<lambda>_. Outside)(True := Waiting ''v'', False := Waiting ''v''))"
    by (rule lock_reach.step) (rule lock_step.request, simp)
  then have "?reach ([''v'' \<mapsto> True], (\<lambda>_. Outside)(True := Waiting ''v'', False := Waiting ''v'', True := Inside ''v''))"
    by (rule lock_reach.step)
      (rule lock_step.enter [where k = "''v''"],
        simp_all add: VolumeLocks_Lock_def LoadOrStore_def NewVolumeLocks_def lock_held_def)
  moreover have "(\<lambda>_. Outside)(True := Waiting ''v'', False := Waiting ''v'', True := Inside ''v'') = demo_threads"
    by (auto simp: demo_threads_def fun_eq_iff)
  ultimately show ?thesis by simp
qed

text \<open>
  C18: In every reachable state of concurrent requests, the lock of a volume ID is held exactly
  when some thread is inside its critical section, and at most one thread is.
\<close>

theorem VolumeLocks_invariant:
  assumes "lock_reach LoadOrStore VolumeLocks_Lock VolumeLocks_unlock NewVolumeLocks (m, pcs)"
  shows "(\<forall>k. lock_held m k \<longleftrightarrow> (\<exists>t. pcs t = Inside k)) \<and>
     (\<forall>t u k. pcs t = Inside k \<and> pcs u = Inside k \<longrightarrow> t = u)"
  using vl.reach_invariant [OF assms] by auto

theorem VolumeLocks_invariant_witness:
  "lock_held [''v'' \<mapsto> True] ''v'' \<and> demo_threads True = Inside ''v'' \<and> demo_threads False \<noteq> Inside ''v''"
proof -
  note inv = VolumeLocks_invariant [OF demo_reach]
  have "demo_threads True = Inside ''v''" by (simp add: demo_threads_def)
  with inv show ?thesis by (metis (full_types))
qed

text \<open>
  C19: No deadlock: in every reachable state in which some thread waits or is inside, one of these
  threads can take a step.
\<close>

theorem VolumeLocks_progress:
  assumes "lock_reach LoadOrStore VolumeLocks_Lock VolumeLocks_unlock NewVolumeLocks (m, pcs)"
    and "pcs t \<noteq> Outside"
  shows "\<exists>u s'. pcs u \<noteq> Outside \<and> lock_step LoadOrStore VolumeLocks_Lock VolumeLocks_unlock (m, pcs) s' \<and> snd s' u \<noteq> pcs u"
  by (rule vl.progress [OF assms(1) _ assms(2)]) simp

theorem VolumeLocks_progress_witness:
  "\<exists>u s'. demo_threads u \<noteq> Outside \<and>
     lock_step LoadOrStore VolumeLocks_Lock VolumeLocks_unlock ([''v'' \<mapsto> True], demo_threads) s' \<and> snd s' u \<noteq> demo_threads u"
  by (rule VolumeLocks_progress [OF demo_reach, of False]) (simp add: demo_threads_def)

end
