(* ===== verification/Go_Os.thy ===== *)
theory Go_Os
  imports Go_Json "HOL-Library.List_Lexorder" "HOL-Library.Char_ord"
begin

text \<open>
  The operating system the node side runs on, and what the sources use of Go's \<open>path/filepath\<close>,
  \<open>fmt\<close>, \<open>regexp\<close> and \<open>encoding/json\<close> there. The system calls are a parameter: a record of functions
  on the world \<open>'w\<close>, each of which may answer anything and change the world, as devices and files
  come and go while the driver runs. Go's maps of strings are association lists here, so that
  their text can be written.
\<close>

section \<open>System calls\<close>

type_synonym ('w, 'a) sys = "'w \<Rightarrow> 'a \<times> 'w"

definition go_call :: "('w, 'a) sys \<Rightarrow> ('w, 'a) go" where
  "go_call f = (\<lambda>w. case f w of (x, w') \<Rightarrow> (Ret x, w'))"

lemma go_wp_call [go_wp_simps, simp]: "go_wp (go_call f) Q E w = Q (fst (f w)) (snd (f w))"
  by (simp add: go_wp_def go_call_def split: prod.split)

lemma go_call_run [go_run]: "go_call f w = (Ret (fst (f w)), snd (f w))"
  by (simp add: go_call_def split: prod.split)

text \<open>The calculus without the world, for continuations.\<close>

lemma go_wp_return_fun [simp]: "go_wp (go_return x) Q E = Q x"
  by (simp add: fun_eq_iff)

lemma go_wp_bind_fun [simp]: "go_wp (go_bind m f) Q E = go_wp m (\<lambda>x. go_wp (f x) Q E) E"
  by (simp add: fun_eq_iff)

text \<open>What holds of every outcome holds after any run.\<close>

lemma wp_any: "(\<And>x w'. Q x w') \<Longrightarrow> (\<And>s w'. E s w') \<Longrightarrow> go_wp m Q E w"
  by (simp add: go_wp_def split: prod.split outcome.split)

text \<open>\<open>go_defer m d\<close>: a deferred call runs when the function returns and when it panics.\<close>

definition go_defer :: "('w, 'a) go \<Rightarrow> ('w, unit) go \<Rightarrow> ('w, 'a) go" where
  "go_defer m d = (\<lambda>w. case m w of (r, w1) \<Rightarrow>
     (case d w1 of (Ret _, w2) \<Rightarrow> (r, w2) | (Panic s, w2) \<Rightarrow> (Panic s, w2)))"

lemma go_wp_defer [go_wp_simps, simp]:
  "go_wp (go_defer m d) Q E w =
     go_wp m (\<lambda>x. go_wp d (\<lambda>_. Q x) E) (\<lambda>s. go_wp d (\<lambda>_. E s) E) w"
  by (simp add: go_wp_def go_defer_def split: prod.split outcome.split)

text \<open>
  \<open>exec_Run cmd t\<close> runs a command with a timeout of \<open>t\<close> seconds and tells whether the deadline has
  passed, beside the error of the run; \<open>time_Sleep\<close> sleeps for a second; \<open>os_OpenAppend\<close> opens (or
  creates) a file for appending and \<open>file_WriteString\<close> appends to it; \<open>net_Listen\<close>,
  \<open>rand_Int\<close> are those of \<open>net\<close> and \<open>crypto/rand\<close>.
\<close>

record 'w os =
  os_Getenv :: "string \<Rightarrow> ('w, string) sys"
  os_Stat :: "string \<Rightarrow> ('w, err) sys"
  os_Open :: "string \<Rightarrow> ('w, err) sys"
  io_ReadAll :: "string \<Rightarrow> ('w, go_error + string) sys"
  os_ReadFile :: "string \<Rightarrow> ('w, go_error + string) sys"
  os_WriteFile :: "string \<Rightarrow> string \<Rightarrow> ('w, err) sys"
  os_MkdirAll :: "string \<Rightarrow> ('w, err) sys"
  os_Remove :: "string \<Rightarrow> ('w, err) sys"
  os_RemoveAll :: "string \<Rightarrow> ('w, err) sys"
  os_ReadDir :: "string \<Rightarrow> ('w, go_error + string list) sys"
  os_Readlink :: "string \<Rightarrow> ('w, go_error + string) sys"
  os_OpenAppend :: "string \<Rightarrow> ('w, err) sys"
  file_WriteString :: "string \<Rightarrow> string \<Rightarrow> ('w, err) sys"
  filepath_Glob :: "string \<Rightarrow> ('w, go_error + string list) sys"
  time_Sleep :: "('w, unit) sys"
  exec_Run :: "string list \<Rightarrow> nat \<Rightarrow> ('w, bool \<times> err) sys"
  rand_Int :: "nat \<Rightarrow> ('w, go_error + nat) sys"

section \<open>Objects\<close>

text \<open>A method runs on its object and the world: a system or client call leaves the object as it is.\<close>

definition obj_call :: "('w, 'a) sys \<Rightarrow> ('o \<times> 'w, 'a) go" where
  "obj_call f = (\<lambda>(o1, w). case f w of (x, w') \<Rightarrow> (Ret x, o1, w'))"

definition obj_lift :: "('w, 'a) go \<Rightarrow> ('o \<times> 'w, 'a) go" where
  "obj_lift m = (\<lambda>(o1, w). case m w of (x, w') \<Rightarrow> (x, o1, w'))"

definition obj_get :: "('o \<times> 'w, 'o) go" where
  "obj_get = (\<lambda>(o1, w). (Ret o1, o1, w))"

definition obj_modify :: "('o \<Rightarrow> 'o) \<Rightarrow> ('o \<times> 'w, unit) go" where
  "obj_modify f = (\<lambda>(o1, w). (Ret (), f o1, w))"

lemma go_wp_obj_call [go_wp_simps, simp]:
  "go_wp (obj_call f) Q E (o1, w) = Q (fst (f w)) (o1, snd (f w))"
  by (simp add: go_wp_def obj_call_def split: prod.split)

lemma go_wp_obj_lift [go_wp_simps, simp]:
  "go_wp (obj_lift m) Q E (o1, w) = go_wp m (\<lambda>x w'. Q x (o1, w')) (\<lambda>s w'. E s (o1, w')) w"
  by (simp add: go_wp_def obj_lift_def split: prod.split outcome.split)

lemma go_wp_obj_get [go_wp_simps, simp]: "go_wp obj_get Q E (o1, w) = Q o1 (o1, w)"
  by (simp add: go_wp_def obj_get_def)

lemma go_wp_obj_modify [go_wp_simps, simp]: "go_wp (obj_modify f) Q E (o1, w) = Q () (f o1, w)"
  by (simp add: go_wp_def obj_modify_def)

section \<open>Paths\<close>

text \<open>
  \<open>filepath.Clean\<close> on Unix: empty elements and \<open>.\<close> go, \<open>..\<close> takes the element before it away, or
  disappears at the root. The elements already cleaned are kept in reverse.
\<close>

fun clean_elems :: "bool \<Rightarrow> string list \<Rightarrow> string list \<Rightarrow> string list" where
  "clean_elems rooted acc [] = rev acc"
| "clean_elems rooted acc (e # es) =
     (if e = [] \<or> e = ''.'' then clean_elems rooted acc es
      else if e = ''..'' then
        (case acc of
           [] \<Rightarrow> if rooted then clean_elems rooted [] es else clean_elems rooted [e] es
         | a # acc' \<Rightarrow> if a = ''..'' then clean_elems rooted (e # acc) es else clean_elems rooted acc' es)
      else clean_elems rooted (e # acc) es)"

fun path_join :: "string list \<Rightarrow> string" where
  "path_join [] = []"
| "path_join [x] = x"
| "path_join (x # y # zs) = x @ CHR ''/'' # path_join (y # zs)"

definition filepath_Clean :: "string \<Rightarrow> string" where
  "filepath_Clean p =
     (let rooted = (p \<noteq> [] \<and> hd p = CHR ''/'');
          body = path_join (clean_elems rooted [] (strings_Split p CHR ''/''))
      in if rooted then CHR ''/'' # body else if body = [] then ''.'' else body)"

text \<open>\<open>filepath.Join\<close> of two elements: leading empty elements are dropped.\<close>

definition filepath_Join :: "string \<Rightarrow> string \<Rightarrow> string" where
  "filepath_Join a b =
     (if a \<noteq> [] then filepath_Clean (a @ CHR ''/'' # b)
      else if b \<noteq> [] then filepath_Clean b else [])"

section \<open>Formatting and matching\<close>

text \<open>\<open>%d\<close> of an unsigned number and \<open>%02x\<close>.\<close>

fun hex_digits :: "nat \<Rightarrow> string" where
  "hex_digits n = (if n < 16 then [hex_digit n] else hex_digits (n div 16) @ [hex_digit (n mod 16)])"

declare hex_digits.simps [simp del]

definition fmt_02x :: "nat \<Rightarrow> string" where
  "fmt_02x n = (if n < 16 then CHR ''0'' # hex_digits n else hex_digits n)"

text \<open>A string between single quotes, as formats with \<open>'%s'\<close> write it.\<close>

definition squote :: "string \<Rightarrow> string" where
  "squote s = CHR 0x27 # s @ [CHR 0x27]"

text \<open>A maximal non-empty run of digits, as \<open>(\d+)\<close> matches it, and what is left.\<close>

definition re_digits :: "string \<Rightarrow> (string \<times> string) option" where
  "re_digits s = (if takeWhile is_digit s = [] then None
     else Some (takeWhile is_digit s, dropWhile is_digit s))"

text \<open>
  The expression \<open>nvme(\d+)n(\d+)|nvme(\d+)c(\d+)n(\d+)\<close> at the start of a string. A digit run is
  followed by a letter in both alternatives, so the greedy match is the only one.
\<close>

definition re_lit :: "string \<Rightarrow> string \<Rightarrow> string option" where
  "re_lit l s = (if prefix l s then Some (drop (length l) s) else None)"

definition re_nvme_n :: "string \<Rightarrow> string option" where
  "re_nvme_n s = (case re_lit ''nvme'' s of None \<Rightarrow> None | Some s1 \<Rightarrow>
     (case re_digits s1 of None \<Rightarrow> None | Some (a, s2) \<Rightarrow>
     (case re_lit ''n'' s2 of None \<Rightarrow> None | Some s3 \<Rightarrow>
     (case re_digits s3 of None \<Rightarrow> None | Some (b, _) \<Rightarrow> Some (''nvme'' @ a @ ''n'' @ b)))))"

definition re_nvme_cn :: "string \<Rightarrow> string option" where
  "re_nvme_cn s = (case re_lit ''nvme'' s of None \<Rightarrow> None | Some s1 \<Rightarrow>
     (case re_digits s1 of None \<Rightarrow> None | Some (a, s2) \<Rightarrow>
     (case re_lit ''c'' s2 of None \<Rightarrow> None | Some s3 \<Rightarrow>
     (case re_digits s3 of None \<Rightarrow> None | Some (b, s4) \<Rightarrow>
     (case re_lit ''n'' s4 of None \<Rightarrow> None | Some s5 \<Rightarrow>
     (case re_digits s5 of None \<Rightarrow> None | Some (d, _) \<Rightarrow>
        Some (''nvme'' @ a @ ''c'' @ b @ ''n'' @ d)))))))"

text \<open>\<open>nvmeReDeviceSysFileName.FindString\<close>: the leftmost match, the empty string without one.\<close>

fun nvmeReDeviceSysFileName_FindString :: "string \<Rightarrow> string" where
  "nvmeReDeviceSysFileName_FindString [] = []"
| "nvmeReDeviceSysFileName_FindString (c # cs) =
     (case re_nvme_n (c # cs) of
        Some m \<Rightarrow> m
      | None \<Rightarrow> (case re_nvme_cn (c # cs) of
          Some m \<Rightarrow> m
        | None \<Rightarrow> nvmeReDeviceSysFileName_FindString cs))"

text \<open>\<open>nvmeReDeviceName.ReplaceAllString(s, "")\<close>: every \<open>c(\d+)\<close> goes.\<close>

function nvmeReDeviceName_Remove :: "string \<Rightarrow> string" where
  "nvmeReDeviceName_Remove [] = []"
| "nvmeReDeviceName_Remove (c # cs) =
     (if c = CHR ''c'' \<and> takeWhile is_digit cs \<noteq> []
      then nvmeReDeviceName_Remove (dropWhile is_digit cs)
      else c # nvmeReDeviceName_Remove cs)"
  by pat_completeness auto
termination
  by (relation "measure length") (auto simp: less_Suc_eq_le length_dropWhile_le)

section \<open>Maps of strings with their entries\<close>

text \<open>
  A \<open>map[string]string\<close> as its entries, sorted by key; \<open>None\<close> is the nil map, which reads as empty
  and panics when written to.
\<close>

type_synonym kvs = "(string \<times> string) list"

definition kv_get :: "kvs \<Rightarrow> string \<Rightarrow> string" where
  "kv_get m k = (case map_of m k of Some v \<Rightarrow> v | None \<Rightarrow> [])"

fun kv_put :: "string \<Rightarrow> string \<Rightarrow> kvs \<Rightarrow> kvs" where
  "kv_put k v [] = [(k, v)]"
| "kv_put k v ((j, u) # m) =
     (if k = j then (k, v) # m else if k < j then (k, v) # (j, u) # m else (j, u) # kv_put k v m)"

definition kv_ok :: "kvs \<Rightarrow> bool" where
  "kv_ok m \<longleftrightarrow> sorted (map fst m) \<and> distinct (map fst m)"

definition kv_json :: "kvs \<Rightarrow> json" where
  "kv_json m = JObj (map (\<lambda>(k, v). (k, JStr v)) m)"

text \<open>\<open>json.Marshal\<close> of a map: its entries in the order of their keys; the nil map is \<open>null\<close>.\<close>

definition kv_marshal :: "kvs option \<Rightarrow> string" where
  "kv_marshal m = json_text (case m of None \<Rightarrow> JNull | Some m \<Rightarrow> kv_json m)"

definition kvs_of :: "kvs option \<Rightarrow> kvs" where
  "kvs_of m = (case m of None \<Rightarrow> [] | Some m \<Rightarrow> m)"

end
