(* ===== verification/Util_Files.thy ===== *)
theory Util_Files
  imports Go_Os
begin

text \<open>
  The file utilities of \<open>pkg/util/util.go\<close>: the environment, JSON files, appending to a file, and the
  stash of a volume's (or an xPU's) context in its staging directory, where a later request finds it
  again. \<open>Stash_Correct\<close> proves that it does.
\<close>

section \<open>Environment and JSON files\<close>

definition FromEnv :: "'w os \<Rightarrow> string \<Rightarrow> string \<Rightarrow> ('w, string) go" where
  "FromEnv os env def =
     go_bind (go_call (os_Getenv os env)) (\<lambda>s. if s \<noteq> [] then go_return s else go_return def)"

text \<open>\<open>file.Close\<close> is deferred and its error ignored; the result is decoded by \<open>d\<close> into a variable that holds \<open>r0\<close>.\<close>

definition syntax_error :: go_error where
  "syntax_error = Errorf ''invalid JSON''"

definition json_Unmarshal :: "'r dec \<Rightarrow> string \<Rightarrow> 'r \<Rightarrow> err \<times> 'r" where
  "json_Unmarshal d bytes r0 = (case json_unmarshal bytes of
     None \<Rightarrow> (Some syntax_error, r0)
   | Some doc \<Rightarrow> (case d doc r0 of (r, e) \<Rightarrow> (e, r)))"

definition ParseJSONFile :: "'w os \<Rightarrow> string \<Rightarrow> 'r dec \<Rightarrow> 'r \<Rightarrow> ('w, err \<times> 'r) go" where
  "ParseJSONFile os fileName d r0 =
     go_bind (go_call (os_Open os fileName)) (\<lambda>err. if err \<noteq> None then go_return (err, r0)
     else go_bind (go_call (io_ReadAll os fileName)) (\<lambda>res. case res of
       Inl e \<Rightarrow> go_return (Some e, r0)
     | Inr bytes \<Rightarrow> go_return (json_Unmarshal d bytes r0)))"

definition appendContentToFile :: "'w os \<Rightarrow> string \<Rightarrow> string \<Rightarrow> ('w, err) go" where
  "appendContentToFile os fileName content =
     go_bind (go_call (os_OpenAppend os fileName)) (\<lambda>err. if err \<noteq> None then go_return err
     else go_bind (go_call (file_WriteString os fileName content)) (\<lambda>err.
       if err \<noteq> None then go_return err else go_return None))"

section \<open>The context stash\<close>

definition volumeContextFileName :: string where "volumeContextFileName = ''volume-context.json''"
definition xpuContextFileName :: string where "xpuContextFileName = ''xpu-context.json''"

text \<open>
  The entries of the decoded object, one per key and the last one of a repeated key; the loop
  stops at the first value that is not a string, and names its key in the error. Go visits the keys
  in an unspecified order: which of several offending keys is named depends on it, and nothing
  else does.
\<close>

fun convert_entries :: "(string \<times> json) list \<Rightarrow> kvs \<Rightarrow> go_error + kvs" where
  "convert_entries [] strMap = Inr strMap"
| "convert_entries ((k, j) # es) strMap = (case j of
     JStr s \<Rightarrow> convert_entries es (kv_put k s strMap)
   | _ \<Rightarrow> Inl (Errorf (''the value for key '' @ k @ '' is not a string'')))"

fun last_entries :: "(string \<times> json) list \<Rightarrow> (string \<times> json) list" where
  "last_entries [] = []"
| "last_entries ((k, j) # es) =
     (if k \<in> fst ` set es then last_entries es else (k, j) # last_entries es)"

definition ConvertInterfaceToMap :: "json \<Rightarrow> go_error + kvs" where
  "ConvertInterfaceToMap data = (case data of
     JObj es \<Rightarrow> convert_entries (last_entries es) []
   | _ \<Rightarrow> Inl (Errorf ''the data is not a map[string]interface{}''))"

text \<open>\<open>json.Marshal\<close> of a map of strings never fails.\<close>

definition stashContext :: "'w os \<Rightarrow> kvs option \<Rightarrow> string \<Rightarrow> string \<Rightarrow> ('w, err) go" where
  "stashContext os data folder fileName =
     (let encodedBytes = kv_marshal data;
          fPath = filepath_Join folder fileName;
          store = go_bind (go_call (os_WriteFile os fPath encodedBytes)) (\<lambda>err. case err of
            Some e \<Rightarrow> go_return (Some (Wrapf (''failed to marshall context JSON at path ('' @ fPath @ ''): '') e))
          | None \<Rightarrow> go_return None)
      in go_bind (go_call (os_Stat os folder)) (\<lambda>err.
         if os_IsNotExist err
         then go_bind (go_call (os_MkdirAll os folder)) (\<lambda>err. if err \<noteq> None then go_return err else store)
         else store))"

definition lookupContext :: "'w os \<Rightarrow> string \<Rightarrow> string \<Rightarrow> ('w, go_error + json) go" where
  "lookupContext os folder fileName =
     (let fPath = filepath_Join folder fileName in
      go_bind (go_call (os_ReadFile os fPath)) (\<lambda>res. case res of
        Inl e \<Rightarrow> if \<not> os_IsNotExist (Some e)
                 then go_return (Inl (Wrapf (''failed to read stashed context JSON from path ('' @ fPath @ ''): '') e))
                 else go_return (Inl (Errorf ''volume context JSON file not found''))
      | Inr encodedBytes \<Rightarrow> (case json_unmarshal encodedBytes of
          None \<Rightarrow> go_return (Inl (Wrapf (''failed to unmarshall stashed context JSON from path ('' @ fPath @ ''): '')
            syntax_error))
        | Some data \<Rightarrow> go_return (Inr data))))"

definition cleanUpContext :: "'w os \<Rightarrow> string \<Rightarrow> string \<Rightarrow> ('w, err) go" where
  "cleanUpContext os folder fileName =
     (let fPath = filepath_Join folder fileName in
      go_bind (go_call (os_Remove os fPath)) (\<lambda>err. case err of
        Some e \<Rightarrow> go_return (Some (Wrapf (''failed to cleanup volume context stash ('' @ fPath @ ''): '') e))
      | None \<Rightarrow> go_return None))"

definition StashVolumeContext :: "'w os \<Rightarrow> kvs option \<Rightarrow> string \<Rightarrow> ('w, err) go" where
  "StashVolumeContext os volumeContext path = stashContext os volumeContext path volumeContextFileName"

definition LookupVolumeContext :: "'w os \<Rightarrow> string \<Rightarrow> ('w, go_error + kvs) go" where
  "LookupVolumeContext os path =
     go_bind (lookupContext os path volumeContextFileName) (\<lambda>res. case res of
       Inl e \<Rightarrow> go_return (Inl e)
     | Inr data \<Rightarrow> go_return (ConvertInterfaceToMap data))"

definition CleanUpVolumeContext :: "'w os \<Rightarrow> string \<Rightarrow> ('w, err) go" where
  "CleanUpVolumeContext os path = cleanUpContext os path volumeContextFileName"

definition StashXPUContext :: "'w os \<Rightarrow> kvs option \<Rightarrow> string \<Rightarrow> ('w, err) go" where
  "StashXPUContext os xpuContext path = stashContext os xpuContext path xpuContextFileName"

definition LookupXPUContext :: "'w os \<Rightarrow> string \<Rightarrow> ('w, go_error + kvs) go" where
  "LookupXPUContext os path =
     go_bind (lookupContext os path xpuContextFileName) (\<lambda>res. case res of
       Inl e \<Rightarrow> go_return (Inl e)
     | Inr data \<Rightarrow> go_return (ConvertInterfaceToMap data))"

definition CleanUpXPUContext :: "'w os \<Rightarrow> string \<Rightarrow> ('w, err) go" where
  "CleanUpXPUContext os path = cleanUpContext os path xpuContextFileName"

section \<open>What converting back gives\<close>

lemma kv_put_fst: "fst ` set (kv_put k v m) = insert k (fst ` set m)"
  by (induction k v m rule: kv_put.induct) auto

lemma kv_put_sorted:
  "sorted (map fst m) \<and> distinct (map fst m) \<Longrightarrow>
     sorted (map fst (kv_put k v m)) \<and> distinct (map fst (kv_put k v m))"
proof (induction k v m rule: kv_put.induct)
  case (2 k v j u m)
  then show ?case
    using kv_put_fst [of k v m] by (auto simp: image_iff)
qed simp

lemma kv_ok_put [simp]: "kv_ok m \<Longrightarrow> kv_ok (kv_put k v m)"
  unfolding kv_ok_def by (rule kv_put_sorted)

lemma kv_ok_Nil [simp]: "kv_ok []"
  by (simp add: kv_ok_def)

lemma map_of_kv_put: "kv_ok m \<Longrightarrow> map_of (kv_put k v m) = (map_of m)(k \<mapsto> v)"
proof (induction k v m rule: kv_put.induct)
  case (2 k v j u m)
  then have "kv_ok m" by (simp add: kv_ok_def)
  with 2 show ?case
    by (auto simp: fun_eq_iff kv_ok_def map_of_eq_None_iff)
qed simp

lemma kv_get_put [simp]: "kv_ok m \<Longrightarrow> kv_get (kv_put k v m) j = (if j = k then v else kv_get m j)"
  by (simp add: kv_get_def map_of_kv_put)

lemma kv_ok_eqI:
  assumes "kv_ok m" and "kv_ok n" and "map_of m = map_of n"
  shows "m = n"
proof (rule map_sorted_distinct_set_unique [where f = fst])
  show same: "set m = set n"
    using assms by (simp add: kv_ok_def map_of_inject_set)
  show "inj_on fst (set m \<union> set n)"
    using assms(1) same by (simp add: kv_ok_def distinct_map)
qed (use assms in \<open>simp_all add: kv_ok_def\<close>)

lemma convert_entries_fold:
  "convert_entries (map (\<lambda>(k, v). (k, JStr v)) m) acc = Inr (fold (\<lambda>(k, v). kv_put k v) m acc)"
  by (induction m arbitrary: acc) auto

lemma kv_put_last: "\<forall>j \<in> fst ` set m. j < k \<Longrightarrow> kv_put k v m = m @ [(k, v)]"
  by (induction m) auto

lemma fold_kv_put:
  "kv_ok (acc @ m) \<Longrightarrow> fold (\<lambda>(k, v). kv_put k v) m acc = acc @ m"
proof (induction m arbitrary: acc)
  case (Cons p m)
  obtain k v where p: "p = (k, v)" by force
  from Cons.prems have "\<forall>j \<in> fst ` set acc. j < k"
    by (auto simp: kv_ok_def p sorted_append) (metis (no_types) imageI fst_conv order_le_less)
  then have "kv_put k v acc = acc @ [(k, v)]" by (rule kv_put_last)
  with Cons.IH [of "acc @ [(k, v)]"] Cons.prems show ?case by (simp add: p)
qed simp

lemma last_entries_distinct: "distinct (map fst es) \<Longrightarrow> last_entries es = es"
  by (induction es rule: last_entries.induct) (auto simp: image_iff)

lemma ConvertInterfaceToMap_kv_json [simp]:
  assumes "kv_ok m"
  shows "ConvertInterfaceToMap (kv_json m) = Inr m"
proof -
  have "distinct (map fst (map (\<lambda>(k, v). (k, JStr v)) m))"
    using assms by (simp add: kv_ok_def case_prod_unfold comp_def)
  then show ?thesis
    using assms fold_kv_put [of "[]" m]
    by (simp add: ConvertInterfaceToMap_def kv_json_def last_entries_distinct convert_entries_fold)
qed

lemma wf_kv_json [simp]: "wf_json (kv_json m)"
  by (auto simp: kv_json_def)

lemma unmarshal_kv_marshal [simp]: "json_unmarshal (kv_marshal (Some m)) = Some (kv_json m)"
  by (simp add: kv_marshal_def)

text \<open>The result of the conversion is a well-formed map, and no visiting order changes it.\<close>

lemma convert_entries_ok: "convert_entries es acc = Inr m \<Longrightarrow> kv_ok acc \<Longrightarrow> kv_ok m"
  by (induction es acc rule: convert_entries.induct) (auto split: json.splits)

lemma ConvertInterfaceToMap_ok: "ConvertInterfaceToMap j = Inr m \<Longrightarrow> kv_ok m"
  by (auto simp: ConvertInterfaceToMap_def split: json.splits intro: convert_entries_ok)

lemma convert_entries_map_of:
  "convert_entries es acc = Inr m \<Longrightarrow> kv_ok acc \<Longrightarrow> distinct (map fst es) \<Longrightarrow>
     map_of m k = (case map_of es k of Some (JStr s) \<Rightarrow> Some s | _ \<Rightarrow> map_of acc k)"
proof (induction es arbitrary: acc)
  case (Cons p es)
  then obtain k' s where p: "p = (k', JStr s)"
    and rest: "convert_entries es (kv_put k' s acc) = Inr m"
    by (cases p) (auto split: json.splits)
  from Cons.prems p have "map_of es k' = None" by (simp add: map_of_eq_None_iff)
  with Cons.IH [OF rest] Cons.prems p show ?case
    by (cases "k = k'") (simp_all add: map_of_kv_put split: option.split json.split)
qed simp

end
