(* ===== verification/Initiator.thy ===== *)
theory Initiator
  imports Util_Files
begin

text \<open>
  The host's initiators of \<open>pkg/util/initiator.go\<close>: connecting a volume is a command that is allowed
  to fail (the volume may be connected already) followed by polling for the device file, once a
  second; disconnecting polls for its disappearance. A loop that counts from 0 to \<open>n\<close> inclusive makes
  \<open>n + 1\<close> rounds, which is the loop functions' argument.
\<close>

section \<open>Polling for a device\<close>

fun waitForDeviceReady_loop :: "'w os \<Rightarrow> string \<Rightarrow> nat \<Rightarrow> ('w, string \<times> err) go" where
  "waitForDeviceReady_loop os deviceGlob 0 =
     go_return ([], Some (Errorf (''timed out waiting device ready: '' @ deviceGlob)))"
| "waitForDeviceReady_loop os deviceGlob (Suc n) =
     go_bind (go_call (filepath_Glob os deviceGlob)) (\<lambda>res. case res of
       Inl err \<Rightarrow> go_return ([], Some err)
     | Inr (m # _) \<Rightarrow> go_return (m, None)
     | Inr [] \<Rightarrow> go_bind (go_call (time_Sleep os)) (\<lambda>_. waitForDeviceReady_loop os deviceGlob n))"

definition waitForDeviceReady :: "'w os \<Rightarrow> string \<Rightarrow> int \<Rightarrow> ('w, string \<times> err) go" where
  "waitForDeviceReady os deviceGlob seconds = waitForDeviceReady_loop os deviceGlob (nat (seconds + 1))"

fun waitForDeviceGone_loop :: "'w os \<Rightarrow> string \<Rightarrow> nat \<Rightarrow> ('w, err) go" where
  "waitForDeviceGone_loop os deviceGlob 0 =
     go_return (Some (Errorf (''timed out waiting device gone: '' @ deviceGlob)))"
| "waitForDeviceGone_loop os deviceGlob (Suc n) =
     go_bind (go_call (filepath_Glob os deviceGlob)) (\<lambda>res. case res of
       Inl err \<Rightarrow> go_return (Some err)
     | Inr [] \<Rightarrow> go_return None
     | Inr (_ # _) \<Rightarrow> go_bind (go_call (time_Sleep os)) (\<lambda>_. waitForDeviceGone_loop os deviceGlob n))"

definition waitForDeviceGone :: "'w os \<Rightarrow> string \<Rightarrow> ('w, err) go" where
  "waitForDeviceGone os deviceGlob = waitForDeviceGone_loop os deviceGlob 21"

section \<open>Commands\<close>

definition execWithTimeout :: "'w os \<Rightarrow> string list \<Rightarrow> nat \<Rightarrow> ('w, err) go" where
  "execWithTimeout os cmdLine timeout =
     (if cmdLine = [] then go_panic ''runtime error: index out of range [0] with length 0''
      else go_bind (go_call (exec_Run os cmdLine timeout)) (\<lambda>(deadlineExceeded, err).
        if deadlineExceeded then go_return (Some (Errorf ''timed out'')) else go_return err))"

section \<open>The NVMe-oF initiator\<close>

record initiatorNVMf =
  in_targetType :: string
  in_targetAddr :: string
  in_targetPort :: string
  in_nqn :: string
  in_model :: string

definition initiatorNVMf_glob :: "initiatorNVMf \<Rightarrow> string" where
  "initiatorNVMf_glob nvmf = ''/dev/disk/by-id/*'' @ in_model nvmf @ ''*''"

text \<open>The error of the command is only logged.\<close>

definition initiatorNVMf_Connect :: "'w os \<Rightarrow> initiatorNVMf \<Rightarrow> ('w, string \<times> err) go" where
  "initiatorNVMf_Connect os nvmf =
     go_bind (execWithTimeout os
       [''nvme'', ''connect'', ''-t'', strings_ToLower (in_targetType nvmf),
        ''-a'', in_targetAddr nvmf, ''-s'', in_targetPort nvmf, ''-n'', in_nqn nvmf] 40) (\<lambda>_.
     go_bind (waitForDeviceReady os (initiatorNVMf_glob nvmf) 20) (\<lambda>(devicePath, err).
       if err \<noteq> None then go_return ([], err) else go_return (devicePath, None)))"

definition initiatorNVMf_Disconnect :: "'w os \<Rightarrow> initiatorNVMf \<Rightarrow> ('w, err) go" where
  "initiatorNVMf_Disconnect os nvmf =
     go_bind (execWithTimeout os [''nvme'', ''disconnect'', ''-n'', in_nqn nvmf] 40) (\<lambda>_.
     waitForDeviceGone os (initiatorNVMf_glob nvmf))"

section \<open>The iSCSI initiator\<close>

record initiatorISCSI =
  ii_targetAddr :: string
  ii_targetPort :: string
  ii_iqn :: string

definition initiatorISCSI_glob :: "initiatorISCSI \<Rightarrow> string" where
  "initiatorISCSI_glob iscsi = ''/dev/disk/by-path/*'' @ ii_iqn iscsi @ ''*''"

definition initiatorISCSI_Connect :: "'w os \<Rightarrow> initiatorISCSI \<Rightarrow> ('w, string \<times> err) go" where
  "initiatorISCSI_Connect os iscsi =
     (let target = ii_targetAddr iscsi @ '':'' @ ii_targetPort iscsi in
      go_bind (execWithTimeout os [''iscsiadm'', ''-m'', ''discovery'', ''-t'', ''sendtargets'', ''-p'', target] 40)
        (\<lambda>_.
      go_bind (execWithTimeout os
        [''iscsiadm'', ''-m'', ''node'', ''-T'', ii_iqn iscsi, ''-p'', target, ''--login''] 40) (\<lambda>_.
      go_bind (waitForDeviceReady os (initiatorISCSI_glob iscsi) 20) (\<lambda>(devicePath, err).
        if err \<noteq> None then go_return ([], err) else go_return (devicePath, None)))))"

definition initiatorISCSI_Disconnect :: "'w os \<Rightarrow> initiatorISCSI \<Rightarrow> ('w, err) go" where
  "initiatorISCSI_Disconnect os iscsi =
     (let target = ii_targetAddr iscsi @ '':'' @ ii_targetPort iscsi in
      go_bind (execWithTimeout os
        [''iscsiadm'', ''-m'', ''node'', ''-T'', ii_iqn iscsi, ''-p'', target, ''--logout''] 40) (\<lambda>_.
      waitForDeviceGone os (initiatorISCSI_glob iscsi)))"

section \<open>The constructor\<close>

datatype host_initiator = InitiatorNVMf initiatorNVMf | InitiatorISCSI initiatorISCSI

definition NewSpdkCsiInitiator :: "kvs \<Rightarrow> go_error + host_initiator" where
  "NewSpdkCsiInitiator volumeContext =
     (let targetType = strings_ToLower (kv_get volumeContext ''targetType'') in
      if targetType = ''rdma'' \<or> targetType = ''tcp'' then Inr (InitiatorNVMf
        \<lparr>in_targetType = kv_get volumeContext ''targetType'',
         in_targetAddr = kv_get volumeContext ''targetAddr'',
         in_targetPort = kv_get volumeContext ''targetPort'',
         in_nqn = kv_get volumeContext ''nqn'',
         in_model = kv_get volumeContext ''model''\<rparr>)
      else if targetType = ''iscsi'' then Inr (InitiatorISCSI
        \<lparr>ii_targetAddr = kv_get volumeContext ''targetAddr'',
         ii_targetPort = kv_get volumeContext ''targetPort'',
         ii_iqn = kv_get volumeContext ''iqn''\<rparr>)
      else Inl (Errorf (''unknown initiator: '' @ targetType)))"

end
