(* ===== verification/Pci_Sysfs.thy ===== *)
theory Pci_Sysfs
  imports Initiator
begin

text \<open>
  The device lookups of \<open>pkg/util/util.go\<close> in \<open>/sys\<close>: the block device of an NVMe or virtio-blk
  volume, and the next free PCI function of an emulated (KVM) or a real xPU.
\<close>

record PciIDs =
  pci_VendorID :: string
  pci_DeviceID :: string
  pci_ClassID :: string

record PciEndpoint =
  pfID :: uint32
  vfID :: uint32

record PciBdfs =
  pfBdf :: string
  vfBdf :: string

record XpuConfig =
  xc_Name :: string
  xc_TargetType :: string
  xc_TargetAddr :: string
  xc_PciIDs :: PciIDs

definition KvmPciBridgeIDs :: PciIDs where
  "KvmPciBridgeIDs = \<lparr>pci_VendorID = ''0x1b36'', pci_DeviceID = ''0x0001'', pci_ClassID = ''0x060400''\<rparr>"

definition IsKvm :: "PciIDs option \<Rightarrow> bool" where
  "IsKvm pciIDs = (case pciIDs of
     None \<Rightarrow> False
   | Some p \<Rightarrow> pci_VendorID p = pci_VendorID KvmPciBridgeIDs \<and>
       pci_DeviceID p = pci_DeviceID KvmPciBridgeIDs \<and> pci_ClassID p = pci_ClassID KvmPciBridgeIDs)"

section \<open>NVMe block devices\<close>

definition getNvmeDeviceName :: "'w os \<Rightarrow> string \<Rightarrow> string \<Rightarrow> ('w, string \<times> err) go" where
  "getNvmeDeviceName os uuidFilePath nvmeModel =
     go_bind (go_call (os_ReadFile os uuidFilePath)) (\<lambda>res. case res of
       Inl e \<Rightarrow> go_return ([], Some e)
     | Inr uuidContent \<Rightarrow>
         if strings_TrimSpace uuidContent = nvmeModel
         then go_return (nvmeReDeviceName_Remove (nvmeReDeviceSysFileName_FindString uuidFilePath), None)
         else go_return ([], Some (Errorf ''does not match'')))"

text \<open>
  The loop over the uuid files. The paths to ignore are the nil map (\<open>None\<close>) or a set that the loop
  adds every file to before it reads it, and that the caller sees afterwards.
\<close>

fun CheckIfNvmeDeviceExists_loop ::
  "'w os \<Rightarrow> string \<Rightarrow> string list \<Rightarrow> string list option \<Rightarrow> ('w, (string \<times> err) \<times> string list option) go" where
  "CheckIfNvmeDeviceExists_loop os nvmeModel [] ignorePaths =
     go_return (([], Some ErrNotExist), ignorePaths)"
| "CheckIfNvmeDeviceExists_loop os nvmeModel (filePath # rest) ignorePaths =
     (if (case ignorePaths of None \<Rightarrow> False | Some ps \<Rightarrow> filePath \<in> set ps)
      then CheckIfNvmeDeviceExists_loop os nvmeModel rest ignorePaths
      else (let ignorePaths = map_option (\<lambda>ps. filePath # ps) ignorePaths in
        go_bind (getNvmeDeviceName os filePath nvmeModel) (\<lambda>(deviceName, err).
          if deviceName \<noteq> [] then go_return ((deviceName, None), ignorePaths)
          else CheckIfNvmeDeviceExists_loop os nvmeModel rest ignorePaths)))"

definition CheckIfNvmeDeviceExists ::
  "'w os \<Rightarrow> string \<Rightarrow> string list option \<Rightarrow> ('w, (string \<times> err) \<times> string list option) go" where
  "CheckIfNvmeDeviceExists os nvmeModel ignorePaths =
     go_bind (go_call (filepath_Glob os ''/sys/bus/pci/devices/*/nvme/nvme*/nvme*n*/uuid'')) (\<lambda>res. case res of
       Inl e \<Rightarrow> go_return (([], Some (Wrapf ''obtain uuid files error: '' e)), ignorePaths)
     | Inr uuidFilePaths \<Rightarrow> CheckIfNvmeDeviceExists_loop os nvmeModel uuidFilePaths ignorePaths)"

fun detectNvmeDeviceName_loop ::
  "'w os \<Rightarrow> string \<Rightarrow> nat \<Rightarrow> string list option \<Rightarrow> ('w, string \<times> err) go" where
  "detectNvmeDeviceName_loop os nvmeModel 0 flags = go_return ([], Some ErrDeadlineExceeded)"
| "detectNvmeDeviceName_loop os nvmeModel (Suc n) flags =
     go_bind (CheckIfNvmeDeviceExists os nvmeModel flags) (\<lambda>((deviceName, err), flags).
       if err \<noteq> None
       then go_bind (go_call (time_Sleep os)) (\<lambda>_. detectNvmeDeviceName_loop os nvmeModel n flags)
       else go_return (deviceName, None))"

definition detectNvmeDeviceName :: "'w os \<Rightarrow> string \<Rightarrow> ('w, string \<times> err) go" where
  "detectNvmeDeviceName os nvmeModel = detectNvmeDeviceName_loop os nvmeModel 20 (Some [])"

text \<open>
  A match of the uuid file whose path holds no device name gives an empty name without an error,
  which is looked up as \<open>/dev/\<close>.
\<close>

definition GetNvmeDeviceName :: "'w os \<Rightarrow> string \<Rightarrow> string \<Rightarrow> ('w, string \<times> err) go" where
  "GetNvmeDeviceName os nvmeModel bdf =
     (let found = (\<lambda>(deviceName, err). case err of
            Some e \<Rightarrow> go_return ([], Some (Wrapf ''failed to find nvme device name: '' e))
          | None \<Rightarrow> waitForDeviceReady os (''/dev/'' @ deviceName) 20)
      in if bdf \<noteq> [] then
           go_bind (waitForDeviceReady os
             (''/sys/bus/pci/devices/'' @ bdf @ ''/nvme/nvme*/nvme*n*/uuid'') 20) (\<lambda>(uuidFilePath, err). case err of
               Some e \<Rightarrow> go_return ([], Some (Wrapf (''failed find device at '' @ uuidFilePath @ '': '') e))
             | None \<Rightarrow> go_bind (getNvmeDeviceName os uuidFilePath nvmeModel) found)
         else go_bind (detectNvmeDeviceName os nvmeModel) found)"

section \<open>virtio-blk devices\<close>

definition GetVirtioBlkDeviceName :: "'w os \<Rightarrow> string \<Rightarrow> bool \<Rightarrow> ('w, string \<times> err) go" where
  "GetVirtioBlkDeviceName os bdf wait =
     (let sysBusGlob = ''/sys/bus/pci/devices/'' @ bdf @ ''/virtio*/block'' in
      go_bind (if wait then waitForDeviceReady os sysBusGlob 20 else waitForDeviceReady os sysBusGlob 0)
        (\<lambda>(deviceParentDirPath, err). if err \<noteq> None then go_return ([], err)
      else go_bind (go_call (os_ReadDir os deviceParentDirPath)) (\<lambda>res. case res of
        Inl e \<Rightarrow> go_return ([], Some e)
      | Inr [name] \<Rightarrow> waitForDeviceReady os (''/dev/'' @ name) 20
      | Inr names \<Rightarrow> go_return ([], Some (Errorf (''the deviceParentDirPath ('' @ sysBusGlob @ '') has wrong content''))))))"

section \<open>PCI functions\<close>

text \<open>The device is among the results when its three files can be read and hold the IDs.\<close>

fun findPciDevices_loop :: "'w os \<Rightarrow> PciIDs \<Rightarrow> string list \<Rightarrow> ('w, string list) go" where
  "findPciDevices_loop os pciIDs [] = go_return []"
| "findPciDevices_loop os pciIDs (file # files) =
     (let devicePath = filepath_Join ''/sys/bus/pci/devices'' file;
          continue = findPciDevices_loop os pciIDs files
      in go_bind (go_call (os_ReadFile os (filepath_Join devicePath ''class''))) (\<lambda>res. case res of
           Inl _ \<Rightarrow> continue
         | Inr classData \<Rightarrow>
      go_bind (go_call (os_ReadFile os (filepath_Join devicePath ''vendor''))) (\<lambda>res. case res of
           Inl _ \<Rightarrow> continue
         | Inr vendorData \<Rightarrow>
      go_bind (go_call (os_ReadFile os (filepath_Join devicePath ''device''))) (\<lambda>res. case res of
           Inl _ \<Rightarrow> continue
         | Inr deviceData \<Rightarrow>
             if strings_TrimSpace classData = pci_ClassID pciIDs \<and>
                strings_TrimSpace vendorData = pci_VendorID pciIDs \<and>
                strings_TrimSpace deviceData = pci_DeviceID pciIDs
             then go_bind continue (\<lambda>bdfs. go_return (file # bdfs))
             else continue))))"

definition findPciDevicesByPciIDs :: "'w os \<Rightarrow> PciIDs \<Rightarrow> ('w, string list) go" where
  "findPciDevicesByPciIDs os pciIDs =
     go_bind (go_call (os_ReadDir os ''/sys/bus/pci/devices'')) (\<lambda>res. case res of
       Inl _ \<Rightarrow> go_return []
     | Inr files \<Rightarrow> findPciDevices_loop os pciIDs files)"

text \<open>The package variable \<open>kvmPciBridgeCount\<close> is computed once, when the program starts.\<close>

definition kvmPciBridgeCount_init :: "'w os \<Rightarrow> ('w, nat) go" where
  "kvmPciBridgeCount_init os =
     go_bind (findPciDevicesByPciIDs os KvmPciBridgeIDs) (\<lambda>bdfs. go_return (length bdfs))"

definition zero_PciEndpoint :: PciEndpoint where
  "zero_PciEndpoint = \<lparr>pfID = 0, vfID = 0\<rparr>"

definition zero_PciBdfs :: PciBdfs where
  "zero_PciBdfs = \<lparr>pfBdf = [], vfBdf = []\<rparr>"

definition kvm_bdf :: "nat \<Rightarrow> nat \<Rightarrow> string" where
  "kvm_bdf p v = ''0000:'' @ fmt_02x p @ '':'' @ fmt_02x v"

text \<open>
  The two loops of \<open>getAvailableFunctionsKvm\<close> over the bridges \<open>1, ..., count\<close> and, on each, the
  slots \<open>0, ..., 31\<close>, in one list. The glob's result is nil exactly when nothing matches. The
  bridge count is that of devices in a directory, far below the range of \<open>uint32\<close>.
\<close>

definition kvm_slots :: "nat \<Rightarrow> (nat \<times> nat) list" where
  "kvm_slots n = concat (map (\<lambda>p. map (\<lambda>v. (p, v)) [0 ..< 32]) [1 ..< Suc n])"

fun getAvailableFunctionsKvm_loop ::
  "'w os \<Rightarrow> (nat \<times> nat) list \<Rightarrow> ('w, PciEndpoint \<times> PciBdfs \<times> err) go" where
  "getAvailableFunctionsKvm_loop os [] = go_return (zero_PciEndpoint, zero_PciBdfs, Some ErrNotExist)"
| "getAvailableFunctionsKvm_loop os ((p, v) # slots) =
     go_bind (go_call (filepath_Glob os (''/sys/bus/pci/devices/'' @ kvm_bdf p v @ ''.*''))) (\<lambda>res. case res of
       Inl e \<Rightarrow> go_return (zero_PciEndpoint, zero_PciBdfs, Some (Wrapf ''sysfs failure: '' e))
     | Inr [] \<Rightarrow> go_return (zero_PciEndpoint\<lparr>pfID := (word_of_nat p - 1) * 32 + word_of_nat v\<rparr>,
                  zero_PciBdfs\<lparr>vfBdf := kvm_bdf p v @ ''.0''\<rparr>, None)
     | Inr (_ # _) \<Rightarrow> getAvailableFunctionsKvm_loop os slots)"

definition getAvailableFunctionsKvm ::
  "'w os \<Rightarrow> nat \<Rightarrow> ('w, PciEndpoint \<times> PciBdfs \<times> err) go" where
  "getAvailableFunctionsKvm os kvmPciBridgeCount =
     (if kvmPciBridgeCount = 0
      then go_return (zero_PciEndpoint, zero_PciBdfs, Some (Errorf ''no valid kvm bridges''))
      else getAvailableFunctionsKvm_loop os (kvm_slots kvmPciBridgeCount))"

fun getXpuPfBdf_loop :: "'w os \<Rightarrow> string list \<Rightarrow> string \<Rightarrow> nat \<Rightarrow> ('w, string \<times> nat) go" where
  "getXpuPfBdf_loop os [] pf vfCount = go_return (pf, vfCount)"
| "getXpuPfBdf_loop os (bdf # bdfs) pf vfCount =
     go_bind (go_call (os_Stat os (''/sys/bus/pci/devices/'' @ bdf @ ''/physfn''))) (\<lambda>err.
       if err \<noteq> None
       then (if os_IsNotExist err then getXpuPfBdf_loop os bdfs bdf vfCount
             else getXpuPfBdf_loop os bdfs pf vfCount)
       else getXpuPfBdf_loop os bdfs pf (vfCount + 1))"

definition getXpuPfBdfAndVfCount :: "'w os \<Rightarrow> PciIDs \<Rightarrow> ('w, string \<times> nat) go" where
  "getXpuPfBdfAndVfCount os pciIDs =
     go_bind (findPciDevicesByPciIDs os pciIDs) (\<lambda>bdfs. getXpuPfBdf_loop os bdfs [] 0)"

text \<open>The link's text without its first three characters; a shorter one panics.\<close>

definition slice_from3 :: "string \<Rightarrow> ('w, string) go" where
  "slice_from3 s =
     (if length s < 3 then go_panic ''runtime error: slice bounds out of range'' else go_return (drop 3 s))"

fun getAvailableFunctionsXpu_loop ::
  "'w os \<Rightarrow> PciBdfs \<Rightarrow> nat list \<Rightarrow> ('w, PciEndpoint \<times> PciBdfs \<times> err) go" where
  "getAvailableFunctionsXpu_loop os bdfs [] = go_return (zero_PciEndpoint, bdfs, Some ErrNotExist)"
| "getAvailableFunctionsXpu_loop os bdfs (vf # vfs) =
     go_bind (go_call (os_Readlink os (''/sys/bus/pci/devices/'' @ pfBdf bdfs @ ''/virtfn'' @ dec_digits (vf - 1))))
       (\<lambda>res. case res of
         Inl e \<Rightarrow> go_return (zero_PciEndpoint, bdfs, Some (Wrapf ''sysfs failure: '' e))
       | Inr link \<Rightarrow> go_bind (slice_from3 link) (\<lambda>vfBdf.
     go_bind (go_call (filepath_Glob os (''/sys/bus/pci/devices/'' @ vfBdf @ ''/nvme''))) (\<lambda>res. case res of
         Inl e \<Rightarrow> go_return (zero_PciEndpoint, bdfs, Some (Wrapf ''sysfs failure: '' e))
       | Inr [] \<Rightarrow> go_return (zero_PciEndpoint\<lparr>vfID := word_of_nat vf\<rparr>, bdfs\<lparr>vfBdf := vfBdf\<rparr>, None)
       | Inr (_ # _) \<Rightarrow> getAvailableFunctionsXpu_loop os bdfs vfs)))"

definition getAvailableFunctionsXpu :: "'w os \<Rightarrow> PciIDs \<Rightarrow> ('w, PciEndpoint \<times> PciBdfs \<times> err) go" where
  "getAvailableFunctionsXpu os pciIDs =
     go_bind (getXpuPfBdfAndVfCount os pciIDs) (\<lambda>(pf, vfCount).
       getAvailableFunctionsXpu_loop os (zero_PciBdfs\<lparr>pfBdf := pf\<rparr>) [1 ..< Suc vfCount])"

definition GetAvailableFunctions ::
  "'w os \<Rightarrow> nat \<Rightarrow> XpuConfig \<Rightarrow> ('w, PciEndpoint \<times> PciBdfs \<times> err) go" where
  "GetAvailableFunctions os kvmPciBridgeCount xpuConfig =
     (if IsKvm (Some (xc_PciIDs xpuConfig)) then getAvailableFunctionsKvm os kvmPciBridgeCount
      else getAvailableFunctionsXpu os (xc_PciIDs xpuConfig))"

end
