(* ===== verification/Sma_Initiator.thy ===== *)
theory Sma_Initiator
  imports Pci_Sysfs
begin

text \<open>
  The SMA back ends of \<open>pkg/util/smainitiator.go\<close>. The client of the storage management agent is
  generated code: its four calls are a parameter. A method runs on the \<open>smaCommon\<close> object its three
  back ends share by pointer, and the world; the request context only carries a deadline, which
  the client turns into an error. A nil byte slice is \<open>None\<close>.
\<close>

text \<open>What \<open>ConnectParams\<close> of \<open>xpuinitiator.go\<close> holds, and its constants.\<close>

record ConnectParams =
  tcpTargetPort :: string
  cp_PciEndpoint :: PciEndpoint

definition xpuNvmfTCPTargetType :: string where "xpuNvmfTCPTargetType = ''tcp''"
definition xpuNvmfTCPAdrFam :: string where "xpuNvmfTCPAdrFam = ''ipv4''"
definition xpuNvmfTCPTargetAddr :: string where "xpuNvmfTCPTargetAddr = ''127.0.0.1''"
definition xpuNvmfTCPTargetPort :: string where "xpuNvmfTCPTargetPort = ''4421''"
definition xpuNvmfTCPSubNqnPref :: string where
  "xpuNvmfTCPSubNqnPref = ''nqn.2022-04.io.spdk.csi:cnode0:uuid:''"
definition smaNvmfTCPTargetPort :: string where "smaNvmfTCPTargetPort = ''4421''"

definition TransportTypeNvmfTCP :: string where "TransportTypeNvmfTCP = ''nvmftcp''"
definition TransportTypeNvme :: string where "TransportTypeNvme = ''nvme''"
definition TransportTypeVirtioBlk :: string where "TransportTypeVirtioBlk = ''virtioblk''"

section \<open>Requests and the client\<close>

record nvmf_volume_params =
  nvp_Subnqn :: string
  nvp_Hostnqn :: string
  nvp_DiscoveryEndpoints :: "(string \<times> string \<times> string) list"

record VolumeParameters =
  vp_VolumeId :: "string option"
  vp_ConnectionParams :: nvmf_volume_params

datatype sma_device_params =
    NvmfTcpParams (dp_Subnqn: string) (dp_Adrfam: string) (dp_Traddr: string) (dp_Trsvcid: string)
      (dp_AllowAnyHost: bool)
  | NvmeParams (dp_PhysicalId: uint32) (dp_VirtualId: uint32)
  | VirtioBlkParams (dp_PhysicalId: uint32) (dp_VirtualId: uint32)

record CreateDeviceRequest =
  cdr_Volume :: "VolumeParameters option"
  cdr_Params :: sma_device_params

record AttachVolumeRequest =
  avr_Volume :: VolumeParameters
  avr_DeviceHandle :: string

record DetachVolumeRequest =
  dvr_VolumeId :: "string option"
  dvr_DeviceHandle :: string

text \<open>The calls of the client: an error, or a response, which may be nil; that of \<open>CreateDevice\<close> holds a handle.\<close>

record 'w sma_client =
  client_CreateDevice :: "CreateDeviceRequest \<Rightarrow> ('w, go_error + string option) sys"
  client_AttachVolume :: "AttachVolumeRequest \<Rightarrow> ('w, go_error + unit option) sys"
  client_DetachVolume :: "DetachVolumeRequest \<Rightarrow> ('w, go_error + unit option) sys"
  client_DeleteDevice :: "string \<Rightarrow> ('w, go_error + unit option) sys"

record smaCommon =
  sma_volumeContext :: kvs
  sma_deviceHandle :: string
  sma_volumeID :: "string option"

section \<open>The common methods\<close>

definition smaCommon_GetParam :: "smaCommon \<Rightarrow> kvs" where
  "smaCommon_GetParam sma = kv_put ''deviceHandle'' (sma_deviceHandle sma) []"

definition smaCommon_CreateDevice ::
  "'w sma_client \<Rightarrow> CreateDeviceRequest \<Rightarrow> (smaCommon \<times> 'w, err) go" where
  "smaCommon_CreateDevice client req =
     go_bind obj_get (\<lambda>sma.
     go_bind (obj_call (client_CreateDevice client req)) (\<lambda>res. case res of
       Inl e \<Rightarrow> go_return (Some (Wrapf
         (''failed to create device for id '' @ squote (kv_get (sma_volumeContext sma) ''model'') @ '': '') e))
     | Inr None \<Rightarrow> go_return (Some (Errorf ''create device: nil response''))
     | Inr (Some handle) \<Rightarrow>
         if handle = [] then go_return (Some (Errorf (''create device '' @
           squote (kv_get (sma_volumeContext sma) ''model'') @ '': no device handle in response'')))
         else go_bind (obj_modify (\<lambda>sma. sma\<lparr>sma_deviceHandle := handle\<rparr>)) (\<lambda>_. go_return None)))"

definition smaCommon_AttachVolume ::
  "'w sma_client \<Rightarrow> AttachVolumeRequest \<Rightarrow> (smaCommon \<times> 'w, err) go" where
  "smaCommon_AttachVolume client req =
     go_bind obj_get (\<lambda>sma.
     go_bind (obj_call (client_AttachVolume client req)) (\<lambda>res. case res of
       Inl e \<Rightarrow> go_return (Some (Wrapf (''failed to attach volume '' @
         fmt_q (kv_get (sma_volumeContext sma) ''model'') @ '' to device '' @ squote (avr_DeviceHandle req) @ '': '') e))
     | Inr None \<Rightarrow> go_return (Some (Errorf (''attach volume '' @ squote (kv_get (sma_volumeContext sma) ''model'') @
         '' for device '' @ squote (avr_DeviceHandle req) @ '': nil response'')))
     | Inr (Some _) \<Rightarrow> go_bind (obj_modify (\<lambda>sma. sma\<lparr>sma_volumeID := vp_VolumeId (avr_Volume req)\<rparr>))
         (\<lambda>_. go_return None)))"

definition smaCommon_DetachVolume ::
  "'w sma_client \<Rightarrow> DetachVolumeRequest \<Rightarrow> (smaCommon \<times> 'w, err) go" where
  "smaCommon_DetachVolume client req =
     go_bind obj_get (\<lambda>sma.
     go_bind (obj_call (client_DetachVolume client req)) (\<lambda>res. case res of
       Inl e \<Rightarrow> go_return (Some (Wrapf (''failed to detach volume '' @
         fmt_q (kv_get (sma_volumeContext sma) ''model'') @ '' from device '' @ squote (dvr_DeviceHandle req) @ '': '') e))
     | Inr None \<Rightarrow> go_return (Some (Errorf (''detach volume '' @ squote (kv_get (sma_volumeContext sma) ''model'') @
         '' from volume '' @ squote (dvr_DeviceHandle req) @ '': nil response'')))
     | Inr (Some _) \<Rightarrow> go_bind (obj_modify (\<lambda>sma. sma\<lparr>sma_volumeID := None\<rparr>)) (\<lambda>_. go_return None)))"

definition smaCommon_DeleteDevice :: "'w sma_client \<Rightarrow> string \<Rightarrow> (smaCommon \<times> 'w, err) go" where
  "smaCommon_DeleteDevice client handle =
     go_bind (obj_call (client_DeleteDevice client handle)) (\<lambda>res. case res of
       Inl e \<Rightarrow> go_return (Some (Wrapf (''failed to delete device '' @ squote handle @ '': '') e))
     | Inr None \<Rightarrow> go_return (Some (Errorf (''delete device '' @ squote handle @ '': nil response'')))
     | Inr (Some _) \<Rightarrow> go_bind (obj_modify (\<lambda>sma. sma\<lparr>sma_deviceHandle := []\<rparr>)) (\<lambda>_. go_return None))"

definition smaCommon_nvmfVolumeParameters :: "smaCommon \<Rightarrow> nvmf_volume_params" where
  "smaCommon_nvmfVolumeParameters sma =
     \<lparr>nvp_Subnqn = [],
      nvp_Hostnqn = kv_get (sma_volumeContext sma) ''nqn'',
      nvp_DiscoveryEndpoints =
        [(kv_get (sma_volumeContext sma) ''targetType'', kv_get (sma_volumeContext sma) ''targetAddr'',
          kv_get (sma_volumeContext sma) ''targetPort'')]\<rparr>"

definition sma_volume :: "smaCommon \<Rightarrow> VolumeParameters" where
  "sma_volume sma =
     \<lparr>vp_VolumeId = sma_volumeID sma, vp_ConnectionParams = smaCommon_nvmfVolumeParameters sma\<rparr>"

section \<open>NVMe-oF/TCP\<close>

definition smaInitiatorNvmfTCP_Connect ::
  "'w sma_client \<Rightarrow> ConnectParams \<Rightarrow> (smaCommon \<times> 'w, err) go" where
  "smaInitiatorNvmfTCP_Connect client params =
     go_bind obj_get (\<lambda>i.
     go_bind (smaCommon_CreateDevice client
       \<lparr>cdr_Volume = None,
        cdr_Params = NvmfTcpParams (xpuNvmfTCPSubNqnPref @ kv_get (sma_volumeContext i) ''model'')
          xpuNvmfTCPAdrFam xpuNvmfTCPTargetAddr (tcpTargetPort params) True\<rparr>) (\<lambda>err.
     if err \<noteq> None then go_return err
     else go_bind obj_get (\<lambda>i.
     go_bind (smaCommon_AttachVolume client
       \<lparr>avr_Volume = sma_volume i, avr_DeviceHandle = sma_deviceHandle i\<rparr>) (\<lambda>err.
     if err \<noteq> None
     then go_bind obj_get (\<lambda>i. go_bind (smaCommon_DeleteDevice client (sma_deviceHandle i)) (\<lambda>_. go_return err))
     else go_return None))))"

definition smaInitiatorNvmfTCP_Disconnect :: "'w sma_client \<Rightarrow> (smaCommon \<times> 'w, err) go" where
  "smaInitiatorNvmfTCP_Disconnect client =
     go_bind obj_get (\<lambda>i.
     let delete = smaCommon_DeleteDevice client (sma_deviceHandle i) in
     if sma_deviceHandle i = [] then go_return None
     else (case sma_volumeID i of
       None \<Rightarrow> delete
     | Some v \<Rightarrow> go_bind (smaCommon_DetachVolume client
           \<lparr>dvr_VolumeId = sma_volumeID i, dvr_DeviceHandle = sma_deviceHandle i\<rparr>) (\<lambda>err. case err of
         Some e \<Rightarrow> go_return (Some (Wrapf (''failed to detach volume '' @ squote v @ '' from device '' @
           squote (sma_deviceHandle i) @ '': '') e))
       | None \<Rightarrow> delete)))"

section \<open>NVMe (vfio-user)\<close>

definition smaInitiatorNvme_Connect ::
  "'w sma_client \<Rightarrow> ConnectParams \<Rightarrow> (smaCommon \<times> 'w, err) go" where
  "smaInitiatorNvme_Connect client params =
     go_bind (smaCommon_CreateDevice client
       \<lparr>cdr_Volume = None,
        cdr_Params = NvmeParams (pfID (cp_PciEndpoint params)) (vfID (cp_PciEndpoint params))\<rparr>) (\<lambda>err.
     if err \<noteq> None then go_return err
     else go_bind obj_get (\<lambda>i.
     go_bind (smaCommon_AttachVolume client
       \<lparr>avr_Volume = sma_volume i, avr_DeviceHandle = sma_deviceHandle i\<rparr>) (\<lambda>err.
     if err \<noteq> None
     then go_bind obj_get (\<lambda>i. go_bind (smaCommon_DeleteDevice client (sma_deviceHandle i)) (\<lambda>_. go_return err))
     else go_return None)))"

definition smaInitiatorNvme_Disconnect :: "'w sma_client \<Rightarrow> (smaCommon \<times> 'w, err) go" where
  "smaInitiatorNvme_Disconnect client =
     go_bind obj_get (\<lambda>i.
     let delete = smaCommon_DeleteDevice client (sma_deviceHandle i) in
     if sma_deviceHandle i = [] then go_return None
     else (case sma_volumeID i of
       None \<Rightarrow> delete
     | Some _ \<Rightarrow> go_bind (smaCommon_DetachVolume client
           \<lparr>dvr_VolumeId = sma_volumeID i, dvr_DeviceHandle = sma_deviceHandle i\<rparr>) (\<lambda>err.
         if err \<noteq> None then go_return err else delete)))"

section \<open>virtio-blk\<close>

definition smaInitiatorVirtioBlk_Connect ::
  "'w sma_client \<Rightarrow> ConnectParams \<Rightarrow> (smaCommon \<times> 'w, err) go" where
  "smaInitiatorVirtioBlk_Connect client params =
     go_bind obj_get (\<lambda>i.
     if sma_deviceHandle i \<noteq> [] then go_return None
     else go_bind (smaCommon_CreateDevice client
       \<lparr>cdr_Volume = Some (sma_volume i),
        cdr_Params = VirtioBlkParams (pfID (cp_PciEndpoint params)) (vfID (cp_PciEndpoint params))\<rparr>) (\<lambda>err.
     if err \<noteq> None then go_return err else go_return None))"

definition smaInitiatorVirtioBlk_Disconnect :: "'w sma_client \<Rightarrow> (smaCommon \<times> 'w, err) go" where
  "smaInitiatorVirtioBlk_Disconnect client =
     go_bind obj_get (\<lambda>i.
     if sma_deviceHandle i = [] then go_return None
     else smaCommon_DeleteDevice client (sma_deviceHandle i))"

section \<open>The constructor\<close>

text \<open>
  \<open>uuid.Parse\<close> of the UUID package, with the sixteen bytes that \<open>MarshalBinary\<close> gives for its result,
  is the parameter \<open>uuid_Parse\<close>.
\<close>

definition volumeUUID :: "(string \<Rightarrow> go_error + string) \<Rightarrow> string \<Rightarrow> go_error + string" where
  "volumeUUID uuid_Parse model =
     (if model = [] then Inl (Errorf ''no volume available'')
      else (case uuid_Parse model of
        Inl e \<Rightarrow> Inl (Wrapf (''uuid.Parse('' @ model @ '') failed: '') e)
      | Inr volUUID \<Rightarrow> Inr volUUID))"

datatype sma_backend = SmaNvmfTCP smaCommon | SmaNvme smaCommon | SmaVirtioBlk smaCommon

definition NewSpdkCsiSmaInitiator ::
  "(string \<Rightarrow> go_error + string) \<Rightarrow> kvs \<Rightarrow> string \<Rightarrow> kvs option \<Rightarrow> go_error + sma_backend" where
  "NewSpdkCsiSmaInitiator uuid_Parse volumeContext trType storedXPUContext =
     (case volumeUUID uuid_Parse (kv_get volumeContext ''model'') of
        Inl e \<Rightarrow> Inl e
      | Inr volumeID \<Rightarrow>
          (let iSmaCommon = \<lparr>sma_volumeContext = volumeContext,
                 sma_deviceHandle = (case storedXPUContext of None \<Rightarrow> [] | Some c \<Rightarrow> kv_get c ''deviceHandle''),
                 sma_volumeID = Some volumeID\<rparr>
           in if trType = TransportTypeNvmfTCP then Inr (SmaNvmfTCP iSmaCommon)
              else if trType = TransportTypeNvme then Inr (SmaNvme iSmaCommon)
              else if trType = TransportTypeVirtioBlk then Inr (SmaVirtioBlk iSmaCommon)
              else Inl (Errorf (''unknown SMA targetType: '' @ trType))))"

end
