(* ===== verification/Opi_Initiator.thy ===== *)
theory Opi_Initiator
  imports Sma_Initiator
begin

text \<open>
  The OPI back ends of \<open>pkg/util/opiinitiator.go\<close>. The clients of the OPI storage services are
  generated code and a parameter; a creation answers with the new object's name, a deletion with
  nothing. The names of the objects a back end has created are its state, the empty string standing
  for none.
\<close>

definition opiNvmfRemoteControllerHostnqnPref :: string where
  "opiNvmfRemoteControllerHostnqnPref = ''nqn.2023-04.io.spdk.csi:remote.controller:uuid:''"
definition opiNvmeSubsystemNqnPref :: string where
  "opiNvmeSubsystemNqnPref = ''nqn.2016-06.io.spdk.csi:subsystem:uuid:''"
definition opiObjectPrefix :: string where "opiObjectPrefix = ''opi-spckcsi-''"

section \<open>Requests and clients\<close>

text \<open>
  The request messages. Every remote controller is created with multipath, every path over
  NVMe/TCP and IPv4, every PCI endpoint on port 0: these constants are not repeated in the records.
\<close>

record NvmePath =
  np_Traddr :: string
  np_Trsvcid :: int64
  np_Subnqn :: string
  np_Hostnqn :: string
  np_ControllerNameRef :: string

record NvmeControllerSpec =
  ncs_SubsystemNameRef :: string
  ncs_PhysicalFunction :: int32
  ncs_VirtualFunction :: int32

record NvmeNamespaceSpec =
  nns_SubsystemNameRef :: string
  nns_HostNsid :: int32
  nns_VolumeNameRef :: string

record VirtioBlk =
  vb_PhysicalFunction :: int32
  vb_VirtualFunction :: int32
  vb_VolumeNameRef :: string

record DeleteRequest =
  del_Name :: string
  del_AllowMissing :: bool

text \<open>A creation takes the ID of the object (and what it is made from), a deletion its name.\<close>

record 'w opi_client =
  opi_CreateNvmeRemoteController :: "string \<Rightarrow> ('w, go_error + string) sys"
  opi_DeleteNvmeRemoteController :: "DeleteRequest \<Rightarrow> ('w, err) sys"
  opi_CreateNvmePath :: "string \<Rightarrow> NvmePath \<Rightarrow> ('w, go_error + string) sys"
  opi_DeleteNvmePath :: "DeleteRequest \<Rightarrow> ('w, err) sys"
  opi_CreateNvmeSubsystem :: "string \<Rightarrow> string \<Rightarrow> ('w, go_error + string) sys"
  opi_DeleteNvmeSubsystem :: "DeleteRequest \<Rightarrow> ('w, err) sys"
  opi_CreateNvmeController :: "string \<Rightarrow> NvmeControllerSpec \<Rightarrow> ('w, go_error + string) sys"
  opi_DeleteNvmeController :: "DeleteRequest \<Rightarrow> ('w, err) sys"
  opi_CreateNvmeNamespace :: "string \<Rightarrow> NvmeNamespaceSpec \<Rightarrow> ('w, go_error + string) sys"
  opi_DeleteNvmeNamespace :: "DeleteRequest \<Rightarrow> ('w, err) sys"
  opi_CreateVirtioBlk :: "string \<Rightarrow> VirtioBlk \<Rightarrow> ('w, go_error + string) sys"
  opi_DeleteVirtioBlk :: "DeleteRequest \<Rightarrow> ('w, err) sys"

record opiCommon =
  opi_volumeContext :: kvs
  nvmfRemoteControllerName :: string
  nvmfPathName :: string

record opiInitiatorNvme =
  on_opiCommon :: opiCommon
  subsystemName :: string
  namespaceName :: string
  nvmeControllerName :: string

record opiInitiatorVirtioBlk =
  ov_opiCommon :: opiCommon
  virtioBlkName :: string

definition opiInitiatorNvme_GetParam :: "opiInitiatorNvme \<Rightarrow> kvs" where
  "opiInitiatorNvme_GetParam i =
     kv_put ''nvmeControllerName'' (nvmeControllerName i)
     (kv_put ''namespaceName'' (namespaceName i)
     (kv_put ''subsystemName'' (subsystemName i)
     (kv_put ''nvmfPathName'' (nvmfPathName (on_opiCommon i))
     (kv_put ''nvmfRemoteControllerName'' (nvmfRemoteControllerName (on_opiCommon i)) []))))"

definition opiInitiatorVirtioBlk_GetParam :: "opiInitiatorVirtioBlk \<Rightarrow> kvs" where
  "opiInitiatorVirtioBlk_GetParam i =
     kv_put ''virtioBlkName'' (virtioBlkName i)
     (kv_put ''nvmfPathName'' (nvmfPathName (ov_opiCommon i))
     (kv_put ''nvmfRemoteControllerName'' (nvmfRemoteControllerName (ov_opiCommon i)) []))"

section \<open>The common methods\<close>

definition opiCommon_createNvmeRemoteController :: "'w opi_client \<Rightarrow> (opiCommon \<times> 'w, err) go" where
  "opiCommon_createNvmeRemoteController client =
     go_bind obj_get (\<lambda>opi.
     let nvmfRemoteControllerID = opiObjectPrefix @ kv_get (opi_volumeContext opi) ''model'' in
     go_bind (obj_call (opi_CreateNvmeRemoteController client nvmfRemoteControllerID)) (\<lambda>res. case res of
       Inl e \<Rightarrow> go_return (Some (Wrapf
         (''failed to create remote NVMf controller for '' @ squote nvmfRemoteControllerID @ '': '') e))
     | Inr name \<Rightarrow> go_bind (obj_modify (\<lambda>opi. opi\<lparr>nvmfRemoteControllerName := name\<rparr>)) (\<lambda>_. go_return None)))"

definition opiCommon_deleteNvmeRemoteController :: "'w opi_client \<Rightarrow> (opiCommon \<times> 'w, err) go" where
  "opiCommon_deleteNvmeRemoteController client =
     go_bind obj_get (\<lambda>opi.
     if nvmfRemoteControllerName opi = [] then go_return None
     else go_bind (obj_call (opi_DeleteNvmeRemoteController client
            \<lparr>del_Name = nvmfRemoteControllerName opi, del_AllowMissing = True\<rparr>)) (\<lambda>err.
     if err \<noteq> None then go_return err
     else go_bind (obj_modify (\<lambda>opi. opi\<lparr>nvmfRemoteControllerName := []\<rparr>)) (\<lambda>_. go_return None)))"

definition opiCommon_createNvmfPath :: "'w opi_client \<Rightarrow> (opiCommon \<times> 'w, err) go" where
  "opiCommon_createNvmfPath client =
     go_bind obj_get (\<lambda>opi.
     let vc = kv_get (opi_volumeContext opi);
         nvmfPathID = opiObjectPrefix @ vc ''model'' in
     case strconv_ParseInt (vc ''targetPort'') of
       None \<Rightarrow> go_return (Some (Wrapf (''failed to create NVMf path for '' @ squote (vc ''model'') @
         '': invalid targetPort '' @ squote (vc ''targetPort'') @ '': '') (ParseInt_error (vc ''targetPort''))))
     | Some targetSvcPort \<Rightarrow>
     go_bind (obj_call (opi_CreateNvmePath client nvmfPathID
        \<lparr>np_Traddr = vc ''targetAddr'', np_Trsvcid = targetSvcPort, np_Subnqn = vc ''nqn'',
         np_Hostnqn = opiNvmfRemoteControllerHostnqnPref @ vc ''model'',
         np_ControllerNameRef = nvmfRemoteControllerName opi\<rparr>)) (\<lambda>res. case res of
       Inl e \<Rightarrow> go_return (Some (Wrapf (''failed to create remote NVMf path for '' @ squote nvmfPathID @ '': '') e))
     | Inr name \<Rightarrow> go_bind (obj_modify (\<lambda>opi. opi\<lparr>nvmfPathName := name\<rparr>)) (\<lambda>_. go_return None)))"

definition opiCommon_deleteNvmfPath :: "'w opi_client \<Rightarrow> (opiCommon \<times> 'w, err) go" where
  "opiCommon_deleteNvmfPath client =
     go_bind obj_get (\<lambda>opi.
     if nvmfPathName opi = [] then go_return None
     else go_bind (obj_call (opi_DeleteNvmePath client
            \<lparr>del_Name = nvmfPathName opi, del_AllowMissing = True\<rparr>)) (\<lambda>err.
     if err \<noteq> None then go_return err
     else go_bind (obj_modify (\<lambda>opi. opi\<lparr>nvmfPathName := []\<rparr>)) (\<lambda>_. go_return None)))"

text \<open>The promoted methods of the embedded \<open>*opiCommon\<close>.\<close>

definition on_common :: "(opiCommon \<times> 'w, 'a) go \<Rightarrow> (opiInitiatorNvme \<times> 'w, 'a) go" where
  "on_common = go_zoom on_opiCommon (\<lambda>c. on_opiCommon_update (\<lambda>_. c))"

definition ov_common :: "(opiCommon \<times> 'w, 'a) go \<Rightarrow> (opiInitiatorVirtioBlk \<times> 'w, 'a) go" where
  "ov_common = go_zoom ov_opiCommon (\<lambda>c. ov_opiCommon_update (\<lambda>_. c))"

definition on_vc :: "opiInitiatorNvme \<Rightarrow> string \<Rightarrow> string" where
  "on_vc i = kv_get (opi_volumeContext (on_opiCommon i))"

definition ov_vc :: "opiInitiatorVirtioBlk \<Rightarrow> string \<Rightarrow> string" where
  "ov_vc i = kv_get (opi_volumeContext (ov_opiCommon i))"

section \<open>NVMe (vfio-user)\<close>

definition opiInitiatorNvme_createNvmeSubsystem :: "'w opi_client \<Rightarrow> (opiInitiatorNvme \<times> 'w, err) go" where
  "opiInitiatorNvme_createNvmeSubsystem client =
     go_bind obj_get (\<lambda>i.
     let nvmeSubsystemID = opiObjectPrefix @ on_vc i ''model'' in
     go_bind (obj_call (opi_CreateNvmeSubsystem client nvmeSubsystemID
        (opiNvmeSubsystemNqnPref @ on_vc i ''model''))) (\<lambda>res. case res of
       Inl e \<Rightarrow> go_return (Some (Wrapf (''failed to create NVMe subsystem for '' @ squote nvmeSubsystemID @ '': '') e))
     | Inr name \<Rightarrow> go_bind (obj_modify (\<lambda>i. i\<lparr>subsystemName := name\<rparr>)) (\<lambda>_. go_return None)))"

definition opiInitiatorNvme_deleteNvmeSubsystem :: "'w opi_client \<Rightarrow> (opiInitiatorNvme \<times> 'w, err) go" where
  "opiInitiatorNvme_deleteNvmeSubsystem client =
     go_bind obj_get (\<lambda>i.
     if subsystemName i = [] then go_return None
     else go_bind (obj_call (opi_DeleteNvmeSubsystem client
            \<lparr>del_Name = subsystemName i, del_AllowMissing = True\<rparr>)) (\<lambda>err. case err of
       Some e \<Rightarrow> go_return (Some (Wrapf (''failed to delete NVMe subsystem '' @ squote (subsystemName i) @ '': '') e))
     | None \<Rightarrow> go_bind (obj_modify (\<lambda>i. i\<lparr>subsystemName := []\<rparr>)) (\<lambda>_. go_return None)))"

definition opiInitiatorNvme_createNvmeController ::
  "'w opi_client \<Rightarrow> uint32 \<Rightarrow> uint32 \<Rightarrow> (opiInitiatorNvme \<times> 'w, err) go" where
  "opiInitiatorNvme_createNvmeController client physID virtID =
     go_bind obj_get (\<lambda>i.
     let nvmeControllerID = opiObjectPrefix @ on_vc i ''model'' in
     go_bind (obj_call (opi_CreateNvmeController client nvmeControllerID
        \<lparr>ncs_SubsystemNameRef = subsystemName i, ncs_PhysicalFunction = physID,
         ncs_VirtualFunction = virtID\<rparr>)) (\<lambda>res. case res of
       Inl e \<Rightarrow> go_return (Some (Wrapf (''failed to create NVMe controller with physID ('' @
         dec_digits (unat physID) @ '') and virtID ('' @ dec_digits (unat virtID) @ '') error: '') e))
     | Inr name \<Rightarrow> go_bind (obj_modify (\<lambda>i. i\<lparr>nvmeControllerName := name\<rparr>)) (\<lambda>_. go_return None)))"

definition opiInitiatorNvme_deleteNvmeController :: "'w opi_client \<Rightarrow> (opiInitiatorNvme \<times> 'w, err) go" where
  "opiInitiatorNvme_deleteNvmeController client =
     go_bind obj_get (\<lambda>i.
     if nvmeControllerName i = [] then go_return None
     else go_bind (obj_call (opi_DeleteNvmeController client
            \<lparr>del_Name = nvmeControllerName i, del_AllowMissing = True\<rparr>)) (\<lambda>err.
     if err \<noteq> None then go_return err
     else go_bind (obj_modify (\<lambda>i. i\<lparr>nvmeControllerName := []\<rparr>)) (\<lambda>_. go_return None)))"

definition opiInitiatorNvme_createNvmeNamespace ::
  "'w os \<Rightarrow> 'w opi_client \<Rightarrow> (opiInitiatorNvme \<times> 'w, err) go" where
  "opiInitiatorNvme_createNvmeNamespace os client =
     go_bind obj_get (\<lambda>i.
     let nvmeNamespaceID = opiObjectPrefix @ on_vc i ''model'' in
     go_bind (obj_call (rand_Int os 32)) (\<lambda>res. case res of
       Inl e \<Rightarrow> go_return (Some (Wrapf ''failed to generate random number: '' e))
     | Inr bigHostNsID \<Rightarrow>
     go_bind (obj_call (opi_CreateNvmeNamespace client nvmeNamespaceID
        \<lparr>nns_SubsystemNameRef = subsystemName i, nns_HostNsid = word_of_nat bigHostNsID,
         nns_VolumeNameRef = on_vc i ''model''\<rparr>)) (\<lambda>res. case res of
       Inl e \<Rightarrow> go_return (Some e)
     | Inr name \<Rightarrow> go_bind (obj_modify (\<lambda>i. i\<lparr>namespaceName := name\<rparr>)) (\<lambda>_. go_return None))))"

definition opiInitiatorNvme_deleteNvmeNamespace :: "'w opi_client \<Rightarrow> (opiInitiatorNvme \<times> 'w, err) go" where
  "opiInitiatorNvme_deleteNvmeNamespace client =
     go_bind obj_get (\<lambda>i.
     if namespaceName i = [] then go_return None
     else go_bind (obj_call (opi_DeleteNvmeNamespace client
            \<lparr>del_Name = namespaceName i, del_AllowMissing = True\<rparr>)) (\<lambda>err.
     if err \<noteq> None then go_return err
     else go_bind (obj_modify (\<lambda>i. i\<lparr>namespaceName := []\<rparr>)) (\<lambda>_. go_return None)))"

definition opiInitiatorNvme_cleanup :: "'w opi_client \<Rightarrow> (opiInitiatorNvme \<times> 'w, err) go" where
  "opiInitiatorNvme_cleanup client =
     go_bind (opiInitiatorNvme_deleteNvmeNamespace client) (\<lambda>err. if err \<noteq> None then go_return err else
     go_bind (on_common (opiCommon_deleteNvmfPath client)) (\<lambda>err. if err \<noteq> None then go_return err else
     go_bind (on_common (opiCommon_deleteNvmeRemoteController client)) (\<lambda>err. if err \<noteq> None then go_return err else
     go_bind (opiInitiatorNvme_deleteNvmeController client) (\<lambda>err. if err \<noteq> None then go_return err else
     opiInitiatorNvme_deleteNvmeSubsystem client))))"

text \<open>The deferred clean-up runs on every failure after the first step; its own error is only logged.\<close>

definition opiInitiatorNvme_Connect ::
  "'w os \<Rightarrow> 'w opi_client \<Rightarrow> ConnectParams \<Rightarrow> (opiInitiatorNvme \<times> 'w, err) go" where
  "opiInitiatorNvme_Connect os client params =
     (let failed = (\<lambda>err. go_bind (opiInitiatorNvme_cleanup client) (\<lambda>_. go_return err)) in
     go_bind (opiInitiatorNvme_createNvmeSubsystem client) (\<lambda>err. if err \<noteq> None then go_return err else
     go_bind (opiInitiatorNvme_createNvmeController client (pfID (cp_PciEndpoint params)) (vfID (cp_PciEndpoint params)))
       (\<lambda>err. if err \<noteq> None then failed err else
     go_bind (on_common (opiCommon_createNvmeRemoteController client)) (\<lambda>err. if err \<noteq> None then failed err else
     go_bind (on_common (opiCommon_createNvmfPath client)) (\<lambda>err. if err \<noteq> None then failed err else
     go_bind (opiInitiatorNvme_createNvmeNamespace os client) (\<lambda>err. if err \<noteq> None then failed err else
     go_return None))))))"

definition opiInitiatorNvme_Disconnect :: "'w opi_client \<Rightarrow> (opiInitiatorNvme \<times> 'w, err) go" where
  "opiInitiatorNvme_Disconnect client = opiInitiatorNvme_cleanup client"

section \<open>virtio-blk\<close>

definition opiInitiatorVirtioBlk_createVirtioBlk ::
  "'w opi_client \<Rightarrow> uint32 \<Rightarrow> uint32 \<Rightarrow> (opiInitiatorVirtioBlk \<times> 'w, err) go" where
  "opiInitiatorVirtioBlk_createVirtioBlk client physID virtID =
     go_bind obj_get (\<lambda>i.
     let virtioBlkID = opiObjectPrefix @ ov_vc i ''model'' in
     go_bind (obj_call (opi_CreateVirtioBlk client virtioBlkID
        \<lparr>vb_PhysicalFunction = physID, vb_VirtualFunction = virtID,
         vb_VolumeNameRef = ov_vc i ''model''\<rparr>)) (\<lambda>res. case res of
       Inl e \<Rightarrow> go_return (Some (Wrapf (''failed to create virtio-blk device with physID ('' @
         dec_digits (unat physID) @ '') and virtID ('' @ dec_digits (unat virtID) @ '') error: '') e))
     | Inr name \<Rightarrow> go_bind (obj_modify (\<lambda>i. i\<lparr>virtioBlkName := name\<rparr>)) (\<lambda>_. go_return None)))"

definition opiInitiatorVirtioBlk_deleteVirtioBlk :: "'w opi_client \<Rightarrow> (opiInitiatorVirtioBlk \<times> 'w, err) go" where
  "opiInitiatorVirtioBlk_deleteVirtioBlk client =
     go_bind obj_get (\<lambda>i.
     if virtioBlkName i = [] then go_return None
     else go_bind (obj_call (opi_DeleteVirtioBlk client
            \<lparr>del_Name = virtioBlkName i, del_AllowMissing = True\<rparr>)) (\<lambda>err.
     if err \<noteq> None then go_return err
     else go_bind (obj_modify (\<lambda>i. i\<lparr>virtioBlkName := []\<rparr>)) (\<lambda>_. go_return None)))"

definition opiInitiatorVirtioBlk_cleanup :: "'w opi_client \<Rightarrow> (opiInitiatorVirtioBlk \<times> 'w, err) go" where
  "opiInitiatorVirtioBlk_cleanup client =
     go_bind (opiInitiatorVirtioBlk_deleteVirtioBlk client) (\<lambda>err. if err \<noteq> None then go_return err else
     go_bind (ov_common (opiCommon_deleteNvmfPath client)) (\<lambda>err. if err \<noteq> None then go_return err else
     ov_common (opiCommon_deleteNvmeRemoteController client)))"

definition opiInitiatorVirtioBlk_Connect ::
  "'w opi_client \<Rightarrow> ConnectParams \<Rightarrow> (opiInitiatorVirtioBlk \<times> 'w, err) go" where
  "opiInitiatorVirtioBlk_Connect client params =
     (let failed = (\<lambda>err. go_bind (opiInitiatorVirtioBlk_cleanup client) (\<lambda>_. go_return err)) in
     go_bind (ov_common (opiCommon_createNvmeRemoteController client)) (\<lambda>err. if err \<noteq> None then go_return err else
     go_bind (ov_common (opiCommon_createNvmfPath client)) (\<lambda>err. if err \<noteq> None then failed err else
     go_bind (opiInitiatorVirtioBlk_createVirtioBlk client (pfID (cp_PciEndpoint params)) (vfID (cp_PciEndpoint params)))
       (\<lambda>err. if err \<noteq> None then failed err else
     go_return None))))"

definition opiInitiatorVirtioBlk_Disconnect :: "'w opi_client \<Rightarrow> (opiInitiatorVirtioBlk \<times> 'w, err) go" where
  "opiInitiatorVirtioBlk_Disconnect client = opiInitiatorVirtioBlk_cleanup client"

section \<open>The constructor\<close>

datatype opi_backend = OpiNvme opiInitiatorNvme | OpiVirtioBlk opiInitiatorVirtioBlk

definition NewSpdkCsiOpiInitiator :: "kvs \<Rightarrow> string \<Rightarrow> kvs option \<Rightarrow> go_error + opi_backend" where
  "NewSpdkCsiOpiInitiator volumeContext trType storedXPUContext =
     (let stored = (\<lambda>k. case storedXPUContext of None \<Rightarrow> [] | Some c \<Rightarrow> kv_get c k);
          iOpiCommon = \<lparr>opi_volumeContext = volumeContext,
            nvmfRemoteControllerName = stored ''nvmfRemoteControllerName'',
            nvmfPathName = stored ''nvmfPathName''\<rparr>
      in if trType = TransportTypeVirtioBlk then
           Inr (OpiVirtioBlk \<lparr>ov_opiCommon = iOpiCommon, virtioBlkName = stored ''virtioBlkName''\<rparr>)
         else if trType = TransportTypeNvme then
           Inr (OpiNvme \<lparr>on_opiCommon = iOpiCommon, subsystemName = stored ''subsystemName'',
             namespaceName = stored ''namespaceName'', nvmeControllerName = stored ''nvmeControllerName''\<rparr>)
         else Inl (Errorf (''unknown OPI transport type: '' @ trType)))"

end
