(* ===== verification/Xpu_Initiator.thy ===== *)
theory Xpu_Initiator
  imports Opi_Initiator
begin

text \<open>
  The xPU initiator of \<open>pkg/util/xpuinitiator.go\<close>: it drives an SMA or OPI back end, waits for the
  device the back end makes appear on the host, and keeps what it needs to undo the work in a
  stash beside that of the volume.
\<close>

definition xpuTargetBackendSma :: string where "xpuTargetBackendSma = ''sma''"
definition xpuTargetBackendOpi :: string where "xpuTargetBackendOpi = ''opi''"

section \<open>The environment and the back ends\<close>

text \<open>
  What an xPU initiator runs on: the operating system, the clients of the xPU's services, the UUID
  parser, the number of KVM bridges found at start, and the package's mutex \<open>phyIDLock\<close>, whose
  \<open>Lock\<close> returns when the caller holds it.
\<close>

record 'w xpu_env =
  xe_os :: "'w os"
  xe_sma :: "'w sma_client"
  xe_opi :: "'w opi_client"
  xe_uuid_Parse :: "string \<Rightarrow> go_error + string"
  xe_kvmPciBridgeCount :: nat
  phyIDLock_Lock :: "('w, unit) sys"
  phyIDLock_Unlock :: "('w, unit) sys"

text \<open>The interface \<open>XpuInitiator\<close>: its values and the dispatch of its methods.\<close>

datatype xpu_backend = SmaBackend sma_backend | OpiBackend opi_backend

definition on_backend :: "('o \<Rightarrow> 'b) \<Rightarrow> 'o \<Rightarrow> ('o \<times> 'w, 'a) go \<Rightarrow> ('b \<times> 'w, 'a) go" where
  "on_backend con o1 m = (\<lambda>(_, w). case m (o1, w) of (r, o2, w') \<Rightarrow> (r, con o2, w'))"

lemma go_wp_on_backend [go_wp_simps, simp]:
  "go_wp (on_backend con o1 m) Q E (b, w) =
     go_wp m (\<lambda>r (o2, w'). Q r (con o2, w')) (\<lambda>s (o2, w'). E s (con o2, w')) (o1, w)"
  by (simp add: go_wp_def on_backend_def split: prod.split outcome.split)

fun XpuInitiator_Connect :: "'w xpu_env \<Rightarrow> ConnectParams \<Rightarrow> xpu_backend \<Rightarrow> (xpu_backend \<times> 'w, err) go" where
  "XpuInitiator_Connect env params (SmaBackend (SmaNvmfTCP i)) =
     on_backend (SmaBackend \<circ> SmaNvmfTCP) i (smaInitiatorNvmfTCP_Connect (xe_sma env) params)"
| "XpuInitiator_Connect env params (SmaBackend (SmaNvme i)) =
     on_backend (SmaBackend \<circ> SmaNvme) i (smaInitiatorNvme_Connect (xe_sma env) params)"
| "XpuInitiator_Connect env params (SmaBackend (SmaVirtioBlk i)) =
     on_backend (SmaBackend \<circ> SmaVirtioBlk) i (smaInitiatorVirtioBlk_Connect (xe_sma env) params)"
| "XpuInitiator_Connect env params (OpiBackend (OpiNvme i)) =
     on_backend (OpiBackend \<circ> OpiNvme) i (opiInitiatorNvme_Connect (xe_os env) (xe_opi env) params)"
| "XpuInitiator_Connect env params (OpiBackend (OpiVirtioBlk i)) =
     on_backend (OpiBackend \<circ> OpiVirtioBlk) i (opiInitiatorVirtioBlk_Connect (xe_opi env) params)"

fun XpuInitiator_Disconnect :: "'w xpu_env \<Rightarrow> xpu_backend \<Rightarrow> (xpu_backend \<times> 'w, err) go" where
  "XpuInitiator_Disconnect env (SmaBackend (SmaNvmfTCP i)) =
     on_backend (SmaBackend \<circ> SmaNvmfTCP) i (smaInitiatorNvmfTCP_Disconnect (xe_sma env))"
| "XpuInitiator_Disconnect env (SmaBackend (SmaNvme i)) =
     on_backend (SmaBackend \<circ> SmaNvme) i (smaInitiatorNvme_Disconnect (xe_sma env))"
| "XpuInitiator_Disconnect env (SmaBackend (SmaVirtioBlk i)) =
     on_backend (SmaBackend \<circ> SmaVirtioBlk) i (smaInitiatorVirtioBlk_Disconnect (xe_sma env))"
| "XpuInitiator_Disconnect env (OpiBackend (OpiNvme i)) =
     on_backend (OpiBackend \<circ> OpiNvme) i (opiInitiatorNvme_Disconnect (xe_opi env))"
| "XpuInitiator_Disconnect env (OpiBackend (OpiVirtioBlk i)) =
     on_backend (OpiBackend \<circ> OpiVirtioBlk) i (opiInitiatorVirtioBlk_Disconnect (xe_opi env))"

fun XpuInitiator_GetParam :: "xpu_backend \<Rightarrow> kvs" where
  "XpuInitiator_GetParam (SmaBackend (SmaNvmfTCP i)) = smaCommon_GetParam i"
| "XpuInitiator_GetParam (SmaBackend (SmaNvme i)) = smaCommon_GetParam i"
| "XpuInitiator_GetParam (SmaBackend (SmaVirtioBlk i)) = smaCommon_GetParam i"
| "XpuInitiator_GetParam (OpiBackend (OpiNvme i)) = opiInitiatorNvme_GetParam i"
| "XpuInitiator_GetParam (OpiBackend (OpiVirtioBlk i)) = opiInitiatorVirtioBlk_GetParam i"

section \<open>The initiator\<close>

record XpuTargetType =
  xt_Backend :: string
  xt_TrType :: string

definition parseSpdkXpuTargetType :: "string \<Rightarrow> go_error + XpuTargetType" where
  "parseSpdkXpuTargetType xpuTargetType = (case strings_Split xpuTargetType CHR ''-'' of
     [p0, p1, p2] \<Rightarrow> if p0 \<noteq> ''xpu'' then Inl (Errorf (''invalid xpuTargetType '' @ fmt_q xpuTargetType))
                    else Inr \<lparr>xt_Backend = p1, xt_TrType = p2\<rparr>
   | _ \<Rightarrow> Inl (Errorf (''invalid xpuTargetType '' @ fmt_q xpuTargetType)))"

text \<open>The back end is nil until the constructor has made it.\<close>

record xpuInitiator =
  xpu_backend :: "xpu_backend option"
  xpu_targetInfo :: XpuTargetType
  xpu_volumeContext :: kvs
  xpu_xpuConfig :: XpuConfig
  xpu_timeout :: nat
  xpu_devicePath :: string
  xpu_PciEndpoint :: PciEndpoint
  xpu_PciBdfs :: PciBdfs

definition xpu_vc :: "xpuInitiator \<Rightarrow> string \<Rightarrow> string" where
  "xpu_vc xpu = kv_get (xpu_volumeContext xpu)"

text \<open>A call through the interface field \<open>backend\<close>: on nil it panics.\<close>

definition on_xpu_backend ::
  "(xpu_backend \<Rightarrow> (xpu_backend \<times> 'w, 'a) go) \<Rightarrow> (xpuInitiator \<times> 'w, 'a) go" where
  "on_xpu_backend m = (\<lambda>(xpu, w). case xpu_backend xpu of
     None \<Rightarrow> (Panic nil_deref, xpu, w)
   | Some b \<Rightarrow> (case m b (b, w) of (r, b', w') \<Rightarrow> (r, xpu\<lparr>xpu_backend := Some b'\<rparr>, w')))"

lemma go_wp_on_xpu_backend [go_wp_simps, simp]:
  "go_wp (on_xpu_backend m) Q E (xpu, w) = (case xpu_backend xpu of
     None \<Rightarrow> E nil_deref (xpu, w)
   | Some b \<Rightarrow> go_wp (m b) (\<lambda>r (b', w'). Q r (xpu\<lparr>xpu_backend := Some b'\<rparr>, w'))
       (\<lambda>s (b', w'). E s (xpu\<lparr>xpu_backend := Some b'\<rparr>, w')) (b, w))"
  by (simp add: go_wp_def on_xpu_backend_def split: prod.split outcome.split option.split)

text \<open>\<open>strconv.ParseUint\<close> with its error ignored: 0 for a malformed number, the maximum out of range.\<close>

definition ParseUint_value :: "string \<Rightarrow> 64 word" where
  "ParseUint_value s = (case parse_digits s of
     None \<Rightarrow> 0
   | Some n \<Rightarrow> if n < 2 ^ 64 then word_of_nat n else - 1)"

definition xpuInitiator_saveXpuContext :: "'w xpu_env \<Rightarrow> (xpuInitiator \<times> 'w, err) go" where
  "xpuInitiator_saveXpuContext env =
     go_bind obj_get (\<lambda>xpu. case xpu_backend xpu of
       None \<Rightarrow> go_panic nil_deref
     | Some b \<Rightarrow>
       (let xPUContext = kv_put ''vfBdf'' (vfBdf (xpu_PciBdfs xpu))
              (kv_put ''pfBdf'' (pfBdf (xpu_PciBdfs xpu))
              (kv_put ''vfID'' (dec_digits (unat (vfID (xpu_PciEndpoint xpu))))
              (kv_put ''pfID'' (dec_digits (unat (pfID (xpu_PciEndpoint xpu))))
              (kv_put ''devicePath'' (xpu_devicePath xpu)
              (XpuInitiator_GetParam b)))))
        in go_bind (obj_lift (StashXPUContext (xe_os env) (Some xPUContext) (xpu_vc xpu ''stagingParentPath'')))
             (\<lambda>err. case err of
                Some e \<Rightarrow> go_return (Some (Wrapf ''saveXPUContext() error: '' e))
              | None \<Rightarrow> go_return None)))"

definition xpuInitiator_tryGetXpuContext :: "'w xpu_env \<Rightarrow> (xpuInitiator \<times> 'w, go_error + kvs) go" where
  "xpuInitiator_tryGetXpuContext env =
     go_bind obj_get (\<lambda>xpu.
     go_bind (obj_lift (LookupXPUContext (xe_os env) (xpu_vc xpu ''stagingParentPath''))) (\<lambda>res. case res of
       Inl e \<Rightarrow> go_return (Inl (Wrapf ''loadXPUContext() error: '' e))
     | Inr xPUContext \<Rightarrow>
         go_bind (obj_modify (\<lambda>xpu. xpu
           \<lparr>xpu_devicePath := kv_get xPUContext ''devicePath'',
            xpu_PciBdfs := \<lparr>pfBdf = kv_get xPUContext ''pfBdf'', vfBdf = kv_get xPUContext ''vfBdf''\<rparr>,
            xpu_PciEndpoint := \<lparr>pfID = ucast (ParseUint_value (kv_get xPUContext ''pfID'')),
              vfID = ucast (ParseUint_value (kv_get xPUContext ''vfID''))\<rparr>\<rparr>))
           (\<lambda>_. go_return (Inr xPUContext))))"

definition NewSpdkCsiXpuInitiator ::
  "'w xpu_env \<Rightarrow> kvs \<Rightarrow> XpuConfig \<Rightarrow> ('w, go_error + xpuInitiator) go" where
  "NewSpdkCsiXpuInitiator env volumeContext xpuConfig =
     (case parseSpdkXpuTargetType (xc_TargetType xpuConfig) of
        Inl e \<Rightarrow> go_return (Inl e)
      | Inr targetInfo \<Rightarrow>
          go_bind (go_with \<lparr>xpu_backend = None, xpu_targetInfo = targetInfo, xpu_volumeContext = volumeContext,
               xpu_xpuConfig = xpuConfig, xpu_timeout = 60, xpu_devicePath = [],
               xpu_PciEndpoint = zero_PciEndpoint, xpu_PciBdfs = zero_PciBdfs\<rparr>
             (xpuInitiator_tryGetXpuContext env)) (\<lambda>(res, xpu).
          let storedXpuContext = (case res of Inl _ \<Rightarrow> None | Inr c \<Rightarrow> Some c) in
          if xt_Backend targetInfo = xpuTargetBackendSma then
            (case NewSpdkCsiSmaInitiator (xe_uuid_Parse env) volumeContext (xt_TrType targetInfo) storedXpuContext of
               Inl e \<Rightarrow> go_return (Inl e)
             | Inr b \<Rightarrow> go_return (Inr (xpu\<lparr>xpu_backend := Some (SmaBackend b)\<rparr>)))
          else if xt_Backend targetInfo = xpuTargetBackendOpi then
            (case NewSpdkCsiOpiInitiator volumeContext (xt_TrType targetInfo) storedXpuContext of
               Inl e \<Rightarrow> go_return (Inl e)
             | Inr b \<Rightarrow> go_return (Inr (xpu\<lparr>xpu_backend := Some (OpiBackend b)\<rparr>)))
          else go_return (Inl (Errorf (''unknown target type: '' @ fmt_q (xt_Backend targetInfo))))))"

section \<open>Connecting\<close>

definition newInitiatorNVMf :: "string \<Rightarrow> initiatorNVMf" where
  "newInitiatorNVMf model =
     \<lparr>in_targetType = xpuNvmfTCPTargetType, in_targetAddr = xpuNvmfTCPTargetAddr,
      in_targetPort = xpuNvmfTCPTargetPort, in_nqn = xpuNvmfTCPSubNqnPref @ model, in_model = model\<rparr>"

text \<open>The clean-up after a failure: the back end is disconnected and its error only logged.\<close>

definition xpu_undo :: "'w xpu_env \<Rightarrow> (xpuInitiator \<times> 'w, unit) go" where
  "xpu_undo env = go_bind (on_xpu_backend (XpuInitiator_Disconnect env)) (\<lambda>_. go_return ())"

definition xpuInitiator_ConnectNvmfTCP :: "'w xpu_env \<Rightarrow> (xpuInitiator \<times> 'w, string \<times> err) go" where
  "xpuInitiator_ConnectNvmfTCP env =
     go_bind (on_xpu_backend (XpuInitiator_Connect env
       \<lparr>tcpTargetPort = smaNvmfTCPTargetPort, cp_PciEndpoint = zero_PciEndpoint\<rparr>)) (\<lambda>err.
     if err \<noteq> None then go_return ([], err)
     else go_bind obj_get (\<lambda>xpu.
     go_bind (obj_lift (initiatorNVMf_Connect (xe_os env) (newInitiatorNVMf (xpu_vc xpu ''model''))))
       (\<lambda>(devicePath, err).
     if err \<noteq> None then go_bind (xpu_undo env) (\<lambda>_. go_return ([], err))
     else go_bind (obj_modify (\<lambda>xpu. xpu\<lparr>xpu_devicePath := devicePath\<rparr>)) (\<lambda>_. go_return (devicePath, None)))))"

definition driver_override :: "PciEndpoint \<Rightarrow> PciBdfs \<Rightarrow> string" where
  "driver_override pe bdfs =
     ''/sys/bus/pci/devices/'' @ pfBdf bdfs @ ''/virtfn'' @ dec_digits (unat (vfID pe - 1)) @ ''/driver_override''"

definition xpuInitiator_updateNvmeFilesForConnect ::
  "'w xpu_env \<Rightarrow> PciEndpoint \<Rightarrow> PciBdfs \<Rightarrow> (xpuInitiator \<times> 'w, err) go" where
  "xpuInitiator_updateNvmeFilesForConnect env pe bdfs =
     go_bind obj_get (\<lambda>xpu.
     if \<not> IsKvm (Some (xc_PciIDs (xpu_xpuConfig xpu))) \<and> xt_Backend (xpu_targetInfo xpu) = xpuTargetBackendOpi
     then go_bind (obj_lift (appendContentToFile (xe_os env) (driver_override pe bdfs) ''nvme'')) (\<lambda>err.
       if err \<noteq> None then go_return err
       else obj_lift (appendContentToFile (xe_os env) ''/sys/bus/pci/drivers/nvme/bind'' (vfBdf bdfs)))
     else go_return None)"

definition xpuInitiator_updateNvmeFilesForDisconnect ::
  "'w xpu_env \<Rightarrow> PciEndpoint \<Rightarrow> PciBdfs \<Rightarrow> (xpuInitiator \<times> 'w, err) go" where
  "xpuInitiator_updateNvmeFilesForDisconnect env pe bdfs =
     go_bind obj_get (\<lambda>xpu.
     if xc_PciIDs (xpu_xpuConfig xpu) \<noteq> KvmPciBridgeIDs \<and> xt_Backend (xpu_targetInfo xpu) = xpuTargetBackendOpi
     then go_bind (obj_lift (appendContentToFile (xe_os env) ''/sys/bus/pci/drivers/nvme/unbind'' (vfBdf bdfs))) (\<lambda>err.
       if err \<noteq> None then go_return err
       else obj_lift (appendContentToFile (xe_os env) (driver_override pe bdfs) ''(null)''))
     else go_return None)"

definition with_phyIDLock :: "'w xpu_env \<Rightarrow> (xpuInitiator \<times> 'w, 'a) go \<Rightarrow> (xpuInitiator \<times> 'w, 'a) go" where
  "with_phyIDLock env m =
     go_bind (obj_call (phyIDLock_Lock env)) (\<lambda>_. go_defer m (obj_call (phyIDLock_Unlock env)))"

text \<open>
  A device that exists already is returned by its bare name, and \<open>devicePath\<close> is not set.
\<close>

definition xpuInitiator_ConnectNvme :: "'w xpu_env \<Rightarrow> (xpuInitiator \<times> 'w, string \<times> err) go" where
  "xpuInitiator_ConnectNvme env =
     go_bind obj_get (\<lambda>xpu.
     go_bind (obj_lift (CheckIfNvmeDeviceExists (xe_os env) (xpu_vc xpu ''model'') None)) (\<lambda>((devicePath, err), _).
     if devicePath \<noteq> [] then go_return (devicePath, None)
     else with_phyIDLock env (
     go_bind (obj_lift (GetAvailableFunctions (xe_os env) (xe_kvmPciBridgeCount env) (xpu_xpuConfig xpu)))
       (\<lambda>(pe, bdfs, err). case err of
          Some e \<Rightarrow> go_return ([], Some (Wrapf ''failed to detect free NVMe virtual function: '' e))
        | None \<Rightarrow>
     go_bind (obj_modify (\<lambda>xpu. xpu\<lparr>xpu_PciBdfs := bdfs, xpu_PciEndpoint := pe\<rparr>)) (\<lambda>_.
     go_bind (on_xpu_backend (XpuInitiator_Connect env \<lparr>tcpTargetPort = [], cp_PciEndpoint = pe\<rparr>)) (\<lambda>err.
     if err \<noteq> None then go_return ([], err)
     else go_bind (xpuInitiator_updateNvmeFilesForConnect env pe bdfs) (\<lambda>err.
     if err \<noteq> None then go_return ([], err)
     else go_bind (obj_lift (GetNvmeDeviceName (xe_os env) (xpu_vc xpu ''model'') (vfBdf bdfs))) (\<lambda>(devicePath, err).
     if err \<noteq> None then go_bind (xpu_undo env) (\<lambda>_. go_return ([], err))
     else go_bind (obj_modify (\<lambda>xpu. xpu\<lparr>xpu_devicePath := devicePath\<rparr>)) (\<lambda>_. go_return (devicePath, None))))))))))"

definition xpuInitiator_ConnectVirtioBlk :: "'w xpu_env \<Rightarrow> (xpuInitiator \<times> 'w, string \<times> err) go" where
  "xpuInitiator_ConnectVirtioBlk env =
     with_phyIDLock env (
     go_bind obj_get (\<lambda>xpu.
     go_bind (obj_lift (GetAvailableFunctions (xe_os env) (xe_kvmPciBridgeCount env) (xpu_xpuConfig xpu)))
       (\<lambda>(pe, bdfs, err). case err of
          Some e \<Rightarrow> go_return ([], Some (Wrapf ''failed to detect free NVMe virtual function: '' e))
        | None \<Rightarrow>
     go_bind (obj_modify (\<lambda>xpu. xpu\<lparr>xpu_PciBdfs := bdfs, xpu_PciEndpoint := pe\<rparr>)) (\<lambda>_.
     go_bind (on_xpu_backend (XpuInitiator_Connect env \<lparr>tcpTargetPort = [], cp_PciEndpoint = pe\<rparr>)) (\<lambda>err.
     if err \<noteq> None then go_return ([], err)
     else go_bind (obj_lift (GetVirtioBlkDeviceName (xe_os env) (vfBdf bdfs) True)) (\<lambda>(devicePath, err).
     if err \<noteq> None then go_bind (xpu_undo env) (\<lambda>_. go_return ([], err))
     else go_bind (obj_modify (\<lambda>xpu. xpu\<lparr>xpu_devicePath := devicePath\<rparr>)) (\<lambda>_. go_return (devicePath, None))))))))"

definition xpuInitiator_Connect :: "'w xpu_env \<Rightarrow> (xpuInitiator \<times> 'w, string \<times> err) go" where
  "xpuInitiator_Connect env =
     go_bind obj_get (\<lambda>xpu.
     let trType = xt_TrType (xpu_targetInfo xpu);
         connected = (\<lambda>(devicePath, err). case err of
            Some e \<Rightarrow> go_return ([], Some (Wrapf (''XPU.Connect with transport type '' @ trType @ '' err '') e))
          | None \<Rightarrow> go_bind (xpuInitiator_saveXpuContext env) (\<lambda>err. case err of
              Some e \<Rightarrow> go_return ([], Some (Wrapf ''XPU.Connect saveXPUContext err '' e))
            | None \<Rightarrow> go_return (devicePath, None)))
     in if trType = TransportTypeNvmfTCP then go_bind (xpuInitiator_ConnectNvmfTCP env) connected
        else if trType = TransportTypeNvme then go_bind (xpuInitiator_ConnectNvme env) connected
        else if trType = TransportTypeVirtioBlk then go_bind (xpuInitiator_ConnectVirtioBlk env) connected
        else go_return ([], Some (Errorf (''unsupported xpu transport type '' @ fmt_q trType))))"

section \<open>Disconnecting\<close>

definition xpuInitiator_DisconnectNvmfTCP :: "'w xpu_env \<Rightarrow> (xpuInitiator \<times> 'w, err) go" where
  "xpuInitiator_DisconnectNvmfTCP env =
     go_bind obj_get (\<lambda>xpu.
     go_bind (obj_lift (initiatorNVMf_Disconnect (xe_os env) (newInitiatorNVMf (xpu_vc xpu ''model'')))) (\<lambda>err.
     case err of
       Some e \<Rightarrow> go_return (Some (Wrapf ''failed to disconnect: '' e))
     | None \<Rightarrow> on_xpu_backend (XpuInitiator_Disconnect env)))"

definition xpuInitiator_DisconnectNvme :: "'w xpu_env \<Rightarrow> (xpuInitiator \<times> 'w, err) go" where
  "xpuInitiator_DisconnectNvme env =
     go_bind obj_get (\<lambda>xpu.
     if xpu_devicePath xpu = [] then go_return (Some (Errorf ''failed to get block device path''))
     else go_bind (xpuInitiator_updateNvmeFilesForDisconnect env (xpu_PciEndpoint xpu) (xpu_PciBdfs xpu)) (\<lambda>err.
     if err \<noteq> None then go_return err
     else go_bind (on_xpu_backend (XpuInitiator_Disconnect env)) (\<lambda>err.
     if err \<noteq> None then go_return err
     else obj_lift (waitForDeviceGone (xe_os env) (xpu_devicePath xpu)))))"

definition xpuInitiator_DisconnectVirtioBlk :: "'w xpu_env \<Rightarrow> (xpuInitiator \<times> 'w, err) go" where
  "xpuInitiator_DisconnectVirtioBlk env =
     go_bind obj_get (\<lambda>xpu.
     if xpu_devicePath xpu = [] then go_return (Some (Errorf ''failed to get block device path''))
     else go_bind (on_xpu_backend (XpuInitiator_Disconnect env)) (\<lambda>err.
     if err \<noteq> None then go_return err
     else obj_lift (waitForDeviceGone (xe_os env) (xpu_devicePath xpu))))"

text \<open>The xPU's stash is removed whatever the outcome, and an error in doing so is ignored.\<close>

definition xpuInitiator_Disconnect :: "'w xpu_env \<Rightarrow> (xpuInitiator \<times> 'w, err) go" where
  "xpuInitiator_Disconnect env =
     go_bind obj_get (\<lambda>xpu.
     let trType = xt_TrType (xpu_targetInfo xpu) in
     go_bind (if trType = TransportTypeNvmfTCP then xpuInitiator_DisconnectNvmfTCP env
              else if trType = TransportTypeNvme then xpuInitiator_DisconnectNvme env
              else if trType = TransportTypeVirtioBlk then xpuInitiator_DisconnectVirtioBlk env
              else go_return (Some (Errorf (''unsupported xpu transport type '' @ fmt_q trType)))) (\<lambda>err.
     go_bind (obj_lift (CleanUpXPUContext (xe_os env) (xpu_vc xpu ''stagingParentPath''))) (\<lambda>_.
     go_return err)))"

end
