(* ===== verification/Node_Server.thy ===== *)
theory Node_Server
  imports Xpu_Initiator Csi_Common Vol_Locks
begin

text \<open>
  The CSI node service of \<open>pkg/spdk/nodeserver.go\<close>. The mounter of \<open>k8s.io/utils/mount\<close> and
  \<open>grpc.Dial\<close> are parameters; the initiators are those of \<open>pkg/util\<close>, behind the interface
  \<open>SpdkCsiInitiator\<close>. The responses of the handlers are empty, so a handler returns its error.
\<close>

section \<open>Initiators\<close>

datatype SpdkCsiInitiator = HostInitiator host_initiator | XpuCsiInitiator xpuInitiator

fun SpdkCsiInitiator_Connect ::
  "'w xpu_env \<Rightarrow> SpdkCsiInitiator \<Rightarrow> ('w, (string \<times> err) \<times> SpdkCsiInitiator) go" where
  "SpdkCsiInitiator_Connect env (HostInitiator (InitiatorNVMf i)) =
     go_bind (initiatorNVMf_Connect (xe_os env) i) (\<lambda>r. go_return (r, HostInitiator (InitiatorNVMf i)))"
| "SpdkCsiInitiator_Connect env (HostInitiator (InitiatorISCSI i)) =
     go_bind (initiatorISCSI_Connect (xe_os env) i) (\<lambda>r. go_return (r, HostInitiator (InitiatorISCSI i)))"
| "SpdkCsiInitiator_Connect env (XpuCsiInitiator x) =
     go_bind (go_with x (xpuInitiator_Connect env)) (\<lambda>(r, x). go_return (r, XpuCsiInitiator x))"

fun SpdkCsiInitiator_Disconnect :: "'w xpu_env \<Rightarrow> SpdkCsiInitiator \<Rightarrow> ('w, err) go" where
  "SpdkCsiInitiator_Disconnect env (HostInitiator (InitiatorNVMf i)) = initiatorNVMf_Disconnect (xe_os env) i"
| "SpdkCsiInitiator_Disconnect env (HostInitiator (InitiatorISCSI i)) = initiatorISCSI_Disconnect (xe_os env) i"
| "SpdkCsiInitiator_Disconnect env (XpuCsiInitiator x) =
     go_bind (go_with x (xpuInitiator_Disconnect env)) (\<lambda>(r, _). go_return r)"

section \<open>Requests and the mounter\<close>

record MountVolume =
  mv_FsType :: string
  mv_MountFlags :: "string list"

record VolumeCapability =
  vcap_Mount :: "MountVolume option"
  vcap_AccessMode :: "AccessMode option"

record NodeStageVolumeRequest =
  nsr_VolumeId :: string
  nsr_StagingTargetPath :: string
  nsr_VolumeContext :: "kvs option"
  nsr_VolumeCapability :: "VolumeCapability option"

record NodeUnstageVolumeRequest =
  nur_VolumeId :: string
  nur_StagingTargetPath :: string

record NodePublishVolumeRequest =
  npr_VolumeId :: string
  npr_StagingTargetPath :: string
  npr_TargetPath :: string
  npr_VolumeCapability :: "VolumeCapability option"

record NodeUnpublishVolumeRequest =
  nupr_VolumeId :: string
  nupr_TargetPath :: string

text \<open>The getters of the generated code are nil-safe.\<close>

definition GetFsType :: "VolumeCapability option \<Rightarrow> string" where
  "GetFsType cap = (case Option.bind cap vcap_Mount of None \<Rightarrow> [] | Some m \<Rightarrow> mv_FsType m)"

definition GetMountFlags :: "VolumeCapability option \<Rightarrow> string list" where
  "GetMountFlags cap = (case Option.bind cap vcap_Mount of None \<Rightarrow> [] | Some m \<Rightarrow> mv_MountFlags m)"

record 'w mounter =
  mount_IsNotMountPoint :: "string \<Rightarrow> ('w, bool \<times> err) sys"
  mount_Mount :: "string \<Rightarrow> string \<Rightarrow> string \<Rightarrow> string list \<Rightarrow> ('w, err) sys"
  mount_Unmount :: "string \<Rightarrow> ('w, err) sys"
  mount_FormatAndMount :: "string \<Rightarrow> string \<Rightarrow> string \<Rightarrow> string list \<Rightarrow> ('w, err) sys"

text \<open>The connection to the xPU is only compared with nil and passed on.\<close>

record nodeServer =
  ns_Driver :: CSIDriver
  xpuConnClient :: bool
  xpuConfigInfo :: "XpuConfig option"

section \<open>Start\<close>

definition dec_PciIDs :: "PciIDs dec" where
  "dec_PciIDs = dec_struct
     [(''vendorID'', fld pci_VendorID pci_VendorID_update dec_string),
      (''deviceID'', fld pci_DeviceID pci_DeviceID_update dec_string),
      (''classID'', fld pci_ClassID pci_ClassID_update dec_string)]"

definition dec_XpuConfig :: "XpuConfig dec" where
  "dec_XpuConfig = dec_struct
     [(''name'', fld xc_Name xc_Name_update dec_string),
      (''targetType'', fld xc_TargetType xc_TargetType_update dec_string),
      (''targetAddr'', fld xc_TargetAddr xc_TargetAddr_update dec_string),
      (''pciIDs'', fld xc_PciIDs xc_PciIDs_update dec_PciIDs)]"

definition zero_XpuConfig :: XpuConfig where
  "zero_XpuConfig = \<lparr>xc_Name = [], xc_TargetType = [], xc_TargetAddr = [],
     xc_PciIDs = \<lparr>pci_VendorID = [], pci_DeviceID = [], pci_ClassID = []\<rparr>\<rparr>"

text \<open>The first xPU that can be dialled; the list holds pointers, and a nil one panics.\<close>

fun connectXpuNode ::
  "(string \<Rightarrow> ('w, err) sys) \<Rightarrow> XpuConfig option list \<Rightarrow> ('w, XpuConfig option) go" where
  "connectXpuNode grpc_Dial [] = go_return None"
| "connectXpuNode grpc_Dial (x # xs) = (case x of
     None \<Rightarrow> go_panic nil_deref
   | Some cfg \<Rightarrow> go_bind (go_call (grpc_Dial (xc_TargetAddr cfg))) (\<lambda>err.
       if err \<noteq> None then connectXpuNode grpc_Dial xs else go_return (Some cfg)))"

definition newNodeServer ::
  "'w os \<Rightarrow> (string \<Rightarrow> ('w, err) sys) \<Rightarrow> CSIDriver \<Rightarrow> ('w, go_error + (nodeServer \<times> VolumeLocks)) go" where
  "newNodeServer os grpc_Dial d =
     (let ns = \<lparr>ns_Driver = d, xpuConnClient = False, xpuConfigInfo = None\<rparr> in
      go_bind (FromEnv os ''SPDKCSI_CONFIG_NODESERVER'' ''/etc/spdkcsi-nodeserver-config/nodeserver-config.json'')
        (\<lambda>configFile.
      go_bind (go_call (os_Stat os configFile)) (\<lambda>err.
      if os_IsNotExist err then go_return (Inr (ns, NewVolumeLocks))
      else go_bind (ParseJSONFile os configFile
             (dec_struct [(''xpuList'', dec_slice None (dec_ptr zero_XpuConfig dec_XpuConfig))]) [])
        (\<lambda>(err, xpuList). case err of
           Some e \<Rightarrow> go_return (Inl (Wrapf (''error in the configuration file specified in SPDKCSI_CONFIG_NODESERVER '' @
             ''(/etc/spdkcsi-nodeserver-config/nodeserver-config.json by default): '') e))
         | None \<Rightarrow> go_bind (connectXpuNode grpc_Dial xpuList) (\<lambda>conf. case conf of
             None \<Rightarrow> go_return (Inr (ns, NewVolumeLocks))
           | Some cfg \<Rightarrow>
               go_return (Inr (ns\<lparr>xpuConnClient :=
                   \<not> (xc_TargetType cfg = ''xpu-opi-virtioblk'' \<and> \<not> IsKvm (Some (xc_PciIDs cfg))),
                 xpuConfigInfo := Some cfg\<rparr>, NewVolumeLocks)))))))"

section \<open>Mount points\<close>

definition nodeServer_isStaged :: "'w mounter \<Rightarrow> string \<Rightarrow> ('w, bool \<times> err) go" where
  "nodeServer_isStaged mnt stagingPath =
     go_bind (go_call (mount_IsNotMountPoint mnt stagingPath)) (\<lambda>(unmounted, err).
       if err \<noteq> None
       then (if os_IsNotExist err then go_return (False, None) else go_return (True, err))
       else go_return (\<not> unmounted, None))"

definition nodeServer_createMountPoint :: "'w os \<Rightarrow> 'w mounter \<Rightarrow> string \<Rightarrow> ('w, bool \<times> err) go" where
  "nodeServer_createMountPoint os mnt path =
     go_bind (go_call (mount_IsNotMountPoint mnt path)) (\<lambda>(unmounted, err).
       if os_IsNotExist err
       then go_bind (go_call (os_MkdirAll os path)) (\<lambda>err. go_return (False, err))
       else go_return (\<not> unmounted, err))"

definition nodeServer_deleteMountPoint :: "'w os \<Rightarrow> 'w mounter \<Rightarrow> string \<Rightarrow> ('w, err) go" where
  "nodeServer_deleteMountPoint os mnt path =
     go_bind (go_call (mount_IsNotMountPoint mnt path)) (\<lambda>(unmounted, err).
       if os_IsNotExist err then go_return None
       else if err \<noteq> None then go_return err
       else if \<not> unmounted
       then go_bind (go_call (mount_Unmount mnt path)) (\<lambda>err.
         if err \<noteq> None then go_return err else go_call (os_RemoveAll os path))
       else go_call (os_RemoveAll os path))"

definition nodeServer_stageVolume ::
  "'w os \<Rightarrow> 'w mounter \<Rightarrow> string \<Rightarrow> string \<Rightarrow> NodeStageVolumeRequest \<Rightarrow> ('w, err) go" where
  "nodeServer_stageVolume os mnt devicePath stagingPath req =
     go_bind (nodeServer_createMountPoint os mnt stagingPath) (\<lambda>(mounted, err).
     if err \<noteq> None then go_return err
     else if mounted then go_return None
     else (let fsType = GetFsType (nsr_VolumeCapability req);
               mntFlags = GetMountFlags (nsr_VolumeCapability req)
           in case Option.bind (nsr_VolumeCapability req) vcap_AccessMode of
                None \<Rightarrow> go_panic nil_deref
              | Some mode \<Rightarrow>
                  if mode = SINGLE_NODE_READER_ONLY \<or> mode = MULTI_NODE_READER_ONLY
                  then go_call (mount_FormatAndMount mnt devicePath stagingPath fsType (mntFlags @ [''ro'']))
                  else if mode = MULTI_NODE_MULTI_WRITER
                  then go_return (Some (Errorf ''unsupported MULTI_NODE_MULTI_WRITER AccessMode''))
                  else go_call (mount_FormatAndMount mnt devicePath stagingPath fsType mntFlags)))"

definition nodeServer_publishVolume ::
  "'w os \<Rightarrow> 'w mounter \<Rightarrow> string \<Rightarrow> NodePublishVolumeRequest \<Rightarrow> ('w, err) go" where
  "nodeServer_publishVolume os mnt stagingPath req =
     go_bind (nodeServer_createMountPoint os mnt (npr_TargetPath req)) (\<lambda>(mounted, err).
     if err \<noteq> None then go_return err
     else if mounted then go_return None
     else go_call (mount_Mount mnt stagingPath (npr_TargetPath req) (GetFsType (npr_VolumeCapability req))
            (GetMountFlags (npr_VolumeCapability req) @ [''bind''])))"

text \<open>The type switch of \<open>getStagingTargetPath\<close>.\<close>

datatype staging_request =
    StageReq NodeStageVolumeRequest | UnstageReq NodeUnstageVolumeRequest
  | PublishReq NodePublishVolumeRequest | OtherReq

fun getStagingTargetPath :: "staging_request \<Rightarrow> string" where
  "getStagingTargetPath (StageReq vr) = nsr_StagingTargetPath vr @ ''/'' @ nsr_VolumeId vr"
| "getStagingTargetPath (UnstageReq vr) = nur_StagingTargetPath vr @ ''/'' @ nur_VolumeId vr"
| "getStagingTargetPath (PublishReq vr) = npr_StagingTargetPath vr @ ''/'' @ npr_VolumeId vr"
| "getStagingTargetPath OtherReq = []"

section \<open>The handlers\<close>

text \<open>
  The initiator of a request and the volume context afterwards: for an xPU the staging directory
  is written into the context's map, which the request shares.
\<close>

definition nodeServer_newInitiator ::
  "'w xpu_env \<Rightarrow> nodeServer \<Rightarrow> kvs option \<Rightarrow> string \<Rightarrow>
     ('w, (go_error + SpdkCsiInitiator) \<times> kvs option) go" where
  "nodeServer_newInitiator env ns volumeContext stagingParentPath =
     (if xpuConnClient ns then
        (case (volumeContext, xpuConfigInfo ns) of
           (Some vc, Some cfg) \<Rightarrow>
             (let vc = kv_put ''stagingParentPath'' stagingParentPath vc in
              go_bind (NewSpdkCsiXpuInitiator env vc cfg) (\<lambda>res. case res of
                Inl e \<Rightarrow> go_return (Inl e, Some vc)
              | Inr x \<Rightarrow> go_return (Inr (XpuCsiInitiator x), Some vc)))
         | (None, _) \<Rightarrow> go_panic ''assignment to entry in nil map''
         | (Some _, None) \<Rightarrow> go_panic nil_deref)
      else (case NewSpdkCsiInitiator (kvs_of volumeContext) of
        Inl e \<Rightarrow> go_return (Inl e, volumeContext)
      | Inr i \<Rightarrow> go_return (Inr (HostInitiator i), volumeContext)))"

text \<open>
  The deferred \<open>Disconnect\<close> of \<open>NodeStageVolume\<close> runs when staging or stashing has failed. A panic in
  \<open>stageVolume\<close> comes before the assignment to \<open>err\<close>, so nothing is disconnected then.
\<close>

definition nodeServer_NodeStageVolume ::
  "'w xpu_env \<Rightarrow> 'w mounter \<Rightarrow> nodeServer \<Rightarrow> NodeStageVolumeRequest \<Rightarrow> (VolumeLocks \<times> 'w, err) go" where
  "nodeServer_NodeStageVolume env mnt ns req = with_volume_lock (nsr_VolumeId req)
     (let stagingParentPath = nsr_StagingTargetPath req;
          stagingTargetPath = getStagingTargetPath (StageReq req)
      in go_bind (nodeServer_isStaged mnt stagingTargetPath) (\<lambda>(isStaged, err). case err of
           Some e \<Rightarrow> go_return (Some (internal e))
         | None \<Rightarrow> if isStaged then go_return None else
      go_bind (nodeServer_newInitiator env ns (nsr_VolumeContext req) stagingParentPath)
        (\<lambda>(res, volumeContext). case res of
           Inl e \<Rightarrow> go_return (Some (internal e))
         | Inr initiator \<Rightarrow>
      go_bind (SpdkCsiInitiator_Connect env initiator) (\<lambda>((devicePath, err), initiator). case err of
           Some e \<Rightarrow> go_return (Some (internal e))
         | None \<Rightarrow>
      let fail = (\<lambda>e. go_bind (SpdkCsiInitiator_Disconnect env initiator) (\<lambda>_. go_return (Some (internal e)))) in
      go_bind (nodeServer_stageVolume (xe_os env) mnt devicePath stagingTargetPath req) (\<lambda>err. case err of
           Some e \<Rightarrow> fail e
         | None \<Rightarrow>
      go_bind (StashVolumeContext (xe_os env) volumeContext stagingParentPath) (\<lambda>err. case err of
           Some e \<Rightarrow> fail e
         | None \<Rightarrow> go_return None))))))"

definition nodeServer_NodeUnstageVolume ::
  "'w xpu_env \<Rightarrow> 'w mounter \<Rightarrow> nodeServer \<Rightarrow> NodeUnstageVolumeRequest \<Rightarrow> (VolumeLocks \<times> 'w, err) go" where
  "nodeServer_NodeUnstageVolume env mnt ns req = with_volume_lock (nur_VolumeId req)
     (let stagingParentPath = nur_StagingTargetPath req;
          stagingTargetPath = getStagingTargetPath (UnstageReq req)
      in go_bind (nodeServer_isStaged mnt stagingTargetPath) (\<lambda>(isStaged, err). case err of
           Some e \<Rightarrow> go_return (Some (internal e))
         | None \<Rightarrow> if \<not> isStaged then go_return None else
      go_bind (nodeServer_deleteMountPoint (xe_os env) mnt stagingTargetPath) (\<lambda>err. case err of
           Some e \<Rightarrow> go_return (Some (StatusError Internal
             (''unstage volume '' @ nur_VolumeId req @ '' failed: '' @ err_Error e)))
         | None \<Rightarrow>
      go_bind (LookupVolumeContext (xe_os env) stagingParentPath) (\<lambda>res. case res of
           Inl e \<Rightarrow> go_return (Some (internal e))
         | Inr volumeContext \<Rightarrow>
      go_bind (nodeServer_newInitiator env ns (Some volumeContext) stagingParentPath) (\<lambda>(res, _). case res of
           Inl e \<Rightarrow> go_return (Some (internal e))
         | Inr initiator \<Rightarrow>
      go_bind (SpdkCsiInitiator_Disconnect env initiator) (\<lambda>err. case err of
           Some e \<Rightarrow> go_return (Some (internal e))
         | None \<Rightarrow>
      go_bind (CleanUpVolumeContext (xe_os env) stagingParentPath) (\<lambda>err. case err of
           Some e \<Rightarrow> go_return (Some (internal e))
         | None \<Rightarrow> go_return None)))))))"

definition nodeServer_NodePublishVolume ::
  "'w os \<Rightarrow> 'w mounter \<Rightarrow> NodePublishVolumeRequest \<Rightarrow> (VolumeLocks \<times> 'w, err) go" where
  "nodeServer_NodePublishVolume os mnt req = with_volume_lock (npr_VolumeId req)
     (go_bind (nodeServer_publishVolume os mnt (getStagingTargetPath (PublishReq req)) req) (\<lambda>err. case err of
        Some e \<Rightarrow> go_return (Some (internal e))
      | None \<Rightarrow> go_return None))"

definition nodeServer_NodeUnpublishVolume ::
  "'w os \<Rightarrow> 'w mounter \<Rightarrow> NodeUnpublishVolumeRequest \<Rightarrow> (VolumeLocks \<times> 'w, err) go" where
  "nodeServer_NodeUnpublishVolume os mnt req = with_volume_lock (nupr_VolumeId req)
     (go_bind (nodeServer_deleteMountPoint os mnt (nupr_TargetPath req)) (\<lambda>err. case err of
        Some e \<Rightarrow> go_return (Some (internal e))
      | None \<Rightarrow> go_return None))"

definition nodeServer_NodeGetCapabilities :: "NodeCap list \<times> err" where
  "nodeServer_NodeGetCapabilities = ([STAGE_UNSTAGE_VOLUME], None)"

end
