(* ===== verification/Host_Frame.thy ===== *)
theory Host_Frame
  imports Node_Server
begin

text \<open>
  What the initiators leave alone on the host. \<open>keeps R m\<close> says that every run of \<open>m\<close>, panics
  included, relates the world before to the world after by \<open>R\<close>. The locale \<open>quiet_host\<close> states the
  contract as the initiators see it, every system and client call stays within a preorder \<open>R\<close>, and
  proves once that every method of every initiator then does.
\<close>

definition keeps :: "('w \<Rightarrow> 'w \<Rightarrow> bool) \<Rightarrow> ('w, 'a) go \<Rightarrow> bool" where
  "keeps R m \<longleftrightarrow> (\<forall>w. R w (snd (m w)))"

definition keeps_obj :: "('w \<Rightarrow> 'w \<Rightarrow> bool) \<Rightarrow> ('o \<times> 'w, 'a) go \<Rightarrow> bool" where
  "keeps_obj R m \<longleftrightarrow> (\<forall>x w. R w (snd (snd (m (x, w)))))"

named_theorems keeps_rules "closure of keeps under the constructs of the model"

lemma keepsD: "keeps R m \<Longrightarrow> m w = (r, w') \<Longrightarrow> R w w'"
  by (metis keeps_def snd_conv)

lemma keeps_If [keeps_rules]:
  "(b \<Longrightarrow> keeps R m) \<Longrightarrow> (\<not> b \<Longrightarrow> keeps R n) \<Longrightarrow> keeps R (if b then m else n)"
  by simp

lemma keeps_option [keeps_rules]:
  "(x = None \<Longrightarrow> keeps R m) \<Longrightarrow> (\<And>y. x = Some y \<Longrightarrow> keeps R (f y)) \<Longrightarrow>
     keeps R (case x of None \<Rightarrow> m | Some y \<Rightarrow> f y)"
  by (cases x) simp_all

lemma keeps_sum [keeps_rules]:
  "(\<And>a. x = Inl a \<Longrightarrow> keeps R (f a)) \<Longrightarrow> (\<And>b. x = Inr b \<Longrightarrow> keeps R (g b)) \<Longrightarrow>
     keeps R (case x of Inl a \<Rightarrow> f a | Inr b \<Rightarrow> g b)"
  by (cases x) simp_all

lemma keeps_list [keeps_rules]:
  "keeps R m \<Longrightarrow> (\<And>y ys. keeps R (f y ys)) \<Longrightarrow> keeps R (case x of [] \<Rightarrow> m | y # ys \<Rightarrow> f y ys)"
  by (cases x) simp_all

lemma keeps_prod [keeps_rules]: "(\<And>a b. keeps R (f a b)) \<Longrightarrow> keeps R (case x of (a, b) \<Rightarrow> f a b)"
  by (cases x) simp

lemma keeps_obj_If [keeps_rules]:
  "(b \<Longrightarrow> keeps_obj R m) \<Longrightarrow> (\<not> b \<Longrightarrow> keeps_obj R n) \<Longrightarrow> keeps_obj R (if b then m else n)"
  by simp

lemma keeps_obj_option [keeps_rules]:
  "(x = None \<Longrightarrow> keeps_obj R m) \<Longrightarrow> (\<And>y. x = Some y \<Longrightarrow> keeps_obj R (f y)) \<Longrightarrow>
     keeps_obj R (case x of None \<Rightarrow> m | Some y \<Rightarrow> f y)"
  by (cases x) simp_all

lemma keeps_obj_sum [keeps_rules]:
  "(\<And>a. x = Inl a \<Longrightarrow> keeps_obj R (f a)) \<Longrightarrow> (\<And>b. x = Inr b \<Longrightarrow> keeps_obj R (g b)) \<Longrightarrow>
     keeps_obj R (case x of Inl a \<Rightarrow> f a | Inr b \<Rightarrow> g b)"
  by (cases x) simp_all

lemma keeps_obj_prod [keeps_rules]:
  "(\<And>a b. keeps_obj R (f a b)) \<Longrightarrow> keeps_obj R (case x of (a, b) \<Rightarrow> f a b)"
  by (cases x) simp

lemma keeps_prod_app [keeps_rules]:
  "(\<And>a b. keeps R (f a b y)) \<Longrightarrow> keeps R ((case x of (a, b) \<Rightarrow> f a b) y)"
  by (cases x) simp

lemma keeps_obj_prod_app [keeps_rules]:
  "(\<And>a b. keeps_obj R (f a b y)) \<Longrightarrow> keeps_obj R ((case x of (a, b) \<Rightarrow> f a b) y)"
  by (cases x) simp

lemma keeps_call [keeps_rules]: "(\<And>w. R w (snd (f w))) \<Longrightarrow> keeps R (go_call f)"
  by (simp add: keeps_def go_call_def case_prod_beta)

lemma keeps_obj_call [keeps_rules]: "(\<And>w. R w (snd (f w))) \<Longrightarrow> keeps_obj R (obj_call f)"
  by (simp add: keeps_obj_def obj_call_def case_prod_beta)

lemma keeps_obj_lift [keeps_rules]: "keeps R m \<Longrightarrow> keeps_obj R (obj_lift m)"
  by (auto simp: keeps_obj_def keeps_def obj_lift_def split: prod.split) (metis snd_conv)

lemma keeps_with [keeps_rules]: "keeps_obj R m \<Longrightarrow> keeps R (go_with x m)"
  by (auto simp: keeps_def keeps_obj_def go_with_def split: prod.split outcome.split) (metis snd_conv)+

lemma keeps_on_backend [keeps_rules]: "keeps_obj R m \<Longrightarrow> keeps_obj R (on_backend con x m)"
  by (auto simp: keeps_obj_def on_backend_def split: prod.split) (metis snd_conv)

lemma keeps_zoom [keeps_rules]: "keeps_obj R m \<Longrightarrow> keeps_obj R (go_zoom get put m)"
  by (auto simp: keeps_obj_def go_zoom_def split: prod.split) (metis snd_conv)

section \<open>Hosts that the initiators do not disturb\<close>

locale frame =
  fixes R :: "'w \<Rightarrow> 'w \<Rightarrow> bool"
  assumes R_refl [simp]: "R w w"
    and R_trans: "R w w1 \<Longrightarrow> R w1 w2 \<Longrightarrow> R w w2"
begin

lemma keeps_return [keeps_rules]: "keeps R (go_return x)"
  by (simp add: keeps_def go_return_def)

lemma keeps_panic [keeps_rules]: "keeps R (go_panic s)"
  by (simp add: keeps_def go_panic_def)

lemma keeps_obj_return [keeps_rules]: "keeps_obj R (go_return x)"
  by (simp add: keeps_obj_def go_return_def)

lemma keeps_obj_panic [keeps_rules]: "keeps_obj R (go_panic s)"
  by (simp add: keeps_obj_def go_panic_def)

lemma keeps_obj_get [keeps_rules]: "keeps_obj R obj_get"
  by (simp add: keeps_obj_def obj_get_def)

lemma keeps_obj_modify [keeps_rules]: "keeps_obj R (obj_modify f)"
  by (simp add: keeps_obj_def obj_modify_def)

lemma keeps_bind [keeps_rules]:
  assumes "keeps R m" and "\<And>x. keeps R (f x)"
  shows "keeps R (go_bind m f)"
proof -
  have "R w (snd (go_bind m f w))" for w
  proof (cases "m w")
    case (Pair r w1)
    with assms(1) have "R w w1" by (auto simp: keeps_def dest: spec [of _ w])
    moreover have "R w1 (snd (f x w1))" for x using assms(2) by (simp add: keeps_def)
    ultimately show ?thesis
      using Pair by (cases r) (auto simp: go_bind_def intro: R_trans)
  qed
  then show ?thesis by (simp add: keeps_def)
qed

lemma keeps_obj_bind [keeps_rules]:
  assumes "keeps_obj R m" and "\<And>x. keeps_obj R (f x)"
  shows "keeps_obj R (go_bind m f)"
proof -
  have "R w (snd (snd (go_bind m f (x, w))))" for x w
  proof (cases "m (x, w)")
    case (fields r x1 w1)
    with assms(1) have "R w w1" by (metis keeps_obj_def snd_conv)
    moreover have "R w1 (snd (snd (f y (x1, w1))))" for y using assms(2) by (simp add: keeps_obj_def)
    ultimately show ?thesis
      using fields by (cases r) (auto simp: go_bind_def intro: R_trans)
  qed
  then show ?thesis by (simp add: keeps_obj_def)
qed

lemma keeps_obj_defer [keeps_rules]:
  assumes "keeps_obj R m" and "keeps_obj R d"
  shows "keeps_obj R (go_defer m d)"
proof -
  have "R w (snd (snd (go_defer m d (x, w))))" for x w
  proof (cases "m (x, w)")
    case (fields r x1 w1)
    with assms(1) have "R w w1" by (metis keeps_obj_def snd_conv)
    moreover obtain r2 x2 w2 where d: "d (x1, w1) = (r2, x2, w2)" by (cases "d (x1, w1)") auto
    with assms(2) have "R w1 w2" by (metis keeps_obj_def snd_conv)
    ultimately show ?thesis
      using fields d by (cases r2) (auto simp: go_defer_def intro: R_trans)
  qed
  then show ?thesis by (simp add: keeps_obj_def)
qed

lemma keeps_obj_on_xpu_backend [keeps_rules]:
  assumes "\<And>b. keeps_obj R (m b)"
  shows "keeps_obj R (on_xpu_backend m)"
  using assms
  by (auto simp: keeps_obj_def on_xpu_backend_def split: prod.split option.split) (metis snd_conv)

end

text \<open>
  The calls that an initiator makes: commands, device polling, sysfs, the stash of the xPU and the
  services of the xPU.
\<close>

locale quiet_host = frame R for R :: "'w \<Rightarrow> 'w \<Rightarrow> bool" +
  fixes env :: "'w xpu_env"
  assumes exec: "R w (snd (exec_Run (xe_os env) cmd t w))"
    and glob: "R w (snd (filepath_Glob (xe_os env) g w))"
    and sleep: "R w (snd (time_Sleep (xe_os env) w))"
    and stat: "R w (snd (os_Stat (xe_os env) p w))"
    and read: "R w (snd (os_ReadFile (xe_os env) p w))"
    and readdir: "R w (snd (os_ReadDir (xe_os env) p w))"
    and readlink: "R w (snd (os_Readlink (xe_os env) p w))"
    and openappend: "R w (snd (os_OpenAppend (xe_os env) p w))"
    and writestring: "R w (snd (file_WriteString (xe_os env) p c w))"
    and rand: "R w (snd (rand_Int (xe_os env) n w))"
    and mkdir: "R w (snd (os_MkdirAll (xe_os env) p w))"
    and stash: "R w (snd (os_WriteFile (xe_os env) (filepath_Join d xpuContextFileName) c w))"
    and unstash: "R w (snd (os_Remove (xe_os env) (filepath_Join d xpuContextFileName) w))"
    and lock: "R w (snd (phyIDLock_Lock env w))"
    and unlock: "R w (snd (phyIDLock_Unlock env w))"
    and sma: "R w (snd (client_CreateDevice (xe_sma env) cr w))" 
      "R w (snd (client_AttachVolume (xe_sma env) ar w))" 
      "R w (snd (client_DetachVolume (xe_sma env) dr w))" 
      "R w (snd (client_DeleteDevice (xe_sma env) h w))"
    and opi: "R w (snd (opi_CreateNvmeRemoteController (xe_opi env) i w))" 
      "R w (snd (opi_DeleteNvmeRemoteController (xe_opi env) q w))" 
      "R w (snd (opi_CreateNvmePath (xe_opi env) i np w))" 
      "R w (snd (opi_DeleteNvmePath (xe_opi env) q w))" 
      "R w (snd (opi_CreateNvmeSubsystem (xe_opi env) i nq w))" 
      "R w (snd (opi_DeleteNvmeSubsystem (xe_opi env) q w))" 
      "R w (snd (opi_CreateNvmeController (xe_opi env) i nc w))" 
      "R w (snd (opi_DeleteNvmeController (xe_opi env) q w))" 
      "R w (snd (opi_CreateNvmeNamespace (xe_opi env) i nn w))" 
      "R w (snd (opi_DeleteNvmeNamespace (xe_opi env) q w))" 
      "R w (snd (opi_CreateVirtioBlk (xe_opi env) i vb w))" 
      "R w (snd (opi_DeleteVirtioBlk (xe_opi env) q w))"
begin

lemmas calls = exec glob sleep stat read readdir readlink openappend writestring rand mkdir stash unstash lock unlock sma opi

lemma keeps_waitForDeviceReady_loop [keeps_rules]: "keeps R (waitForDeviceReady_loop (xe_os env) g n)"
  by (induction n) (auto intro!: keeps_rules calls)

lemma keeps_waitForDeviceGone_loop [keeps_rules]: "keeps R (waitForDeviceGone_loop (xe_os env) g n)"
  by (induction n) (auto intro!: keeps_rules calls)

lemma keeps_waitForDeviceReady [keeps_rules]: "keeps R (waitForDeviceReady (xe_os env) g n)"
  unfolding Let_def waitForDeviceReady_def by (intro keeps_rules calls)

lemma keeps_waitForDeviceGone [keeps_rules]: "keeps R (waitForDeviceGone (xe_os env) g)"
  unfolding Let_def waitForDeviceGone_def by (intro keeps_rules calls)

lemma keeps_execWithTimeout [keeps_rules]: "keeps R (execWithTimeout (xe_os env) cmd t)"
  unfolding Let_def execWithTimeout_def by (intro keeps_rules calls)

lemma keeps_NVMf_Connect [keeps_rules]: "keeps R (initiatorNVMf_Connect (xe_os env) x)"
  unfolding Let_def initiatorNVMf_Connect_def by (intro keeps_rules calls)

lemma keeps_NVMf_Disconnect [keeps_rules]: "keeps R (initiatorNVMf_Disconnect (xe_os env) x)"
  unfolding Let_def initiatorNVMf_Disconnect_def by (intro keeps_rules calls)

lemma keeps_ISCSI_Connect [keeps_rules]: "keeps R (initiatorISCSI_Connect (xe_os env) y)"
  unfolding Let_def initiatorISCSI_Connect_def by (intro keeps_rules calls)

lemma keeps_ISCSI_Disconnect [keeps_rules]: "keeps R (initiatorISCSI_Disconnect (xe_os env) y)"
  unfolding Let_def initiatorISCSI_Disconnect_def by (intro keeps_rules calls)

text \<open>Sysfs.\<close>

lemma keeps_getNvmeDeviceName [keeps_rules]: "keeps R (getNvmeDeviceName (xe_os env) p m)"
  unfolding Let_def getNvmeDeviceName_def by (intro keeps_rules calls)

lemma keeps_CheckIfNvmeDeviceExists_loop [keeps_rules]:
  "keeps R (CheckIfNvmeDeviceExists_loop (xe_os env) m ps ig)"
  by (induction ps arbitrary: ig) (auto simp: Let_def intro!: keeps_rules calls)

lemma keeps_CheckIfNvmeDeviceExists [keeps_rules]: "keeps R (CheckIfNvmeDeviceExists (xe_os env) m ig)"
  unfolding Let_def CheckIfNvmeDeviceExists_def by (intro keeps_rules calls)

lemma keeps_detectNvmeDeviceName_loop [keeps_rules]:
  "keeps R (detectNvmeDeviceName_loop (xe_os env) m n ig)"
  by (induction n arbitrary: ig) (auto intro!: keeps_rules calls)

lemma keeps_detectNvmeDeviceName [keeps_rules]: "keeps R (detectNvmeDeviceName (xe_os env) m)"
  unfolding Let_def detectNvmeDeviceName_def by (intro keeps_rules calls)

lemma keeps_GetNvmeDeviceName [keeps_rules]: "keeps R (GetNvmeDeviceName (xe_os env) m bdf)"
  unfolding Let_def GetNvmeDeviceName_def by (intro keeps_rules calls)

lemma keeps_GetVirtioBlkDeviceName [keeps_rules]: "keeps R (GetVirtioBlkDeviceName (xe_os env) bdf b)"
  unfolding Let_def GetVirtioBlkDeviceName_def by (intro keeps_rules calls)

lemma keeps_findPciDevices_loop [keeps_rules]: "keeps R (findPciDevices_loop (xe_os env) ids fs)"
  by (induction fs) (auto simp: Let_def intro!: keeps_rules calls)

lemma keeps_getAvailableFunctionsKvm_loop [keeps_rules]:
  "keeps R (getAvailableFunctionsKvm_loop (xe_os env) slots)"
  by (induction slots) (auto intro!: keeps_rules calls)

lemma keeps_getXpuPfBdf_loop [keeps_rules]: "keeps R (getXpuPfBdf_loop (xe_os env) bs pf n)"
  by (induction bs arbitrary: pf n) (auto intro!: keeps_rules calls)

lemma keeps_slice_from3 [keeps_rules]: "keeps R (slice_from3 s)"
  unfolding Let_def slice_from3_def by (intro keeps_rules calls)

lemma keeps_getAvailableFunctionsXpu_loop [keeps_rules]:
  "keeps R (getAvailableFunctionsXpu_loop (xe_os env) b vfs)"
  by (induction vfs) (auto intro!: keeps_rules calls)

lemma keeps_GetAvailableFunctions [keeps_rules]: "keeps R (GetAvailableFunctions (xe_os env) n cfg)"
  unfolding Let_def GetAvailableFunctions_def getAvailableFunctionsKvm_def getAvailableFunctionsXpu_def getXpuPfBdfAndVfCount_def findPciDevicesByPciIDs_def by (intro keeps_rules calls)

text \<open>The stash of the xPU and appending to files.\<close>

lemma keeps_appendContentToFile [keeps_rules]: "keeps R (appendContentToFile (xe_os env) f c)"
  unfolding Let_def appendContentToFile_def by (intro keeps_rules calls)

lemma keeps_StashXPUContext [keeps_rules]: "keeps R (StashXPUContext (xe_os env) m d)"
  unfolding Let_def StashXPUContext_def stashContext_def by (intro keeps_rules calls)

lemma keeps_LookupXPUContext [keeps_rules]: "keeps R (LookupXPUContext (xe_os env) d)"
  unfolding Let_def LookupXPUContext_def lookupContext_def by (intro keeps_rules calls)

lemma keeps_CleanUpXPUContext [keeps_rules]: "keeps R (CleanUpXPUContext (xe_os env) d)"
  unfolding Let_def CleanUpXPUContext_def cleanUpContext_def by (intro keeps_rules calls)

text \<open>The back ends and the initiators.\<close>

lemmas sma_unfolds = smaCommon_CreateDevice_def smaCommon_AttachVolume_def smaCommon_DetachVolume_def
  smaCommon_DeleteDevice_def smaInitiatorNvmfTCP_Connect_def smaInitiatorNvmfTCP_Disconnect_def
  smaInitiatorNvme_Connect_def smaInitiatorNvme_Disconnect_def smaInitiatorVirtioBlk_Connect_def
  smaInitiatorVirtioBlk_Disconnect_def

lemmas opi_unfolds = opiCommon_createNvmeRemoteController_def opiCommon_deleteNvmeRemoteController_def
  opiCommon_createNvmfPath_def opiCommon_deleteNvmfPath_def opiInitiatorNvme_createNvmeSubsystem_def
  opiInitiatorNvme_deleteNvmeSubsystem_def opiInitiatorNvme_createNvmeController_def
  opiInitiatorNvme_deleteNvmeController_def opiInitiatorNvme_createNvmeNamespace_def
  opiInitiatorNvme_deleteNvmeNamespace_def opiInitiatorVirtioBlk_createVirtioBlk_def
  opiInitiatorVirtioBlk_deleteVirtioBlk_def on_common_def ov_common_def
  opiInitiatorNvme_cleanup_def opiInitiatorNvme_Connect_def opiInitiatorNvme_Disconnect_def
  opiInitiatorVirtioBlk_cleanup_def opiInitiatorVirtioBlk_Connect_def opiInitiatorVirtioBlk_Disconnect_def

lemma keeps_backend_Connect [keeps_rules]: "keeps_obj R (XpuInitiator_Connect env ps b)"
proof (cases b)
  case (SmaBackend s)
  then show ?thesis
    by (cases s) (simp_all only: XpuInitiator_Connect.simps sma_unfolds Let_def, (intro keeps_rules calls)+)
next
  case (OpiBackend s)
  then show ?thesis
    by (cases s) (simp_all only: XpuInitiator_Connect.simps opi_unfolds Let_def, (intro keeps_rules calls)+)
qed

lemma keeps_backend_Disconnect [keeps_rules]: "keeps_obj R (XpuInitiator_Disconnect env b)"
proof (cases b)
  case (SmaBackend s)
  then show ?thesis
    by (cases s) (simp_all only: XpuInitiator_Disconnect.simps sma_unfolds Let_def, (intro keeps_rules calls)+)
next
  case (OpiBackend s)
  then show ?thesis
    by (cases s) (simp_all only: XpuInitiator_Disconnect.simps opi_unfolds Let_def, (intro keeps_rules calls)+)
qed

lemma keeps_xpu_Connect [keeps_rules]: "keeps_obj R (xpuInitiator_Connect env)"
  unfolding Let_def xpuInitiator_Connect_def xpuInitiator_ConnectNvmfTCP_def xpuInitiator_ConnectNvme_def
    xpuInitiator_ConnectVirtioBlk_def with_phyIDLock_def xpu_undo_def xpuInitiator_saveXpuContext_def
    xpuInitiator_updateNvmeFilesForConnect_def
  by (intro keeps_rules calls)

lemma keeps_xpu_Disconnect [keeps_rules]: "keeps_obj R (xpuInitiator_Disconnect env)"
  unfolding Let_def xpuInitiator_Disconnect_def xpuInitiator_DisconnectNvmfTCP_def xpuInitiator_DisconnectNvme_def
    xpuInitiator_DisconnectVirtioBlk_def xpuInitiator_updateNvmeFilesForDisconnect_def
  by (intro keeps_rules calls)

lemma keeps_newInitiator [keeps_rules]: "keeps R (nodeServer_newInitiator env ns vc d)"
  unfolding Let_def nodeServer_newInitiator_def NewSpdkCsiXpuInitiator_def xpuInitiator_tryGetXpuContext_def
  by (intro keeps_rules calls)

lemma initiator_Connect [keeps_rules]: "keeps R (SpdkCsiInitiator_Connect env ini)"
proof (cases ini)
  case (HostInitiator h)
  then show ?thesis
    by (cases h) (simp_all only: SpdkCsiInitiator_Connect.simps, (intro keeps_rules calls)+)
next
  case (XpuCsiInitiator x)
  then show ?thesis
    by (simp only: SpdkCsiInitiator_Connect.simps) (intro keeps_rules calls)
qed

lemma initiator_Disconnect [keeps_rules]: "keeps R (SpdkCsiInitiator_Disconnect env ini)"
proof (cases ini)
  case (HostInitiator h)
  then show ?thesis
    by (cases h) (simp_all only: SpdkCsiInitiator_Disconnect.simps, (intro keeps_rules calls)+)
next
  case (XpuCsiInitiator x)
  then show ?thesis
    by (simp only: SpdkCsiInitiator_Disconnect.simps) (intro keeps_rules calls)
qed

end

end
