(* ===== verification/Host_Contract.thy ===== *)
theory Host_Contract
  imports Host_Frame
begin

text \<open>
  The contract of the host as the node service relies on it: a view \<open>V\<close> of the part of the file
  system that the service manages (its mounts, files and directories) and what each system call
  does to it. An operation that fails leaves the view as it was, or says so where it does not. A mount
  of a directory is one with the option \<open>bind\<close>; without it nothing is promised. The
  initiators' commands and polling do not touch the view.
\<close>

record hview =
  hv_mount :: "string \<rightharpoonup> string"
  hv_file :: "string \<rightharpoonup> string"
  hv_dir :: "string set"

definition under :: "string \<Rightarrow> string \<Rightarrow> bool" where
  "under p f \<longleftrightarrow> f = p \<or> prefix (p @ ''/'') f"

text \<open>The files an xPU initiator may write: its stash, in any staging directory.\<close>

definition xpu_file :: "string \<Rightarrow> bool" where
  "xpu_file f \<longleftrightarrow> suffix xpuContextFileName f"

definition host_frame :: "('w \<Rightarrow> hview) \<Rightarrow> 'w \<Rightarrow> 'w \<Rightarrow> bool" where
  "host_frame V w w' \<longleftrightarrow> hv_mount (V w') = hv_mount (V w) \<and> hv_dir (V w) \<subseteq> hv_dir (V w') \<and>
     (\<forall>f. \<not> xpu_file f \<longrightarrow> hv_file (V w') f = hv_file (V w) f)"

section \<open>The names of stash files\<close>

lemma strings_Split_snoc:
  "sep \<notin> set t \<Longrightarrow> strings_Split (s @ sep # t) sep = strings_Split s sep @ [t]"
  by (induction s) (auto simp: strings_Split_no_sep split: list.split)

definition plain_name :: "string \<Rightarrow> bool" where
  "plain_name n \<longleftrightarrow> n \<noteq> [] \<and> n \<noteq> ''.'' \<and> n \<noteq> ''..'' \<and> CHR ''/'' \<notin> set n"

lemma clean_elems_snoc:
  "plain_name n \<Longrightarrow> clean_elems r acc (es @ [n]) = clean_elems r acc es @ [n]"
  by (induction r acc es rule: clean_elems.induct) (auto simp: plain_name_def split: list.split)

lemma path_join_snoc: "path_join (xs @ [y]) = (if xs = [] then y else path_join xs @ CHR ''/'' # y)"
  by (induction xs rule: path_join.induct) auto

lemma suffix_filepath_Join:
  assumes "plain_name n"
  shows "suffix n (filepath_Join d n)"
proof (cases "d = []")
  case True
  from assms have "strings_Split n CHR ''/'' = [n]" and "n \<noteq> []" and "hd n \<noteq> CHR ''/''"
    by (cases n; auto simp: plain_name_def strings_Split_no_sep)+
  with True assms clean_elems_snoc [of n False "[]" "[]"] show ?thesis
    by (simp add: filepath_Join_def filepath_Clean_def)
next
  case False
  let ?r = "hd d = CHR ''/''"
  have "strings_Split (d @ CHR ''/'' # n) CHR ''/'' = strings_Split d CHR ''/'' @ [n]"
    using assms by (simp add: plain_name_def strings_Split_snoc)
  then have "suffix n (path_join (clean_elems ?r [] (strings_Split (d @ CHR ''/'' # n) CHR ''/'')))"
    using assms by (auto simp: clean_elems_snoc path_join_snoc suffix_def)
  with False assms show ?thesis
    by (auto simp: filepath_Join_def filepath_Clean_def Let_def suffix_def plain_name_def)
qed

lemma plain_stash_names: "plain_name volumeContextFileName" "plain_name xpuContextFileName"
  by (simp_all add: plain_name_def volumeContextFileName_def xpuContextFileName_def)

lemma xpu_file_xpuContext [simp]: "xpu_file (filepath_Join d xpuContextFileName)"
  by (simp add: xpu_file_def suffix_filepath_Join plain_stash_names)

lemma not_xpu_file_volumeContext [simp]: "\<not> xpu_file (filepath_Join d volumeContextFileName)"
proof
  assume "xpu_file (filepath_Join d volumeContextFileName)"
  then have "suffix xpuContextFileName (filepath_Join d volumeContextFileName)"
    by (simp add: xpu_file_def)
  moreover have "suffix volumeContextFileName (filepath_Join d volumeContextFileName)"
    by (simp add: suffix_filepath_Join plain_stash_names)
  ultimately have "suffix xpuContextFileName volumeContextFileName"
    by (rule suffix_length_suffix) (simp add: volumeContextFileName_def xpuContextFileName_def)
  then show False
    by (simp add: volumeContextFileName_def xpuContextFileName_def suffix_to_prefix)
qed

section \<open>The contract\<close>

locale host_contract =
  fixes env :: "'w xpu_env" and mnt :: "'w mounter" and V :: "'w \<Rightarrow> hview"
  assumes mount_query: "mount_IsNotMountPoint mnt p w = ((b, e), w') \<Longrightarrow>
      V w' = V w \<and> (e = None \<longrightarrow> b = (hv_mount (V w) p = None)) \<and>
      (os_IsNotExist e \<longrightarrow> hv_mount (V w) p = None \<and> p \<notin> hv_dir (V w))"
    and mount_device: "mount_FormatAndMount mnt d p t fl w = (e, w') \<Longrightarrow>
      V w' = (if e = None then (V w)\<lparr>hv_mount := (hv_mount (V w))(p \<mapsto> d)\<rparr> else V w)"
    and mount_bind: "mount_Mount mnt d p t fl w = (e, w') \<Longrightarrow> ''bind'' \<in> set fl \<Longrightarrow>
      V w' = (if e = None then (V w)\<lparr>hv_mount := (hv_mount (V w))(p \<mapsto> d)\<rparr> else V w)"
    and unmount: "mount_Unmount mnt p w = (e, w') \<Longrightarrow>
      V w' = (if e = None then (V w)\<lparr>hv_mount := (hv_mount (V w))(p := None)\<rparr> else V w)"
    and mkdir_all: "os_MkdirAll (xe_os env) p w = (e, w') \<Longrightarrow>
      hv_mount (V w') = hv_mount (V w) \<and> hv_file (V w') = hv_file (V w) \<and>
      hv_dir (V w) \<subseteq> hv_dir (V w') \<and> (e = None \<longrightarrow> p \<in> hv_dir (V w'))"
    and remove_all: "os_RemoveAll (xe_os env) p w = (e, w') \<Longrightarrow>
      hv_mount (V w') = hv_mount (V w) \<and>
      (\<forall>f. \<not> under p f \<longrightarrow> hv_file (V w') f = hv_file (V w) f) \<and> (e = None \<longrightarrow> p \<notin> hv_dir (V w'))"
    and read_file: "os_ReadFile (xe_os env) f w = (r, w') \<Longrightarrow>
      V w' = V w \<and> (\<forall>c. r = Inr c \<longrightarrow> hv_file (V w) f = Some c)"
    and write_file: "os_WriteFile (xe_os env) f c w = (e, w') \<Longrightarrow>
      \<exists>x. V w' = (V w)\<lparr>hv_file := (hv_file (V w))(f := x)\<rparr> \<and> (e = None \<longrightarrow> x = Some c)"
    and remove_file: "os_Remove (xe_os env) f w = (e, w') \<Longrightarrow>
      V w' = (if e = None then (V w)\<lparr>hv_file := (hv_file (V w))(f := None)\<rparr> else V w)"
    and quiet_os:
      "V (snd (exec_Run (xe_os env) cmd n w)) = V w"
      "V (snd (filepath_Glob (xe_os env) f w)) = V w"
      "V (snd (time_Sleep (xe_os env) w)) = V w"
      "V (snd (os_Stat (xe_os env) f w)) = V w"
      "V (snd (os_ReadDir (xe_os env) f w)) = V w"
      "V (snd (os_Readlink (xe_os env) f w)) = V w"
      "V (snd (os_OpenAppend (xe_os env) f w)) = V w"
      "V (snd (file_WriteString (xe_os env) f c w)) = V w"
      "V (snd (rand_Int (xe_os env) n w)) = V w"
      "V (snd (phyIDLock_Lock env w)) = V w"
      "V (snd (phyIDLock_Unlock env w)) = V w"
    and quiet_sma:
      "V (snd (client_CreateDevice (xe_sma env) cr w)) = V w"
      "V (snd (client_AttachVolume (xe_sma env) ar w)) = V w"
      "V (snd (client_DetachVolume (xe_sma env) dr w)) = V w"
      "V (snd (client_DeleteDevice (xe_sma env) h w)) = V w"
    and quiet_opi:
      "V (snd (opi_CreateNvmeRemoteController (xe_opi env) i w)) = V w"
      "V (snd (opi_DeleteNvmeRemoteController (xe_opi env) q w)) = V w"
      "V (snd (opi_CreateNvmePath (xe_opi env) i np w)) = V w"
      "V (snd (opi_DeleteNvmePath (xe_opi env) q w)) = V w"
      "V (snd (opi_CreateNvmeSubsystem (xe_opi env) i nq w)) = V w"
      "V (snd (opi_DeleteNvmeSubsystem (xe_opi env) q w)) = V w"
      "V (snd (opi_CreateNvmeController (xe_opi env) i nc w)) = V w"
      "V (snd (opi_DeleteNvmeController (xe_opi env) q w)) = V w"
      "V (snd (opi_CreateNvmeNamespace (xe_opi env) i nn w)) = V w"
      "V (snd (opi_DeleteNvmeNamespace (xe_opi env) q w)) = V w"
      "V (snd (opi_CreateVirtioBlk (xe_opi env) i vb w)) = V w"
      "V (snd (opi_DeleteVirtioBlk (xe_opi env) q w)) = V w"

lemma host_frame_eq: "V w' = V w \<Longrightarrow> host_frame V w w'"
  by (simp add: host_frame_def)

context host_contract
begin

lemma frame_read: "V (snd (os_ReadFile (xe_os env) f w)) = V w"
  using read_file [of f w] by (metis prod.collapse)

lemma frame_mkdir: "host_frame V w (snd (os_MkdirAll (xe_os env) p w))"
  using mkdir_all [of p w] by (metis prod.collapse host_frame_def)

lemma frame_stash: "host_frame V w (snd (os_WriteFile (xe_os env) (filepath_Join d xpuContextFileName) c w))"
proof -
  obtain e w' where "os_WriteFile (xe_os env) (filepath_Join d xpuContextFileName) c w = (e, w')"
    by fastforce
  moreover from write_file [OF this] obtain x where
    "V w' = (V w)\<lparr>hv_file := (hv_file (V w))(filepath_Join d xpuContextFileName := x)\<rparr>" by blast
  ultimately show ?thesis by (auto simp: host_frame_def)
qed

lemma frame_unstash: "host_frame V w (snd (os_Remove (xe_os env) (filepath_Join d xpuContextFileName) w))"
proof -
  obtain e w' where "os_Remove (xe_os env) (filepath_Join d xpuContextFileName) w = (e, w')" by fastforce
  with remove_file [OF this] show ?thesis by (auto simp: host_frame_def)
qed

end

text \<open>The initiators are quiet on a host of this contract.\<close>

sublocale host_contract \<subseteq> quiet: quiet_host "host_frame V" env
proof unfold_locales
  show "host_frame V w w" for w by (simp add: host_frame_def)
  show "host_frame V w w1 \<Longrightarrow> host_frame V w1 w2 \<Longrightarrow> host_frame V w w2" for w w1 w2
    by (auto simp: host_frame_def)
qed (simp_all only: frame_mkdir frame_stash frame_unstash,
  (rule host_frame_eq, simp only: quiet_os quiet_sma quiet_opi frame_read)+)

end
