(* ===== verification/Node_Correct.thy ===== *)
theory Node_Correct
  imports Host_Contract
begin

text \<open>
  Weakest-precondition rules of the node service's operations on a host of \<open>host_contract\<close>, and what
  its handlers do: staging mounts the device that the initiator has connected and stashes the volume
  context, unstaging undoes it with the initiator that the stash describes.
\<close>

section \<open>Host initiators return\<close>

text \<open>The initiators that are commands and polling never panic.\<close>

lemma ready_loop_returns: "go_wp (waitForDeviceReady_loop os g n) (\<lambda>_ _. True) (\<lambda>_ _. False) w"
  by (induction n arbitrary: w) (simp_all split: sum.split list.split)

lemma gone_loop_returns: "go_wp (waitForDeviceGone_loop os g n) (\<lambda>_ _. True) (\<lambda>_ _. False) w"
  by (induction n arbitrary: w) (simp_all split: sum.split list.split)

lemma go_wp_run: "go_wp m (\<lambda>x w'. m w = (Ret x, w') \<longrightarrow> Q x w') E w \<Longrightarrow> go_wp m Q E w"
  by (auto simp: go_wp_def split: prod.splits outcome.splits)

lemma go_wp_True_mono:
  "go_wp m (\<lambda>_ _. True) (\<lambda>_ _. False) w \<Longrightarrow> (\<And>x w'. Q x w') \<Longrightarrow> go_wp m Q (\<lambda>_ _. False) w"
  by (rule go_wp_mono) auto

lemma host_initiator_Connect_returns:
  "go_wp (SpdkCsiInitiator_Connect env (HostInitiator h)) (\<lambda>_ _. True) (\<lambda>_ _. False) w"
  by (cases h)
    (auto simp: initiatorNVMf_Connect_def initiatorISCSI_Connect_def execWithTimeout_def waitForDeviceReady_def Let_def
      split: prod.split intro!: go_wp_True_mono [OF ready_loop_returns])

lemma host_initiator_Disconnect_returns:
  "go_wp (SpdkCsiInitiator_Disconnect env (HostInitiator h)) (\<lambda>_ _. True) (\<lambda>_ _. False) w"
  by (cases h)
    (auto simp: initiatorNVMf_Disconnect_def initiatorISCSI_Disconnect_def execWithTimeout_def waitForDeviceGone_def Let_def
      split: prod.split intro!: go_wp_True_mono [OF gone_loop_returns])

definition is_xpu :: "SpdkCsiInitiator \<Rightarrow> bool" where
  "is_xpu i = (case i of XpuCsiInitiator _ \<Rightarrow> True | _ \<Rightarrow> False)"

lemma Connect_panic:
  assumes "SpdkCsiInitiator_Connect env i w = (Panic s, w')"
  shows "is_xpu i"
proof (cases i)
  case (HostInitiator h)
  with assms show ?thesis using host_initiator_Connect_returns [of env h w] by (simp add: go_wp_def)
qed (simp add: is_xpu_def)

lemma Disconnect_panic:
  assumes "SpdkCsiInitiator_Disconnect env i w = (Panic s, w')"
  shows "is_xpu i"
proof (cases i)
  case (HostInitiator h)
  with assms show ?thesis using host_initiator_Disconnect_returns [of env h w] by (simp add: go_wp_def)
qed (simp add: is_xpu_def)

lemma Connect_is_xpu: "SpdkCsiInitiator_Connect env i w = (Ret (r, i'), w') \<Longrightarrow> is_xpu i' = is_xpu i"
proof (cases i)
  case (HostInitiator h)
  then show "SpdkCsiInitiator_Connect env i w = (Ret (r, i'), w') \<Longrightarrow> is_xpu i' = is_xpu i"
    by (cases h) (auto simp: is_xpu_def go_return_def elim!: go_bind_cases)
next
  case (XpuCsiInitiator x)
  then show "SpdkCsiInitiator_Connect env i w = (Ret (r, i'), w') \<Longrightarrow> is_xpu i' = is_xpu i"
    by (auto simp: is_xpu_def go_return_def elim!: go_bind_cases split: prod.splits)
qed

lemma newInitiator_is_xpu:
  "nodeServer_newInitiator env ns vc d w = (Ret (Inr i, vc'), w') \<Longrightarrow> is_xpu i = xpuConnClient ns"
  by (auto simp: nodeServer_newInitiator_def is_xpu_def go_return_def go_panic_def Let_def
      elim!: go_bind_cases split: if_splits option.splits sum.splits)

section \<open>Rules\<close>

context host_contract
begin

lemma wp_initiator_Connect:
  assumes "\<And>x w'. SpdkCsiInitiator_Connect env i w = (Ret x, w') \<Longrightarrow> host_frame V w w' \<Longrightarrow> Q x w'"
    and "\<And>s w'. is_xpu i \<Longrightarrow> host_frame V w w' \<Longrightarrow> E s w'"
  shows "go_wp (SpdkCsiInitiator_Connect env i) Q E w"
  unfolding go_wp_def
  using assms keepsD [OF quiet.initiator_Connect] Connect_panic
  by (fastforce split: prod.split outcome.split)

lemma wp_initiator_Disconnect:
  assumes "\<And>x w'. SpdkCsiInitiator_Disconnect env i w = (Ret x, w') \<Longrightarrow> host_frame V w w' \<Longrightarrow> Q x w'"
    and "\<And>s w'. is_xpu i \<Longrightarrow> host_frame V w w' \<Longrightarrow> E s w'"
  shows "go_wp (SpdkCsiInitiator_Disconnect env i) Q E w"
  unfolding go_wp_def
  using assms keepsD [OF quiet.initiator_Disconnect] Disconnect_panic
  by (fastforce split: prod.split outcome.split)

lemma wp_newInitiator:
  assumes "\<And>x w'. nodeServer_newInitiator env ns vc d w = (Ret x, w') \<Longrightarrow> host_frame V w w' \<Longrightarrow> Q x w'"
    and "\<And>s w'. xpuConnClient ns \<Longrightarrow> host_frame V w w' \<Longrightarrow> E s w'"
  shows "go_wp (nodeServer_newInitiator env ns vc d) Q E w"
proof (cases "xpuConnClient ns")
  case True
  then show ?thesis
    unfolding go_wp_def
    using assms keepsD [OF quiet.keeps_newInitiator] by (fastforce split: prod.split outcome.split)
next
  case False
  then obtain x where "nodeServer_newInitiator env ns vc d w = (Ret x, w)"
    by (cases "NewSpdkCsiInitiator (kvs_of vc)") (auto simp: nodeServer_newInitiator_def go_return_def)
  with assms(1) show ?thesis by (simp add: go_wp_def)
qed

lemma wp_isStaged:
  assumes "\<And>b e w'. V w' = V w \<Longrightarrow> (e = None \<Longrightarrow> b = (hv_mount (V w) p \<noteq> None)) \<Longrightarrow> Q (b, e) w'"
  shows "go_wp (nodeServer_isStaged mnt p) Q E w"
proof -
  obtain b e w' where q: "mount_IsNotMountPoint mnt p w = ((b, e), w')" by (metis surj_pair)
  show ?thesis
    using assms mount_query [OF q] by (auto simp: nodeServer_isStaged_def q)
qed

lemma wp_createMountPoint:
  assumes "\<And>b e w'. hv_mount (V w') = hv_mount (V w) \<Longrightarrow> hv_file (V w') = hv_file (V w) \<Longrightarrow>
      hv_dir (V w) \<subseteq> hv_dir (V w') \<Longrightarrow> (e = None \<Longrightarrow> b = (hv_mount (V w) p \<noteq> None)) \<Longrightarrow> Q (b, e) w'"
  shows "go_wp (nodeServer_createMountPoint (xe_os env) mnt p) Q E w"
proof -
  obtain b e w1 where q: "mount_IsNotMountPoint mnt p w = ((b, e), w1)" by (metis surj_pair)
  obtain e2 w2 where m: "os_MkdirAll (xe_os env) p w1 = (e2, w2)" by fastforce
  show ?thesis
    using assms mount_query [OF q] mkdir_all [OF m] by (auto simp: nodeServer_createMountPoint_def q m)
qed

lemma wp_deleteMountPoint:
  assumes "\<And>e w'. (e = None \<Longrightarrow> hv_mount (V w') = (hv_mount (V w))(p := None) \<and> p \<notin> hv_dir (V w')) \<Longrightarrow>
      (e \<noteq> None \<Longrightarrow> hv_mount (V w') \<in> {hv_mount (V w), (hv_mount (V w))(p := None)}) \<Longrightarrow>
      (\<And>f. \<not> under p f \<Longrightarrow> hv_file (V w') f = hv_file (V w) f) \<Longrightarrow> Q e w'"
  shows "go_wp (nodeServer_deleteMountPoint (xe_os env) mnt p) Q E w"
proof -
  obtain b e w1 where q: "mount_IsNotMountPoint mnt p w = ((b, e), w1)" by (metis surj_pair)
  obtain eu w2 where u: "mount_Unmount mnt p w1 = (eu, w2)" by fastforce
  obtain e2 w3 where r2: "os_RemoveAll (xe_os env) p w2 = (e2, w3)" by fastforce
  obtain e1 w4 where r1: "os_RemoveAll (xe_os env) p w1 = (e1, w4)" by fastforce
  note effects = mount_query [OF q] unmount [OF u] remove_all [OF r1] remove_all [OF r2]
  show ?thesis
    using effects
    by (cases eu) (auto simp: nodeServer_deleteMountPoint_def q u r1 r2 fun_upd_idem intro!: assms)
qed

lemma wp_StashVolumeContext:
  fixes d f defines "f \<equiv> filepath_Join d volumeContextFileName"
  assumes "\<And>e w'. hv_mount (V w') = hv_mount (V w) \<Longrightarrow> (e = None \<Longrightarrow> hv_file (V w') f = Some (kv_marshal vc)) \<Longrightarrow>
      (\<And>g. g \<noteq> f \<Longrightarrow> hv_file (V w') g = hv_file (V w) g) \<Longrightarrow> Q e w'"
  shows "go_wp (StashVolumeContext (xe_os env) vc d) Q E w"
proof -
  define w1 where "w1 = snd (os_Stat (xe_os env) d w)"
  have v1: "V w1 = V w" by (simp add: w1_def quiet_os)
  obtain em w2 where m: "os_MkdirAll (xe_os env) d w1 = (em, w2)" by fastforce
  obtain e3 w3 where s3: "os_WriteFile (xe_os env) f (kv_marshal vc) w2 = (e3, w3)" by fastforce
  obtain e4 w4 where s4: "os_WriteFile (xe_os env) f (kv_marshal vc) w1 = (e4, w4)" by fastforce
  note effects = mkdir_all [OF m] write_file [OF s3] write_file [OF s4]
  show ?thesis
    using effects v1
    by (auto simp: StashVolumeContext_def stashContext_def Let_def m s3 s4 w1_def [symmetric] f_def [symmetric]
        split: option.split intro!: assms(2))
qed

lemma wp_LookupVolumeContext:
  fixes d f defines "f \<equiv> filepath_Join d volumeContextFileName"
  assumes "\<And>r w'. V w' = V w \<Longrightarrow>
      (\<And>vc m. r = Inr vc \<Longrightarrow> hv_file (V w) f = Some (kv_marshal (Some m)) \<Longrightarrow> kv_ok m \<Longrightarrow> vc = m) \<Longrightarrow> Q r w'"
  shows "go_wp (LookupVolumeContext (xe_os env) d) Q E w"
proof -
  obtain r w1 where s: "os_ReadFile (xe_os env) f w = (r, w1)" by fastforce
  show ?thesis
    using read_file [OF s]
    by (auto simp: LookupVolumeContext_def lookupContext_def Let_def s f_def [symmetric]
        split: sum.split option.split intro!: assms(2))
qed

lemma wp_CleanUpVolumeContext:
  fixes d f defines "f \<equiv> filepath_Join d volumeContextFileName"
  assumes "\<And>e w'. V w' = (if e = None then (V w)\<lparr>hv_file := (hv_file (V w))(f := None)\<rparr> else V w) \<Longrightarrow> Q e w'"
  shows "go_wp (CleanUpVolumeContext (xe_os env) d) Q E w"
proof -
  obtain e w1 where s: "os_Remove (xe_os env) f w = (e, w1)" by fastforce
  show ?thesis
    using remove_file [OF s] assms(2)
    by (auto simp: CleanUpVolumeContext_def cleanUpContext_def Let_def s f_def [symmetric] split: option.split)
qed

lemma wp_stageVolume:
  assumes "Option.bind (nsr_VolumeCapability req) vcap_AccessMode \<noteq> None"
    and "\<And>e w'. hv_file (V w') = hv_file (V w) \<Longrightarrow>
      (e = None \<Longrightarrow> hv_mount (V w') =
        (if hv_mount (V w) p = None then (hv_mount (V w))(p \<mapsto> dev) else hv_mount (V w))) \<Longrightarrow>
      (e \<noteq> None \<Longrightarrow> hv_mount (V w') = hv_mount (V w)) \<Longrightarrow> Q e w'"
  shows "go_wp (nodeServer_stageVolume (xe_os env) mnt dev p req) Q E w"
proof -
  obtain mode where mode: "Option.bind (nsr_VolumeCapability req) vcap_AccessMode = Some mode"
    using assms(1) by blast
  have mounted: "hv_file (V w2) = hv_file (V w1) \<and>
      hv_mount (V w2) = (if e = None then (hv_mount (V w1))(p \<mapsto> dev) else hv_mount (V w1))"
    if "mount_FormatAndMount mnt dev p t fl w1 = (e, w2)" for t fl e w1 w2
    using mount_device [OF that] by simp
  then have res: "hv_file (V (snd (mount_FormatAndMount mnt dev p t fl w1))) = hv_file (V w1)"
    "hv_mount (V (snd (mount_FormatAndMount mnt dev p t fl w1))) =
      (if fst (mount_FormatAndMount mnt dev p t fl w1) = None then (hv_mount (V w1))(p \<mapsto> dev) else hv_mount (V w1))"
    for t fl w1
    by (metis prod.collapse)+
  show ?thesis
    unfolding nodeServer_stageVolume_def go_wp_bind
    by (rule wp_createMountPoint) (auto simp: Let_def mode res intro!: assms(2))
qed

end

section \<open>What the handlers promise\<close>

text \<open>The volume context after the initiator has been made, and the initiator that belongs to a context.\<close>

definition new_context :: "nodeServer \<Rightarrow> kvs option \<Rightarrow> string \<Rightarrow> kvs option" where
  "new_context ns vc d = (if xpuConnClient ns then map_option (kv_put ''stagingParentPath'' d) vc else vc)"

definition initiator_for :: "nodeServer \<Rightarrow> kvs option \<Rightarrow> string \<Rightarrow> SpdkCsiInitiator \<Rightarrow> bool" where
  "initiator_for ns vc d i = (case i of
     HostInitiator h \<Rightarrow> \<not> xpuConnClient ns \<and> NewSpdkCsiInitiator (kvs_of vc) = Inr h
   | XpuCsiInitiator x \<Rightarrow> xpuConnClient ns \<and> Some (xpu_volumeContext x) = new_context ns vc d \<and>
       Some (xpu_xpuConfig x) = xpuConfigInfo ns)"

lemma tryGetXpuContext_keeps:
  "go_wp (xpuInitiator_tryGetXpuContext env)
     (\<lambda>_ (y, _). xpu_volumeContext y = xpu_volumeContext x \<and> xpu_xpuConfig y = xpu_xpuConfig x) (\<lambda>_ _. True) (x, w)"
  by (simp add: xpuInitiator_tryGetXpuContext_def go_wp_def [of "LookupXPUContext _ _"]
      split: prod.split outcome.split sum.split)

lemma NewSpdkCsiXpuInitiator_fields:
  assumes "NewSpdkCsiXpuInitiator env vc cfg w = (Ret (Inr x), w')"
  shows "xpu_volumeContext x = vc \<and> xpu_xpuConfig x = cfg"
proof -
  have "go_wp (NewSpdkCsiXpuInitiator env vc cfg)
      (\<lambda>r _. \<forall>x. r = Inr x \<longrightarrow> xpu_volumeContext x = vc \<and> xpu_xpuConfig x = cfg) (\<lambda>_ _. True) w"
    by (auto simp: NewSpdkCsiXpuInitiator_def Let_def split: sum.split
        intro!: go_wp_mono [OF tryGetXpuContext_keeps])
  with assms show ?thesis by (simp add: go_wp_def)
qed

lemma newInitiator_for:
  assumes "nodeServer_newInitiator env ns vc d w = (Ret (Inr i, vc'), w')"
  shows "initiator_for ns vc d i \<and> vc' = new_context ns vc d"
  using assms
  by (auto simp: nodeServer_newInitiator_def initiator_for_def new_context_def go_return_def go_panic_def Let_def
      elim!: go_bind_cases dest!: NewSpdkCsiXpuInitiator_fields split: if_splits option.splits sum.splits)

lemma with_volume_lock_ex:
  "\<not> lock_held m i \<Longrightarrow> body w = (r, w') \<Longrightarrow> \<exists>m'. with_volume_lock i body (m, w) = (r, m', w')"
  using with_volume_lock_run [of m i body w r w'] by blast

text \<open>
  The results of the two handlers. A staged volume was connected, mounted and stashed in this order,
  starting from the mounts and files of the request. After an error of staging, one of three: the
  failing call was the last one and it was the mount query, the making of the initiator or its
  \<open>Connect\<close> (then what a failing \<open>Connect\<close> has attached stays attached); mounting the connected device
  failed, and the last call was its disconnect; or it was mounted, storing the context failed, and
  the last call was its disconnect, with the mount still there. A volume that was unstaged was
  unmounted, then disconnected with the initiator of its stash, and the stash was removed last; an
  error keeps the stash.
\<close>

definition failed_before_mount ::
  "'w xpu_env \<Rightarrow> 'w mounter \<Rightarrow> ('w \<Rightarrow> hview) \<Rightarrow> nodeServer \<Rightarrow> NodeStageVolumeRequest \<Rightarrow> 'w \<Rightarrow> go_error \<Rightarrow> 'w \<Rightarrow> bool" where
  "failed_before_mount env mnt V ns req w x w' \<longleftrightarrow> host_frame V w w' \<and>
     (let d = nsr_StagingTargetPath req; vc = nsr_VolumeContext req
      in \<exists>e. x = internal e \<and>
        ((\<exists>b. nodeServer_isStaged mnt (d @ ''/'' @ nsr_VolumeId req) w = (Ret (b, Some e), w')) \<or>
         (\<exists>w1 vc'. V w1 = V w \<and> nodeServer_newInitiator env ns vc d w1 = (Ret (Inl e, vc'), w')) \<or>
         (\<exists>i w1 dev i'. host_frame V w w1 \<and> initiator_for ns vc d i \<and>
            SpdkCsiInitiator_Connect env i w1 = (Ret ((dev, Some e), i'), w'))))"

definition connected ::
  "'w xpu_env \<Rightarrow> ('w \<Rightarrow> hview) \<Rightarrow> nodeServer \<Rightarrow> NodeStageVolumeRequest \<Rightarrow> 'w \<Rightarrow> string \<Rightarrow> SpdkCsiInitiator \<Rightarrow> 'w \<Rightarrow> bool" where
  "connected env V ns req w dev i' w2 \<longleftrightarrow>
     (\<exists>i w1. host_frame V w w1 \<and> initiator_for ns (nsr_VolumeContext req) (nsr_StagingTargetPath req) i \<and>
        SpdkCsiInitiator_Connect env i w1 = (Ret ((dev, None), i'), w2))"

definition mount_undone ::
  "'w xpu_env \<Rightarrow> 'w mounter \<Rightarrow> ('w \<Rightarrow> hview) \<Rightarrow> nodeServer \<Rightarrow> NodeStageVolumeRequest \<Rightarrow> 'w \<Rightarrow> go_error \<Rightarrow> 'w \<Rightarrow> bool" where
  "mount_undone env mnt V ns req w x w' \<longleftrightarrow> (\<exists>dev i' w2 w3 e r. x = internal e \<and> connected env V ns req w dev i' w2 \<and>
     nodeServer_stageVolume (xe_os env) mnt dev (nsr_StagingTargetPath req @ ''/'' @ nsr_VolumeId req) req w2 = (Ret (Some e), w3) \<and>
     SpdkCsiInitiator_Disconnect env i' w3 = (Ret r, w') \<and> hv_mount (V w') = hv_mount (V w))"

definition stash_undone ::
  "'w xpu_env \<Rightarrow> 'w mounter \<Rightarrow> ('w \<Rightarrow> hview) \<Rightarrow> nodeServer \<Rightarrow> NodeStageVolumeRequest \<Rightarrow> 'w \<Rightarrow> go_error \<Rightarrow> 'w \<Rightarrow> bool" where
  "stash_undone env mnt V ns req w x w' \<longleftrightarrow>
     (let d = nsr_StagingTargetPath req; p = d @ ''/'' @ nsr_VolumeId req
      in \<exists>dev i' w2 w3 w4 e r. x = internal e \<and> connected env V ns req w dev i' w2 \<and>
        nodeServer_stageVolume (xe_os env) mnt dev p req w2 = (Ret None, w3) \<and>
        StashVolumeContext (xe_os env) (new_context ns (nsr_VolumeContext req) d) d w3 = (Ret (Some e), w4) \<and>
        SpdkCsiInitiator_Disconnect env i' w4 = (Ret r, w') \<and> hv_mount (V w') = (hv_mount (V w))(p \<mapsto> dev))"

definition stage_post ::
  "'w xpu_env \<Rightarrow> 'w mounter \<Rightarrow> ('w \<Rightarrow> hview) \<Rightarrow> nodeServer \<Rightarrow> NodeStageVolumeRequest \<Rightarrow> 'w \<Rightarrow> err \<Rightarrow> 'w \<Rightarrow> bool" where
  "stage_post env mnt V ns req w r w' \<longleftrightarrow>
     (let d = nsr_StagingTargetPath req;
          p = d @ ''/'' @ nsr_VolumeId req;
          vc = new_context ns (nsr_VolumeContext req) d;
          M = hv_mount (V w)
      in case r of
        None \<Rightarrow> if M p \<noteq> None then V w' = V w
          else \<exists>dev i' w2 w3. connected env V ns req w dev i' w2 \<and>
            nodeServer_stageVolume (xe_os env) mnt dev p req w2 = (Ret None, w3) \<and>
            StashVolumeContext (xe_os env) vc d w3 = (Ret None, w') \<and>
            hv_mount (V w') = M(p \<mapsto> dev) \<and>
            hv_file (V w') (filepath_Join d volumeContextFileName) = Some (kv_marshal vc)
      | Some e \<Rightarrow> failed_before_mount env mnt V ns req w e w' \<or> mount_undone env mnt V ns req w e w' \<or>
          stash_undone env mnt V ns req w e w')"

definition unstage_post ::
  "'w xpu_env \<Rightarrow> ('w \<Rightarrow> hview) \<Rightarrow> nodeServer \<Rightarrow> NodeUnstageVolumeRequest \<Rightarrow> 'w \<Rightarrow> err \<Rightarrow> 'w \<Rightarrow> bool" where
  "unstage_post env V ns req w r w' \<longleftrightarrow>
     (let d = nur_StagingTargetPath req;
          p = d @ ''/'' @ nur_VolumeId req;
          f = filepath_Join d volumeContextFileName;
          M = hv_mount (V w)
      in case r of
        None \<Rightarrow> if M p = None then V w' = V w
          else hv_mount (V w') = M(p := None) \<and> hv_file (V w') f = None \<and>
            (\<exists>vc i w1 w2. initiator_for ns (Some vc) d i \<and> hv_mount (V w1) = M(p := None) \<and>
               SpdkCsiInitiator_Disconnect env i w1 = (Ret None, w2) \<and>
               CleanUpVolumeContext (xe_os env) d w2 = (Ret None, w') \<and>
               (\<forall>vc'. hv_file (V w) f = Some (kv_marshal (Some vc')) \<longrightarrow> kv_ok vc' \<longrightarrow> \<not> under p f \<longrightarrow> vc = vc'))
      | Some e \<Rightarrow> hv_mount (V w') \<in> {M, M(p := None)} \<and>
          (\<not> under p f \<longrightarrow> hv_file (V w') f = hv_file (V w) f))"

lemma stage_post_error:
  "failed_before_mount env mnt V ns req w e w' \<or> mount_undone env mnt V ns req w e w' \<or> stash_undone env mnt V ns req w e w'
     \<Longrightarrow> stage_post env mnt V ns req w (Some e) w'"
  by (simp add: stage_post_def Let_def)

lemmas stage_post_failed_before_mount = stage_post_error [OF disjI1]

lemma stage_post_staged:
  fixes req V w
  defines "d \<equiv> nsr_StagingTargetPath req"
  defines "p \<equiv> d @ ''/'' @ nsr_VolumeId req"
  assumes "connected env V ns req w dev i' w2" and "hv_mount (V w) p = None"
    and "nodeServer_stageVolume (xe_os env) mnt dev p req w2 = (Ret None, w3)"
    and "StashVolumeContext (xe_os env) (new_context ns (nsr_VolumeContext req) d) d w3 = (Ret None, w')"
    and "hv_mount (V w') = (hv_mount (V w))(p \<mapsto> dev)"
    and "hv_file (V w') (filepath_Join d volumeContextFileName) =
           Some (kv_marshal (new_context ns (nsr_VolumeContext req) d))"
  shows "stage_post env mnt V ns req w None w'"
  using assms(3-8) unfolding stage_post_def Let_def d_def [symmetric] p_def [symmetric] option.case
  by simp blast

context host_contract
begin

lemma stage_tail:
  fixes req ns w
  defines "p \<equiv> nsr_StagingTargetPath req @ ''/'' @ nsr_VolumeId req"
  assumes mode: "Option.bind (nsr_VolumeCapability req) vcap_AccessMode \<noteq> None"
    and con: "connected env V ns req w dev i' w2" and xpu: "is_xpu i' \<Longrightarrow> xpuConnClient ns"
    and fr: "host_frame V w w2" and free: "hv_mount (V w) p = None"
    and vc: "vc = new_context ns (nsr_VolumeContext req) (nsr_StagingTargetPath req)"
  shows "go_wp (go_bind (nodeServer_stageVolume (xe_os env) mnt dev p req) (\<lambda>err. case err of
           Some e \<Rightarrow> go_bind (SpdkCsiInitiator_Disconnect env i') (\<lambda>_. go_return (Some (internal e)))
         | None \<Rightarrow>
      go_bind (StashVolumeContext (xe_os env) vc (nsr_StagingTargetPath req)) (\<lambda>err. case err of
           Some e \<Rightarrow> go_bind (SpdkCsiInitiator_Disconnect env i') (\<lambda>_. go_return (Some (internal e)))
         | None \<Rightarrow> go_return None)))
      (stage_post env mnt V ns req w) (\<lambda>_ _. xpuConnClient ns) w2"
    (is "go_wp (go_bind _ ?rest) ?Q ?E w2")
proof -
  have fail: "go_wp (SpdkCsiInitiator_Disconnect env i') (\<lambda>_. ?Q (Some (internal e))) ?E w3"
    if "\<And>r w4. SpdkCsiInitiator_Disconnect env i' w3 = (Ret r, w4) \<Longrightarrow> hv_mount (V w4) = hv_mount (V w3) \<Longrightarrow>
      mount_undone env mnt V ns req w (internal e) w4 \<or> stash_undone env mnt V ns req w (internal e) w4" for e w3
    by (intro wp_initiator_Disconnect stage_post_error disjI2 that) (auto simp: host_frame_def dest: xpu)
  have stash: "go_wp (?rest None) ?Q ?E w3"
    if run: "nodeServer_stageVolume (xe_os env) mnt dev p req w2 = (Ret None, w3)"
      and mnt: "hv_mount (V w3) = (hv_mount (V w))(p \<mapsto> dev)" for w3
    unfolding option.case go_wp_bind
  proof (rule go_wp_run, rule wp_StashVolumeContext, rule impI, goal_cases)
    case (1 e w4)
    show ?case
    proof (cases e)
      case None
      with 1 mnt run vc show ?thesis
        by (auto intro!: stage_post_staged [OF con free [unfolded p_def] run [unfolded p_def]] simp: p_def)
    next
      case (Some x)
      with 1 mnt vc have s: "StashVolumeContext (xe_os env) (new_context ns (nsr_VolumeContext req) (nsr_StagingTargetPath req))
          (nsr_StagingTargetPath req) w3 = (Ret (Some x), w4)" and M: "hv_mount (V w4) = (hv_mount (V w))(p \<mapsto> dev)"
        by simp_all
      have "go_wp (SpdkCsiInitiator_Disconnect env i') (\<lambda>_. ?Q (Some (internal x))) ?E w4"
        by (rule fail, rule disjI2, unfold stash_undone_def Let_def p_def [symmetric], intro exI conjI,
            rule refl, rule con, rule run, rule s, assumption, simp add: M)
      with Some show ?thesis by simp
    qed
  qed
  show ?thesis
    unfolding go_wp_bind
  proof (rule go_wp_run, rule wp_stageVolume [OF mode], rule impI, goal_cases)
    case (1 e w3)
    show ?case
    proof (cases e)
      case None
      with 1 fr free stash show ?thesis by (simp add: host_frame_def del: option.case(1))
    next
      case (Some x)
      with 1 fr have run: "nodeServer_stageVolume (xe_os env) mnt dev p req w2 = (Ret (Some x), w3)"
        and M: "hv_mount (V w3) = hv_mount (V w)" by (simp_all add: host_frame_def)
      have "go_wp (SpdkCsiInitiator_Disconnect env i') (\<lambda>_. ?Q (Some (internal x))) ?E w3"
        by (rule fail, rule disjI1, unfold mount_undone_def p_def [symmetric], intro exI conjI,
            rule refl, rule con, rule run, assumption, simp add: M)
      with Some show ?thesis by simp
    qed
  qed
qed

theorem NodeStage_wp:
  fixes m :: VolumeLocks
  assumes free: "\<not> lock_held m (nsr_VolumeId req)"
    and mode: "Option.bind (nsr_VolumeCapability req) vcap_AccessMode \<noteq> None"
  shows "go_wp (nodeServer_NodeStageVolume env mnt ns req)
     (\<lambda>r (m', w'). (\<forall>j. lock_held m' j = lock_held m j) \<and> stage_post env mnt V ns req w r w')
     (\<lambda>_ (m', _). (\<forall>j. lock_held m' j = lock_held m j) \<and> xpuConnClient ns) (m, w)"
proof -
  let ?d = "nsr_StagingTargetPath req" and ?Q = "stage_post env mnt V ns req w" and ?E = "\<lambda>_ _. xpuConnClient ns"
  let ?p = "?d @ ''/'' @ nsr_VolumeId req"
  have connect: "go_wp (go_bind (SpdkCsiInitiator_Connect env i) (\<lambda>((devicePath, err), initiator). case err of
           Some e \<Rightarrow> go_return (Some (internal e))
         | None \<Rightarrow>
      go_bind (nodeServer_stageVolume (xe_os env) mnt devicePath ?p req) (\<lambda>err. case err of
           Some e \<Rightarrow> go_bind (SpdkCsiInitiator_Disconnect env initiator) (\<lambda>_. go_return (Some (internal e)))
         | None \<Rightarrow>
      go_bind (StashVolumeContext (xe_os env) vc ?d) (\<lambda>err. case err of
           Some e \<Rightarrow> go_bind (SpdkCsiInitiator_Disconnect env initiator) (\<lambda>_. go_return (Some (internal e)))
         | None \<Rightarrow> go_return None)))) ?Q ?E w2"
    if "nodeServer_newInitiator env ns (nsr_VolumeContext req) ?d w1 = (Ret (Inr i, vc), w2)"
      and fr: "host_frame V w w2" and un: "hv_mount (V w) ?p = None" for i vc w1 w2
  proof -
    note new = newInitiator_for [OF that(1)] newInitiator_is_xpu [OF that(1)]
    show ?thesis
      unfolding go_wp_bind
    proof (rule wp_initiator_Connect, goal_cases)
      case (1 x w3)
      obtain dev e i' where x: "x = ((dev, e), i')" by (metis surj_pair)
      from 1(2) have fr3: "host_frame V w w3" by (rule quiet.R_trans [OF fr])
      show ?case
      proof (cases e)
        case None
        with 1 x have run: "SpdkCsiInitiator_Connect env i w2 = (Ret ((dev, None), i'), w3)" by simp
        with fr new have "connected env V ns req w dev i' w3" unfolding connected_def by blast
        from stage_tail [OF mode this _ fr3 un] new Connect_is_xpu [OF run] show ?thesis by (simp add: x None)
      next
        case (Some e')
        with 1 x new fr fr3 have "failed_before_mount env mnt V ns req w (internal e') w3" unfolding failed_before_mount_def Let_def by blast
        then show ?thesis by (simp add: x Some stage_post_failed_before_mount)
      qed
    qed (use new in simp)
  qed
  have create: "go_wp (nodeServer_newInitiator env ns (nsr_VolumeContext req) ?d) (\<lambda>x. go_wp (case x of (res, vc) \<Rightarrow> k res vc) ?Q ?E) ?E w1"
    if "V w1 = V w" and "\<And>e vc. k (Inl e) vc = go_return (Some (internal e))"
      and "\<And>i vc w2. nodeServer_newInitiator env ns (nsr_VolumeContext req) ?d w1 = (Ret (Inr i, vc), w2) \<Longrightarrow>
        host_frame V w w2 \<Longrightarrow> go_wp (k (Inr i) vc) ?Q ?E w2" for k w1
  proof (rule wp_newInitiator, goal_cases)
    case (1 x w2)
    obtain res vc where x: "x = (res, vc)" by fastforce
    from 1(2) \<open>V w1 = V w\<close> have fr: "host_frame V w w2" by (simp add: host_frame_def)
    show ?case
    proof (cases res)
      case (Inl e)
      with 1 x fr that(1) have "failed_before_mount env mnt V ns req w (internal e) w2" unfolding failed_before_mount_def Let_def by blast
      then show ?thesis by (simp add: x Inl that(2) stage_post_failed_before_mount)
    qed (use 1 x fr that(3) in simp)
  qed simp
  show ?thesis
    unfolding nodeServer_NodeStageVolume_def Let_def getStagingTargetPath.simps
  proof (rule wp_with_volume_lock [OF free], rule go_wp_mono [where Q = ?Q and E = ?E],
      unfold go_wp_bind, rule go_wp_run, rule wp_isStaged, rule impI, goal_cases)
    case (1 b e w1)
    then have fr: "host_frame V w w1" by (intro host_frame_eq)
    show ?case
    proof (cases e)
      case None
      show ?thesis
      proof (cases b)
        case False
        with None 1 have "hv_mount (V w) ?p = None" by simp
        then have "go_wp (nodeServer_newInitiator env ns (nsr_VolumeContext req) ?d) (\<lambda>x. go_wp (case x of (res, vc) \<Rightarrow>
            (case res of Inl e \<Rightarrow> go_return (Some (internal e)) | Inr i \<Rightarrow> go_bind (SpdkCsiInitiator_Connect env i) (k vc)))
            ?Q ?E) ?E w1"
          if "\<And>i vc w2. nodeServer_newInitiator env ns (nsr_VolumeContext req) ?d w1 = (Ret (Inr i, vc), w2) \<Longrightarrow>
            host_frame V w w2 \<Longrightarrow> go_wp (go_bind (SpdkCsiInitiator_Connect env i) (k vc)) ?Q ?E w2" for k
          using that by (intro create [OF 1(1)]) auto
        from this [OF connect] \<open>hv_mount (V w) ?p = None\<close> None False show ?thesis
          by (simp only: prod.case option.case if_False go_wp_bind not_False_eq_True)
      qed (use None 1 in \<open>simp add: stage_post_def Let_def\<close>)
    next
      case (Some e')
      with 1 fr have "failed_before_mount env mnt V ns req w (internal e') w1" unfolding failed_before_mount_def Let_def by blast
      then show ?thesis by (simp add: Some stage_post_failed_before_mount)
    qed
  qed auto
qed

text \<open>Unstaging once the mount point is gone: \<open>w\<close> is the world before, \<open>w1\<close> after its deletion.\<close>

lemma unstage_tail:
  fixes req :: NodeUnstageVolumeRequest
  defines "d \<equiv> nur_StagingTargetPath req"
  defines "p \<equiv> d @ ''/'' @ nur_VolumeId req" and "f \<equiv> filepath_Join d volumeContextFileName"
  assumes staged: "hv_mount (V w) p \<noteq> None"
    and gone: "hv_mount (V w1) = (hv_mount (V w))(p := None)"
    and kept: "\<not> under p f \<Longrightarrow> hv_file (V w1) f = hv_file (V w) f"
  shows "go_wp (LookupVolumeContext (xe_os env) d) (\<lambda>res. go_wp (case res of
           Inl e \<Rightarrow> go_return (Some (internal e))
         | Inr volumeContext \<Rightarrow>
      go_bind (nodeServer_newInitiator env ns (Some volumeContext) d) (\<lambda>(res, _). case res of
           Inl e \<Rightarrow> go_return (Some (internal e))
         | Inr initiator \<Rightarrow>
      go_bind (SpdkCsiInitiator_Disconnect env initiator) (\<lambda>err. case err of
           Some e \<Rightarrow> go_return (Some (internal e))
         | None \<Rightarrow>
      go_bind (CleanUpVolumeContext (xe_os env) d) (\<lambda>err. case err of
           Some e \<Rightarrow> go_return (Some (internal e))
         | None \<Rightarrow> go_return None)))) (unstage_post env V ns req w) (\<lambda>_ _. xpuConnClient ns))
      (\<lambda>_ _. xpuConnClient ns) w1"
proof (rule wp_LookupVolumeContext, goal_cases)
  case (1 r w2)
  have err: "unstage_post env V ns req w (Some e) w'"
    if "hv_mount (V w') = hv_mount (V w1)" and "hv_file (V w') f = hv_file (V w1) f" for e w'
    using that gone kept by (simp add: unstage_post_def Let_def d_def p_def f_def)
  have ok: "unstage_post env V ns req w None w'"
    if "hv_mount (V w') = hv_mount (V w1)" and "hv_file (V w') f = None" and "r = Inr vc"
      and "initiator_for ns (Some vc) d i" and "hv_mount (V w3) = hv_mount (V w1)"
      and "SpdkCsiInitiator_Disconnect env i w3 = (Ret None, w4)"
      and "CleanUpVolumeContext (xe_os env) d w4 = (Ret None, w')" for w' vc i w3 w4
  proof -
    have "\<forall>vc'. hv_file (V w) f = Some (kv_marshal (Some vc')) \<longrightarrow> kv_ok vc' \<longrightarrow> \<not> under p f \<longrightarrow> vc = vc'"
      using 1(2) kept that(3) unfolding f_def by auto
    with that gone staged show ?thesis
      unfolding unstage_post_def Let_def d_def [symmetric] p_def [symmetric] f_def [symmetric] by auto
  qed
  show ?case
  proof (cases r)
    case (Inr vc)
    have "go_wp (SpdkCsiInitiator_Disconnect env i) (\<lambda>err. go_wp (case err of
           Some e \<Rightarrow> go_return (Some (internal e))
         | None \<Rightarrow>
      go_bind (CleanUpVolumeContext (xe_os env) d) (\<lambda>err. case err of
           Some e \<Rightarrow> go_return (Some (internal e))
         | None \<Rightarrow> go_return None)) (unstage_post env V ns req w) (\<lambda>_ _. xpuConnClient ns)) (\<lambda>_ _. xpuConnClient ns) w3"
      if new: "nodeServer_newInitiator env ns (Some vc) d w2 = (Ret (Inr i, vc'), w3)" and fr: "host_frame V w2 w3" for i vc' w3
    proof (rule wp_initiator_Disconnect, goal_cases)
      case (1 x w4)
      with fr \<open>V w2 = V w1\<close> have m: "hv_mount (V w3) = hv_mount (V w1)" "hv_mount (V w4) = hv_mount (V w1)"
          "hv_file (V w4) f = hv_file (V w1) f"
        by (simp_all add: host_frame_def f_def)
      show ?case
      proof (cases x)
        case None
        show ?thesis
          unfolding None option.case go_wp_bind
        proof (rule go_wp_run, rule wp_CleanUpVolumeContext, rule impI, goal_cases)
          case (1 e w5)
          with m None \<open>r = Inr vc\<close> newInitiator_for [OF new] \<open>SpdkCsiInitiator_Disconnect env i w3 = (Ret x, w4)\<close>
          show ?case by (cases e) (auto simp: err f_def [symmetric] intro: ok)
        qed
      qed (use m in \<open>simp add: err\<close>)
    qed (use newInitiator_is_xpu [OF new] in simp)
    with Inr 1(1) show ?thesis
      by (auto simp: host_frame_def f_def err split: sum.split intro!: wp_newInitiator)
  qed (use 1 in \<open>simp add: err\<close>)
qed

theorem NodeUnstage_wp:
  fixes m :: VolumeLocks
  assumes free: "\<not> lock_held m (nur_VolumeId req)"
  shows "go_wp (nodeServer_NodeUnstageVolume env mnt ns req)
     (\<lambda>r (m', w'). (\<forall>j. lock_held m' j = lock_held m j) \<and> unstage_post env V ns req w r w')
     (\<lambda>_ (m', _). (\<forall>j. lock_held m' j = lock_held m j) \<and> xpuConnClient ns) (m, w)"
  unfolding nodeServer_NodeUnstageVolume_def Let_def getStagingTargetPath.simps
proof (rule wp_with_volume_lock [OF free], rule go_wp_mono [where Q = "unstage_post env V ns req w" and
      E = "\<lambda>_ _. xpuConnClient ns"], unfold go_wp_bind, rule wp_isStaged, goal_cases)
  case (1 b e w1)
  show ?case
  proof (cases "e = None \<and> b")
    case True
    with 1 have staged: "hv_mount (V w) (nur_StagingTargetPath req @ ''/'' @ nur_VolumeId req) \<noteq> None" by simp
    have "go_wp (nodeServer_deleteMountPoint (xe_os env) mnt (nur_StagingTargetPath req @ ''/'' @ nur_VolumeId req))
        (\<lambda>err. go_wp (case err of
           Some e \<Rightarrow> go_return (Some (StatusError Internal
             (''unstage volume '' @ nur_VolumeId req @ '' failed: '' @ err_Error e)))
         | None \<Rightarrow> go_bind (LookupVolumeContext (xe_os env) (nur_StagingTargetPath req)) k)
         (unstage_post env V ns req w) (\<lambda>_ _. xpuConnClient ns)) (\<lambda>_ _. xpuConnClient ns) w1"
      if "\<And>w2. hv_mount (V w2) = (hv_mount (V w))(nur_StagingTargetPath req @ ''/'' @ nur_VolumeId req := None) \<Longrightarrow>
          (\<And>f. \<not> under (nur_StagingTargetPath req @ ''/'' @ nur_VolumeId req) f \<Longrightarrow> hv_file (V w2) f = hv_file (V w) f) \<Longrightarrow>
          go_wp (go_bind (LookupVolumeContext (xe_os env) (nur_StagingTargetPath req)) k)
            (unstage_post env V ns req w) (\<lambda>_ _. xpuConnClient ns) w2" for k
    proof (rule wp_deleteMountPoint, goal_cases)
      case (1 e2 w2)
      with \<open>V w1 = V w\<close> show ?case
        by (cases e2) (auto simp: unstage_post_def Let_def simp del: go_wp_bind go_wp_bind_fun intro!: that)
    qed
    with True show ?thesis
      by (auto simp del: append.simps intro!: unstage_tail [OF staged])
  next
    case False
    with 1 show ?thesis by (auto simp: unstage_post_def Let_def split: option.split)
  qed
qed auto

text \<open>The handlers' first call, on a volume that is mounted and on one that is not.\<close>

lemma isStaged_mounted:
  fixes p w defines "q \<equiv> mount_IsNotMountPoint mnt p w"
  assumes "hv_mount (V w) p \<noteq> None"
  shows "\<exists>b. nodeServer_isStaged mnt p w = (Ret (b, snd (fst q)), snd q) \<and> V (snd q) = V w \<and> (snd (fst q) = None \<longrightarrow> b)"
proof -
  obtain b e w' where q: "mount_IsNotMountPoint mnt p w = ((b, e), w')" by (metis surj_pair)
  have run: "nodeServer_isStaged mnt p w = (if e = None then (Ret (\<not> b, None), w')
      else if os_IsNotExist e then (Ret (False, None), w') else (Ret (True, e), w'))"
    by (simp add: nodeServer_isStaged_def go_bind_def go_call_def go_return_def q)
  note c = mount_query [OF q]
  show ?thesis
  proof (cases "e = None")
    case True
    with c assms(2) show ?thesis unfolding run unfolding q_def q by auto
  next
    case False
    have "\<not> os_IsNotExist e" using c assms(2) by blast
    with False c show ?thesis unfolding run unfolding q_def q by auto
  qed
qed

lemma isStaged_unmounted:
  fixes p w defines "q \<equiv> mount_IsNotMountPoint mnt p w"
  assumes "hv_mount (V w) p = None"
  shows "\<exists>b. nodeServer_isStaged mnt p w = (Ret (b, if os_IsNotExist (snd (fst q)) then None else snd (fst q)), snd q) \<and>
     V (snd q) = V w \<and> (snd (fst q) = None \<or> os_IsNotExist (snd (fst q)) \<longrightarrow> \<not> b)"
proof -
  obtain b e w' where q: "mount_IsNotMountPoint mnt p w = ((b, e), w')" by (metis surj_pair)
  have run: "nodeServer_isStaged mnt p w = (if e = None then (Ret (\<not> b, None), w')
      else if os_IsNotExist e then (Ret (False, None), w') else (Ret (True, e), w'))"
    by (simp add: nodeServer_isStaged_def go_bind_def go_call_def go_return_def q)
  note c = mount_query [OF q]
  consider "e = None" | "e \<noteq> None" "os_IsNotExist e" | "e \<noteq> None" "\<not> os_IsNotExist e" by blast
  then show ?thesis
  proof cases
    case 1
    with c assms(2) show ?thesis unfolding run unfolding q_def q by auto
  qed (use c in \<open>auto simp: run q_def q simp del: not_None_eq\<close>)
qed

text \<open>Repeating a request that finds the mount as it wants it: the handler asks for the mount and does nothing else.\<close>

lemma NodeStage_mounted:
  fixes m :: VolumeLocks and req :: NodeStageVolumeRequest and w
  defines "q \<equiv> mount_IsNotMountPoint mnt (getStagingTargetPath (StageReq req)) w"
  assumes "\<not> lock_held m (nsr_VolumeId req)" and "hv_mount (V w) (getStagingTargetPath (StageReq req)) \<noteq> None"
  shows "\<exists>m'. nodeServer_NodeStageVolume env mnt ns req (m, w) = (Ret (map_option internal (snd (fst q))), m', snd q) \<and>
     V (snd q) = V w"
proof -
  obtain b where s: "nodeServer_isStaged mnt (getStagingTargetPath (StageReq req)) w = (Ret (b, snd (fst q)), snd q)"
      "V (snd q) = V w" "snd (fst q) = None \<longrightarrow> b"
    using isStaged_mounted [OF assms(3), folded q_def] by (elim exE conjE) (rule that)
  have "\<exists>m'. nodeServer_NodeStageVolume env mnt ns req (m, w) = (Ret (map_option internal (snd (fst q))), m', snd q)"
    unfolding nodeServer_NodeStageVolume_def Let_def
  proof (rule with_volume_lock_ex [OF assms(2)], subst go_bind_Ret [where w = w], rule s(1))
    show "(case (b, snd (fst q)) of (isStaged, err) \<Rightarrow> case err of Some e \<Rightarrow> go_return (Some (internal e))
        | None \<Rightarrow> if isStaged then go_return None else rest) (snd q) = (Ret (map_option internal (snd (fst q))), snd q)" for rest
      using s(3) by (cases "snd (fst q)") (simp_all add: go_return_def)
  qed
  with s(2) show ?thesis by blast
qed

lemma NodeUnstage_unmounted:
  fixes m :: VolumeLocks and req :: NodeUnstageVolumeRequest and w
  defines "q \<equiv> mount_IsNotMountPoint mnt (getStagingTargetPath (UnstageReq req)) w"
  assumes "\<not> lock_held m (nur_VolumeId req)" and "hv_mount (V w) (getStagingTargetPath (UnstageReq req)) = None"
  shows "\<exists>m'. nodeServer_NodeUnstageVolume env mnt ns req (m, w) =
       (Ret (if os_IsNotExist (snd (fst q)) then None else map_option internal (snd (fst q))), m', snd q) \<and> V (snd q) = V w"
proof -
  let ?e = "if os_IsNotExist (snd (fst q)) then None else snd (fst q)"
  obtain b where s: "nodeServer_isStaged mnt (getStagingTargetPath (UnstageReq req)) w = (Ret (b, ?e), snd q)"
      "V (snd q) = V w" "snd (fst q) = None \<or> os_IsNotExist (snd (fst q)) \<longrightarrow> \<not> b"
    using isStaged_unmounted [OF assms(3), folded q_def] by (elim exE conjE) (rule that)
  have "\<exists>m'. nodeServer_NodeUnstageVolume env mnt ns req (m, w) =
      (Ret (if os_IsNotExist (snd (fst q)) then None else map_option internal (snd (fst q))), m', snd q)"
    unfolding nodeServer_NodeUnstageVolume_def Let_def
  proof (rule with_volume_lock_ex [OF assms(2)], subst go_bind_Ret [where w = w], rule s(1))
    show "(case (b, ?e) of (isStaged, err) \<Rightarrow> case err of Some e \<Rightarrow> go_return (Some (internal e))
        | None \<Rightarrow> if \<not> isStaged then go_return None else rest) (snd q) =
        (Ret (if os_IsNotExist (snd (fst q)) then None else map_option internal (snd (fst q))), snd q)" for rest
      using s(3) by (cases "snd (fst q)") (auto simp: go_return_def)
  qed
  with s(2) show ?thesis by blast
qed

text \<open>Publishing binds the staged volume to the target path; both directions are idempotent.\<close>

theorem NodePublish_wp:
  fixes m :: VolumeLocks
  assumes free: "\<not> lock_held m (npr_VolumeId req)"
  shows "go_wp (nodeServer_NodePublishVolume (xe_os env) mnt req)
     (\<lambda>r (m', w'). (\<forall>j. lock_held m' j = lock_held m j) \<and> hv_file (V w') = hv_file (V w) \<and>
        hv_mount (V w') = (if r = None \<and> hv_mount (V w) (npr_TargetPath req) = None
          then (hv_mount (V w))(npr_TargetPath req \<mapsto> npr_StagingTargetPath req @ ''/'' @ npr_VolumeId req)
          else hv_mount (V w)))
     (\<lambda>_ _. False) (m, w)"
proof -
  have bound: "V (snd (mount_Mount mnt src p t fl w1)) =
      (if fst (mount_Mount mnt src p t fl w1) = None then (V w1)\<lparr>hv_mount := (hv_mount (V w1))(p \<mapsto> src)\<rparr> else V w1)"
    if "''bind'' \<in> set fl" for src p t fl w1
    using mount_bind [of src p t fl w1] that by (metis prod.collapse)
  show ?thesis
    unfolding nodeServer_NodePublishVolume_def nodeServer_publishVolume_def getStagingTargetPath.simps go_wp_bind
    by (rule wp_with_volume_lock [OF free], unfold go_wp_bind, rule wp_createMountPoint)
      (auto simp: bound split: option.split)
qed

theorem NodeUnpublish_wp:
  fixes m :: VolumeLocks
  assumes free: "\<not> lock_held m (nupr_VolumeId req)"
  shows "go_wp (nodeServer_NodeUnpublishVolume (xe_os env) mnt req)
     (\<lambda>r (m', w'). (\<forall>j. lock_held m' j = lock_held m j) \<and>
        (r = None \<longrightarrow> hv_mount (V w') = (hv_mount (V w))(nupr_TargetPath req := None) \<and>
           nupr_TargetPath req \<notin> hv_dir (V w')) \<and>
        hv_mount (V w') \<in> {hv_mount (V w), (hv_mount (V w))(nupr_TargetPath req := None)} \<and>
        (\<forall>f. \<not> under (nupr_TargetPath req) f \<longrightarrow> hv_file (V w') f = hv_file (V w) f))
     (\<lambda>_ _. False) (m, w)"
  unfolding nodeServer_NodeUnpublishVolume_def go_wp_bind
  by (rule wp_with_volume_lock [OF free], unfold go_wp_bind, rule wp_deleteMountPoint)
    (auto split: option.split)

end

end
