(* ===== verification/Backend_Contract.thy ===== *)
theory Backend_Contract
  imports Xpu_Initiator
begin

text \<open>
  What the back ends of an xPU promise: the objects they have made on the xPU are those whose names
  they remember, so that nothing is lost when a step fails, and disconnecting removes exactly what is
  remembered. \<open>tracked_backend\<close> states this; the SMA and OPI back ends are shown to be instances
  whenever their services answer as documented (\<open>sma_service\<close>, \<open>opi_service\<close>).
\<close>

section \<open>The promise of a back end\<close>

text \<open>
  \<open>objs w\<close> are the objects on the xPU, \<open>owned i\<close> those the back end \<open>i\<close> remembers, \<open>clean i\<close> says that
  it has just been made and remembers none.
\<close>

fun disconnects :: "('o \<times> 'w, err) go \<Rightarrow> nat \<Rightarrow> ('o \<times> 'w, err) go" where
  "disconnects disconnect 0 = disconnect"
| "disconnects disconnect (Suc n) =
     go_bind disconnect (\<lambda>r. if r = None then go_return None else disconnects disconnect n)"

locale tracked_backend =
  fixes connect :: "ConnectParams \<Rightarrow> ('o \<times> 'w, err) go" and disconnect :: "('o \<times> 'w, err) go"
    and owned :: "'o \<Rightarrow> 'x set" and objs :: "'w \<Rightarrow> 'x set" and clean :: "'o \<Rightarrow> bool"
  assumes connect_wp: "clean i \<Longrightarrow> go_wp (connect ps) (\<lambda>r (i', w').
      objs w' \<subseteq> objs w \<union> owned i' \<and> (r = None \<longrightarrow> objs w' = objs w \<union> owned i' \<and> owned i' \<noteq> {})) (\<lambda>_ _. False) (i, w)"
    and disconnect_wp: "go_wp disconnect (\<lambda>r (i', w'). owned i' \<subseteq> owned i \<and>
      objs w' = objs w - (owned i - owned i') \<and> (r = None \<longrightarrow> owned i' = {})) (\<lambda>_ _. False) (i, w)"
begin

text \<open>After any number of failed attempts to disconnect, a successful one has removed everything.\<close>

lemma disconnects_wp:
  "go_wp (disconnects disconnect n) (\<lambda>r (i', w'). owned i' \<subseteq> owned i \<and>
      objs w' = objs w - (owned i - owned i') \<and> (r = None \<longrightarrow> owned i' = {})) (\<lambda>_ _. False) (i, w)"
proof (induction n arbitrary: i w)
  case 0
  show ?case by (simp add: disconnect_wp)
next
  case (Suc n)
  show ?case
    unfolding disconnects.simps go_wp_bind
  proof (rule go_wp_mono [OF disconnect_wp])
    fix r :: err and s :: "'o \<times> 'w"
    assume "case s of (i', w') \<Rightarrow> owned i' \<subseteq> owned i \<and> objs w' = objs w - (owned i - owned i') \<and>
        (r = None \<longrightarrow> owned i' = {})"
    then obtain i1 w1 where s: "s = (i1, w1)" and sub: "owned i1 \<subseteq> owned i"
      and objs: "objs w1 = objs w - (owned i - owned i1)" and r: "r = None \<longrightarrow> owned i1 = {}" by (cases s) auto
    show "go_wp (if r = None then go_return None else disconnects disconnect n) (\<lambda>r (i', w'). owned i' \<subseteq> owned i \<and>
        objs w' = objs w - (owned i - owned i') \<and> (r = None \<longrightarrow> owned i' = {})) (\<lambda>_ _. False) s"
    proof (cases r)
      case (Some e)
      then show ?thesis
        unfolding s by (simp, intro go_wp_mono [OF Suc]) (use sub objs in auto)
    qed (use s sub objs r in simp)
  qed auto
qed

text \<open>Connecting, however it ends, and then disconnecting leaves nothing behind.\<close>

lemma connect_disconnects:
  assumes "clean i"
  shows "go_wp (go_bind (connect ps) (\<lambda>_. disconnects disconnect n))
    (\<lambda>r (i', w'). r = None \<longrightarrow> objs w' \<subseteq> objs w \<and> owned i' = {}) (\<lambda>_ _. False) (i, w)"
  unfolding go_wp_bind
proof (rule go_wp_mono [OF connect_wp [OF assms]])
  fix r :: err and s :: "'o \<times> 'w"
  assume "case s of (i', w') \<Rightarrow> objs w' \<subseteq> objs w \<union> owned i' \<and>
      (r = None \<longrightarrow> objs w' = objs w \<union> owned i' \<and> owned i' \<noteq> {})"
  then obtain i1 w1 where s: "s = (i1, w1)" and o: "objs w1 \<subseteq> objs w \<union> owned i1" by (cases s) auto
  show "go_wp (disconnects disconnect n) (\<lambda>r (i', w'). r = None \<longrightarrow> objs w' \<subseteq> objs w \<and> owned i' = {})
      (\<lambda>_ _. False) s"
    unfolding s by (rule go_wp_mono [OF disconnects_wp]) (use o in auto)
qed auto

end

section \<open>The SMA service\<close>

text \<open>What the services of an xPU make: devices, volumes attached to them, and the objects of OPI.\<close>

datatype opi_kind = RemoteController | Path | Subsystem | NvmeController | Namespace | Blk

datatype xpu_obj = SmaDevice string | SmaAttachment "string option" string | OpiObject opi_kind string

locale sma_service =
  fixes client :: "'w sma_client" and objs :: "'w \<Rightarrow> xpu_obj set"
  assumes create_device: "client_CreateDevice client cr w = (r, w') \<Longrightarrow>
      objs w' = (case r of Inr (Some h) \<Rightarrow> if h = [] then objs w else insert (SmaDevice h) (objs w) | _ \<Rightarrow> objs w)"
    and attach_volume: "client_AttachVolume client ar w = (q, w') \<Longrightarrow>
      objs w' = (case q of Inr (Some _) \<Rightarrow>
        insert (SmaAttachment (vp_VolumeId (avr_Volume ar)) (avr_DeviceHandle ar)) (objs w) | _ \<Rightarrow> objs w)"
    and detach_volume: "client_DetachVolume client dr w = (q, w') \<Longrightarrow>
      objs w' = (case q of Inr (Some _) \<Rightarrow> objs w - {SmaAttachment (dvr_VolumeId dr) (dvr_DeviceHandle dr)} | _ \<Rightarrow> objs w)"
    and delete_device: "client_DeleteDevice client h w = (q, w') \<Longrightarrow>
      objs w' = (case q of Inr (Some _) \<Rightarrow> objs w - {SmaDevice h} | _ \<Rightarrow> objs w)"

definition sma_owned :: "smaCommon \<Rightarrow> xpu_obj set" where
  "sma_owned i = (if sma_deviceHandle i = [] then {} else insert (SmaDevice (sma_deviceHandle i))
     (case sma_volumeID i of None \<Rightarrow> {} | Some v \<Rightarrow> {SmaAttachment (Some v) (sma_deviceHandle i)}))"

definition sma_blk_owned :: "smaCommon \<Rightarrow> xpu_obj set" where
  "sma_blk_owned i = (if sma_deviceHandle i = [] then {} else {SmaDevice (sma_deviceHandle i)})"

definition sma_clean :: "smaCommon \<Rightarrow> bool" where
  "sma_clean i \<longleftrightarrow> sma_deviceHandle i = [] \<and> sma_volumeID i \<noteq> None"

context sma_service
begin

lemma wp_CreateDevice:
  assumes "\<And>h w'. h \<noteq> [] \<Longrightarrow> objs w' = insert (SmaDevice h) (objs w) \<Longrightarrow> Q None (i\<lparr>sma_deviceHandle := h\<rparr>, w')"
    and "\<And>e w'. objs w' = objs w \<Longrightarrow> Q (Some e) (i, w')"
  shows "go_wp (smaCommon_CreateDevice client cr) Q E (i, w)"
proof -
  obtain r w' where c: "client_CreateDevice client cr w = (r, w')" by fastforce
  show ?thesis
    using create_device [OF c] assms
    by (auto simp: smaCommon_CreateDevice_def c split: sum.splits option.splits)
qed

lemma wp_AttachVolume:
  assumes "\<And>w'. objs w' = insert (SmaAttachment (vp_VolumeId (avr_Volume ar)) (avr_DeviceHandle ar)) (objs w) \<Longrightarrow>
      Q None (i\<lparr>sma_volumeID := vp_VolumeId (avr_Volume ar)\<rparr>, w')"
    and "\<And>e w'. objs w' = objs w \<Longrightarrow> Q (Some e) (i, w')"
  shows "go_wp (smaCommon_AttachVolume client ar) Q E (i, w)"
proof -
  obtain r w' where c: "client_AttachVolume client ar w = (r, w')" by fastforce
  show ?thesis
    using attach_volume [OF c] assms
    by (auto simp: smaCommon_AttachVolume_def c split: sum.splits option.splits)
qed

lemma wp_DetachVolume:
  assumes "\<And>w'. objs w' = objs w - {SmaAttachment (dvr_VolumeId dr) (dvr_DeviceHandle dr)} \<Longrightarrow>
      Q None (i\<lparr>sma_volumeID := None\<rparr>, w')"
    and "\<And>e w'. objs w' = objs w \<Longrightarrow> Q (Some e) (i, w')"
  shows "go_wp (smaCommon_DetachVolume client dr) Q E (i, w)"
proof -
  obtain r w' where c: "client_DetachVolume client dr w = (r, w')" by fastforce
  show ?thesis
    using detach_volume [OF c] assms
    by (auto simp: smaCommon_DetachVolume_def c split: sum.splits option.splits)
qed

lemma wp_DeleteDevice:
  assumes "\<And>w'. objs w' = objs w - {SmaDevice h} \<Longrightarrow> Q None (i\<lparr>sma_deviceHandle := []\<rparr>, w')"
    and "\<And>e w'. objs w' = objs w \<Longrightarrow> Q (Some e) (i, w')"
  shows "go_wp (smaCommon_DeleteDevice client h) Q E (i, w)"
proof -
  obtain r w' where c: "client_DeleteDevice client h w = (r, w')" by fastforce
  show ?thesis
    using delete_device [OF c] assms
    by (auto simp: smaCommon_DeleteDevice_def c split: sum.splits option.splits)
qed

lemmas wp_sma = wp_CreateDevice wp_AttachVolume wp_DetachVolume wp_DeleteDevice

end

sublocale sma_service \<subseteq> nvmftcp: tracked_backend "smaInitiatorNvmfTCP_Connect client"
    "smaInitiatorNvmfTCP_Disconnect client" sma_owned objs sma_clean
proof (unfold_locales, goal_cases)
  case (1 i ps w)
  then obtain v where "sma_deviceHandle i = []" "sma_volumeID i = Some v" by (auto simp: sma_clean_def)
  then show ?case
    unfolding smaInitiatorNvmfTCP_Connect_def
    by simp (rule wp_sma | simp add: sma_volume_def sma_owned_def | (auto)[1])+
next
  case (2 i w)
  show ?case
    unfolding smaInitiatorNvmfTCP_Disconnect_def Let_def
    by (cases "sma_volumeID i"; cases "sma_deviceHandle i = []"; simp add: sma_owned_def)
      (rule wp_sma | simp | (auto)[1])+
qed

sublocale sma_service \<subseteq> nvme: tracked_backend "smaInitiatorNvme_Connect client"
    "smaInitiatorNvme_Disconnect client" sma_owned objs sma_clean
proof (unfold_locales, goal_cases)
  case (1 i ps w)
  then obtain v where "sma_deviceHandle i = []" "sma_volumeID i = Some v" by (auto simp: sma_clean_def)
  then show ?case
    unfolding smaInitiatorNvme_Connect_def
    by simp (rule wp_sma | simp add: sma_volume_def sma_owned_def | (auto)[1])+
next
  case (2 i w)
  show ?case
    unfolding smaInitiatorNvme_Disconnect_def Let_def
    by (cases "sma_volumeID i"; cases "sma_deviceHandle i = []"; simp add: sma_owned_def)
      (rule wp_sma | simp | (auto)[1])+
qed

sublocale sma_service \<subseteq> blk: tracked_backend "smaInitiatorVirtioBlk_Connect client"
    "smaInitiatorVirtioBlk_Disconnect client" sma_blk_owned objs sma_clean
proof (unfold_locales, goal_cases)
  case (1 i ps w)
  then show ?case
    unfolding sma_clean_def smaInitiatorVirtioBlk_Connect_def
    by simp (rule wp_sma | simp add: sma_blk_owned_def)+
next
  case (2 i w)
  show ?case
    unfolding smaInitiatorVirtioBlk_Disconnect_def
    by (cases "sma_deviceHandle i = []"; simp add: sma_blk_owned_def) (rule wp_sma | simp | (auto)[1])+
qed

section \<open>The OPI services\<close>

text \<open>
  A creation that succeeds answers with the name of an object that is then there; a deletion with
  \<open>AllowMissing\<close> that succeeds removes the object if it is there; a call that fails changes nothing.
\<close>

definition opi_creates :: "('w \<Rightarrow> xpu_obj set) \<Rightarrow> opi_kind \<Rightarrow> ('w, go_error + string) sys \<Rightarrow> bool" where
  "opi_creates objs k f \<longleftrightarrow> (\<forall>w. case f w of
     (Inl e, w') \<Rightarrow> objs w' = objs w
   | (Inr n, w') \<Rightarrow> n \<noteq> [] \<and> objs w' = insert (OpiObject k n) (objs w))"

definition opi_deletes :: "('w \<Rightarrow> xpu_obj set) \<Rightarrow> opi_kind \<Rightarrow> (DeleteRequest \<Rightarrow> ('w, err) sys) \<Rightarrow> bool" where
  "opi_deletes objs k f \<longleftrightarrow> (\<forall>n w. case f \<lparr>del_Name = n, del_AllowMissing = True\<rparr> w of
     (Some e, w') \<Rightarrow> objs w' = objs w
   | (None, w') \<Rightarrow> objs w' = objs w - {OpiObject k n})"

locale opi_service =
  fixes os :: "'w os" and client :: "'w opi_client" and objs :: "'w \<Rightarrow> xpu_obj set"
  assumes creates:
      "opi_creates objs RemoteController (opi_CreateNvmeRemoteController client i)"
      "opi_creates objs Path (opi_CreateNvmePath client i np)"
      "opi_creates objs Subsystem (opi_CreateNvmeSubsystem client i nq)"
      "opi_creates objs NvmeController (opi_CreateNvmeController client i nc)"
      "opi_creates objs Namespace (opi_CreateNvmeNamespace client i nn)"
      "opi_creates objs Blk (opi_CreateVirtioBlk client i vb)"
    and deletes:
      "opi_deletes objs RemoteController (opi_DeleteNvmeRemoteController client)"
      "opi_deletes objs Path (opi_DeleteNvmePath client)"
      "opi_deletes objs Subsystem (opi_DeleteNvmeSubsystem client)"
      "opi_deletes objs NvmeController (opi_DeleteNvmeController client)"
      "opi_deletes objs Namespace (opi_DeleteNvmeNamespace client)"
      "opi_deletes objs Blk (opi_DeleteVirtioBlk client)"
    and random: "objs (snd (rand_Int os b w)) = objs w"

definition tagged :: "opi_kind \<Rightarrow> string \<Rightarrow> xpu_obj set" where
  "tagged k n = (if n = [] then {} else {OpiObject k n})"

definition common_owned :: "opiCommon \<Rightarrow> xpu_obj set" where
  "common_owned c = tagged RemoteController (nvmfRemoteControllerName c) \<union> tagged Path (nvmfPathName c)"

definition opi_nvme_owned :: "opiInitiatorNvme \<Rightarrow> xpu_obj set" where
  "opi_nvme_owned i = common_owned (on_opiCommon i) \<union> tagged Subsystem (subsystemName i) \<union>
     tagged Namespace (namespaceName i) \<union> tagged NvmeController (nvmeControllerName i)"

definition opi_blk_owned :: "opiInitiatorVirtioBlk \<Rightarrow> xpu_obj set" where
  "opi_blk_owned i = common_owned (ov_opiCommon i) \<union> tagged Blk (virtioBlkName i)"

lemma wp_opi_create:
  assumes "opi_creates objs k f"
    and "\<And>n w'. n \<noteq> [] \<Longrightarrow> objs w' = insert (OpiObject k n) (objs w) \<Longrightarrow> Q (Inr n) (i, w')"
    and "\<And>e w'. objs w' = objs w \<Longrightarrow> Q (Inl e) (i, w')"
  shows "go_wp (obj_call f) Q E (i, w)"
proof -
  obtain r w' where f: "f w = (r, w')" by fastforce
  with assms show ?thesis by (cases r) (auto simp: opi_creates_def dest!: spec [of _ w])
qed

lemma wp_opi_delete:
  assumes "opi_deletes objs k f"
    and "\<And>w'. objs w' = objs w - {OpiObject k n} \<Longrightarrow> Q None (i, w')"
    and "\<And>e w'. objs w' = objs w \<Longrightarrow> Q (Some e) (i, w')"
  shows "go_wp (obj_call (f \<lparr>del_Name = n, del_AllowMissing = True\<rparr>)) Q E (i, w)"
proof -
  obtain r w' where f: "f \<lparr>del_Name = n, del_AllowMissing = True\<rparr> w = (r, w')" by fastforce
  moreover have "case f \<lparr>del_Name = n, del_AllowMissing = True\<rparr> w of (Some e, w') \<Rightarrow> objs w' = objs w
      | (None, w') \<Rightarrow> objs w' = objs w - {OpiObject k n}"
    by (rule assms(1) [unfolded opi_deletes_def, rule_format])
  ultimately show ?thesis using assms(2,3) by (cases r) auto
qed

lemma wp_forget:
  assumes "opi_deletes objs k f"
    and "n = [] \<Longrightarrow> Q None (i, w)"
    and "\<And>w'. objs w' = objs w - tagged k n \<Longrightarrow> go_wp (g None) Q E (i, w')"
    and "\<And>e w'. objs w' = objs w \<Longrightarrow> go_wp (g (Some e)) Q E (i, w')"
  shows "go_wp (if n = [] then go_return None else
    go_bind (obj_call (f \<lparr>del_Name = n, del_AllowMissing = True\<rparr>)) g) Q E (i, w)"
proof (cases "n = []")
  case False
  then have "go_wp (go_bind (obj_call (f \<lparr>del_Name = n, del_AllowMissing = True\<rparr>)) g) Q E (i, w)"
    unfolding go_wp_bind by (intro wp_opi_delete [OF assms(1)]) (simp_all add: assms(3,4) tagged_def)
  with False show ?thesis by simp
qed (simp add: assms(2))

context opi_service
begin

lemma wp_createRemote:
  assumes "\<And>n w'. n \<noteq> [] \<Longrightarrow> objs w' = insert (OpiObject RemoteController n) (objs w) \<Longrightarrow> Q None (i\<lparr>nvmfRemoteControllerName := n\<rparr>, w')"
    and "\<And>e w'. objs w' = objs w \<Longrightarrow> Q (Some e) (i, w')"
  shows "go_wp (opiCommon_createNvmeRemoteController client) Q E (i, w)"
  unfolding opiCommon_createNvmeRemoteController_def Let_def
  by (simp del: go_wp_obj_call) (rule wp_opi_create [OF creates(1)]; simp add: assms)

lemma wp_createPath:
  assumes "\<And>n w'. n \<noteq> [] \<Longrightarrow> objs w' = insert (OpiObject Path n) (objs w) \<Longrightarrow> Q None (i\<lparr>nvmfPathName := n\<rparr>, w')"
    and "\<And>e w'. objs w' = objs w \<Longrightarrow> Q (Some e) (i, w')"
  shows "go_wp (opiCommon_createNvmfPath client) Q E (i, w)"
  unfolding opiCommon_createNvmfPath_def Let_def
  by (simp del: go_wp_obj_call split: option.split) (auto intro!: wp_opi_create [OF creates(2)] simp: assms simp del: go_wp_obj_call)

lemma wp_createSubsystem:
  assumes "\<And>n w'. n \<noteq> [] \<Longrightarrow> objs w' = insert (OpiObject Subsystem n) (objs w) \<Longrightarrow> Q None (i\<lparr>subsystemName := n\<rparr>, w')"
    and "\<And>e w'. objs w' = objs w \<Longrightarrow> Q (Some e) (i, w')"
  shows "go_wp (opiInitiatorNvme_createNvmeSubsystem client) Q E (i, w)"
  unfolding opiInitiatorNvme_createNvmeSubsystem_def Let_def
  by (simp del: go_wp_obj_call) (rule wp_opi_create [OF creates(3)]; simp add: assms)

lemma wp_createController:
  assumes "\<And>n w'. n \<noteq> [] \<Longrightarrow> objs w' = insert (OpiObject NvmeController n) (objs w) \<Longrightarrow> Q None (i\<lparr>nvmeControllerName := n\<rparr>, w')"
    and "\<And>e w'. objs w' = objs w \<Longrightarrow> Q (Some e) (i, w')"
  shows "go_wp (opiInitiatorNvme_createNvmeController client pf vf) Q E (i, w)"
  unfolding opiInitiatorNvme_createNvmeController_def Let_def
  by (simp del: go_wp_obj_call) (rule wp_opi_create [OF creates(4)]; simp add: assms)

lemma wp_createNamespace:
  assumes "\<And>n w'. n \<noteq> [] \<Longrightarrow> objs w' = insert (OpiObject Namespace n) (objs w) \<Longrightarrow> Q None (i\<lparr>namespaceName := n\<rparr>, w')"
    and "\<And>e w'. objs w' = objs w \<Longrightarrow> Q (Some e) (i, w')"
  shows "go_wp (opiInitiatorNvme_createNvmeNamespace os client) Q E (i, w)"
proof -
  obtain r w1 where r: "rand_Int os 32 w = (r, w1)" by fastforce
  with random [of 32 w] have o1: "objs w1 = objs w" by simp
  show ?thesis
  proof (cases r)
    case (Inl e)
    with r o1 assms(2) show ?thesis by (simp add: opiInitiatorNvme_createNvmeNamespace_def)
  next
    case (Inr b)
    then show ?thesis
      unfolding opiInitiatorNvme_createNvmeNamespace_def Let_def
      by (simp del: go_wp_obj_call, subst go_wp_obj_call, simp add: r del: go_wp_obj_call) (rule wp_opi_create [OF creates(5)]; simp add: assms o1)
  qed
qed

lemma wp_createBlk:
  assumes "\<And>n w'. n \<noteq> [] \<Longrightarrow> objs w' = insert (OpiObject Blk n) (objs w) \<Longrightarrow> Q None (i\<lparr>virtioBlkName := n\<rparr>, w')"
    and "\<And>e w'. objs w' = objs w \<Longrightarrow> Q (Some e) (i, w')"
  shows "go_wp (opiInitiatorVirtioBlk_createVirtioBlk client pf vf) Q E (i, w)"
  unfolding opiInitiatorVirtioBlk_createVirtioBlk_def Let_def
  by (simp del: go_wp_obj_call) (rule wp_opi_create [OF creates(6)]; simp add: assms)

lemma forget_nothing [simp]:
  "nvmfRemoteControllerName c = [] \<Longrightarrow> c\<lparr>nvmfRemoteControllerName := []\<rparr> = c"
  "nvmfPathName c = [] \<Longrightarrow> c\<lparr>nvmfPathName := []\<rparr> = c"
  "subsystemName i = [] \<Longrightarrow> i\<lparr>subsystemName := []\<rparr> = i"
  "nvmeControllerName i = [] \<Longrightarrow> i\<lparr>nvmeControllerName := []\<rparr> = i"
  "namespaceName i = [] \<Longrightarrow> i\<lparr>namespaceName := []\<rparr> = i"
  "virtioBlkName b = [] \<Longrightarrow> b\<lparr>virtioBlkName := []\<rparr> = b"
  by simp_all

lemma wp_deleteRemote:
  assumes "\<And>w'. objs w' = objs w - tagged RemoteController (nvmfRemoteControllerName i) \<Longrightarrow> Q None (i\<lparr>nvmfRemoteControllerName := []\<rparr>, w')"
    and "\<And>e w'. objs w' = objs w \<Longrightarrow> Q (Some e) (i, w')"
  shows "go_wp (opiCommon_deleteNvmeRemoteController client) Q E (i, w)"
  unfolding opiCommon_deleteNvmeRemoteController_def go_wp_bind go_wp_obj_get
  by (rule wp_forget [OF deletes(1)]) (use assms(1) [of w] in \<open>simp add: tagged_def\<close>, simp_all add: assms)

lemma wp_deletePath:
  assumes "\<And>w'. objs w' = objs w - tagged Path (nvmfPathName i) \<Longrightarrow> Q None (i\<lparr>nvmfPathName := []\<rparr>, w')"
    and "\<And>e w'. objs w' = objs w \<Longrightarrow> Q (Some e) (i, w')"
  shows "go_wp (opiCommon_deleteNvmfPath client) Q E (i, w)"
  unfolding opiCommon_deleteNvmfPath_def go_wp_bind go_wp_obj_get
  by (rule wp_forget [OF deletes(2)]) (use assms(1) [of w] in \<open>simp add: tagged_def\<close>, simp_all add: assms)

lemma wp_deleteSubsystem:
  assumes "\<And>w'. objs w' = objs w - tagged Subsystem (subsystemName i) \<Longrightarrow> Q None (i\<lparr>subsystemName := []\<rparr>, w')"
    and "\<And>e w'. objs w' = objs w \<Longrightarrow> Q (Some e) (i, w')"
  shows "go_wp (opiInitiatorNvme_deleteNvmeSubsystem client) Q E (i, w)"
  unfolding opiInitiatorNvme_deleteNvmeSubsystem_def go_wp_bind go_wp_obj_get
  by (rule wp_forget [OF deletes(3)]) (use assms(1) [of w] in \<open>simp add: tagged_def\<close>, simp_all add: assms)

lemma wp_deleteController:
  assumes "\<And>w'. objs w' = objs w - tagged NvmeController (nvmeControllerName i) \<Longrightarrow> Q None (i\<lparr>nvmeControllerName := []\<rparr>, w')"
    and "\<And>e w'. objs w' = objs w \<Longrightarrow> Q (Some e) (i, w')"
  shows "go_wp (opiInitiatorNvme_deleteNvmeController client) Q E (i, w)"
  unfolding opiInitiatorNvme_deleteNvmeController_def go_wp_bind go_wp_obj_get
  by (rule wp_forget [OF deletes(4)]) (use assms(1) [of w] in \<open>simp add: tagged_def\<close>, simp_all add: assms)

lemma wp_deleteNamespace:
  assumes "\<And>w'. objs w' = objs w - tagged Namespace (namespaceName i) \<Longrightarrow> Q None (i\<lparr>namespaceName := []\<rparr>, w')"
    and "\<And>e w'. objs w' = objs w \<Longrightarrow> Q (Some e) (i, w')"
  shows "go_wp (opiInitiatorNvme_deleteNvmeNamespace client) Q E (i, w)"
  unfolding opiInitiatorNvme_deleteNvmeNamespace_def go_wp_bind go_wp_obj_get
  by (rule wp_forget [OF deletes(5)]) (use assms(1) [of w] in \<open>simp add: tagged_def\<close>, simp_all add: assms)

lemma wp_deleteBlk:
  assumes "\<And>w'. objs w' = objs w - tagged Blk (virtioBlkName i) \<Longrightarrow> Q None (i\<lparr>virtioBlkName := []\<rparr>, w')"
    and "\<And>e w'. objs w' = objs w \<Longrightarrow> Q (Some e) (i, w')"
  shows "go_wp (opiInitiatorVirtioBlk_deleteVirtioBlk client) Q E (i, w)"
  unfolding opiInitiatorVirtioBlk_deleteVirtioBlk_def go_wp_bind go_wp_obj_get
  by (rule wp_forget [OF deletes(6)]) (use assms(1) [of w] in \<open>simp add: tagged_def\<close>, simp_all add: assms)

lemmas wp_creates = wp_createRemote wp_createPath wp_createSubsystem wp_createController wp_createNamespace wp_createBlk
lemmas wp_deletes = wp_deleteRemote wp_deletePath wp_deleteSubsystem wp_deleteController wp_deleteNamespace wp_deleteBlk

lemma wp_nvme_cleanup: "go_wp (opiInitiatorNvme_cleanup client) (\<lambda>r (i', w'). opi_nvme_owned i' \<subseteq> opi_nvme_owned i \<and>
      objs w' = objs w - (opi_nvme_owned i - opi_nvme_owned i') \<and> (r = None \<longrightarrow> opi_nvme_owned i' = {})) (\<lambda>_ _. False) (i, w)"
  unfolding opiInitiatorNvme_cleanup_def on_common_def
  by simp (rule wp_deletes | simp | (auto simp: opi_nvme_owned_def common_owned_def tagged_def)[1])+

lemma wp_blk_cleanup: "go_wp (opiInitiatorVirtioBlk_cleanup client) (\<lambda>r (i', w'). opi_blk_owned i' \<subseteq> opi_blk_owned i \<and>
      objs w' = objs w - (opi_blk_owned i - opi_blk_owned i') \<and> (r = None \<longrightarrow> opi_blk_owned i' = {})) (\<lambda>_ _. False) (i, w)"
  unfolding opiInitiatorVirtioBlk_cleanup_def ov_common_def
  by simp (rule wp_deletes | simp | (auto simp: opi_blk_owned_def common_owned_def tagged_def)[1])+

lemma wp_nvme_connect:
  assumes "opi_nvme_owned i = {}"
  shows "go_wp (opiInitiatorNvme_Connect os client ps) (\<lambda>r (i', w'). objs w' \<subseteq> objs w \<union> opi_nvme_owned i' \<and>
      (r = None \<longrightarrow> objs w' = objs w \<union> opi_nvme_owned i' \<and> opi_nvme_owned i' \<noteq> {})) (\<lambda>_ _. False) (i, w)"
  using assms unfolding opiInitiatorNvme_Connect_def on_common_def Let_def
  by (simp add: opi_nvme_owned_def common_owned_def)
    (rule wp_creates go_wp_mono [OF wp_nvme_cleanup] | simp | (auto simp: opi_nvme_owned_def common_owned_def tagged_def)[1])+

lemma wp_blk_connect:
  assumes "opi_blk_owned i = {}"
  shows "go_wp (opiInitiatorVirtioBlk_Connect client ps) (\<lambda>r (i', w'). objs w' \<subseteq> objs w \<union> opi_blk_owned i' \<and>
      (r = None \<longrightarrow> objs w' = objs w \<union> opi_blk_owned i' \<and> opi_blk_owned i' \<noteq> {})) (\<lambda>_ _. False) (i, w)"
  using assms unfolding opiInitiatorVirtioBlk_Connect_def ov_common_def Let_def
  by (simp add: opi_blk_owned_def common_owned_def)
    (rule wp_creates go_wp_mono [OF wp_blk_cleanup] | simp | (auto simp: opi_blk_owned_def common_owned_def tagged_def)[1])+

end

sublocale opi_service \<subseteq> nvme: tracked_backend "opiInitiatorNvme_Connect os client"
    "opiInitiatorNvme_Disconnect client" opi_nvme_owned objs "\<lambda>i. opi_nvme_owned i = {}"
  by unfold_locales (use wp_nvme_connect in simp, unfold opiInitiatorNvme_Disconnect_def, rule wp_nvme_cleanup)

sublocale opi_service \<subseteq> blk: tracked_backend "opiInitiatorVirtioBlk_Connect client"
    "opiInitiatorVirtioBlk_Disconnect client" opi_blk_owned objs "\<lambda>i. opi_blk_owned i = {}"
  by unfold_locales (use wp_blk_connect in simp, unfold opiInitiatorVirtioBlk_Disconnect_def, rule wp_blk_cleanup)

section \<open>The interface of the back ends\<close>

fun backend_owned :: "xpu_backend \<Rightarrow> xpu_obj set" where
  "backend_owned (SmaBackend (SmaNvmfTCP i)) = sma_owned i"
| "backend_owned (SmaBackend (SmaNvme i)) = sma_owned i"
| "backend_owned (SmaBackend (SmaVirtioBlk i)) = sma_blk_owned i"
| "backend_owned (OpiBackend (OpiNvme i)) = opi_nvme_owned i"
| "backend_owned (OpiBackend (OpiVirtioBlk i)) = opi_blk_owned i"

fun backend_clean :: "xpu_backend \<Rightarrow> bool" where
  "backend_clean (SmaBackend (SmaNvmfTCP i)) = sma_clean i"
| "backend_clean (SmaBackend (SmaNvme i)) = sma_clean i"
| "backend_clean (SmaBackend (SmaVirtioBlk i)) = sma_clean i"
| "backend_clean (OpiBackend (OpiNvme i)) = (opi_nvme_owned i = {})"
| "backend_clean (OpiBackend (OpiVirtioBlk i)) = (opi_blk_owned i = {})"

locale xpu_services =
  sma: sma_service "xe_sma env" objs + opi: opi_service "xe_os env" "xe_opi env" objs
  for env :: "'w xpu_env" and objs :: "'w \<Rightarrow> xpu_obj set"

definition backend_connect :: "'w xpu_env \<Rightarrow> ConnectParams \<Rightarrow> (xpu_backend \<times> 'w, err) go" where
  "backend_connect env params = go_bind obj_get (XpuInitiator_Connect env params)"

definition backend_disconnect :: "'w xpu_env \<Rightarrow> (xpu_backend \<times> 'w, err) go" where
  "backend_disconnect env = go_bind obj_get (XpuInitiator_Disconnect env)"

lemma xpu_backend_cases [case_names nvmftcp nvme blk opi_nvme opi_blk]:
  obtains i where "b = SmaBackend (SmaNvmfTCP i)" | i where "b = SmaBackend (SmaNvme i)"
  | i where "b = SmaBackend (SmaVirtioBlk i)" | i where "b = OpiBackend (OpiNvme i)"
  | i where "b = OpiBackend (OpiVirtioBlk i)"
  by (cases b; cases "case b of SmaBackend s \<Rightarrow> s | OpiBackend _ \<Rightarrow> undefined"; cases "case b of OpiBackend s \<Rightarrow> s | SmaBackend _ \<Rightarrow> undefined")
    auto

lemma wp_backend_dispatch:
  "go_wp m (\<lambda>r (o2, w'). Q r (con o2, w')) (\<lambda>_ _. False) (o1, w) \<Longrightarrow>
   go_wp (on_backend con o1 m) Q (\<lambda>_ _. False) (b, w)"
  by (simp, rule go_wp_mono, assumption) auto

sublocale xpu_services \<subseteq> xpu: tracked_backend "backend_connect env" "backend_disconnect env"
    backend_owned objs backend_clean
proof (unfold_locales, goal_cases)
  case (1 b ps w)
  then show ?case
    unfolding backend_connect_def go_wp_bind go_wp_obj_get
    by (cases b rule: xpu_backend_cases)
      (simp only: XpuInitiator_Connect.simps backend_clean.simps, rule wp_backend_dispatch,
       simp add: sma.nvmftcp.connect_wp sma.nvme.connect_wp sma.blk.connect_wp opi.nvme.connect_wp opi.blk.connect_wp)+
next
  case (2 b w)
  show ?case
    unfolding backend_disconnect_def go_wp_bind go_wp_obj_get
    by (cases b rule: xpu_backend_cases)
      (simp only: XpuInitiator_Disconnect.simps, rule wp_backend_dispatch,
       simp add: sma.nvmftcp.disconnect_wp sma.nvme.disconnect_wp sma.blk.disconnect_wp
         opi.nvme.disconnect_wp opi.blk.disconnect_wp)+
qed

end
