(* ===== verification/Host_Sim.thy ===== *)
theory Host_Sim
  imports Node_Correct Backend_Contract
begin

text \<open>
  An executable host of the contract, for concrete runs of the node service: a file system, a mount
  table, a set of attached NVMe subsystems whose device links appear at once, a clock that sleeping
  advances, and a switch that keeps a device from going away; a variant of it cannot write files. The
  services of an xPU keep a set of objects; a script says which of the coming calls they refuse, and
  when it is used up they refuse none.
\<close>

record simhost =
  sh_view :: hview
  sh_attached :: "string list"
  sh_clock :: nat
  sh_stuck :: bool
  sh_xpu :: "xpu_obj set"
  sh_script :: "bool list"

definition io_error :: go_error where
  "io_error = Errorf ''input/output error''"

text \<open>The one volume this host can reach; its device link is there while a subsystem is attached.\<close>

definition sim_nqn :: string where "sim_nqn = ''nqn.2020-04.io.spdk.csi:uuid:v1''"
definition sim_glob :: string where "sim_glob = ''/dev/disk/by-id/*v1*''"
definition sim_device :: string where "sim_device = ''/dev/disk/by-id/nvme-SPDK_v1''"

definition sim_exec :: "string list \<Rightarrow> nat \<Rightarrow> simhost \<Rightarrow> (bool \<times> err) \<times> simhost" where
  "sim_exec cmd t w =
     ((False, None),
      if take 2 cmd = [''nvme'', ''connect''] then w\<lparr>sh_attached := last cmd # sh_attached w\<rparr>
      else if take 2 cmd = [''nvme'', ''disconnect''] \<and> \<not> sh_stuck w
      then w\<lparr>sh_attached := removeAll (last cmd) (sh_attached w)\<rparr>
      else w)"

definition sim_os :: "simhost os" where
  "sim_os = \<lparr>
     os_Getenv = (\<lambda>_ w. ([], w)),
     os_Stat = (\<lambda>p w. (if p \<in> hv_dir (sh_view w) then None else Some (PathError ''stat'' p ENOENT), w)),
     os_Open = (\<lambda>p w. (Some (PathError ''open'' p ENOENT), w)),
     io_ReadAll = (\<lambda>p w. (Inl io_error, w)),
     os_ReadFile = (\<lambda>f w. (case hv_file (sh_view w) f of
        Some c \<Rightarrow> Inr c | None \<Rightarrow> Inl (PathError ''open'' f ENOENT), w)),
     os_WriteFile = (\<lambda>f c w. (None, w\<lparr>sh_view := (sh_view w)\<lparr>hv_file := (hv_file (sh_view w))(f \<mapsto> c)\<rparr>\<rparr>)),
     os_MkdirAll = (\<lambda>p w. (None, w\<lparr>sh_view := (sh_view w)\<lparr>hv_dir := insert p (hv_dir (sh_view w))\<rparr>\<rparr>)),
     os_Remove = (\<lambda>f w. case hv_file (sh_view w) f of
        None \<Rightarrow> (Some (PathError ''remove'' f ENOENT), w)
      | Some _ \<Rightarrow> (None, w\<lparr>sh_view := (sh_view w)\<lparr>hv_file := (hv_file (sh_view w))(f := None)\<rparr>\<rparr>)),
     os_RemoveAll = (\<lambda>p w. (None, w\<lparr>sh_view := (sh_view w)\<lparr>hv_dir := hv_dir (sh_view w) - {p}\<rparr>\<rparr>)),
     os_ReadDir = (\<lambda>p w. (Inl io_error, w)),
     os_Readlink = (\<lambda>p w. (Inl io_error, w)),
     os_OpenAppend = (\<lambda>p w. (Some io_error, w)),
     file_WriteString = (\<lambda>p c w. (Some io_error, w)),
     filepath_Glob = (\<lambda>g w. (Inr (if g = sim_glob \<and> sh_attached w \<noteq> [] then [sim_device] else []), w)),
     time_Sleep = (\<lambda>w. ((), w\<lparr>sh_clock := sh_clock w + 1\<rparr>)),
     exec_Run = sim_exec,
     rand_Int = (\<lambda>n w. (Inr 0, w))\<rparr>"

definition sim_mnt :: "simhost mounter" where
  "sim_mnt = \<lparr>
     mount_IsNotMountPoint = (\<lambda>p w. (if hv_mount (sh_view w) p \<noteq> None then (False, None)
        else if p \<in> hv_dir (sh_view w) then (True, None) else (True, Some (PathError ''stat'' p ENOENT)), w)),
     mount_Mount = (\<lambda>d p t fl w. if ''bind'' \<in> set fl
        then (None, w\<lparr>sh_view := (sh_view w)\<lparr>hv_mount := (hv_mount (sh_view w))(p \<mapsto> d)\<rparr>\<rparr>)
        else (Some io_error, w)),
     mount_Unmount = (\<lambda>p w. (None,
        w\<lparr>sh_view := (sh_view w)\<lparr>hv_mount := (hv_mount (sh_view w))(p := None)\<rparr>\<rparr>)),
     mount_FormatAndMount = (\<lambda>d p t fl w. (None,
        w\<lparr>sh_view := (sh_view w)\<lparr>hv_mount := (hv_mount (sh_view w))(p \<mapsto> d)\<rparr>\<rparr>))\<rparr>"

definition refused :: go_error where
  "refused = StatusError Unavailable ''refused''"

definition sim_turn :: "simhost \<Rightarrow> 'a \<Rightarrow> 'a \<Rightarrow> (xpu_obj set \<Rightarrow> xpu_obj set) \<Rightarrow> 'a \<times> simhost" where
  "sim_turn w no yes f = (case sh_script w of
     [] \<Rightarrow> (yes, w\<lparr>sh_xpu := f (sh_xpu w)\<rparr>)
   | b # bs \<Rightarrow> if b then (yes, w\<lparr>sh_xpu := f (sh_xpu w), sh_script := bs\<rparr>) else (no, w\<lparr>sh_script := bs\<rparr>))"

definition sim_sma :: "simhost sma_client" where
  "sim_sma = \<lparr>
     client_CreateDevice = (\<lambda>q w. sim_turn w (Inl refused) (Inr (Some ''dev'')) (insert (SmaDevice ''dev''))),
     client_AttachVolume = (\<lambda>q w. sim_turn w (Inl refused) (Inr (Some ()))
       (insert (SmaAttachment (vp_VolumeId (avr_Volume q)) (avr_DeviceHandle q)))),
     client_DetachVolume = (\<lambda>q w. sim_turn w (Inl refused) (Inr (Some ()))
       (\<lambda>os. os - {SmaAttachment (dvr_VolumeId q) (dvr_DeviceHandle q)})),
     client_DeleteDevice = (\<lambda>h w. sim_turn w (Inl refused) (Inr (Some ())) (\<lambda>os. os - {SmaDevice h}))\<rparr>"

definition sim_opi :: "simhost opi_client" where
  "sim_opi = \<lparr>
       opi_CreateNvmeRemoteController = (\<lambda>i w. sim_turn w (Inl refused) (Inr (CHR ''/'' # i)) (insert (OpiObject RemoteController (CHR ''/'' # i)))),
       opi_DeleteNvmeRemoteController = (\<lambda>q w. sim_turn w (Some refused) None (\<lambda>os. os - {OpiObject RemoteController (del_Name q)})),
       opi_CreateNvmePath = (\<lambda>i _ w. sim_turn w (Inl refused) (Inr (CHR ''/'' # i)) (insert (OpiObject Path (CHR ''/'' # i)))),
       opi_DeleteNvmePath = (\<lambda>q w. sim_turn w (Some refused) None (\<lambda>os. os - {OpiObject Path (del_Name q)})),
       opi_CreateNvmeSubsystem = (\<lambda>i _ w. sim_turn w (Inl refused) (Inr (CHR ''/'' # i)) (insert (OpiObject Subsystem (CHR ''/'' # i)))),
       opi_DeleteNvmeSubsystem = (\<lambda>q w. sim_turn w (Some refused) None (\<lambda>os. os - {OpiObject Subsystem (del_Name q)})),
       opi_CreateNvmeController = (\<lambda>i _ w. sim_turn w (Inl refused) (Inr (CHR ''/'' # i)) (insert (OpiObject NvmeController (CHR ''/'' # i)))),
       opi_DeleteNvmeController = (\<lambda>q w. sim_turn w (Some refused) None (\<lambda>os. os - {OpiObject NvmeController (del_Name q)})),
       opi_CreateNvmeNamespace = (\<lambda>i _ w. sim_turn w (Inl refused) (Inr (CHR ''/'' # i)) (insert (OpiObject Namespace (CHR ''/'' # i)))),
       opi_DeleteNvmeNamespace = (\<lambda>q w. sim_turn w (Some refused) None (\<lambda>os. os - {OpiObject Namespace (del_Name q)})),
       opi_CreateVirtioBlk = (\<lambda>i _ w. sim_turn w (Inl refused) (Inr (CHR ''/'' # i)) (insert (OpiObject Blk (CHR ''/'' # i)))),
       opi_DeleteVirtioBlk = (\<lambda>q w. sim_turn w (Some refused) None (\<lambda>os. os - {OpiObject Blk (del_Name q)}))\<rparr>"

definition sim_env :: "simhost xpu_env" where
  "sim_env = \<lparr>
     xe_os = sim_os,
     xe_sma = sim_sma,
     xe_opi = sim_opi,
     xe_uuid_Parse = (\<lambda>s. if s = [] then Inl (Errorf ''invalid UUID length'') else Inr s),
     xe_kvmPciBridgeCount = 0,
     phyIDLock_Lock = (\<lambda>w. ((), w)),
     phyIDLock_Unlock = (\<lambda>w. ((), w))\<rparr>"

lemma sim_os_sel [simp]:
  "os_Stat sim_os p w = (if p \<in> hv_dir (sh_view w) then None else Some (PathError ''stat'' p ENOENT), w)"
  "os_ReadFile sim_os f w = (case hv_file (sh_view w) f of
        Some c \<Rightarrow> Inr c | None \<Rightarrow> Inl (PathError ''open'' f ENOENT), w)"
  "os_WriteFile sim_os f c w = (None, w\<lparr>sh_view := (sh_view w)\<lparr>hv_file := (hv_file (sh_view w))(f \<mapsto> c)\<rparr>\<rparr>)"
  "os_MkdirAll sim_os p w = (None, w\<lparr>sh_view := (sh_view w)\<lparr>hv_dir := insert p (hv_dir (sh_view w))\<rparr>\<rparr>)"
  "os_Remove sim_os f w = (case hv_file (sh_view w) f of
        None \<Rightarrow> (Some (PathError ''remove'' f ENOENT), w)
      | Some _ \<Rightarrow> (None, w\<lparr>sh_view := (sh_view w)\<lparr>hv_file := (hv_file (sh_view w))(f := None)\<rparr>\<rparr>))"
  "os_RemoveAll sim_os p w = (None, w\<lparr>sh_view := (sh_view w)\<lparr>hv_dir := hv_dir (sh_view w) - {p}\<rparr>\<rparr>)"
  "filepath_Glob sim_os g w =
     (Inr (if g = sim_glob \<and> sh_attached w \<noteq> [] then [sim_device] else []), w)"
  "time_Sleep sim_os w = ((), w\<lparr>sh_clock := sh_clock w + 1\<rparr>)"
  "exec_Run sim_os = sim_exec"
  by (simp_all add: sim_os_def)

lemma sim_os_quiet [simp]:
  "snd (os_ReadDir sim_os p w) = w" "snd (os_Readlink sim_os p w) = w" "snd (os_OpenAppend sim_os p w) = w"
  "snd (file_WriteString sim_os p c w) = w" "snd (rand_Int sim_os n w) = w"
  by (simp_all add: sim_os_def)

lemma sim_mnt_sel [simp]:
  "mount_IsNotMountPoint sim_mnt p w = (if hv_mount (sh_view w) p \<noteq> None then (False, None)
        else if p \<in> hv_dir (sh_view w) then (True, None) else (True, Some (PathError ''stat'' p ENOENT)), w)"
  "mount_Mount sim_mnt d p t fl w = (if ''bind'' \<in> set fl
     then (None, w\<lparr>sh_view := (sh_view w)\<lparr>hv_mount := (hv_mount (sh_view w))(p \<mapsto> d)\<rparr>\<rparr>) else (Some io_error, w))"
  "mount_Unmount sim_mnt p w = (None, w\<lparr>sh_view := (sh_view w)\<lparr>hv_mount := (hv_mount (sh_view w))(p := None)\<rparr>\<rparr>)"
  "mount_FormatAndMount sim_mnt d p t fl w =
     (None, w\<lparr>sh_view := (sh_view w)\<lparr>hv_mount := (hv_mount (sh_view w))(p \<mapsto> d)\<rparr>\<rparr>)"
  by (simp_all add: sim_mnt_def)

lemma sim_env_os [simp]: "xe_os sim_env = sim_os" "xe_sma sim_env = sim_sma" "xe_opi sim_env = sim_opi"
  by (simp_all add: sim_env_def)

lemma sim_turn_view [simp]: "sh_view (snd (sim_turn w no yes f)) = sh_view w"
  by (simp add: sim_turn_def split: list.split)

lemma sim_turnE:
  assumes "sim_turn w no yes f = (r, w')"
  obtains "r = yes" "sh_xpu w' = f (sh_xpu w)" | "r = no" "sh_xpu w' = sh_xpu w"
  using assms by (auto simp: sim_turn_def split: list.splits if_splits)

lemma sim_exec_view [simp]: "sh_view (snd (sim_exec cmd n w)) = sh_view w"
  by (simp add: sim_exec_def)

interpretation sim: host_contract sim_env sim_mnt sh_view
proof (unfold_locales, goal_cases)
  case (1 p w b e w')
  then show ?case by (auto split: if_splits)
next
  case (6 p w e w')
  then show ?case by (auto simp: under_def)
next
  case (7 f w r w')
  then show ?case by (auto split: option.splits)
next
  case (8 f c w e w')
  then show ?case by (auto split: if_splits intro!: exI [of _ "hv_file (sh_view w) f"])
next
  case (9 f w e w')
  then show ?case by (auto split: option.splits)
qed (auto simp: sim_env_def sim_sma_def sim_opi_def)

text \<open>The same host with a file system that cannot be written.\<close>

definition ro_env :: "simhost xpu_env" where
  "ro_env = sim_env\<lparr>xe_os := sim_os\<lparr>os_WriteFile := (\<lambda>f c w. (Some io_error, w))\<rparr>\<rparr>"

lemma ro_env_sel [simp]:
  "os_WriteFile (xe_os ro_env) f c w = (Some io_error, w)" "os_MkdirAll (xe_os ro_env) = os_MkdirAll sim_os"
  "os_RemoveAll (xe_os ro_env) = os_RemoveAll sim_os" "os_ReadFile (xe_os ro_env) = os_ReadFile sim_os"
  "os_Remove (xe_os ro_env) = os_Remove sim_os" "exec_Run (xe_os ro_env) = exec_Run sim_os"
  "filepath_Glob (xe_os ro_env) = filepath_Glob sim_os" "time_Sleep (xe_os ro_env) = time_Sleep sim_os"
  "os_Stat (xe_os ro_env) = os_Stat sim_os" "os_ReadDir (xe_os ro_env) = os_ReadDir sim_os"
  "os_Readlink (xe_os ro_env) = os_Readlink sim_os" "os_OpenAppend (xe_os ro_env) = os_OpenAppend sim_os"
  "file_WriteString (xe_os ro_env) = file_WriteString sim_os" "rand_Int (xe_os ro_env) = rand_Int sim_os"
  "xe_sma ro_env = sim_sma" "xe_opi ro_env = sim_opi"
  "phyIDLock_Lock ro_env w = ((), w)" "phyIDLock_Unlock ro_env w = ((), w)"
  by (simp_all add: ro_env_def sim_env_def)

interpretation simro: host_contract ro_env sim_mnt sh_view
proof (unfold_locales, goal_cases)
  case (1 p w b e w')
  then show ?case by (auto split: if_splits)
next
  case (6 p w e w')
  then show ?case by (auto simp: under_def)
next
  case (7 f w r w')
  then show ?case by (auto split: option.splits)
next
  case (8 f c w e w')
  then show ?case by (auto intro!: exI [of _ "hv_file (sh_view w) f"])
next
  case (9 f w e w')
  then show ?case by (auto split: option.splits)
qed (auto simp: sim_sma_def sim_opi_def)

lemma sim_creates: "opi_creates sh_xpu k (\<lambda>w. sim_turn w (Inl e) (Inr (c # i)) (insert (OpiObject k (c # i))))"
  unfolding opi_creates_def by (auto split: sum.split elim: sim_turnE)

lemma sim_deletes: "opi_deletes sh_xpu k (\<lambda>q w. sim_turn w (Some e) None (\<lambda>os. os - {OpiObject k (del_Name q)}))"
  unfolding opi_deletes_def by (auto split: option.split elim: sim_turnE)

interpretation simx: xpu_services sim_env sh_xpu
  by unfold_locales
    (auto simp: sim_sma_def sim_opi_def sim_os_def sim_creates sim_deletes elim: sim_turnE)

end
