(* ===== verification/Node_Props.thy ===== *)
theory Node_Props
  imports Host_Sim
begin

text \<open>
  What the node service guarantees on every host of the contract: staging, unstaging and publishing,
  and the two together. The concrete runs are on the simulated host.
\<close>

section \<open>Concrete requests\<close>

definition demo_ctx :: kvs where
  "demo_ctx = [(''model'', ''v1''), (''nqn'', sim_nqn), (''targetAddr'', ''10.0.0.1''),
     (''targetPort'', ''4420''), (''targetType'', ''TCP'')]"

definition demo_node :: nodeServer where
  "demo_node = \<lparr>ns_Driver = \<lparr>drv_name = ''csi.spdk.io'', drv_nodeID = ''n1'', drv_version = ''0.1.0'',
       drv_cap = [], drv_vc = []\<rparr>, xpuConnClient = False, xpuConfigInfo = None\<rparr>"

definition demo_stage :: NodeStageVolumeRequest where
  "demo_stage = \<lparr>nsr_VolumeId = ''v1'', nsr_StagingTargetPath = ''/st'', nsr_VolumeContext = Some demo_ctx,
     nsr_VolumeCapability = Some \<lparr>vcap_Mount = None, vcap_AccessMode = Some SINGLE_NODE_WRITER\<rparr>\<rparr>"

definition demo_unstage :: NodeUnstageVolumeRequest where
  "demo_unstage = \<lparr>nur_VolumeId = ''v1'', nur_StagingTargetPath = ''/st''\<rparr>"

definition demo_publish :: NodePublishVolumeRequest where
  "demo_publish = \<lparr>npr_VolumeId = ''v1'', npr_StagingTargetPath = ''/st'', npr_TargetPath = ''/pod/mnt'',
     npr_VolumeCapability = None\<rparr>"

definition demo_unpublish :: NodeUnpublishVolumeRequest where
  "demo_unpublish = \<lparr>nupr_VolumeId = ''v1'', nupr_TargetPath = ''/pod/mnt''\<rparr>"

definition empty_host :: simhost where
  "empty_host = \<lparr>sh_view = \<lparr>hv_mount = Map.empty, hv_file = Map.empty, hv_dir = {}\<rparr>, sh_attached = [],
     sh_clock = 0, sh_stuck = False, sh_xpu = {}, sh_script = []\<rparr>"

lemma not_held_new [simp]: "\<not> lock_held NewVolumeLocks i"
  by (simp add: lock_held_def NewVolumeLocks_def)

lemma kv_ok_demo: "kv_ok demo_ctx"
  by (simp add: kv_ok_def demo_ctx_def)

lemma demo_stash: "filepath_Join ''/st'' volumeContextFileName = ''/st/volume-context.json''"
  by (simp add: filepath_Join_def filepath_Clean_def volumeContextFileName_def Let_def)

definition staged_host :: "bool \<Rightarrow> simhost" where
  "staged_host stuck = \<lparr>sh_view = \<lparr>hv_mount = [''/st/v1'' \<mapsto> sim_device],
     hv_file = [''/st/volume-context.json'' \<mapsto> kv_marshal (Some demo_ctx)], hv_dir = {''/st'', ''/st/v1''}\<rparr>,
     sh_attached = [sim_nqn], sh_clock = 0, sh_stuck = stuck, sh_xpu = {}, sh_script = []\<rparr>"

lemmas node_run = go_bind_def go_return_def go_call_def nodeServer_isStaged_def nodeServer_newInitiator_def
  initiatorNVMf_Connect_def initiatorNVMf_Disconnect_def execWithTimeout_def
  waitForDeviceReady_def waitForDeviceGone_def initiatorNVMf_glob_def nodeServer_stageVolume_def
  nodeServer_createMountPoint_def nodeServer_deleteMountPoint_def StashVolumeContext_def stashContext_def
  LookupVolumeContext_def lookupContext_def CleanUpVolumeContext_def cleanUpContext_def
  with_volume_lock_def VolumeLocks_Lock_def VolumeLocks_unlock_def LoadOrStore_def lock_held_def NewVolumeLocks_def

lemmas demo_defs = demo_node_def demo_stage_def demo_unstage_def demo_publish_def demo_unpublish_def
  empty_host_def sim_exec_def kvs_of_def

lemma demo_initiator:
  "NewSpdkCsiInitiator demo_ctx = Inr (InitiatorNVMf \<lparr>in_targetType = ''TCP'', in_targetAddr = ''10.0.0.1'',
     in_targetPort = ''4420'', in_nqn = sim_nqn, in_model = ''v1''\<rparr>)"
  by (simp add: NewSpdkCsiInitiator_def demo_ctx_def kv_get_def strings_ToLower_def Let_def)

lemma demo_stage_run:
  "nodeServer_NodeStageVolume sim_env sim_mnt demo_node demo_stage (NewVolumeLocks, empty_host) =
     (Ret None, [''v1'' \<mapsto> False], staged_host False)"
  by (simp add: nodeServer_NodeStageVolume_def node_run demo_defs demo_initiator demo_stash sim_glob_def
      staged_host_def GetFsType_def GetMountFlags_def Let_def numeral_eq_Suc)

text \<open>Two unstage runs on a host whose device does not go away: an error, then a success that leaves it attached.\<close>

definition unmounted_host :: "nat \<Rightarrow> simhost" where
  "unmounted_host n = (staged_host True)\<lparr>sh_view := (sh_view (staged_host True))
     \<lparr>hv_mount := Map.empty, hv_dir := {''/st''}\<rparr>, sh_clock := n\<rparr>"

lemma demo_unstage_stuck:
  "nodeServer_NodeUnstageVolume sim_env sim_mnt demo_node demo_unstage (NewVolumeLocks, staged_host True) =
     (Ret (Some (internal (Errorf (''timed out waiting device gone: '' @ sim_glob)))), [''v1'' \<mapsto> False], unmounted_host 21)"
  by (simp add: nodeServer_NodeUnstageVolume_def node_run demo_defs demo_initiator demo_stash sim_glob_def
      staged_host_def unmounted_host_def GetFsType_def GetMountFlags_def Let_def kv_ok_demo numeral_eq_Suc insert_Diff_if)

section \<open>Staging\<close>

text \<open>
  C11: NodeStageVolume on a free lock and a request with an access mode, on any host of the
  contract: the locks are as before; success means that the volume was staged already and nothing
  changed, or that the request's initiator connected a device, which was then mounted at the
  staging path, and that the volume context was stashed last. An error is the Internal status of
  the failing call: the mount query, the making of the initiator or Connect was the last call, and
  the mounts and files are as before (but for an xPU's own stash), where a device that a failing
  Connect has attached is not disconnected; or mounting the connected device failed, the last call
  was its disconnect and the mounts are as before; or stashing failed, the last call was the
  disconnect and the device is still mounted. It panics only with an xPU.
\<close>

theorem NodeStageVolume_result:
  assumes "host_contract env mnt V"
    and "\<not> lock_held m (nsr_VolumeId req)"
    and "Option.bind (nsr_VolumeCapability req) vcap_AccessMode \<noteq> None"
  shows "case nodeServer_NodeStageVolume env mnt ns req (m, w) of
     (Ret r, m', w') \<Rightarrow> (\<forall>j. lock_held m' j = lock_held m j) \<and> stage_post env mnt V ns req w r w'
   | (Panic s, m', w') \<Rightarrow> (\<forall>j. lock_held m' j = lock_held m j) \<and> xpuConnClient ns"
  using host_contract.NodeStage_wp [OF assms, of ns w]
  by (auto simp: go_wp_def split: prod.splits outcome.splits)

theorem NodeStageVolume_result_witness:
  "nodeServer_NodeStageVolume sim_env sim_mnt demo_node demo_stage (NewVolumeLocks, empty_host) =
     (Ret None, [''v1'' \<mapsto> False], staged_host False) \<and>
   stage_post sim_env sim_mnt sh_view demo_node demo_stage empty_host None (staged_host False)"
  using NodeStageVolume_result [OF sim.host_contract_axioms, of NewVolumeLocks demo_stage demo_node empty_host]
  by (simp add: demo_stage_run) (simp add: demo_stage_def)

text \<open>
  C12: NodeUnstageVolume on a free lock, on any host of the contract: success means that the
  volume was not mounted and nothing changed, or that it was unmounted, then disconnected by the
  initiator that the stash describes, and the stash removed last; an error changes at most this
  mount and keeps the stash.
\<close>

theorem NodeUnstageVolume_result:
  assumes "host_contract env mnt V"
    and "\<not> lock_held m (nur_VolumeId req)"
  shows "case nodeServer_NodeUnstageVolume env mnt ns req (m, w) of
     (Ret r, m', w') \<Rightarrow> (\<forall>j. lock_held m' j = lock_held m j) \<and> unstage_post env V ns req w r w'
   | (Panic s, m', w') \<Rightarrow> (\<forall>j. lock_held m' j = lock_held m j) \<and> xpuConnClient ns"
  using host_contract.NodeUnstage_wp [OF assms, of ns w]
  by (auto simp: go_wp_def split: prod.splits outcome.splits)

theorem NodeUnstageVolume_result_witness:
  "\<exists>e. nodeServer_NodeUnstageVolume sim_env sim_mnt demo_node demo_unstage (NewVolumeLocks, staged_host True) =
     (Ret (Some e), [''v1'' \<mapsto> False], unmounted_host 21) \<and>
   unstage_post sim_env sh_view demo_node demo_unstage (staged_host True) (Some e) (unmounted_host 21)"
  using NodeUnstageVolume_result [OF sim.host_contract_axioms, of NewVolumeLocks demo_unstage demo_node "staged_host True"]
  by (simp add: demo_unstage_stuck)

section \<open>There and back\<close>

lemma kv_put_idem: "kv_put k v (kv_put k v m) = kv_put k v m"
  by (induction k v m rule: kv_put.induct) auto

lemma new_context_idem: "new_context ns (new_context ns vc d) d = new_context ns vc d"
  by (cases vc) (simp_all add: new_context_def kv_put_idem)

lemma initiator_for_new_context: "initiator_for ns (new_context ns vc d) d i \<longleftrightarrow> initiator_for ns vc d i"
  by (auto simp: initiator_for_def new_context_idem split: SpdkCsiInitiator.split) (simp_all add: new_context_def)

text \<open>
  C13: Staging a volume that was not mounted and then unstaging it, both with success and no
  change to mounts and files between: the mounts are as before, the stash is gone, and an
  initiator made for the volume's context disconnected it after the unmount and before the stash
  was removed, the last call.
\<close>

theorem NodeStage_NodeUnstage:
  assumes host: "host_contract env mnt V"
    and free: "\<not> lock_held m (nsr_VolumeId req)" "\<not> lock_held n (nsr_VolumeId req)"
    and mode: "Option.bind (nsr_VolumeCapability req) vcap_AccessMode \<noteq> None"
    and ctx: "nsr_VolumeContext req = Some vc" "kv_ok vc"
    and d: "d = nsr_StagingTargetPath req" and p: "p = d @ ''/'' @ nsr_VolumeId req"
    and outside: "\<not> under p (filepath_Join d volumeContextFileName)"
    and fresh: "hv_mount (V w) p = None"
    and stage: "nodeServer_NodeStageVolume env mnt ns req (m, w) = (Ret None, m1, w1)"
    and same: "V w2 = V w1"
    and unstage: "nodeServer_NodeUnstageVolume env mnt ns
        \<lparr>nur_VolumeId = nsr_VolumeId req, nur_StagingTargetPath = d\<rparr> (n, w2) = (Ret None, m3, w3)"
  shows "hv_mount (V w3) = hv_mount (V w) \<and> hv_file (V w3) (filepath_Join d volumeContextFileName) = None \<and>
     (\<exists>i v v'. initiator_for ns (Some vc) d i \<and> hv_mount (V v) = hv_mount (V w) \<and>
        SpdkCsiInitiator_Disconnect env i v = (Ret None, v') \<and> CleanUpVolumeContext (xe_os env) d v' = (Ret None, w3))"
proof -
  from host_contract.NodeStage_wp [OF host free(1) mode, of ns w] stage fresh d p
  obtain dev where M: "hv_mount (V w1) = (hv_mount (V w))(p \<mapsto> dev)"
    and F: "hv_file (V w1) (filepath_Join d volumeContextFileName) = Some (kv_marshal (new_context ns (Some vc) d))"
    by (auto simp: go_wp_def stage_post_def Let_def ctx)
  from ctx(2) obtain vc' where vc': "new_context ns (Some vc) d = Some vc'" "kv_ok vc'"
    by (cases "xpuConnClient ns") (auto simp: new_context_def)
  have "unstage_post env V ns \<lparr>nur_VolumeId = nsr_VolumeId req, nur_StagingTargetPath = d\<rparr> w2 None w3"
    using host_contract.NodeUnstage_wp [OF host, of n "\<lparr>nur_VolumeId = nsr_VolumeId req, nur_StagingTargetPath = d\<rparr>" ns w2]
      free(2) unstage by (simp add: go_wp_def)
  with M F same vc' outside p fresh initiator_for_new_context [of ns "Some vc" d] show ?thesis
    by (auto simp: unstage_post_def Let_def fun_upd_idem)
qed

lemma demo_unstage_run:
  "nodeServer_NodeUnstageVolume sim_env sim_mnt demo_node demo_unstage (NewVolumeLocks, staged_host False) =
     (Ret None, [''v1'' \<mapsto> False], empty_host\<lparr>sh_view := (sh_view empty_host)\<lparr>hv_dir := {''/st''}\<rparr>\<rparr>)"
  by (simp add: nodeServer_NodeUnstageVolume_def node_run demo_defs demo_initiator demo_stash sim_glob_def
      staged_host_def GetFsType_def GetMountFlags_def Let_def kv_ok_demo numeral_eq_Suc insert_Diff_if)

theorem NodeStage_NodeUnstage_witness:
  "\<exists>i v v'. initiator_for demo_node (Some demo_ctx) ''/st'' i \<and> hv_mount (sh_view v) = hv_mount (sh_view empty_host) \<and>
     SpdkCsiInitiator_Disconnect sim_env i v = (Ret None, v') \<and>
     CleanUpVolumeContext (xe_os sim_env) ''/st'' v' =
       (Ret None, empty_host\<lparr>sh_view := (sh_view empty_host)\<lparr>hv_dir := {''/st''}\<rparr>\<rparr>)"
proof -
  have req: "nsr_VolumeId demo_stage = ''v1''" "nsr_StagingTargetPath demo_stage = ''/st''"
      "nsr_VolumeContext demo_stage = Some demo_ctx"
      "Option.bind (nsr_VolumeCapability demo_stage) vcap_AccessMode \<noteq> None"
    by (simp_all add: demo_stage_def)
  have "\<not> under ''/st/v1'' (filepath_Join ''/st'' volumeContextFileName)"
    by (simp add: demo_stash under_def)
  moreover have "hv_mount (sh_view empty_host) ''/st/v1'' = None" by (simp add: empty_host_def)
  ultimately show ?thesis
    using NodeStage_NodeUnstage [OF sim.host_contract_axioms _ _ req(4,3) kv_ok_demo refl refl _ _ demo_stage_run refl,
        of NewVolumeLocks] demo_unstage_run [unfolded demo_unstage_def]
    by (simp add: req)
qed

text \<open>
  C37: A failed NodeUnstageVolume is not completed by repeating it: when a NodeUnstageVolume of a
  mounted volume returns an error and the volume is no longer mounted (the unmount was done, a
  later step failed), then the repeated request, on unchanged mounts and files, does nothing but
  ask for the mount point and reports success, unless this query itself fails: no device is
  disconnected, and the stash of the first attempt is still there.
\<close>

theorem NodeUnstageVolume_retry:
  fixes req :: NodeUnstageVolumeRequest
  defines "p \<equiv> getStagingTargetPath (UnstageReq req)" and "f \<equiv> filepath_Join (nur_StagingTargetPath req) volumeContextFileName"
  assumes host: "host_contract env mnt V"
    and free: "\<not> lock_held m (nur_VolumeId req)" "\<not> lock_held n (nur_VolumeId req)"
    and first: "nodeServer_NodeUnstageVolume env mnt ns req (m, w) = (Ret (Some e), m1, w1)"
    and mounted: "hv_mount (V w) p \<noteq> None" and unmounted: "hv_mount (V w1) p = None"
    and same: "V w2 = V w1" and query: "mount_IsNotMountPoint mnt p w2 = ((b, e2), w3)"
  shows "\<exists>m3. nodeServer_NodeUnstageVolume env mnt ns req (n, w2) =
       (Ret (if os_IsNotExist e2 then None else map_option internal e2), m3, w3) \<and>
     V w3 = V w1 \<and> hv_mount (V w3) = (hv_mount (V w))(p := None) \<and>
     (\<not> under p f \<longrightarrow> hv_file (V w3) f = hv_file (V w) f)"
proof -
  have "unstage_post env V ns req w (Some e) w1"
    using host_contract.NodeUnstage_wp [OF host free(1), of ns w] first by (simp add: go_wp_def)
  then have post: "hv_mount (V w1) \<in> {hv_mount (V w), (hv_mount (V w))(p := None)}"
      "\<not> under p f \<longrightarrow> hv_file (V w1) f = hv_file (V w) f"
    by (simp_all add: unstage_post_def Let_def p_def f_def)
  have "hv_mount (V w2) (getStagingTargetPath (UnstageReq req)) = None" using unmounted same by (simp add: p_def)
  from host_contract.NodeUnstage_unmounted [OF host free(2) this, of ns] query
  obtain m3 where "nodeServer_NodeUnstageVolume env mnt ns req (n, w2) =
      (Ret (if os_IsNotExist e2 then None else map_option internal e2), m3, w3)" "V w3 = V w2"
    by (auto simp: p_def simp del: getStagingTargetPath.simps)
  with post mounted unmounted same show ?thesis by auto
qed

theorem NodeUnstageVolume_retry_witness:
  "(\<exists>e. nodeServer_NodeUnstageVolume sim_env sim_mnt demo_node demo_unstage (NewVolumeLocks, staged_host True) =
     (Ret (Some e), [''v1'' \<mapsto> False], unmounted_host 21)) \<and>
   (\<exists>m'. nodeServer_NodeUnstageVolume sim_env sim_mnt demo_node demo_unstage ([''v1'' \<mapsto> False], unmounted_host 21) =
     (Ret None, m', unmounted_host 21)) \<and> sh_attached (unmounted_host 21) = [sim_nqn]"
proof (intro conjI)
  have p: "getStagingTargetPath (UnstageReq demo_unstage) = ''/st/v1''" by (simp add: demo_unstage_def)
  have q: "mount_IsNotMountPoint sim_mnt (getStagingTargetPath (UnstageReq demo_unstage)) (unmounted_host 21) =
      ((True, Some (PathError ''stat'' ''/st/v1'' ENOENT)), unmounted_host 21)"
    unfolding p by (simp add: unmounted_host_def)
  have "\<exists>m3. nodeServer_NodeUnstageVolume sim_env sim_mnt demo_node demo_unstage ([''v1'' \<mapsto> False], unmounted_host 21) =
      (Ret (if os_IsNotExist (Some (PathError ''stat'' ''/st/v1'' ENOENT)) then None
         else map_option internal (Some (PathError ''stat'' ''/st/v1'' ENOENT))), m3, unmounted_host 21) \<and>
      sh_view (unmounted_host 21) = sh_view (unmounted_host 21) \<and>
      hv_mount (sh_view (unmounted_host 21)) = (hv_mount (sh_view (staged_host True)))
        (getStagingTargetPath (UnstageReq demo_unstage) := None) \<and>
      (\<not> under (getStagingTargetPath (UnstageReq demo_unstage)) (filepath_Join (nur_StagingTargetPath demo_unstage) volumeContextFileName) \<longrightarrow>
        hv_file (sh_view (unmounted_host 21)) (filepath_Join (nur_StagingTargetPath demo_unstage) volumeContextFileName) =
        hv_file (sh_view (staged_host True)) (filepath_Join (nur_StagingTargetPath demo_unstage) volumeContextFileName))"
    by (rule NodeUnstageVolume_retry [OF sim.host_contract_axioms _ _ demo_unstage_stuck _ _ refl q])
      (simp_all add: p demo_unstage_def unmounted_host_def staged_host_def lock_held_def NewVolumeLocks_def)
  then show "\<exists>m'. nodeServer_NodeUnstageVolume sim_env sim_mnt demo_node demo_unstage ([''v1'' \<mapsto> False], unmounted_host 21) =
     (Ret None, m', unmounted_host 21)" by simp
qed (simp add: demo_unstage_stuck, simp add: unmounted_host_def staged_host_def)

section \<open>Publishing\<close>

text \<open>
  C23: A NodePublishVolume and then a NodeUnpublishVolume of the same target path, both on a free
  lock and with success, and with no change to mounts and files between: the first bind-mounts the
  staging path at the target path, unless something was mounted there already, and then it changes
  no mount; the second leaves nothing mounted there and no directory; all other mounts are as
  before both, and every file outside the target path is untouched.
\<close>

theorem NodePublish_NodeUnpublish:
  assumes host: "host_contract env mnt V"
    and free: "\<not> lock_held m (npr_VolumeId req)" "\<not> lock_held n (npr_VolumeId req)"
    and publish: "nodeServer_NodePublishVolume (xe_os env) mnt req (m, w) = (Ret None, m1, w1)"
    and same: "V w2 = V w1"
    and unpublish: "nodeServer_NodeUnpublishVolume (xe_os env) mnt
       \<lparr>nupr_VolumeId = npr_VolumeId req, nupr_TargetPath = npr_TargetPath req\<rparr> (n, w2) = (Ret None, m3, w3)"
  shows "hv_mount (V w1) = (if hv_mount (V w) (npr_TargetPath req) = None
       then (hv_mount (V w))(npr_TargetPath req \<mapsto> getStagingTargetPath (PublishReq req)) else hv_mount (V w)) \<and>
     hv_mount (V w3) = (hv_mount (V w))(npr_TargetPath req := None) \<and> npr_TargetPath req \<notin> hv_dir (V w3) \<and>
     (\<forall>f. \<not> under (npr_TargetPath req) f \<longrightarrow> hv_file (V w3) f = hv_file (V w) f)"
  using host_contract.NodePublish_wp [OF host free(1), of w] publish same unpublish free(2)
    host_contract.NodeUnpublish_wp [OF host, of n
      "\<lparr>nupr_VolumeId = npr_VolumeId req, nupr_TargetPath = npr_TargetPath req\<rparr>" w2]
  by (auto simp: go_wp_def fun_upd_idem)

theorem NodePublish_NodeUnpublish_witness:
  "\<exists>m1 w1 m3 w3. nodeServer_NodePublishVolume sim_os sim_mnt demo_publish (NewVolumeLocks, empty_host) = (Ret None, m1, w1) \<and>
     nodeServer_NodeUnpublishVolume sim_os sim_mnt demo_unpublish (NewVolumeLocks, w1) = (Ret None, m3, w3) \<and>
     hv_mount (sh_view w1) ''/pod/mnt'' = Some ''/st/v1'' \<and> hv_mount (sh_view w3) = Map.empty"
proof -
  have p: "nodeServer_NodePublishVolume sim_os sim_mnt demo_publish (NewVolumeLocks, empty_host) = (Ret None,
      [''v1'' \<mapsto> False], empty_host\<lparr>sh_view := \<lparr>hv_mount = [''/pod/mnt'' \<mapsto> ''/st/v1''], hv_file = Map.empty, hv_dir = {''/pod/mnt''}\<rparr>\<rparr>)"
    (is "_ = (_, _, ?w1)")
    by (simp add: nodeServer_NodePublishVolume_def nodeServer_publishVolume_def node_run demo_defs)
  have u: "nodeServer_NodeUnpublishVolume sim_os sim_mnt \<lparr>nupr_VolumeId = npr_VolumeId demo_publish,
      nupr_TargetPath = npr_TargetPath demo_publish\<rparr> (NewVolumeLocks, ?w1) = (Ret None, [''v1'' \<mapsto> False],
      empty_host)"
    by (simp add: nodeServer_NodeUnpublishVolume_def node_run demo_defs)
  have "hv_mount (sh_view ?w1) = (if hv_mount (sh_view empty_host) (npr_TargetPath demo_publish) = None
       then (hv_mount (sh_view empty_host))(npr_TargetPath demo_publish \<mapsto> getStagingTargetPath (PublishReq demo_publish))
       else hv_mount (sh_view empty_host)) \<and>
     hv_mount (sh_view empty_host) = (hv_mount (sh_view empty_host))(npr_TargetPath demo_publish := None) \<and>
     npr_TargetPath demo_publish \<notin> hv_dir (sh_view empty_host) \<and>
     (\<forall>f. \<not> under (npr_TargetPath demo_publish) f \<longrightarrow> hv_file (sh_view empty_host) f = hv_file (sh_view empty_host) f)"
    by (rule NodePublish_NodeUnpublish [OF sim.host_contract_axioms, where m = NewVolumeLocks and n = NewVolumeLocks])
      (use p u in \<open>simp_all add: empty_host_def\<close>)
  with p u show ?thesis by (simp add: demo_publish_def demo_unpublish_def empty_host_def)
qed

section \<open>The stash\<close>

text \<open>
  A volume context that has been stashed is what a successful lookup gives back, while no
  file changes.
\<close>

lemma StashVolumeContext_LookupVolumeContext:
  assumes host: "host_contract env mnt V" and ok: "kv_ok volumeContext"
    and stash: "StashVolumeContext (xe_os env) (Some volumeContext) path w = (Ret None, w1)"
    and same: "hv_file (V w2) = hv_file (V w1)"
    and lookup: "LookupVolumeContext (xe_os env) path w2 = (Ret (Inr found), w3)"
  shows "found = volumeContext"
proof -
  have "go_wp (StashVolumeContext (xe_os env) (Some volumeContext) path) (\<lambda>e w'. e = None \<longrightarrow>
      hv_file (V w') (filepath_Join path volumeContextFileName) = Some (kv_marshal (Some volumeContext))) (\<lambda>_ _. False) w"
    by (rule host_contract.wp_StashVolumeContext [OF host]) auto
  with stash same have content: "hv_file (V w2) (filepath_Join path volumeContextFileName) = Some (kv_marshal (Some volumeContext))"
    by (simp add: go_wp_def)
  have "go_wp (LookupVolumeContext (xe_os env) path) (\<lambda>r w'. \<forall>vc. r = Inr vc \<longrightarrow> vc = volumeContext) (\<lambda>_ _. False) w2"
    by (rule host_contract.wp_LookupVolumeContext [OF host]) (use content ok in auto)
  with lookup show ?thesis by (simp add: go_wp_def)
qed

lemma StashVolumeContext_LookupVolumeContext_witness:
  "\<exists>w1 w3. StashVolumeContext sim_os (Some demo_ctx) ''/st'' empty_host = (Ret None, w1) \<and>
     LookupVolumeContext sim_os ''/st'' w1 = (Ret (Inr demo_ctx), w3)"
proof -
  obtain w1 where s: "StashVolumeContext (xe_os sim_env) (Some demo_ctx) ''/st'' empty_host = (Ret None, w1)"
    by (simp add: node_run demo_defs Let_def)
  then obtain found w3 where l: "LookupVolumeContext (xe_os sim_env) ''/st'' w1 = (Ret (Inr found), w3)"
    by (auto simp: node_run demo_defs demo_stash Let_def kv_ok_demo)
  from StashVolumeContext_LookupVolumeContext [OF sim.host_contract_axioms kv_ok_demo s refl l] s l
  show ?thesis by auto
qed

section \<open>A host that cannot store the context\<close>

lemma StashVolumeContext_readonly:
  assumes "\<And>txt v. fst (os_WriteFile os (filepath_Join d volumeContextFileName) txt v) \<noteq> None"
  shows "StashVolumeContext os vc d w \<noteq> (Ret None, w')"
proof -
  have "go_wp (StashVolumeContext os vc d) (\<lambda>e _. e \<noteq> None) (\<lambda>_ _. True) w"
    using assms by (simp add: StashVolumeContext_def stashContext_def Let_def split: option.split)
      (metis option.distinct(1))
  then show ?thesis by (auto simp: go_wp_def)
qed

text \<open>
  C38: On any host where the file of the stash cannot be written, NodeStageVolume of a volume that
  is not mounted never succeeds (free lock, a request with an access mode): a call before the
  mount or the mount itself fails, with no mount changed, or the device was connected and mounted,
  and then, because the context could not be stored, disconnected as the last call, with the mount
  left. In that last case repeating the request does nothing but ask for the mount point and
  reports success, unless this query fails, although the device has been disconnected.
\<close>

theorem NodeStageVolume_failed_stash:
  fixes req :: NodeStageVolumeRequest
  defines "p \<equiv> getStagingTargetPath (StageReq req)"
  assumes host: "host_contract env mnt V"
    and free: "\<not> lock_held m (nsr_VolumeId req)" "\<not> lock_held n (nsr_VolumeId req)"
    and mode: "Option.bind (nsr_VolumeCapability req) vcap_AccessMode \<noteq> None"
    and readonly: "\<And>txt v. fst (os_WriteFile (xe_os env)
       (filepath_Join (nsr_StagingTargetPath req) volumeContextFileName) txt v) \<noteq> None"
    and unmounted: "hv_mount (V w) p = None"
    and run: "nodeServer_NodeStageVolume env mnt ns req (m, w) = (Ret r, m1, w1)"
    and query: "mount_IsNotMountPoint mnt p w1 = ((b, e2), w2)"
  shows "\<exists>e. r = Some e \<and> (if hv_mount (V w1) p = None
     then hv_mount (V w1) = hv_mount (V w) \<and>
       (failed_before_mount env mnt V ns req w e w1 \<or> mount_undone env mnt V ns req w e w1)
     else stash_undone env mnt V ns req w e w1 \<and>
       (\<exists>m2. nodeServer_NodeStageVolume env mnt ns req (n, w1) = (Ret (map_option internal e2), m2, w2)) \<and> V w2 = V w1)"
proof -
  have post: "stage_post env mnt V ns req w r w1"
    using host_contract.NodeStage_wp [OF host free(1) mode, of ns w] run by (simp add: go_wp_def)
  have p: "nsr_StagingTargetPath req @ ''/'' @ nsr_VolumeId req = p" by (simp add: p_def)
  from post StashVolumeContext_readonly [OF readonly] unmounted obtain e where e: "r = Some e"
    by (cases r) (auto simp: stage_post_def Let_def p simp del: append.simps)
  with post consider (early) "failed_before_mount env mnt V ns req w e w1" | (mount) "mount_undone env mnt V ns req w e w1"
    | (stash) "stash_undone env mnt V ns req w e w1"
    by (auto simp: stage_post_def Let_def)
  then show ?thesis
  proof cases
    case early
    with unmounted e show ?thesis by (auto simp: failed_before_mount_def host_frame_def)
  next
    case mount
    then have "hv_mount (V w1) = hv_mount (V w)" by (auto simp: mount_undone_def)
    with mount unmounted e show ?thesis by simp
  next
    case stash
    then have m: "hv_mount (V w1) p \<noteq> None" by (auto simp: stash_undone_def Let_def p simp del: append.simps)
    with host_contract.NodeStage_mounted [OF host free(2), of w1 ns] query
    have "\<exists>m2. nodeServer_NodeStageVolume env mnt ns req (n, w1) = (Ret (map_option internal e2), m2, w2) \<and> V w2 = V w1"
      by (simp add: p_def del: getStagingTargetPath.simps)
    with m stash e show ?thesis by auto
  qed
qed

text \<open>On the simulated host the last case happens, and the device is gone.\<close>

definition unstashed_host :: simhost where
  "unstashed_host = (staged_host False)\<lparr>sh_view := (sh_view (staged_host False))\<lparr>hv_file := Map.empty\<rparr>, sh_attached := []\<rparr>"

lemma demo_stage_readonly:
  "\<exists>e. nodeServer_NodeStageVolume ro_env sim_mnt demo_node demo_stage (NewVolumeLocks, empty_host) =
     (Ret (Some e), [''v1'' \<mapsto> False], unstashed_host)"
  by (simp add: nodeServer_NodeStageVolume_def node_run demo_defs demo_initiator demo_stash sim_glob_def
      unstashed_host_def staged_host_def GetFsType_def GetMountFlags_def Let_def numeral_eq_Suc)

theorem NodeStageVolume_failed_stash_witness:
  "(\<exists>e. nodeServer_NodeStageVolume ro_env sim_mnt demo_node demo_stage (NewVolumeLocks, empty_host) =
     (Ret (Some e), [''v1'' \<mapsto> False], unstashed_host) \<and>
     stash_undone ro_env sim_mnt sh_view demo_node demo_stage empty_host e unstashed_host) \<and>
   (\<exists>m2. nodeServer_NodeStageVolume ro_env sim_mnt demo_node demo_stage ([''v1'' \<mapsto> False], unstashed_host) =
     (Ret None, m2, unstashed_host)) \<and> sh_attached unstashed_host = []"
proof -
  have p: "getStagingTargetPath (StageReq demo_stage) = ''/st/v1''" by (simp add: demo_stage_def)
  have m: "hv_mount (sh_view unstashed_host) (getStagingTargetPath (StageReq demo_stage)) \<noteq> None"
    unfolding p by (simp add: unstashed_host_def staged_host_def)
  then have q: "mount_IsNotMountPoint sim_mnt (getStagingTargetPath (StageReq demo_stage)) unstashed_host =
      ((False, None), unstashed_host)" by simp
  obtain e where run: "nodeServer_NodeStageVolume ro_env sim_mnt demo_node demo_stage (NewVolumeLocks, empty_host) =
      (Ret (Some e), [''v1'' \<mapsto> False], unstashed_host)" using demo_stage_readonly by blast
  have free: "\<not> lock_held NewVolumeLocks (nsr_VolumeId demo_stage)" "\<not> lock_held [''v1'' \<mapsto> False] (nsr_VolumeId demo_stage)"
    and mode: "Option.bind (nsr_VolumeCapability demo_stage) vcap_AccessMode \<noteq> None"
    and fresh: "hv_mount (sh_view empty_host) (getStagingTargetPath (StageReq demo_stage)) = None"
    by (simp_all add: demo_stage_def lock_held_def NewVolumeLocks_def empty_host_def)
  have "sh_attached unstashed_host = []" by (simp add: unstashed_host_def)
  with NodeStageVolume_failed_stash [OF simro.host_contract_axioms free mode _ fresh run q] m run show ?thesis
    by (auto simp del: getStagingTargetPath.simps)
qed

end
