(* ===== verification/Initiator_Props.thy ===== *)
theory Initiator_Props
  imports Host_Sim
begin

text \<open>
  The polling loops against a reference: the sequence of observations that looking once a second
  would give. The loops return at the first observation that settles the question, after at most 21
  of them; connecting succeeds when the device shows up in time, whatever the command said.
\<close>

section \<open>Observations\<close>

text \<open>\<open>polled os g n w\<close> is the world after \<open>n\<close> rounds of looking and sleeping, \<open>poll\<close> the next look.\<close>

fun polled :: "'w os \<Rightarrow> string \<Rightarrow> nat \<Rightarrow> 'w \<Rightarrow> 'w" where
  "polled os g 0 w = w"
| "polled os g (Suc n) w = polled os g n (snd (time_Sleep os (snd (filepath_Glob os g w))))"

definition poll :: "'w os \<Rightarrow> string \<Rightarrow> nat \<Rightarrow> 'w \<Rightarrow> (go_error + string list) \<times> 'w" where
  "poll os g i w = filepath_Glob os g (polled os g i w)"

definition first_poll :: "'w os \<Rightarrow> string \<Rightarrow> ((go_error + string list) \<Rightarrow> bool) \<Rightarrow> nat \<Rightarrow> 'w \<Rightarrow> nat option" where
  "first_poll os g P n w = find (\<lambda>i. P (fst (poll os g i w))) [0 ..< n]"

lemma poll_Suc: "poll os g (Suc i) w = poll os g i (snd (time_Sleep os (snd (filepath_Glob os g w))))"
  by (simp add: poll_def)

lemma find_upt_Suc: "find P [0 ..< Suc n] = (if P 0 then Some 0 else map_option Suc (find (P \<circ> Suc) [0 ..< n]))"
proof -
  have "find P (map Suc xs) = map_option Suc (find (P \<circ> Suc) xs)" for xs
    by (induction xs) auto
  then show ?thesis by (simp add: upt_conv_Cons map_Suc_upt [symmetric] del: upt_Suc map_Suc_upt)
qed

lemma first_poll_Suc:
  "first_poll os g P (Suc n) w = (if P (fst (filepath_Glob os g w)) then Some 0
     else map_option Suc (first_poll os g P n (snd (time_Sleep os (snd (filepath_Glob os g w))))))"
  by (simp add: first_poll_def find_upt_Suc comp_def poll_Suc del: upt_Suc) (simp add: poll_def)

lemma ready_loop_first_poll:
  "waitForDeviceReady_loop os g n w = (case first_poll os g (\<lambda>r. r \<noteq> Inr []) n w of
     None \<Rightarrow> (Ret ([], Some (Errorf (''timed out waiting device ready: '' @ g))), polled os g n w)
   | Some i \<Rightarrow> (Ret (case fst (poll os g i w) of Inl e \<Rightarrow> ([], Some e) | Inr ms \<Rightarrow> (hd ms, None)), snd (poll os g i w)))"
proof (induction n arbitrary: w)
  case (Suc n)
  show ?case
    unfolding first_poll_Suc waitForDeviceReady_loop.simps polled.simps
    by (cases "filepath_Glob os g w") (auto simp: go_bind_def go_call_run go_return_def Suc poll_Suc poll_def
        split: sum.split list.split option.split)
qed (simp add: first_poll_def go_return_def)

lemma gone_loop_first_poll:
  "waitForDeviceGone_loop os g n w = (case first_poll os g (\<lambda>r. \<forall>m ms. r \<noteq> Inr (m # ms)) n w of
     None \<Rightarrow> (Ret (Some (Errorf (''timed out waiting device gone: '' @ g))), polled os g n w)
   | Some i \<Rightarrow> (Ret (case fst (poll os g i w) of Inl e \<Rightarrow> Some e | Inr _ \<Rightarrow> None), snd (poll os g i w)))"
proof (induction n arbitrary: w)
  case (Suc n)
  show ?case
    unfolding first_poll_Suc waitForDeviceGone_loop.simps polled.simps
    by (cases "filepath_Glob os g w") (auto simp: go_bind_def go_call_run go_return_def Suc poll_Suc poll_def
        split: sum.split list.split option.split)
qed (simp add: first_poll_def go_return_def)

text \<open>
  C26: The polling loops for a device to appear and to go are equivalent to a reference
  definition: the first of the polls, a second apart, that answers with something other than an
  empty (a non-empty) list decides, and without one they time out.
\<close>

theorem waitForDevice_first_poll:
  "waitForDeviceReady os g (int n) w = (case first_poll os g (\<lambda>r. r \<noteq> Inr []) (Suc n) w of
     None \<Rightarrow> (Ret ([], Some (Errorf (''timed out waiting device ready: '' @ g))), polled os g (Suc n) w)
   | Some i \<Rightarrow> (Ret (case fst (poll os g i w) of Inl e \<Rightarrow> ([], Some e) | Inr ms \<Rightarrow> (hd ms, None)), snd (poll os g i w))) \<and>
   waitForDeviceGone os g w = (case first_poll os g (\<lambda>r. \<forall>m ms. r \<noteq> Inr (m # ms)) 21 w of
     None \<Rightarrow> (Ret (Some (Errorf (''timed out waiting device gone: '' @ g))), polled os g 21 w)
   | Some i \<Rightarrow> (Ret (case fst (poll os g i w) of Inl e \<Rightarrow> Some e | Inr _ \<Rightarrow> None), snd (poll os g i w)))"
proof -
  have "nat (int n + 1) = Suc n" by simp
  then show ?thesis
    by (simp only: waitForDeviceReady_def waitForDeviceGone_def ready_loop_first_poll gone_loop_first_poll simp_thms)
qed

section \<open>Time\<close>

text \<open>A clock of the world that looking does not move and that a sleep moves by a second.\<close>

definition is_clock :: "'w os \<Rightarrow> ('w \<Rightarrow> nat) \<Rightarrow> bool" where
  "is_clock os clock \<longleftrightarrow> (\<forall>g w. clock (snd (filepath_Glob os g w)) = clock w) \<and>
     (\<forall>w. clock (snd (time_Sleep os w)) = Suc (clock w))"

lemma ready_loop_time:
  assumes "is_clock os clock"
  shows "go_wp (waitForDeviceReady_loop os g n) (\<lambda>_ w'. clock w' \<le> clock w + n) (\<lambda>_ _. False) w"
proof (induction n arbitrary: w)
  case (Suc n)
  let ?w = "snd (time_Sleep os (snd (filepath_Glob os g w)))"
  have "go_wp (waitForDeviceReady_loop os g n) (\<lambda>_ w'. clock w' \<le> clock w + Suc n) (\<lambda>_ _. False) ?w"
    using assms by (intro go_wp_mono [OF Suc]) (auto simp: is_clock_def)
  then show ?case
    using assms by (simp add: is_clock_def split: sum.split list.split)
qed simp

lemma gone_loop_time:
  assumes "is_clock os clock"
  shows "go_wp (waitForDeviceGone_loop os g n) (\<lambda>_ w'. clock w' \<le> clock w + n) (\<lambda>_ _. False) w"
proof (induction n arbitrary: w)
  case (Suc n)
  let ?w = "snd (time_Sleep os (snd (filepath_Glob os g w)))"
  have "go_wp (waitForDeviceGone_loop os g n) (\<lambda>_ w'. clock w' \<le> clock w + Suc n) (\<lambda>_ _. False) ?w"
    using assms by (intro go_wp_mono [OF Suc]) (auto simp: is_clock_def)
  then show ?case
    using assms by (simp add: is_clock_def split: sum.split list.split)
qed simp

text \<open>
  C27: The polling loops end: waiting for a device with a limit of n seconds takes at most n + 1
  seconds, waiting for it to go at most 21, whatever the host answers.
\<close>

theorem waitForDevice_time:
  assumes "is_clock os clock"
  shows "(\<exists>r w'. waitForDeviceReady os g (int n) w = (Ret r, w') \<and> clock w' \<le> clock w + (n + 1)) \<and>
     (\<exists>r w'. waitForDeviceGone os g w = (Ret r, w') \<and> clock w' \<le> clock w + 21)"
proof -
  have "nat (int n + 1) = n + 1" by simp
  then show ?thesis
    using go_wp_runD [OF ready_loop_time [OF assms, of g "n + 1" w]] go_wp_runD [OF gone_loop_time [OF assms, of g 21 w]]
    by (simp add: waitForDeviceReady_def waitForDeviceGone_def)
qed

lemma sim_clock: "is_clock sim_os sh_clock"
  by (simp add: is_clock_def)

theorem waitForDevice_time_witness:
  "\<forall>w. \<exists>r w'. waitForDeviceGone sim_os sim_glob w = (Ret r, w') \<and> sh_clock w' \<le> sh_clock w + 21"
  using waitForDevice_time [OF sim_clock] by blast

section \<open>Connecting\<close>

text \<open>
  C28: Connecting over NVMe-oF succeeds with the device path whenever the device link appears
  within 20 seconds after the connect command.
\<close>

theorem initiatorNVMf_Connect_finds:
  assumes "i \<le> 20"
    and "w1 = snd (exec_Run os [''nvme'', ''connect'', ''-t'', strings_ToLower (in_targetType x),
        ''-a'', in_targetAddr x, ''-s'', in_targetPort x, ''-n'', in_nqn x] 40 w)"
    and "fst (poll os (initiatorNVMf_glob x) i w1) = Inr (dev # devs)"
    and "\<forall>j < i. fst (poll os (initiatorNVMf_glob x) j w1) = Inr []"
  shows "\<exists>w'. initiatorNVMf_Connect os x w = (Ret (dev, None), w')"
proof -
  have "first_poll os (initiatorNVMf_glob x) (\<lambda>r. r \<noteq> Inr []) 21 w1 = Some i"
    unfolding first_poll_def find_Some_iff
    using assms(1,3,4) by (intro exI [of _ i]) auto
  then have "waitForDeviceReady os (initiatorNVMf_glob x) 20 w1 =
      (Ret (dev, None), snd (poll os (initiatorNVMf_glob x) i w1))"
    using assms(3) by (simp add: waitForDeviceReady_def ready_loop_first_poll)
  with assms(2) show ?thesis
    by (auto simp: initiatorNVMf_Connect_def execWithTimeout_def go_bind_def go_call_run go_return_def split: prod.split)
qed

theorem initiatorNVMf_Connect_finds_witness:
  "\<exists>w'. initiatorNVMf_Connect sim_os \<lparr>in_targetType = ''TCP'', in_targetAddr = ''10.0.0.1'',
     in_targetPort = ''4420'', in_nqn = sim_nqn, in_model = ''v1''\<rparr>
     \<lparr>sh_view = \<lparr>hv_mount = Map.empty, hv_file = Map.empty, hv_dir = {}\<rparr>, sh_attached = [],
     sh_clock = 0, sh_stuck = False, sh_xpu = {}, sh_script = []\<rparr> = (Ret (sim_device, None), w')"
  by (rule initiatorNVMf_Connect_finds [where i = 0 and devs = "[]", OF _ refl])
    (simp_all add: poll_def sim_exec_def initiatorNVMf_glob_def sim_glob_def)

end
