(* ===== verification/Backend_Props.thy ===== *)
theory Backend_Props
  imports Host_Sim
begin

text \<open>
  What the xPU initiators guarantee: no object made on the xPU is lost track of, and a driver that
  is started anew finds in the stash of a volume what the old one knew.
\<close>

section \<open>Nothing is lost on the xPU\<close>

definition demo_params :: ConnectParams where
  "demo_params = \<lparr>tcpTargetPort = [], cp_PciEndpoint = \<lparr>pfID = 3, vfID = 0\<rparr>\<rparr>"

definition demo_opi :: opiInitiatorNvme where
  "demo_opi = \<lparr>on_opiCommon = \<lparr>opi_volumeContext = [(''model'', ''m''), (''targetPort'', ''4420'')],
       nvmfRemoteControllerName = [], nvmfPathName = []\<rparr>,
     subsystemName = [], namespaceName = [], nvmeControllerName = []\<rparr>"

definition xpu_host :: "bool list \<Rightarrow> xpu_obj set \<Rightarrow> simhost" where
  "xpu_host script objs = \<lparr>sh_view = \<lparr>hv_mount = Map.empty, hv_file = Map.empty, hv_dir = {}\<rparr>, sh_attached = [],
     sh_clock = 0, sh_stuck = False, sh_xpu = objs, sh_script = script\<rparr>"

lemma demo_opi_clean: "backend_clean (OpiBackend (OpiNvme demo_opi))"
  by (simp add: demo_opi_def opi_nvme_owned_def common_owned_def tagged_def)

context xpu_services
begin

lemmas backend_connect_wp = xpu.connect_wp
lemmas backend_connect_disconnects = xpu.connect_disconnects

end

lemmas opi_demo_run = backend_connect_def backend_disconnect_def on_backend_def opiInitiatorNvme_Connect_def
  opiInitiatorNvme_Disconnect_def opiInitiatorNvme_createNvmeSubsystem_def
  opiInitiatorNvme_createNvmeController_def opiCommon_createNvmeRemoteController_def opiCommon_createNvmfPath_def
  opiInitiatorNvme_cleanup_def opiInitiatorNvme_deleteNvmeNamespace_def opiCommon_deleteNvmfPath_def
  opiCommon_deleteNvmeRemoteController_def opiInitiatorNvme_deleteNvmeController_def
  opiInitiatorNvme_deleteNvmeSubsystem_def on_common_def go_zoom_def obj_get_def obj_call_def obj_modify_def
  go_bind_def go_return_def sim_opi_def sim_turn_def on_vc_def kv_get_def demo_opi_def xpu_host_def
  opiObjectPrefix_def

text \<open>A run whose third creation and whose first deletion are refused: two objects are left, and remembered.\<close>

definition half_opi :: opiInitiatorNvme where
  "half_opi = demo_opi\<lparr>subsystemName := ''/opi-spckcsi-m'', nvmeControllerName := ''/opi-spckcsi-m''\<rparr>"

lemma demo_connect_run:
  "\<exists>e. backend_connect sim_env demo_params (OpiBackend (OpiNvme demo_opi), xpu_host ([True, True, False, False] @ bs) {}) =
     (Ret (Some e), OpiBackend (OpiNvme half_opi),
      xpu_host bs {OpiObject Subsystem ''/opi-spckcsi-m'', OpiObject NvmeController ''/opi-spckcsi-m''})"
  by (simp add: opi_demo_run half_opi_def Let_def insert_commute)

lemma demo_disconnect_run:
  "\<exists>e. backend_disconnect sim_env (OpiBackend (OpiNvme half_opi), xpu_host (False # bs) objs) =
     (Ret (Some e), OpiBackend (OpiNvme half_opi), xpu_host bs objs)"
  "backend_disconnect sim_env (OpiBackend (OpiNvme half_opi), xpu_host [] objs) =
     (Ret None, OpiBackend (OpiNvme demo_opi),
      xpu_host [] (objs - {OpiObject Subsystem ''/opi-spckcsi-m'', OpiObject NvmeController ''/opi-spckcsi-m''}))"
  by (auto simp: opi_demo_run half_opi_def Let_def)

text \<open>
  C16: A connect attempt of a fresh back end never panics and never loses an object: what is on
  the xPU afterwards was there before or is remembered by the back end; after a success exactly
  the remembered objects have been added.
\<close>

theorem XpuInitiator_Connect_tracks:
  assumes "xpu_services env objs" and "backend_clean b"
  shows "case backend_connect env params (b, w) of
     (Ret err, b', w') \<Rightarrow> objs w' \<subseteq> objs w \<union> backend_owned b' \<and>
       (err = None \<longrightarrow> objs w' = objs w \<union> backend_owned b' \<and> backend_owned b' \<noteq> {})
   | (Panic _, _) \<Rightarrow> False"
  using xpu_services.backend_connect_wp [OF assms, of params w]
  by (auto simp: go_wp_def split: prod.splits outcome.splits)

theorem XpuInitiator_Connect_tracks_witness:
  "\<exists>e w'. backend_connect sim_env demo_params (OpiBackend (OpiNvme demo_opi), xpu_host [True, True, False, False] {}) =
     (Ret (Some e), OpiBackend (OpiNvme half_opi), w') \<and>
     sh_xpu w' = {OpiObject Subsystem ''/opi-spckcsi-m'', OpiObject NvmeController ''/opi-spckcsi-m''} \<and>
     sh_xpu w' \<subseteq> backend_owned (OpiBackend (OpiNvme half_opi))"
  using XpuInitiator_Connect_tracks [OF simx.xpu_services_axioms demo_opi_clean, where params = demo_params and w =
      "xpu_host [True, True, False, False] {}"] demo_connect_run [of "[]"]
  by (auto simp: xpu_host_def)

text \<open>
  C15: No object is left on the xPU: for each of the five back ends, after a connect attempt,
  however it ended, and any number of failed disconnects, a disconnect that succeeds has removed
  everything the attempt had made.
\<close>

theorem XpuInitiator_no_leak:
  assumes "xpu_services env objs" and "backend_clean b"
  shows "case go_bind (backend_connect env params) (\<lambda>_. disconnects (backend_disconnect env) n) (b, w) of
     (Ret err, b', w') \<Rightarrow> err = None \<longrightarrow> objs w' \<subseteq> objs w \<and> backend_owned b' = {}
   | (Panic _, _) \<Rightarrow> False"
  using xpu_services.backend_connect_disconnects [OF assms, of params n w]
  unfolding go_wp_def by (auto split: prod.splits outcome.splits)

theorem XpuInitiator_no_leak_witness:
  "go_bind (backend_connect sim_env demo_params) (\<lambda>_. disconnects (backend_disconnect sim_env) 1)
     (OpiBackend (OpiNvme demo_opi), xpu_host [True, True, False, False, False] {}) =
     (Ret None, OpiBackend (OpiNvme demo_opi), xpu_host [] {}) \<and>
   backend_owned (OpiBackend (OpiNvme demo_opi)) = {}"
proof -
  have run: "go_bind (backend_connect sim_env demo_params) (\<lambda>_. disconnects (backend_disconnect sim_env) 1)
     (OpiBackend (OpiNvme demo_opi), xpu_host [True, True, False, False, False] {}) =
     (Ret None, OpiBackend (OpiNvme demo_opi), xpu_host [] {})"
    using demo_connect_run [of "[False]"]
      demo_disconnect_run(1) [of "[]" "{OpiObject Subsystem ''/opi-spckcsi-m'', OpiObject NvmeController ''/opi-spckcsi-m''}"]
    by (auto simp: go_bind_def go_return_def demo_disconnect_run(2))
  show ?thesis
    using XpuInitiator_no_leak [OF simx.xpu_services_axioms demo_opi_clean, where params = demo_params and n = 1 and w =
        "xpu_host [True, True, False, False, False] {}"]
    unfolding run by simp
qed

end
