(* ===== verification/Xpu_Restart.thy ===== *)
theory Xpu_Restart
  imports Host_Sim
begin

text \<open>
  A driver that is restarted while a volume is connected through an xPU makes its initiator anew from
  the volume context, the configuration and the stash. It is then in the state the old one was in.
\<close>

section \<open>Initiators that the stash describes\<close>

fun backend_for :: "(string \<Rightarrow> go_error + string) \<Rightarrow> kvs \<Rightarrow> XpuTargetType \<Rightarrow> xpu_backend \<Rightarrow> bool" where
  "backend_for uuid vc ti (SmaBackend s) \<longleftrightarrow> xt_Backend ti = xpuTargetBackendSma \<and>
     NewSpdkCsiSmaInitiator uuid vc (xt_TrType ti) (Some (XpuInitiator_GetParam (SmaBackend s))) = Inr s"
| "backend_for uuid vc ti (OpiBackend s) \<longleftrightarrow> xt_Backend ti = xpuTargetBackendOpi \<and>
     NewSpdkCsiOpiInitiator vc (xt_TrType ti) (Some (XpuInitiator_GetParam (OpiBackend s))) = Inr s"

definition made_for :: "'w xpu_env \<Rightarrow> kvs \<Rightarrow> XpuConfig \<Rightarrow> xpuInitiator \<Rightarrow> bool" where
  "made_for env vc conf xpu \<longleftrightarrow> xpu_volumeContext xpu = vc \<and> xpu_xpuConfig xpu = conf \<and> xpu_timeout xpu = 60 \<and>
     parseSpdkXpuTargetType (xc_TargetType conf) = Inr (xpu_targetInfo xpu) \<and>
     (\<exists>b. xpu_backend xpu = Some b \<and> backend_for (xe_uuid_Parse env) vc (xpu_targetInfo xpu) b)"

definition xpu_context :: "xpuInitiator \<Rightarrow> xpu_backend \<Rightarrow> kvs" where
  "xpu_context xpu b = kv_put ''vfBdf'' (vfBdf (xpu_PciBdfs xpu))
     (kv_put ''pfBdf'' (pfBdf (xpu_PciBdfs xpu))
     (kv_put ''vfID'' (dec_digits (unat (vfID (xpu_PciEndpoint xpu))))
     (kv_put ''pfID'' (dec_digits (unat (pfID (xpu_PciEndpoint xpu))))
     (kv_put ''devicePath'' (xpu_devicePath xpu)
     (XpuInitiator_GetParam b)))))"

lemmas transport_defs = TransportTypeNvmfTCP_def TransportTypeNvme_def TransportTypeVirtioBlk_def

lemma NewSma_iff:
  "NewSpdkCsiSmaInitiator uuid vc tr (Some c) = Inr (SmaNvmfTCP i) \<longleftrightarrow> tr = TransportTypeNvmfTCP \<and>
     sma_volumeContext i = vc \<and> sma_deviceHandle i = kv_get c ''deviceHandle'' \<and>
     (\<exists>v. volumeUUID uuid (kv_get vc ''model'') = Inr v \<and> sma_volumeID i = Some v)"
  "NewSpdkCsiSmaInitiator uuid vc tr (Some c) = Inr (SmaNvme i) \<longleftrightarrow> tr = TransportTypeNvme \<and>
     sma_volumeContext i = vc \<and> sma_deviceHandle i = kv_get c ''deviceHandle'' \<and>
     (\<exists>v. volumeUUID uuid (kv_get vc ''model'') = Inr v \<and> sma_volumeID i = Some v)"
  "NewSpdkCsiSmaInitiator uuid vc tr (Some c) = Inr (SmaVirtioBlk i) \<longleftrightarrow> tr = TransportTypeVirtioBlk \<and>
     sma_volumeContext i = vc \<and> sma_deviceHandle i = kv_get c ''deviceHandle'' \<and>
     (\<exists>v. volumeUUID uuid (kv_get vc ''model'') = Inr v \<and> sma_volumeID i = Some v)"
  by (cases i; auto simp: NewSpdkCsiSmaInitiator_def transport_defs Let_def split: sum.split)+

lemma NewOpi_iff:
  "NewSpdkCsiOpiInitiator vc tr (Some c) = Inr (OpiNvme i) \<longleftrightarrow> tr = TransportTypeNvme \<and>
     opi_volumeContext (on_opiCommon i) = vc \<and>
     nvmfRemoteControllerName (on_opiCommon i) = kv_get c ''nvmfRemoteControllerName'' \<and>
     nvmfPathName (on_opiCommon i) = kv_get c ''nvmfPathName'' \<and> subsystemName i = kv_get c ''subsystemName'' \<and>
     namespaceName i = kv_get c ''namespaceName'' \<and> nvmeControllerName i = kv_get c ''nvmeControllerName''"
  "NewSpdkCsiOpiInitiator vc tr (Some c) = Inr (OpiVirtioBlk j) \<longleftrightarrow> tr = TransportTypeVirtioBlk \<and>
     opi_volumeContext (ov_opiCommon j) = vc \<and>
     nvmfRemoteControllerName (ov_opiCommon j) = kv_get c ''nvmfRemoteControllerName'' \<and>
     nvmfPathName (ov_opiCommon j) = kv_get c ''nvmfPathName'' \<and> virtioBlkName j = kv_get c ''virtioBlkName''"
  by (cases i; cases j; cases "on_opiCommon i"; cases "ov_opiCommon j";
      auto simp: NewSpdkCsiOpiInitiator_def transport_defs Let_def)+

lemmas GetParam_defs = smaCommon_GetParam_def opiInitiatorNvme_GetParam_def opiInitiatorVirtioBlk_GetParam_def

lemma kv_ok_GetParam [simp]: "kv_ok (XpuInitiator_GetParam b)"
  by (cases b rule: xpu_backend_cases) (simp_all add: GetParam_defs del: kv_put.simps)

lemma kv_ok_xpu_context [simp]: "kv_ok (xpu_context xpu b)"
  by (simp add: xpu_context_def)

lemma xpu_context_get [simp]:
  "kv_get (xpu_context xpu b) ''devicePath'' = xpu_devicePath xpu"
  "kv_get (xpu_context xpu b) ''pfBdf'' = pfBdf (xpu_PciBdfs xpu)"
  "kv_get (xpu_context xpu b) ''vfBdf'' = vfBdf (xpu_PciBdfs xpu)"
  "kv_get (xpu_context xpu b) ''pfID'' = dec_digits (unat (pfID (xpu_PciEndpoint xpu)))"
  "kv_get (xpu_context xpu b) ''vfID'' = dec_digits (unat (vfID (xpu_PciEndpoint xpu)))"
  by (simp_all add: xpu_context_def)

text \<open>What the initiator adds to the stash does not hide what the back end put there.\<close>

lemma xpu_context_backend:
  "NewSpdkCsiSmaInitiator uuid vc tr (Some (xpu_context xpu b)) = NewSpdkCsiSmaInitiator uuid vc tr (Some (XpuInitiator_GetParam b))"
  "NewSpdkCsiOpiInitiator vc tr (Some (xpu_context xpu b)) = NewSpdkCsiOpiInitiator vc tr (Some (XpuInitiator_GetParam b))"
  by (simp_all add: NewSpdkCsiSmaInitiator_def NewSpdkCsiOpiInitiator_def xpu_context_def Let_def cong: sum.case_cong)

lemma ParseUint_dec_digits [simp]: "ucast (ParseUint_value (dec_digits (unat (n :: uint32)))) = n"
proof -
  have "unat n < 2 ^ 32" using unsigned_less [of n] by simp
  then have "unat n < 2 ^ 64" by simp
  then show ?thesis
    by (simp add: ParseUint_value_def ucast_up_ucast_id is_up)
qed

section \<open>Connecting keeps them so\<close>

lemma wp_sma_connect:
  assumes "backend_for uuid vc ti (SmaBackend s)"
  shows "go_wp (XpuInitiator_Connect env ps (SmaBackend s)) (\<lambda>_ (b', _). backend_for uuid vc ti b') (\<lambda>_ _. True)
    (SmaBackend s, w)"
  using assms
  by (cases s) (auto simp: NewSma_iff smaInitiatorNvmfTCP_Connect_def smaInitiatorNvme_Connect_def
      smaInitiatorVirtioBlk_Connect_def smaCommon_CreateDevice_def smaCommon_AttachVolume_def
      smaCommon_DeleteDevice_def smaCommon_GetParam_def sma_volume_def kv_get_def case_prod_beta'
      split: sum.split option.split)

text \<open>An OPI back end changes only the names it remembers.\<close>

lemma backend_for_opi:
  "backend_for uuid vc ti (OpiBackend (OpiNvme i)) \<longleftrightarrow> xt_Backend ti = xpuTargetBackendOpi \<and>
     xt_TrType ti = TransportTypeNvme \<and> opi_volumeContext (on_opiCommon i) = vc"
  "backend_for uuid vc ti (OpiBackend (OpiVirtioBlk j)) \<longleftrightarrow> xt_Backend ti = xpuTargetBackendOpi \<and>
     xt_TrType ti = TransportTypeVirtioBlk \<and> opi_volumeContext (ov_opiCommon j) = vc"
  by (auto simp: NewOpi_iff opiInitiatorNvme_GetParam_def opiInitiatorVirtioBlk_GetParam_def simp del: kv_put.simps)

definition obj_inv :: "('o \<Rightarrow> bool) \<Rightarrow> 'o \<times> 'w \<Rightarrow> 'o \<times> 'w \<Rightarrow> bool" where
  "obj_inv P s s' \<longleftrightarrow> (P (fst s) \<longrightarrow> P (fst s'))"

interpretation obj_inv: frame "obj_inv P" for P
  by unfold_locales (auto simp: obj_inv_def)

lemma obj_inv_prims [keeps_rules]:
  "keeps (obj_inv P) (obj_call f)" "keeps (obj_inv P) (obj_lift m)" "keeps (obj_inv P) obj_get"
  by (auto simp: keeps_def obj_inv_def obj_call_def obj_lift_def obj_get_def split: prod.split)

lemma obj_inv_modify [keeps_rules]: "(\<And>x. P x \<Longrightarrow> P (f x)) \<Longrightarrow> keeps (obj_inv P) (obj_modify f)"
  by (auto simp: keeps_def obj_inv_def obj_modify_def)

lemma obj_inv_zoom:
  assumes "keeps (obj_inv P) m" and "\<And>x. Q x \<Longrightarrow> P (get x)" and "\<And>x c. Q x \<Longrightarrow> P c \<Longrightarrow> Q (put c x)"
  shows "keeps (obj_inv Q) (go_zoom get put m)"
  using assms by (auto simp: keeps_def obj_inv_def go_zoom_def split: prod.split) (metis fst_conv snd_conv)

lemma keeps_wp:
  assumes "keeps (obj_inv P) m" and "P x"
  shows "go_wp m (\<lambda>_ (x', _). P x') (\<lambda>_ _. True) (x, w)"
proof -
  have "P (fst (snd (m (x, w))))" using assms by (auto simp: keeps_def obj_inv_def)
  then show ?thesis by (auto simp: go_wp_def split: prod.split outcome.split)
qed

lemmas opi_connect_unfolds = opiCommon_createNvmeRemoteController_def opiCommon_deleteNvmeRemoteController_def
  opiCommon_createNvmfPath_def opiCommon_deleteNvmfPath_def opiInitiatorNvme_createNvmeSubsystem_def
  opiInitiatorNvme_deleteNvmeSubsystem_def opiInitiatorNvme_createNvmeController_def
  opiInitiatorNvme_deleteNvmeController_def opiInitiatorNvme_createNvmeNamespace_def
  opiInitiatorNvme_deleteNvmeNamespace_def opiInitiatorVirtioBlk_createVirtioBlk_def
  opiInitiatorVirtioBlk_deleteVirtioBlk_def opiInitiatorNvme_cleanup_def opiInitiatorNvme_Connect_def
  opiInitiatorVirtioBlk_cleanup_def opiInitiatorVirtioBlk_Connect_def

lemma on_common_inv [keeps_rules]:
  "keeps (obj_inv (\<lambda>c. opi_volumeContext c = vc)) m \<Longrightarrow>
     keeps (obj_inv (\<lambda>i. opi_volumeContext (on_opiCommon i) = vc)) (on_common m)"
  "keeps (obj_inv (\<lambda>c. opi_volumeContext c = vc)) m \<Longrightarrow>
     keeps (obj_inv (\<lambda>i. opi_volumeContext (ov_opiCommon i) = vc)) (ov_common m)"
  unfolding on_common_def ov_common_def by (erule obj_inv_zoom; simp)+

lemma opi_connect_inv:
  "keeps (obj_inv (\<lambda>i. opi_volumeContext (on_opiCommon i) = vc)) (opiInitiatorNvme_Connect os client ps)"
  "keeps (obj_inv (\<lambda>i. opi_volumeContext (ov_opiCommon i) = vc)) (opiInitiatorVirtioBlk_Connect client ps)"
  unfolding opi_connect_unfolds Let_def by (intro keeps_rules; simp)+

lemma wp_opi_connect:
  assumes "backend_for uuid vc ti (OpiBackend s)"
  shows "go_wp (XpuInitiator_Connect env ps (OpiBackend s)) (\<lambda>_ (b', _). backend_for uuid vc ti b') (\<lambda>_ _. True)
    (OpiBackend s, w)"
proof (cases s)
  case (OpiNvme i)
  with assms show ?thesis
    unfolding XpuInitiator_Connect.simps
    by (simp add: backend_for_opi del: backend_for.simps)
      (rule go_wp_mono [OF keeps_wp [OF opi_connect_inv(1)]]; auto)
next
  case (OpiVirtioBlk j)
  with assms show ?thesis
    by (simp add: backend_for_opi del: backend_for.simps)
      (rule go_wp_mono [OF keeps_wp [OF opi_connect_inv(2)]]; auto)
qed

lemma wp_backend_connect:
  "backend_for uuid vc ti b \<Longrightarrow>
     go_wp (XpuInitiator_Connect env ps b) (\<lambda>_ (b', _). backend_for uuid vc ti b') (\<lambda>_ _. True) (b, w)"
  by (cases b) (simp_all only: wp_sma_connect wp_opi_connect)

lemma wp_on_xpu_backend_connect:
  assumes "made_for env vc conf xpu"
    and "\<And>r xpu' w'. made_for env vc conf xpu' \<Longrightarrow> Q r (xpu', w')" and "\<And>s t. E s t"
  shows "go_wp (on_xpu_backend (XpuInitiator_Connect env ps)) Q E (xpu, w)"
proof -
  from assms(1) obtain b where b: "xpu_backend xpu = Some b"
    and "backend_for (xe_uuid_Parse env) vc (xpu_targetInfo xpu) b"
    by (auto simp: made_for_def)
  moreover from this have "made_for env vc conf (xpu\<lparr>xpu_backend := Some b'\<rparr>)"
    if "backend_for (xe_uuid_Parse env) vc (xpu_targetInfo xpu) b'" for b'
    using assms(1) that by (simp add: made_for_def)
  ultimately show ?thesis
    by simp (rule go_wp_mono [OF wp_backend_connect]; auto intro: assms(2,3))
qed

lemma wp_lift: "(\<And>x w'. Q x (o1, w')) \<Longrightarrow> (\<And>s t. E s t) \<Longrightarrow> go_wp (obj_lift m) Q E (o1, w)"
  by simp (rule wp_any; simp)

lemma wp_undo: "(\<And>x s. Q x s) \<Longrightarrow> (\<And>s t. E s t) \<Longrightarrow> go_wp (xpu_undo env) Q E s"
  by (rule wp_any) simp_all

definition connected_as :: "'w xpu_env \<Rightarrow> kvs \<Rightarrow> XpuConfig \<Rightarrow> string \<times> err \<Rightarrow> xpuInitiator \<times> 'w \<Rightarrow> bool" where
  "connected_as env vc conf r s \<longleftrightarrow> (snd r = None \<longrightarrow> made_for env vc conf (fst s))"

lemma connected_as_simps [simp]:
  "connected_as env vc conf (d, Some e) s" "connected_as env vc conf (d, None) (xpu, w) = made_for env vc conf xpu"
  by (simp_all add: connected_as_def)

lemma made_for_update [simp]:
  "made_for env vc conf (xpu\<lparr>xpu_devicePath := d\<rparr>) = made_for env vc conf xpu"
  "made_for env vc conf (xpu\<lparr>xpu_PciEndpoint := pe\<rparr>) = made_for env vc conf xpu"
  "made_for env vc conf (xpu\<lparr>xpu_PciBdfs := bdfs\<rparr>) = made_for env vc conf xpu"
  by (simp_all add: made_for_def)

lemmas xpu_steps = wp_on_xpu_backend_connect wp_undo wp_lift
lemmas xpu_opaque = go_wp_on_xpu_backend go_wp_obj_lift

lemma wp_ConnectNvmfTCP:
  "made_for env vc conf xpu \<Longrightarrow>
     go_wp (xpuInitiator_ConnectNvmfTCP env) (connected_as env vc conf) (\<lambda>_ _. True) (xpu, w)"
  unfolding xpuInitiator_ConnectNvmfTCP_def
  by (auto intro!: xpu_steps simp: connected_as_def simp del: xpu_opaque split: prod.split)

lemma wp_ConnectVirtioBlk:
  "made_for env vc conf xpu \<Longrightarrow>
     go_wp (xpuInitiator_ConnectVirtioBlk env) (connected_as env vc conf) (\<lambda>_ _. True) (xpu, w)"
  unfolding xpuInitiator_ConnectVirtioBlk_def with_phyIDLock_def
  by (auto intro!: xpu_steps simp: connected_as_def simp del: xpu_opaque split: prod.split option.split)

lemma wp_ConnectNvme:
  "made_for env vc conf xpu \<Longrightarrow>
     go_wp (xpuInitiator_ConnectNvme env) (connected_as env vc conf) (\<lambda>_ _. True) (xpu, w)"
  unfolding xpuInitiator_ConnectNvme_def with_phyIDLock_def xpuInitiator_updateNvmeFilesForConnect_def
  by (auto intro!: xpu_steps simp: connected_as_def simp del: xpu_opaque split: prod.split option.split)

section \<open>The stash and the way back\<close>

definition xpu_stash :: "kvs \<Rightarrow> string" where
  "xpu_stash vc = filepath_Join (kv_get vc ''stagingParentPath'') xpuContextFileName"

context host_contract
begin

lemma wp_saveXpuContext:
  assumes "xpu_backend xpu = Some b" and "xpu_volumeContext xpu = vc"
    and "\<And>w'. hv_file (V w') (xpu_stash vc) = Some (kv_marshal (Some (xpu_context xpu b))) \<Longrightarrow> Q None (xpu, w')"
    and "\<And>e w'. Q (Some e) (xpu, w')"
  shows "go_wp (xpuInitiator_saveXpuContext env) Q E (xpu, w)"
proof -
  define d where "d = kv_get vc ''stagingParentPath''"
  define f where "f = filepath_Join d xpuContextFileName"
  define c where "c = kv_marshal (Some (xpu_context xpu b))"
  define w1 where "w1 = snd (os_Stat (xe_os env) d w)"
  obtain em w2 where m: "os_MkdirAll (xe_os env) d w1 = (em, w2)" by fastforce
  obtain e3 w3 where s3: "os_WriteFile (xe_os env) f c w2 = (e3, w3)" by fastforce
  obtain e4 w4 where s4: "os_WriteFile (xe_os env) f c w1 = (e4, w4)" by fastforce
  have "e3 = None \<Longrightarrow> Q None (xpu, w3)" and "e4 = None \<Longrightarrow> Q None (xpu, w4)"
    using write_file [OF s3] write_file [OF s4] assms(3)
    by (auto simp: xpu_stash_def f_def d_def c_def)
  with assms(1,2,4) m s3 s4 show ?thesis
    by (auto simp: xpuInitiator_saveXpuContext_def StashXPUContext_def stashContext_def xpu_vc_def Let_def
        d_def [symmetric] f_def [symmetric] w1_def [symmetric] c_def xpu_context_def split: option.split)
qed

text \<open>A successful connect leaves an initiator of the same volume and its description in the stash.\<close>

lemma wp_xpu_Connect:
  assumes "made_for env vc conf xpu"
  shows "go_wp (xpuInitiator_Connect env) (\<lambda>(_, err) (xpu', w'). err = None \<longrightarrow> made_for env vc conf xpu' \<and>
      (\<exists>b. xpu_backend xpu' = Some b \<and>
        hv_file (V w') (xpu_stash vc) = Some (kv_marshal (Some (xpu_context xpu' b))))) (\<lambda>_ _. True) (xpu, w)"
proof -
  note connect = wp_ConnectNvmfTCP [OF assms] wp_ConnectVirtioBlk [OF assms] wp_ConnectNvme [OF assms]
  show ?thesis
    unfolding xpuInitiator_Connect_def Let_def
    by (auto intro!: go_wp_mono [OF connect(1)] go_wp_mono [OF connect(2)] go_wp_mono [OF connect(3)]
        wp_saveXpuContext simp: connected_as_def made_for_def split: option.split)
qed

end

text \<open>What a constructor has made from any stash, the parameters it has then describe.\<close>

lemma New_again:
  "NewSpdkCsiSmaInitiator uuid vc tr st = Inr s \<Longrightarrow>
     NewSpdkCsiSmaInitiator uuid vc tr (Some (XpuInitiator_GetParam (SmaBackend s))) = Inr s"
  "NewSpdkCsiOpiInitiator vc tr st = Inr q \<Longrightarrow>
     NewSpdkCsiOpiInitiator vc tr (Some (XpuInitiator_GetParam (OpiBackend q))) = Inr q"
  by (auto simp: NewSpdkCsiSmaInitiator_def NewSpdkCsiOpiInitiator_def transport_defs GetParam_defs Let_def
      simp del: kv_put.simps split: sum.splits if_splits)

lemma NewXpu_made:
  assumes "NewSpdkCsiXpuInitiator env vc conf w = (Ret (Inr xpu), w')"
  shows "made_for env vc conf xpu"
proof -
  have "go_wp (NewSpdkCsiXpuInitiator env vc conf) (\<lambda>r w'. \<forall>xpu. r = Inr xpu \<longrightarrow> made_for env vc conf xpu) (\<lambda>_ _. True) w"
    unfolding NewSpdkCsiXpuInitiator_def xpuInitiator_tryGetXpuContext_def
    by (auto intro!: wp_lift simp: made_for_def Let_def simp del: go_wp_obj_lift split: sum.split dest: New_again)
  with assms show ?thesis by (simp add: go_wp_def)
qed

context host_contract
begin

lemma NewXpu_recovers:
  assumes made: "made_for env vc conf xpu" and b: "xpu_backend xpu = Some b"
    and stash: "hv_file (V w) (xpu_stash vc) = Some (kv_marshal (Some (xpu_context xpu b)))"
    and read: "os_ReadFile (xe_os env) (xpu_stash vc) w = (Inr c, w')"
  shows "NewSpdkCsiXpuInitiator env vc conf w = (Ret (Inr xpu), w')"
proof -
  from read_file [OF read] stash have c: "c = kv_marshal (Some (xpu_context xpu b))" by simp
  have "go_wp (NewSpdkCsiXpuInitiator env vc conf) (\<lambda>r s. r = Inr xpu \<and> s = w') (\<lambda>_ _. False) w"
    using made b unfolding NewSpdkCsiXpuInitiator_def xpuInitiator_tryGetXpuContext_def
    by (cases b) (auto simp: made_for_def xpu_vc_def LookupXPUContext_def lookupContext_def xpu_stash_def [symmetric]
        read c xpu_context_backend xpuTargetBackendSma_def xpuTargetBackendOpi_def Let_def
        intro!: xpuInitiator.equality)
  then show ?thesis by (auto dest: go_wp_runD)
qed

end

section \<open>A concrete restart\<close>

definition demo_vc :: kvs where
  "demo_vc = [(''model'', ''v1''), (''stagingParentPath'', ''/st'')]"

definition demo_conf :: XpuConfig where
  "demo_conf = \<lparr>xc_Name = ''n1'', xc_TargetType = ''xpu-sma-nvmftcp'', xc_TargetAddr = ''10.0.0.9:5114'', xc_PciIDs = KvmPciBridgeIDs\<rparr>"

definition demo_host :: simhost where
  "demo_host = \<lparr>sh_view = \<lparr>hv_mount = Map.empty, hv_file = Map.empty, hv_dir = {}\<rparr>, sh_attached = [],
     sh_clock = 0, sh_stuck = False, sh_xpu = {}, sh_script = []\<rparr>"

definition demo_xpu :: "string \<Rightarrow> string \<Rightarrow> xpuInitiator" where
  "demo_xpu handle dev = \<lparr>xpu_backend = Some (SmaBackend (SmaNvmfTCP
       \<lparr>sma_volumeContext = demo_vc, sma_deviceHandle = handle, sma_volumeID = Some ''v1''\<rparr>)),
     xpu_targetInfo = \<lparr>xt_Backend = ''sma'', xt_TrType = ''nvmftcp''\<rparr>, xpu_volumeContext = demo_vc,
     xpu_xpuConfig = demo_conf, xpu_timeout = 60, xpu_devicePath = dev,
     xpu_PciEndpoint = zero_PciEndpoint, xpu_PciBdfs = zero_PciBdfs\<rparr>"

definition connected_host :: simhost where
  "connected_host = \<lparr>sh_view = \<lparr>hv_mount = Map.empty, hv_file = [''/st/xpu-context.json'' \<mapsto>
       kv_marshal (Some (xpu_context (demo_xpu ''dev'' sim_device) (the (xpu_backend (demo_xpu ''dev'' sim_device)))))],
     hv_dir = {''/st''}\<rparr>, sh_attached = [xpuNvmfTCPSubNqnPref @ ''v1''],
     sh_clock = 0, sh_stuck = False,
     sh_xpu = {SmaDevice ''dev'', SmaAttachment (Some ''v1'') ''dev''}, sh_script = []\<rparr>"

lemma demo_xpu_stash: "filepath_Join ''/st'' xpuContextFileName = ''/st/xpu-context.json''"
  by (simp add: filepath_Join_def filepath_Clean_def xpuContextFileName_def Let_def)

lemma demo_new_run: "NewSpdkCsiXpuInitiator sim_env demo_vc demo_conf demo_host = (Ret (Inr (demo_xpu [] [])), demo_host)"
  by (simp add: NewSpdkCsiXpuInitiator_def demo_conf_def demo_vc_def demo_xpu_def parseSpdkXpuTargetType_def
      xpuInitiator_tryGetXpuContext_def go_with_def go_bind_def go_return_def go_call_def obj_get_def obj_lift_def xpu_vc_def kv_get_def
      LookupXPUContext_def lookupContext_def demo_xpu_stash demo_host_def NewSpdkCsiSmaInitiator_def volumeUUID_def
      xpuTargetBackendSma_def transport_defs sim_env_def Let_def)

lemma demo_xpu_connect_run:
  "xpuInitiator_Connect sim_env (demo_xpu [] [], demo_host) =
     (Ret (sim_device, None), demo_xpu ''dev'' sim_device, connected_host)"
proof -
  have "xpuInitiator_ConnectNvmfTCP sim_env (demo_xpu [] [], demo_host) =
     (Ret (sim_device, None), demo_xpu ''dev'' sim_device, connected_host\<lparr>sh_view := sh_view demo_host\<rparr>)"
    by (simp add: xpuInitiator_ConnectNvmfTCP_def demo_xpu_def demo_host_def connected_host_def
      go_bind_def go_return_def go_call_def obj_get_def obj_lift_def obj_call_def obj_modify_def on_xpu_backend_def
      on_backend_def smaInitiatorNvmfTCP_Connect_def smaCommon_CreateDevice_def smaCommon_AttachVolume_def
      sma_volume_def sim_sma_def sim_turn_def newInitiatorNVMf_def initiatorNVMf_Connect_def execWithTimeout_def
      waitForDeviceReady_def initiatorNVMf_glob_def sim_exec_def xpu_vc_def kv_get_def demo_vc_def sim_glob_def
      numeral_eq_Suc insert_commute)
  moreover have "xpuInitiator_saveXpuContext sim_env
      (demo_xpu ''dev'' sim_device, connected_host\<lparr>sh_view := sh_view demo_host\<rparr>) =
    (Ret None, demo_xpu ''dev'' sim_device, connected_host)"
    by (simp add: xpuInitiator_saveXpuContext_def demo_xpu_def demo_host_def connected_host_def xpu_context_def
      go_bind_def go_return_def go_call_def obj_get_def obj_lift_def xpu_vc_def kv_get_def demo_vc_def demo_xpu_stash
      StashXPUContext_def stashContext_def Let_def)
  ultimately show ?thesis
    by (simp add: xpuInitiator_Connect_def go_bind_def go_return_def obj_get_def transport_defs Let_def)
      (simp add: demo_xpu_def go_bind_def go_return_def)
qed

text \<open>
  C14: Restart of the driver: when an xPU initiator has connected with success, a new initiator
  made from the same volume context and configuration, with a readable stash, is equal to the old
  one, its back end with all the names it remembers included.
\<close>

theorem NewSpdkCsiXpuInitiator_recovers:
  assumes host: "host_contract env mnt V"
    and made: "NewSpdkCsiXpuInitiator env vc conf w0 = (Ret (Inr xpu0), w1)"
    and connected: "xpuInitiator_Connect env (xpu0, w2) = (Ret (devicePath, None), xpu, w3)"
    and same: "hv_file (V w4) = hv_file (V w3)"
    and read: "os_ReadFile (xe_os env) (xpu_stash vc) w4 = (Inr c, w5)"
  shows "NewSpdkCsiXpuInitiator env vc conf w4 = (Ret (Inr xpu), w5)"
proof -
  have "made_for env vc conf xpu \<and> (\<exists>b. xpu_backend xpu = Some b \<and>
      hv_file (V w3) (xpu_stash vc) = Some (kv_marshal (Some (xpu_context xpu b))))"
    using host_contract.wp_xpu_Connect [OF host NewXpu_made [OF made], of w2] connected
    by (simp add: go_wp_def)
  then show ?thesis
    using host_contract.NewXpu_recovers [OF host _ _ _ read] same by auto
qed

theorem NewSpdkCsiXpuInitiator_recovers_witness:
  "xpuInitiator_Connect sim_env (demo_xpu [] [], demo_host) =
     (Ret (sim_device, None), demo_xpu ''dev'' sim_device, connected_host) \<and>
   NewSpdkCsiXpuInitiator sim_env demo_vc demo_conf connected_host =
     (Ret (Inr (demo_xpu ''dev'' sim_device)), connected_host)"
proof -
  have "os_ReadFile (xe_os sim_env) (xpu_stash demo_vc) connected_host = (Inr (the (hv_file (sh_view connected_host) ''/st/xpu-context.json'')), connected_host)"
    by (simp add: xpu_stash_def demo_vc_def kv_get_def demo_xpu_stash connected_host_def)
  from NewSpdkCsiXpuInitiator_recovers [OF sim.host_contract_axioms demo_new_run demo_xpu_connect_run refl this] demo_xpu_connect_run
  show ?thesis by simp
qed

end
