(* ===== verification/Go_Process.thy ===== *)
theory Go_Process
  imports Go_Prelude
begin

text \<open>
  The goroutines of a process over a shared state. A goroutine is a program of atomic pieces: a piece
  runs as a function of the state and says how the goroutine goes on, or ends the process with a
  panic (\<open>klog.Fatal\<close> is one); between two pieces every other goroutine, and the environment, may
  run. A goroutine can wait for a condition, start another one, and end the process by \<open>os.Exit\<close>.
\<close>

datatype 's prog =
    Done
  | Do "'s \<Rightarrow> 's prog outcome \<times> 's"
  | Await "'s \<Rightarrow> bool" "'s prog"
  | Spawn "'s prog" "'s prog"
  | OsExit nat

text \<open>One piece of a goroutine: what is left of it, what it has started and the new state.\<close>

datatype 's piece = Blocked | Next "'s prog" "'s prog list" 's | Fatal string | Exits nat

definition run_piece :: "'s prog \<Rightarrow> 's \<Rightarrow> 's piece" where
  "run_piece p s = (case p of
     Done \<Rightarrow> Blocked
   | Do f \<Rightarrow> (case f s of (Ret p', s') \<Rightarrow> Next p' [] s' | (Panic msg, _) \<Rightarrow> Fatal msg)
   | Await c p' \<Rightarrow> if c s then Next p' [] s else Blocked
   | Spawn q p' \<Rightarrow> Next p' [q] s
   | OsExit n \<Rightarrow> Exits n)"

text \<open>
  The process: its goroutines, the main one first, and the state; or its end. It ends with status 0
  when the main goroutine returns, whatever the others do.
\<close>

datatype 's process = Live "'s prog list" 's | Crashed string | Exited nat

inductive process_step :: "('s \<Rightarrow> 's \<Rightarrow> bool) \<Rightarrow> 's process \<Rightarrow> 's process \<Rightarrow> bool" for env where
  run: "i < length ts \<Longrightarrow> run_piece (ts ! i) s = Next p new s' \<Longrightarrow> process_step env (Live ts s) (Live (ts[i := p] @ new) s')"
| crash: "t \<in> set ts \<Longrightarrow> run_piece t s = Fatal msg \<Longrightarrow> process_step env (Live ts s) (Crashed msg)"
| exit: "t \<in> set ts \<Longrightarrow> run_piece t s = Exits n \<Longrightarrow> process_step env (Live ts s) (Exited n)"
| main_returns: "process_step env (Live (Done # ts) s) (Exited 0)"
| outside: "env s s' \<Longrightarrow> process_step env (Live ts s) (Live ts s')"

inductive_cases process_stepE: "process_step env (Live ts s) P"

inductive_simps process_step_ended [simp]: "process_step env (Crashed msg) P" "process_step env (Exited n) P"

lemma run_piece_simps [simp]:
  "run_piece Done s = Blocked"
  "run_piece (Await c p) s = (if c s then Next p [] s else Blocked)"
  "run_piece (Spawn q p) s = Next p [q] s"
  "run_piece (OsExit n) s = Exits n"
  by (simp_all add: run_piece_def)

lemma run_piece_Next: "run_piece (Do f) s = Next p new s' \<longleftrightarrow> f s = (Ret p, s') \<and> new = []"
  by (auto simp: run_piece_def split: prod.split outcome.split)

lemma run_piece_not_Exits [simp]: "run_piece (Do f) s \<noteq> Exits n" "run_piece (Do f) s \<noteq> Blocked"
  by (auto simp: run_piece_def split: prod.split outcome.split)

end
