(* ===== verification/Driver_Run.thy ===== *)
theory Driver_Run
  imports Node_Server Controller Go_Process
begin

text \<open>
  The process: \<open>Run\<close> of \<open>pkg/spdk/driver.go\<close> and the non-blocking gRPC server of
  \<open>pkg/csi-common/server.go\<close>, as programs of goroutines. \<open>klog.Fatal\<close> ends the process: it is the
  abnormal outcome. Listening, serving and stopping are calls of the network and gRPC libraries, and
  parameters.
\<close>

section \<open>The gRPC server\<close>

text \<open>
  An interface value is nil, or holds a pointer of some type, which itself may be nil: such a value
  compares unequal to nil.
\<close>

datatype 'a iface = NilInterface | Interface "'a option"

datatype service = IdentityService | ControllerService | NodeService

record 'w net =
  net_Listen :: "string \<Rightarrow> string \<Rightarrow> ('w, err) sys"
  grpc_Serve :: "service list \<Rightarrow> ('w, err) sys"
  grpc_GracefulStop :: "('w, unit) sys"
  grpc_Stop :: "('w, unit) sys"

definition klog_Fatal :: "string \<Rightarrow> ('w, 'a) go" where
  "klog_Fatal msg = go_panic (''fatal: '' @ msg)"

text \<open>\<open>logGRPC\<close> logs the request and the response around the handler, with their secrets stripped.\<close>

definition logGRPC :: "('req \<Rightarrow> ('w, 'resp \<times> err) go) \<Rightarrow> 'req \<Rightarrow> ('w, 'resp \<times> err) go" where
  "logGRPC handler req = go_bind (handler req) (\<lambda>(resp, err). go_return (resp, err))"

definition registered :: "'a iface \<Rightarrow> 'b iface \<Rightarrow> 'c iface \<Rightarrow> service list" where
  "registered ids cs ns =
     (if ids = NilInterface then [] else [IdentityService]) @
     (if cs = NilInterface then [] else [ControllerService]) @
     (if ns = NilInterface then [] else [NodeService])"

text \<open>
  The server object: the counter of its wait group, and the gRPC server, with the services that are
  registered in it, once there is one.
\<close>

record grpc_server =
  gs_wg :: nat
  gs_server :: "service list option"

definition NewNonBlockingGRPCServer :: grpc_server where
  "NewNonBlockingGRPCServer = \<lparr>gs_wg = 0, gs_server = None\<rparr>"

definition grpc_set_server :: "service list \<Rightarrow> (grpc_server \<times> 'w, unit) go" where
  "grpc_set_server services = obj_modify (\<lambda>s. s\<lparr>gs_server := Some services\<rparr>)"

definition grpc_wg_Add :: "nat \<Rightarrow> (grpc_server \<times> 'w, unit) go" where
  "grpc_wg_Add n = obj_modify (\<lambda>s. s\<lparr>gs_wg := gs_wg s + n\<rparr>)"

text \<open>
  \<open>serve\<close> in two pieces: up to the call of \<open>Serve\<close>, and this call with what follows, which is nothing
  when it returns without an error.
\<close>

definition nonBlockingGRPCServer_listen ::
  "'w os \<Rightarrow> 'w net \<Rightarrow> string \<Rightarrow> 'a iface \<Rightarrow> 'b iface \<Rightarrow> 'c iface \<Rightarrow> (grpc_server \<times> 'w, service list) go" where
  "nonBlockingGRPCServer_listen os net endpoint ids cs ns =
     (case parseEndpoint endpoint of
        (_, Some e) \<Rightarrow> klog_Fatal (err_Error e)
      | ((proto, addr), None) \<Rightarrow>
          (let listen = (\<lambda>addr.
             go_bind (obj_call (net_Listen net proto addr)) (\<lambda>err. case err of
               Some e \<Rightarrow> klog_Fatal (''Failed to listen: '' @ err_Error e)
             | None \<Rightarrow> let server = registered ids cs ns in
                 go_bind (grpc_set_server server) (\<lambda>_. go_return server)))
           in if proto = ''unix''
              then (let addr = CHR ''/'' # addr in
                go_bind (obj_call (os_Remove os addr)) (\<lambda>err. case err of
                  None \<Rightarrow> listen addr
                | Some e \<Rightarrow> if os_IsNotExist (Some e) then listen addr
                    else klog_Fatal (''Failed to remove '' @ addr @ '', error: '' @ err_Error e)))
              else listen addr))"

definition nonBlockingGRPCServer_accept :: "'w net \<Rightarrow> service list \<Rightarrow> (grpc_server \<times> 'w, unit) go" where
  "nonBlockingGRPCServer_accept net server =
     go_bind (obj_call (grpc_Serve net server)) (\<lambda>err. case err of
       Some e \<Rightarrow> klog_Fatal (''Failed to start GRPC server: '' @ err_Error e)
     | None \<Rightarrow> go_return ())"

definition nonBlockingGRPCServer_serve ::
  "'w os \<Rightarrow> 'w net \<Rightarrow> string \<Rightarrow> 'a iface \<Rightarrow> 'b iface \<Rightarrow> 'c iface \<Rightarrow> (grpc_server \<times> 'w) prog" where
  "nonBlockingGRPCServer_serve os net endpoint ids cs ns =
     Do (go_bind (nonBlockingGRPCServer_listen os net endpoint ids cs ns) (\<lambda>server.
       go_return (Do (go_bind (nonBlockingGRPCServer_accept net server) (\<lambda>_. go_return Done)))))"

text \<open>
  \<open>Start\<close> adds one to the wait group and starts the goroutine; \<open>Wait\<close> returns when the counter is 0;
  \<open>k\<close> is what the caller does next. Stopping a server that is not there yet dereferences nil.
\<close>

definition grpc_server_Start ::
  "'w os \<Rightarrow> 'w net \<Rightarrow> string \<Rightarrow> 'a iface \<Rightarrow> 'b iface \<Rightarrow> 'c iface \<Rightarrow> (grpc_server \<times> 'w) prog \<Rightarrow> (grpc_server \<times> 'w) prog" where
  "grpc_server_Start os net endpoint ids cs ns k =
     Do (go_bind (grpc_wg_Add 1) (\<lambda>_. go_return (Spawn (nonBlockingGRPCServer_serve os net endpoint ids cs ns) k)))"

definition grpc_server_Wait :: "(grpc_server \<times> 'w) prog \<Rightarrow> (grpc_server \<times> 'w) prog" where
  "grpc_server_Wait k = Await (\<lambda>(s, w). gs_wg s = 0) k"

definition grpc_server_Stop :: "'w net \<Rightarrow> (grpc_server \<times> 'w, unit) go" where
  "grpc_server_Stop net = (\<lambda>(s, w). (if gs_server s = None then go_panic nil_deref
     else obj_call (grpc_GracefulStop net)) (s, w))"

definition grpc_server_ForceStop :: "'w net \<Rightarrow> (grpc_server \<times> 'w, unit) go" where
  "grpc_server_ForceStop net = (\<lambda>(s, w). (if gs_server s = None then go_panic nil_deref
     else obj_call (grpc_Stop net)) (s, w))"

text \<open>What else happens to the state: the world changes (requests are served), the server is stopped.\<close>

inductive grpc_env :: "'w net \<Rightarrow> grpc_server \<times> 'w \<Rightarrow> grpc_server \<times> 'w \<Rightarrow> bool" for net where
  world: "grpc_env net (s, w) (s, w')"
| stop: "grpc_server_Stop net (s, w) = (Ret (), t) \<Longrightarrow> grpc_env net (s, w) t"
| force_stop: "grpc_server_ForceStop net (s, w) = (Ret (), t) \<Longrightarrow> grpc_env net (s, w) t"

section \<open>The driver\<close>

record Config =
  DriverName :: string
  DriverVersion :: string
  Endpoint :: string
  NodeID :: string
  IsControllerServer :: bool
  IsNodeServer :: bool

definition main_defaults :: Config where
  "main_defaults = \<lparr>DriverName = ''csi.spdk.io'', DriverVersion = ''0.1.0'',
     Endpoint = ''unix://tmp/spdkcsi.sock'', NodeID = [], IsControllerServer = False, IsNodeServer = False\<rparr>"

text \<open>The controller's configuration file, as \<open>NewCSIControllerConfig\<close> finds and reads it.\<close>

definition read_config :: "'w os \<Rightarrow> string \<Rightarrow> string \<Rightarrow> ('w, go_error + string) go" where
  "read_config os env def =
     go_bind (FromEnv os env def) (\<lambda>configFile.
     go_bind (go_call (os_Open os configFile)) (\<lambda>err. case err of
       Some e \<Rightarrow> go_return (Inl e)
     | None \<Rightarrow> go_call (io_ReadAll os configFile)))"

definition newIdentityServer :: "CSIDriver \<Rightarrow> CSIDriver" where
  "newIdentityServer d = d"

text \<open>
  \<open>Run\<close> up to the start of the server: the endpoint and the three interface values that \<open>Start\<close> is
  called with. The variables \<open>cs\<close> and \<open>ns\<close> are pointers, nil when the service is not configured.
\<close>

definition Run_setup ::
  "'w os \<Rightarrow> (string \<Rightarrow> ('w, err) sys) \<Rightarrow> Config \<Rightarrow>
     ('w, string \<times> CSIDriver iface \<times> (controllerServer \<times> VolumeLocks) iface \<times> (nodeServer \<times> VolumeLocks) iface) go" where
  "Run_setup os grpc_Dial conf =
     (case NewCSIDriver (DriverName conf) (DriverVersion conf) (NodeID conf) of
        None \<Rightarrow> klog_Fatal ''Failed to initialize CSI Driver.''
      | Some cd \<Rightarrow>
          (let cd = (if IsControllerServer conf
                     then fst (CSIDriver_AddVolumeCapabilityAccessModes
                            (CSIDriver_AddControllerServiceCapabilities cd [CREATE_DELETE_VOLUME, CREATE_DELETE_SNAPSHOT])
                            [SINGLE_NODE_WRITER])
                     else cd);
               ids = newIdentityServer cd
           in go_bind (if IsNodeServer conf
                then go_bind (newNodeServer os grpc_Dial cd) (\<lambda>res. case res of
                  Inl e \<Rightarrow> klog_Fatal (''failed to create node server: '' @ err_Error e)
                | Inr ns \<Rightarrow> go_return (Some ns))
                else go_return None) (\<lambda>ns.
              go_bind (if IsControllerServer conf
                then go_bind (read_config os ''SPDKCSI_CONFIG'' ''/etc/spdkcsi-config/config.json'') (\<lambda>file.
                  case newControllerServer cd file of
                    Inl e \<Rightarrow> klog_Fatal (''failed to create controller server: '' @ err_Error e)
                  | Inr cs \<Rightarrow> go_return (Some cs))
                else go_return None) (\<lambda>cs.
              go_return (Endpoint conf, Interface (Some ids), Interface cs, Interface ns)))))"

text \<open>\<open>Run\<close>: the main goroutine starts the server's and waits; \<open>k\<close> is what follows its return.\<close>

definition Run ::
  "'w os \<Rightarrow> 'w net \<Rightarrow> (string \<Rightarrow> ('w, err) sys) \<Rightarrow> Config \<Rightarrow> (grpc_server \<times> 'w) prog \<Rightarrow> (grpc_server \<times> 'w) prog" where
  "Run os net grpc_Dial conf k =
     Do (go_bind (obj_lift (Run_setup os grpc_Dial conf)) (\<lambda>(endpoint, ids, cs, ns).
         go_bind (obj_modify (\<lambda>_. NewNonBlockingGRPCServer)) (\<lambda>_.
         go_return (grpc_server_Start os net endpoint ids cs ns (grpc_server_Wait k)))))"

end
