(* ===== verification/Cmd_Main.thy ===== *)
theory Cmd_Main
  imports Driver_Run
begin

text \<open>
  The process of \<open>cmd/main.go\<close>: the flags of the driver, the command line as the standard package
  \<open>flag\<close> reads it, and \<open>main\<close>. The flags of the logger are a parameter; their names and the way they
  take values are all that is used of them.
\<close>

section \<open>Flags\<close>

datatype flag_value = StringVar "string \<Rightarrow> Config \<Rightarrow> Config" | BoolVar "bool \<Rightarrow> Config \<Rightarrow> Config"

record 'w klog_flags =
  kl_names :: "string list"
  kl_IsBoolFlag :: "string \<Rightarrow> bool"
  kl_Set :: "string \<Rightarrow> string \<Rightarrow> ('w, err) sys"

text \<open>The flags that \<open>init\<close> registers.\<close>

definition conf_flags :: "(string \<times> flag_value) list" where
  "conf_flags =
     [(''drivername'', StringVar (\<lambda>s conf. conf\<lparr>DriverName := s\<rparr>)),
      (''endpoint'', StringVar (\<lambda>s conf. conf\<lparr>Endpoint := s\<rparr>)),
      (''nodeid'', StringVar (\<lambda>s conf. conf\<lparr>NodeID := s\<rparr>)),
      (''controller'', BoolVar (\<lambda>b conf. conf\<lparr>IsControllerServer := b\<rparr>)),
      (''node'', BoolVar (\<lambda>b conf. conf\<lparr>IsNodeServer := b\<rparr>))]"

text \<open>\<open>strconv.ParseBool\<close>.\<close>

definition strconv_ParseBool :: "string \<Rightarrow> bool option" where
  "strconv_ParseBool s =
     (if s \<in> {''1'', ''t'', ''T'', ''true'', ''TRUE'', ''True''} then Some True
      else if s \<in> {''0'', ''f'', ''F'', ''false'', ''FALSE'', ''False''} then Some False
      else None)"

text \<open>\<open>Value.Set\<close> of a flag: \<open>None\<close> when the value is refused.\<close>

definition flag_Set :: "'w klog_flags \<Rightarrow> string \<Rightarrow> string \<Rightarrow> Config \<Rightarrow> ('w, Config option) go" where
  "flag_Set klog name value conf = (case map_of conf_flags name of
     Some (StringVar f) \<Rightarrow> go_return (Some (f value conf))
   | Some (BoolVar f) \<Rightarrow> go_return (map_option (\<lambda>b. f b conf) (strconv_ParseBool value))
   | None \<Rightarrow> go_bind (go_call (kl_Set klog name value)) (\<lambda>err.
       go_return (if err = None then Some conf else None)))"

definition flag_defined :: "'w klog_flags \<Rightarrow> string \<Rightarrow> bool" where
  "flag_defined klog name \<longleftrightarrow> map_of conf_flags name \<noteq> None \<or> name \<in> set (kl_names klog)"

definition flag_IsBoolFlag :: "'w klog_flags \<Rightarrow> string \<Rightarrow> bool" where
  "flag_IsBoolFlag klog name = (case map_of conf_flags name of
     Some (StringVar _) \<Rightarrow> False | Some (BoolVar _) \<Rightarrow> True | None \<Rightarrow> kl_IsBoolFlag klog name)"

text \<open>The name and the value in \<open>name=value\<close>; the equals sign is not looked for at the first character.\<close>

definition flag_split :: "string \<Rightarrow> string \<times> string option" where
  "flag_split s = (let name = take 1 s @ takeWhile (\<lambda>c. c \<noteq> CHR ''='') (drop 1 s) in
     (name, if length name < length s then Some (drop (length name + 1) s) else None))"

text \<open>
  \<open>flag.Parse\<close> with \<open>ExitOnError\<close>: the configuration, or the status the process exits with. The first
  argument that is not a flag, and \<open>--\<close>, end the flags.
\<close>

fun flag_Parse :: "'w klog_flags \<Rightarrow> string list \<Rightarrow> Config \<Rightarrow> ('w, nat + Config) go" where
  "flag_Parse klog [] conf = go_return (Inr conf)"
| "flag_Parse klog (s # args) conf =
     (if length s < 2 \<or> hd s \<noteq> CHR ''-'' \<or> s = ''--'' then go_return (Inr conf)
      else let name = (if s ! 1 = CHR ''-'' then drop 2 s else drop 1 s) in
        if name = [] \<or> hd name = CHR ''-'' \<or> hd name = CHR ''='' then go_return (Inl 2)
        else case flag_split name of (name, value) \<Rightarrow>
          if \<not> flag_defined klog name
          then go_return (Inl (if name = ''help'' \<or> name = ''h'' then 0 else 2))
          else if flag_IsBoolFlag klog name
          then go_bind (flag_Set klog name (case value of Some v \<Rightarrow> v | None \<Rightarrow> ''true'') conf) (\<lambda>r. case r of
                 None \<Rightarrow> go_return (Inl 2) | Some conf \<Rightarrow> flag_Parse klog args conf)
          else (case value of
              Some v \<Rightarrow> go_bind (flag_Set klog name v conf) (\<lambda>r. case r of
                None \<Rightarrow> go_return (Inl 2) | Some conf \<Rightarrow> flag_Parse klog args conf)
            | None \<Rightarrow> (case args of
                [] \<Rightarrow> go_return (Inl 2)
              | v # args' \<Rightarrow> go_bind (flag_Set klog name v conf) (\<lambda>r. case r of
                  None \<Rightarrow> go_return (Inl 2) | Some conf \<Rightarrow> flag_Parse klog args' conf))))"

section \<open>The process\<close>

text \<open>
  \<open>init\<close>: registering a name twice panics; \<open>flag.Set\<close> of the logger's flag may fail, on which
  \<open>klog.Exitf\<close> ends the process with status 1.
\<close>

definition main_init :: "'w klog_flags \<Rightarrow> string list \<Rightarrow> ('w, nat + Config) go" where
  "main_init klog args =
     (case find (\<lambda>name. map_of conf_flags name \<noteq> None) (kl_names klog) of
        Some name \<Rightarrow> go_panic (''flag redefined: '' @ name)
      | None \<Rightarrow>
          if ''logtostderr'' \<notin> set (kl_names klog) then go_return (Inl 1)
          else go_bind (go_call (kl_Set klog ''logtostderr'' ''true'')) (\<lambda>err. case err of
            Some _ \<Rightarrow> go_return (Inl 1)
          | None \<Rightarrow> flag_Parse klog args main_defaults))"

text \<open>
  The program: \<open>init\<close> on the arguments after the program name, which may end it with a status, then
  \<open>main\<close>, which exits with status 0 when \<open>Run\<close> has returned.
\<close>

definition main ::
  "'w os \<Rightarrow> 'w net \<Rightarrow> (string \<Rightarrow> ('w, err) sys) \<Rightarrow> 'w klog_flags \<Rightarrow> string list \<Rightarrow> (grpc_server \<times> 'w) prog" where
  "main os net grpc_Dial klog args =
     Do (go_bind (obj_lift (main_init klog args)) (\<lambda>r. go_return (case r of
       Inl status \<Rightarrow> OsExit status
     | Inr conf \<Rightarrow> Run os net grpc_Dial conf (OsExit 0))))"

section \<open>Command lines\<close>

text \<open>The ways to write a setting of a flag, and what a setting means.\<close>

datatype setting = Joined bool string string | Separate bool string string | Bare bool string

definition dashes :: "bool \<Rightarrow> string" where
  "dashes two = (if two then ''--'' else ''-'')"

fun spell :: "setting \<Rightarrow> string list" where
  "spell (Joined two name value) = [dashes two @ name @ ''='' @ value]"
| "spell (Separate two name value) = [dashes two @ name, value]"
| "spell (Bare two name) = [dashes two @ name]"

fun set_name :: "setting \<Rightarrow> string" where
  "set_name (Joined _ name _) = name"
| "set_name (Separate _ name _) = name"
| "set_name (Bare _ name) = name"

fun set_value :: "setting \<Rightarrow> string" where
  "set_value (Joined _ _ value) = value"
| "set_value (Separate _ _ value) = value"
| "set_value (Bare _ _) = ''true''"

fun set_form :: "'w klog_flags \<Rightarrow> setting \<Rightarrow> bool" where
  "set_form klog (Joined _ name _) \<longleftrightarrow> True"
| "set_form klog (Separate _ name _) \<longleftrightarrow> \<not> flag_IsBoolFlag klog name"
| "set_form klog (Bare _ name) \<longleftrightarrow> flag_IsBoolFlag klog name"

definition proper_name :: "string \<Rightarrow> bool" where
  "proper_name name \<longleftrightarrow> name \<noteq> [] \<and> hd name \<noteq> CHR ''-'' \<and> CHR ''='' \<notin> set name"

text \<open>The settings one after the other; the first value that is refused ends the process.\<close>

fun settle :: "'w klog_flags \<Rightarrow> setting list \<Rightarrow> Config \<Rightarrow> ('w, nat + Config) go" where
  "settle klog [] conf = go_return (Inr conf)"
| "settle klog (x # xs) conf = go_bind (flag_Set klog (set_name x) (set_value x) conf) (\<lambda>r. case r of
     None \<Rightarrow> go_return (Inl 2) | Some conf \<Rightarrow> settle klog xs conf)"

lemma flag_split_name:
  assumes "proper_name name" shows "flag_split name = (name, None)"
proof -
  obtain c cs where name: "name = c # cs" using assms by (cases name) (auto simp: proper_name_def)
  then have "takeWhile (\<lambda>c. c \<noteq> CHR ''='') cs = cs" using assms by (auto simp: proper_name_def takeWhile_eq_all_conv)
  then show ?thesis unfolding flag_split_def Let_def name by (simp del: takeWhile_eq_all_conv)
qed

lemma flag_split_value: "proper_name name \<Longrightarrow> flag_split (name @ CHR ''='' # value) = (name, Some value)"
proof -
  assume p: "proper_name name"
  then obtain c cs where name: "name = c # cs" by (cases name) (auto simp: proper_name_def)
  have "takeWhile (\<lambda>c. c \<noteq> CHR ''='') (cs @ CHR ''='' # value) = cs"
    using p name by (intro takeWhile_append2 [THEN trans]) (auto simp: proper_name_def)
  then show ?thesis by (simp add: flag_split_def name Let_def)
qed

lemma dashed:
  assumes "s \<noteq> []" "hd s \<noteq> CHR ''-''"
  shows "\<not> length (dashes two @ s) < 2" "hd (dashes two @ s) = CHR ''-''" "dashes two @ s \<noteq> ''--''"
    "(if (dashes two @ s) ! 1 = CHR ''-'' then drop 2 (dashes two @ s) else drop 1 (dashes two @ s)) = s"
  using assms by (cases s; auto simp: dashes_def)+

text \<open>\<open>flag.Parse\<close> reads every spelling of a sequence of settings as that sequence.\<close>

lemma flag_Parse_settings:
  assumes "\<And>x. x \<in> set xs \<Longrightarrow> flag_defined klog (set_name x) \<and> proper_name (set_name x) \<and> set_form klog x"
  shows "flag_Parse klog (concat (map spell xs)) conf = settle klog xs conf"
  using assms
proof (induction xs arbitrary: conf)
  case (Cons x xs)
  have rest: "flag_Parse klog (concat (map spell xs)) = settle klog xs" using Cons by (auto simp: fun_eq_iff)
  from Cons.prems [of x] have x: "flag_defined klog (set_name x)" "proper_name (set_name x)" "set_form klog x" by auto
  have name: "set_name x \<noteq> []" "hd (set_name x) \<noteq> CHR ''-''" "hd (set_name x) \<noteq> CHR ''=''"
    using x(2) by (cases "set_name x"; auto simp: proper_name_def)+
  have join: "set_name x @ CHR ''='' # v \<noteq> []" "hd (set_name x @ CHR ''='' # v) = hd (set_name x)" for v
    using name(1) by auto
  show ?case
  proof (cases x)
    case (Joined two n v)
    with x name join [of v] dashed [of "n @ CHR ''='' # v" two] flag_split_value [of n v] show ?thesis
      by (simp add: rest Let_def del: hd_append2)
  next
    case (Separate two n v)
    with x name dashed [of n two] flag_split_name [of n] show ?thesis by (simp add: rest Let_def)
  next
    case (Bare two n)
    with x name dashed [of n two] flag_split_name [of n] show ?thesis by (simp add: rest Let_def)
  qed
qed simp

text \<open>
  A setting that is understood: a registered flag with a value it accepts, in every state of the
  logger when it is one of the logger's.
\<close>

definition accepts :: "'w klog_flags \<Rightarrow> string \<Rightarrow> string \<Rightarrow> bool" where
  "accepts klog name value \<longleftrightarrow> (case map_of conf_flags name of
     Some (StringVar _) \<Rightarrow> True
   | Some (BoolVar _) \<Rightarrow> strconv_ParseBool value \<noteq> None
   | None \<Rightarrow> (\<forall>w. fst (kl_Set klog name value w) = None))"

definition readable :: "'w klog_flags \<Rightarrow> setting \<Rightarrow> bool" where
  "readable klog x \<longleftrightarrow> flag_defined klog (set_name x) \<and> proper_name (set_name x) \<and> set_form klog x \<and>
     accepts klog (set_name x) (set_value x)"

fun apply_setting :: "'w klog_flags \<Rightarrow> Config \<times> 'w \<Rightarrow> setting \<Rightarrow> Config \<times> 'w" where
  "apply_setting klog (conf, w) x = (case map_of conf_flags (set_name x) of
     Some (StringVar f) \<Rightarrow> (f (set_value x) conf, w)
   | Some (BoolVar f) \<Rightarrow> (f (the (strconv_ParseBool (set_value x))) conf, w)
   | None \<Rightarrow> (conf, snd (kl_Set klog (set_name x) (set_value x) w)))"

lemma flag_Set_apply:
  assumes "accepts klog (set_name x) (set_value x)" and "apply_setting klog (conf, w) x = (conf', w')"
  shows "flag_Set klog (set_name x) (set_value x) conf w = (Ret (Some conf'), w')"
  using assms
  by (auto simp: accepts_def flag_Set_def go_return_def go_bind_def go_call_def split: option.splits flag_value.splits prod.splits)
    (metis fst_conv option.distinct(1))

lemma settle_good:
  assumes "\<And>x. x \<in> set xs \<Longrightarrow> readable klog x" and "foldl (apply_setting klog) (conf, w) xs = (conf', w')"
  shows "settle klog xs conf w = (Ret (Inr conf'), w')"
  using assms
proof (induction xs arbitrary: conf w)
  case (Cons x xs)
  obtain c1 w1 where x: "apply_setting klog (conf, w) x = (c1, w1)" by (cases "apply_setting klog (conf, w) x")
  from flag_Set_apply [OF _ x] Cons.prems(1) [of x]
  have "flag_Set klog (set_name x) (set_value x) conf w = (Ret (Some c1), w1)" by (simp add: readable_def)
  with Cons.IH [of c1 w1] Cons.prems x show ?case by (simp add: go_bind_def del: apply_setting.simps)
qed (simp add: go_return_def)

section \<open>The configuration a command line gives\<close>

text \<open>
  What the command line means, said of the list of its settings alone. The driver has three flags
  with texts as values and two booleans; every other flag is one of the logger's.
\<close>

fun good_setting :: "'w klog_flags \<Rightarrow> setting \<Rightarrow> bool" where
  "good_setting klog x \<longleftrightarrow>
     (let name = set_name x; separate = (\<exists>two v. x = Separate two name v); bare = (\<exists>two. x = Bare two name)
      in if name \<in> {''drivername'', ''endpoint'', ''nodeid''} then \<not> bare
         else if name \<in> {''controller'', ''node''} then \<not> separate \<and> strconv_ParseBool (set_value x) \<noteq> None
         else name \<in> set (kl_names klog) \<and> proper_name name \<and>
           (if kl_IsBoolFlag klog name then \<not> separate else \<not> bare) \<and>
           (\<forall>w. fst (kl_Set klog name (set_value x) w) = None))"

fun last_value :: "string \<Rightarrow> setting list \<Rightarrow> string option" where
  "last_value name [] = None"
| "last_value name (x # xs) = (case last_value name xs of
     Some v \<Rightarrow> Some v
   | None \<Rightarrow> if set_name x = name then Some (set_value x) else None)"

definition text_setting :: "string \<Rightarrow> string \<Rightarrow> setting list \<Rightarrow> string" where
  "text_setting name def xs = (case last_value name xs of Some v \<Rightarrow> v | None \<Rightarrow> def)"

definition bool_setting :: "string \<Rightarrow> bool \<Rightarrow> setting list \<Rightarrow> bool" where
  "bool_setting name def xs = (case last_value name xs of Some v \<Rightarrow> strconv_ParseBool v = Some True | None \<Rightarrow> def)"

fun klog_settings :: "'w klog_flags \<Rightarrow> setting list \<Rightarrow> 'w \<Rightarrow> 'w" where
  "klog_settings klog [] w = w"
| "klog_settings klog (x # xs) w = klog_settings klog xs
     (if set_name x \<in> {''drivername'', ''endpoint'', ''nodeid'', ''controller'', ''node''} then w
      else snd (kl_Set klog (set_name x) (set_value x) w))"

text \<open>What \<open>init\<close> relies on: the logger has its flag, accepts \<open>true\<close> for it, and takes no name of the driver's.\<close>

definition klog_ok :: "'w klog_flags \<Rightarrow> bool" where
  "klog_ok klog \<longleftrightarrow> ''logtostderr'' \<in> set (kl_names klog) \<and> (\<forall>w. fst (kl_Set klog ''logtostderr'' ''true'' w) = None) \<and>
     {''drivername'', ''endpoint'', ''nodeid'', ''controller'', ''node''} \<inter> set (kl_names klog) = {}"

lemma map_of_conf_flags:
  "map_of conf_flags name =
    (if name = ''drivername'' then Some (StringVar (\<lambda>s conf. conf\<lparr>DriverName := s\<rparr>))
     else if name = ''endpoint'' then Some (StringVar (\<lambda>s conf. conf\<lparr>Endpoint := s\<rparr>))
     else if name = ''nodeid'' then Some (StringVar (\<lambda>s conf. conf\<lparr>NodeID := s\<rparr>))
     else if name = ''controller'' then Some (BoolVar (\<lambda>b conf. conf\<lparr>IsControllerServer := b\<rparr>))
     else if name = ''node'' then Some (BoolVar (\<lambda>b conf. conf\<lparr>IsNodeServer := b\<rparr>))
     else None)"
  by (simp add: conf_flags_def)

lemma readable_good:
  assumes "good_setting klog x" shows "readable klog x"
proof -
  have "set_form klog x" if "\<not> (flag_IsBoolFlag klog (set_name x) \<and> (\<exists>two v. x = Separate two (set_name x) v))"
      "flag_IsBoolFlag klog (set_name x) \<or> \<not> (\<exists>two. x = Bare two (set_name x))"
    using that by (cases x) auto
  then show ?thesis
    using assms unfolding readable_def good_setting.simps Let_def flag_defined_def flag_IsBoolFlag_def accepts_def map_of_conf_flags
    by (auto simp: proper_name_def split: if_splits)
qed

lemma apply_good:
  assumes "\<And>x. x \<in> set xs \<Longrightarrow> good_setting klog x"
  shows "foldl (apply_setting klog) (conf, w) xs =
    (\<lparr>DriverName = text_setting ''drivername'' (DriverName conf) xs, DriverVersion = DriverVersion conf,
       Endpoint = text_setting ''endpoint'' (Endpoint conf) xs, NodeID = text_setting ''nodeid'' (NodeID conf) xs,
       IsControllerServer = bool_setting ''controller'' (IsControllerServer conf) xs,
       IsNodeServer = bool_setting ''node'' (IsNodeServer conf) xs\<rparr>, klog_settings klog xs w)"
  using assms
proof (induction xs arbitrary: conf w)
  case (Cons x xs)
  have good: "good_setting klog x" and IH: "foldl (apply_setting klog) (conf, w) xs =
    (\<lparr>DriverName = text_setting ''drivername'' (DriverName conf) xs, DriverVersion = DriverVersion conf,
       Endpoint = text_setting ''endpoint'' (Endpoint conf) xs, NodeID = text_setting ''nodeid'' (NodeID conf) xs,
       IsControllerServer = bool_setting ''controller'' (IsControllerServer conf) xs,
       IsNodeServer = bool_setting ''node'' (IsNodeServer conf) xs\<rparr>, klog_settings klog xs w)" for conf w
    using Cons by simp_all
  have bool: "\<exists>b. strconv_ParseBool (set_value x) = Some b" if "set_name x = ''controller'' \<or> set_name x = ''node''"
    using good that by (auto simp: Let_def)
  consider "set_name x = ''drivername''" | "set_name x = ''endpoint''" | "set_name x = ''nodeid''"
    | b where "set_name x = ''controller''" "strconv_ParseBool (set_value x) = Some b"
    | b where "set_name x = ''node''" "strconv_ParseBool (set_value x) = Some b"
    | "set_name x \<notin> {''drivername'', ''endpoint'', ''nodeid'', ''controller'', ''node''}"
    using bool by blast
  then show ?case
    by cases (simp_all add: IH map_of_conf_flags text_setting_def bool_setting_def split: option.split)
qed (simp add: text_setting_def bool_setting_def)

text \<open>
  C33: The command line: however the settings of the driver's and the logger's flags are written
  (one or two dashes, joined with an equals sign, as the next argument, or bare for a boolean),
  init makes the configuration whose driver name, endpoint, node ID and two switches are the last
  values given for -drivername, -endpoint, -nodeid, -controller and -node, or csi.spdk.io,
  unix://tmp/spdkcsi.sock, nothing, false and false where none is given, and whose version is
  0.1.0; the logger's logtostderr is set to true first, then its own flags in the order of the
  command line.
\<close>

theorem main_init_config:
  assumes klog: "klog_ok klog" and xs: "\<And>x. x \<in> set xs \<Longrightarrow> good_setting klog x"
  shows "main_init klog (concat (map spell xs)) w = (Ret (Inr
     \<lparr>DriverName = text_setting ''drivername'' ''csi.spdk.io'' xs, DriverVersion = ''0.1.0'',
       Endpoint = text_setting ''endpoint'' ''unix://tmp/spdkcsi.sock'' xs, NodeID = text_setting ''nodeid'' [] xs,
       IsControllerServer = bool_setting ''controller'' False xs, IsNodeServer = bool_setting ''node'' False xs\<rparr>),
     klog_settings klog xs (snd (kl_Set klog ''logtostderr'' ''true'' w)))"
proof -
  obtain w1 where w1: "kl_Set klog ''logtostderr'' ''true'' w = (None, w1)"
    using klog by (auto simp: klog_ok_def) (metis prod.collapse)
  have read: "readable klog x" if "x \<in> set xs" for x using readable_good xs that by blast
  have "find (\<lambda>name. map_of conf_flags name \<noteq> None) (kl_names klog) = None"
    using klog unfolding find_None_iff klog_ok_def map_of_conf_flags by auto
  moreover have "flag_Parse klog (concat (map spell xs)) main_defaults = settle klog xs main_defaults"
    by (rule flag_Parse_settings) (use read in \<open>auto simp: readable_def\<close>)
  moreover note settle_good [OF read apply_good [where conf = main_defaults and w = w1, OF xs]]
  ultimately show ?thesis
    using klog w1 by (simp add: main_init_def klog_ok_def go_bind_def go_call_def main_defaults_def)
qed

text \<open>The command line of the controller's deployment, with a logger of two flags that records them.\<close>

definition demo_klog :: "(string \<times> string) list klog_flags" where
  "demo_klog = \<lparr>kl_names = [''logtostderr'', ''v''], kl_IsBoolFlag = (\<lambda>name. name = ''logtostderr''),
     kl_Set = (\<lambda>name value w. (None, w @ [(name, value)]))\<rparr>"

theorem main_init_config_witness:
  "main_init demo_klog [''--v=5'', ''--endpoint=unix:///csi/csi-provisioner.sock'', ''-nodeid'', ''n1'', ''--controller''] [] =
     (Ret (Inr \<lparr>DriverName = ''csi.spdk.io'', DriverVersion = ''0.1.0'', Endpoint = ''unix:///csi/csi-provisioner.sock'',
        NodeID = ''n1'', IsControllerServer = True, IsNodeServer = False\<rparr>), [(''logtostderr'', ''true''), (''v'', ''5'')])"
proof -
  let ?xs = "[Joined True ''v'' ''5'', Joined True ''endpoint'' ''unix:///csi/csi-provisioner.sock'',
    Separate False ''nodeid'' ''n1'', Bare True ''controller'']"
  have klog: "klog_ok demo_klog" by (simp add: klog_ok_def demo_klog_def)
  have xs: "good_setting demo_klog x" if "x \<in> set ?xs" for x
    using that unfolding list.set insert_iff empty_iff
    by (elim disjE FalseE; hypsubst; simp add: demo_klog_def proper_name_def strconv_ParseBool_def)
  have args: "concat (map spell ?xs) = [''--v=5'', ''--endpoint=unix:///csi/csi-provisioner.sock'', ''-nodeid'', ''n1'', ''--controller'']"
    by (simp add: dashes_def)
  have vals: "text_setting ''drivername'' d ?xs = d" "text_setting ''endpoint'' d ?xs = ''unix:///csi/csi-provisioner.sock''"
    "text_setting ''nodeid'' d ?xs = ''n1''" "bool_setting ''controller'' b ?xs" "bool_setting ''node'' b ?xs = b"
    "klog_settings demo_klog ?xs (snd (kl_Set demo_klog ''logtostderr'' ''true'' [])) = [(''logtostderr'', ''true''), (''v'', ''5'')]" for d b
    by (simp_all add: text_setting_def bool_setting_def strconv_ParseBool_def demo_klog_def)
  show ?thesis using main_init_config [OF klog xs, of ?xs "[]"] unfolding args by (simp only: vals simp_thms)
qed

end
