(* ===== verification/Driver_Props.thy ===== *)
theory Driver_Props
  imports Cmd_Main Host_Sim
begin

text \<open>
  The process: which endpoints it accepts, which services it registers, that its server never comes
  back, and which PCI function it picks for a new device.
\<close>

section \<open>Endpoints\<close>

lemma of_char_lower: "(of_char (lower_char c) :: nat) =
    (if 65 \<le> (of_char c :: nat) \<and> (of_char c :: nat) \<le> 90 then of_char c + 32 else of_char c)"
  by (simp add: lower_char_def of_char_of)

lemma lower_char_punct:
  assumes "(of_char d :: nat) < 65"
  shows "lower_char c = d \<longleftrightarrow> c = d"
proof -
  have "lower_char c = d \<longleftrightarrow> (of_char (lower_char c) :: nat) = of_char d" by simp
  also have "\<dots> \<longleftrightarrow> (of_char c :: nat) = of_char d" using assms by (auto simp: of_char_lower)
  also have "\<dots> \<longleftrightarrow> c = d" by simp
  finally show ?thesis .
qed

lemma lower_char_sep [simp]:
  "lower_char c = CHR '':'' \<longleftrightarrow> c = CHR '':''" "lower_char c = CHR ''/'' \<longleftrightarrow> c = CHR ''/''"
  by (simp_all add: lower_char_punct)

lemma lower_prefix:
  "prefix (p @ ''://'') (strings_ToLower ep) \<longleftrightarrow> (\<exists>q r. ep = q @ ''://'' @ r \<and> strings_ToLower q = p)"
proof
  assume "prefix (p @ ''://'') (strings_ToLower ep)"
  then obtain t where "map lower_char ep = p @ ''://'' @ t" by (auto simp: prefix_def strings_ToLower_def)
  then obtain q r where "ep = q @ r" "map lower_char q = p" "map lower_char r = ''://'' @ t"
    by (auto simp: map_eq_append_conv)
  moreover from this obtain r' where "r = ''://'' @ r'" by (auto simp: map_eq_Cons_conv)
  ultimately show "\<exists>q r. ep = q @ ''://'' @ r \<and> strings_ToLower q = p" by (auto simp: strings_ToLower_def)
qed (auto simp: strings_ToLower_def prefix_def)

lemma split_first_sep:
  "CHR '':'' \<notin> set q \<Longrightarrow> split_first (q @ ''://'' @ r) ''://'' = Some (q, r)"
  by (induction q) auto

lemma lower_no_colon: "strings_ToLower q = p \<Longrightarrow> CHR '':'' \<notin> set p \<Longrightarrow> CHR '':'' \<notin> set q"
  by (auto simp: strings_ToLower_def) (metis image_eqI lower_char_sep(1))

text \<open>
  An endpoint is accepted exactly when it is a protocol, the separator and a non-empty
  address, where the protocol is unix or tcp up to case; both parts are returned as they were
  given.
\<close>

lemma parseEndpoint_iff:
  "parseEndpoint ep = ((proto, addr), None) \<longleftrightarrow>
     ep = proto @ ''://'' @ addr \<and> addr \<noteq> [] \<and> strings_ToLower proto \<in> {''unix'', ''tcp''}"
proof -
  have pre: "strings_HasPrefix (strings_ToLower ep) ''unix://'' \<or> strings_HasPrefix (strings_ToLower ep) ''tcp://'' \<longleftrightarrow>
      (\<exists>q r. ep = q @ ''://'' @ r \<and> strings_ToLower q \<in> {''unix'', ''tcp''})"
    unfolding strings_HasPrefix_def using lower_prefix [of "''unix''" ep] lower_prefix [of "''tcp''" ep] by auto
  have split: "split_first (q @ ''://'' @ r) ''://'' = Some (q, r)" if "strings_ToLower q \<in> {''unix'', ''tcp''}" for q r
    by (rule split_first_sep, rule lower_no_colon [OF refl]) (use that in auto)
  show ?thesis
  proof (cases "\<exists>q r. ep = q @ ''://'' @ r \<and> strings_ToLower q \<in> {''unix'', ''tcp''}")
    case True
    then obtain q r where "ep = q @ ''://'' @ r" "strings_ToLower q \<in> {''unix'', ''tcp''}" by blast
    with split [of q r] pre split [of proto addr] show ?thesis
      unfolding parseEndpoint_def Let_def by auto
  next
    case False
    with pre show ?thesis unfolding parseEndpoint_def Let_def by auto
  qed
qed

section \<open>The server\<close>

text \<open>The pieces of the server's goroutine, and the calls from outside, leave the wait group's counter alone.\<close>

lemma wp_listen_wg:
  "go_wp (nonBlockingGRPCServer_listen os net endpoint ids cs ns) (\<lambda>_ (s', _). gs_wg s' = gs_wg s) (\<lambda>_ _. True) (s, w)"
  unfolding nonBlockingGRPCServer_listen_def Let_def klog_Fatal_def grpc_set_server_def
  by (simp split: prod.split option.split)

lemma wp_accept_wg:
  "go_wp (nonBlockingGRPCServer_accept net server) (\<lambda>_ (s', _). gs_wg s' = gs_wg s) (\<lambda>_ _. True) (s, w)"
  unfolding nonBlockingGRPCServer_accept_def klog_Fatal_def by (simp split: option.split)

lemma grpc_env_wg: "grpc_env net (s, w) (s', w') \<Longrightarrow> gs_wg s' = gs_wg s"
  by (cases rule: grpc_env.cases, assumption)
    (auto simp: grpc_server_Stop_def grpc_server_ForceStop_def obj_call_def go_panic_def split: if_splits prod.splits)

definition serving :: "'w os \<Rightarrow> 'w net \<Rightarrow> (grpc_server \<times> 'w) prog \<Rightarrow> bool" where
  "serving os net g \<longleftrightarrow>
     (\<exists>endpoint (ids :: CSIDriver iface) (cs :: (controllerServer \<times> VolumeLocks) iface) (ns :: (nodeServer \<times> VolumeLocks) iface).
        g = nonBlockingGRPCServer_serve os net endpoint ids cs ns) \<or>
     (\<exists>server. g = Do (go_bind (nonBlockingGRPCServer_accept net server) (\<lambda>_. go_return Done))) \<or> g = Done"

lemma serving_serve:
  fixes ids :: "CSIDriver iface" and cs :: "(controllerServer \<times> VolumeLocks) iface" and ns :: "(nodeServer \<times> VolumeLocks) iface"
  shows "serving os net (nonBlockingGRPCServer_serve os net endpoint ids cs ns)"
  unfolding serving_def by blast

lemma serving_step:
  assumes "serving os net g"
  shows "case run_piece g (s, w) of Blocked \<Rightarrow> True | Next g' new (s', w') \<Rightarrow> serving os net g' \<and> new = [] \<and> gs_wg s' = gs_wg s
     | Fatal _ \<Rightarrow> True | Exits _ \<Rightarrow> False"
  using assms [unfolded serving_def]
proof (elim disjE exE)
  fix endpoint and ids :: "CSIDriver iface" and cs :: "(controllerServer \<times> VolumeLocks) iface" and ns :: "(nodeServer \<times> VolumeLocks) iface"
  assume g: "g = nonBlockingGRPCServer_serve os net endpoint ids cs ns"
  show ?thesis
    using wp_listen_wg [of os net endpoint ids cs ns s w]
    by (auto simp: g nonBlockingGRPCServer_serve_def run_piece_def go_bind_def go_return_def go_wp_def serving_def
        split: outcome.splits prod.splits)
next
  fix server assume g: "g = Do (go_bind (nonBlockingGRPCServer_accept net server) (\<lambda>_. go_return Done))"
  show ?thesis
    using wp_accept_wg [of net server s w]
    by (auto simp: g run_piece_def go_bind_def go_return_def go_wp_def serving_def split: outcome.splits prod.splits)
qed simp

text \<open>Where the main goroutine is before the server's has been started.\<close>

definition starting ::
  "'w os \<Rightarrow> 'w net \<Rightarrow> (string \<Rightarrow> ('w, err) sys) \<Rightarrow> 'w klog_flags \<Rightarrow> string list \<Rightarrow> (grpc_server \<times> 'w) prog \<Rightarrow> nat \<Rightarrow> bool" where
  "starting os net grpc_Dial klog args t wg \<longleftrightarrow>
     t = main os net grpc_Dial klog args \<or>
     (\<exists>n w1 w2. t = OsExit n \<and> main_init klog args w1 = (Ret (Inl n), w2)) \<or>
     (\<exists>conf. t = Run os net grpc_Dial conf (OsExit 0)) \<or>
     (\<exists>endpoint (ids :: CSIDriver iface) (cs :: (controllerServer \<times> VolumeLocks) iface) (ns :: (nodeServer \<times> VolumeLocks) iface).
        t = grpc_server_Start os net endpoint ids cs ns (grpc_server_Wait (OsExit 0)) \<and> wg = 0 \<or>
        t = Spawn (nonBlockingGRPCServer_serve os net endpoint ids cs ns) (grpc_server_Wait (OsExit 0)) \<and> wg = 1)"

lemma starting_intros:
  fixes ids :: "CSIDriver iface" and cs :: "(controllerServer \<times> VolumeLocks) iface" and ns :: "(nodeServer \<times> VolumeLocks) iface"
  shows "main_init klog args w1 = (Ret (Inl n), w2) \<Longrightarrow> starting os net grpc_Dial klog args (OsExit n) wg"
    and "starting os net grpc_Dial klog args (Run os net grpc_Dial conf (OsExit 0)) wg"
    and "wg = 0 \<Longrightarrow> starting os net grpc_Dial klog args
      (grpc_server_Start os net endpoint ids cs ns (grpc_server_Wait (OsExit 0))) wg"
    and "wg = 1 \<Longrightarrow> starting os net grpc_Dial klog args
      (Spawn (nonBlockingGRPCServer_serve os net endpoint ids cs ns) (grpc_server_Wait (OsExit 0))) wg"
  unfolding starting_def by blast+

lemma starting_step:
  assumes "starting os net grpc_Dial klog args t (gs_wg s)"
  shows "case run_piece t (s, w) of Blocked \<Rightarrow> False
     | Next t' new (s', w') \<Rightarrow> starting os net grpc_Dial klog args t' (gs_wg s') \<and> new = [] \<or>
         t' = grpc_server_Wait (OsExit 0) \<and> gs_wg s' = 1 \<and> (\<exists>g. serving os net g \<and> new = [g])
     | Fatal _ \<Rightarrow> True | Exits n \<Rightarrow> \<exists>w1 w2. main_init klog args w1 = (Ret (Inl n), w2)"
  using assms [unfolded starting_def]
proof (elim disjE exE conjE)
  assume "t = main os net grpc_Dial klog args"
  then show ?thesis
    by (auto simp: main_def run_piece_def go_bind_def go_return_def obj_lift_def starting_intros split: outcome.splits prod.splits sum.splits)
next
  fix conf assume "t = Run os net grpc_Dial conf (OsExit 0)"
  then show ?thesis
    by (auto simp: Run_def run_piece_def go_bind_def go_return_def obj_lift_def obj_modify_def starting_intros NewNonBlockingGRPCServer_def
        split: outcome.splits prod.splits)
next
  fix endpoint and ids :: "CSIDriver iface" and cs :: "(controllerServer \<times> VolumeLocks) iface" and ns :: "(nodeServer \<times> VolumeLocks) iface"
  assume "t = grpc_server_Start os net endpoint ids cs ns (grpc_server_Wait (OsExit 0))" "gs_wg s = 0"
  then show ?thesis
    by (auto simp: grpc_server_Start_def grpc_wg_Add_def run_piece_def go_bind_def go_return_def obj_modify_def starting_intros)
qed (auto simp: serving_serve)

definition process_inv ::
  "'w os \<Rightarrow> 'w net \<Rightarrow> (string \<Rightarrow> ('w, err) sys) \<Rightarrow> 'w klog_flags \<Rightarrow> string list \<Rightarrow> (grpc_server \<times> 'w) process \<Rightarrow> bool" where
  "process_inv os net grpc_Dial klog args P \<longleftrightarrow> (case P of
     Crashed _ \<Rightarrow> True
   | Exited n \<Rightarrow> \<exists>w1 w2. main_init klog args w1 = (Ret (Inl n), w2)
   | Live ts (s, w) \<Rightarrow> (\<exists>t. ts = [t] \<and> starting os net grpc_Dial klog args t (gs_wg s)) \<or>
       (\<exists>g. ts = [grpc_server_Wait (OsExit 0), g] \<and> serving os net g \<and> gs_wg s = 1))"

lemma process_inv_step:
  assumes "process_step (grpc_env net) P P'" and "process_inv os net grpc_Dial klog args P"
  shows "process_inv os net grpc_Dial klog args P'"
proof -
  obtain ts s w where P: "P = Live ts (s, w)" using assms(1) by cases auto
  from assms(2) consider (one) t where "ts = [t]" "starting os net grpc_Dial klog args t (gs_wg s)"
    | (two) g where "ts = [grpc_server_Wait (OsExit 0), g]" "serving os net g" "gs_wg s = 1"
    by (auto simp: process_inv_def P)
  then show ?thesis
  proof cases
    case one
    have "t \<noteq> Done" using one(2)
      by (auto simp: starting_def main_def Run_def grpc_server_Start_def)
    with assms(1) one starting_step [OF one(2), of w] show ?thesis
      unfolding P by cases (auto simp: process_inv_def dest: grpc_env_wg)
  next
    case two
    have wait: "run_piece (grpc_server_Wait (OsExit 0)) (s, w) = Blocked" "grpc_server_Wait (OsExit 0) \<noteq> Done"
      using two(3) by (simp_all add: grpc_server_Wait_def)
    from assms(1) two wait wait(2) [symmetric] serving_step [OF two(2), of s w] show ?thesis
      unfolding P by cases (auto simp: process_inv_def less_Suc_eq nth_Cons' dest: grpc_env_wg split: if_splits)
  qed
qed

text \<open>
  C36: The process of main never ends by itself once its server has been started, for Run never
  returns. In every reachable state, whatever requests are served and however often the server is
  stopped from outside: if the process has exited with a status, init has ended it with this
  status because of the command line, so the os.Exit(0) after Run is never reached; otherwise it
  has ended with a panic or a fatal error, or it is live, and from the start of the server's
  goroutine on the main goroutine is in the Wait of Run, the wait group's counter is 1, and Wait
  cannot return, also after Serve has returned and its goroutine has ended.
\<close>

theorem Run_never_returns:
  assumes "(process_step (grpc_env net))\<^sup>*\<^sup>* (Live [main os net grpc_Dial klog args] (s0, w)) P"
  shows "case P of
     Crashed _ \<Rightarrow> True
   | Exited n \<Rightarrow> \<exists>w1 w2. main_init klog args w1 = (Ret (Inl n), w2)
   | Live ts (s, w') \<Rightarrow> length ts = 1 \<or>
       length ts = 2 \<and> ts ! 0 = grpc_server_Wait (OsExit 0) \<and> gs_wg s = 1 \<and> run_piece (ts ! 0) (s, w') = Blocked"
proof -
  from assms have "process_inv os net grpc_Dial klog args P"
  proof (induction rule: rtranclp_induct)
    case base
    show ?case by (auto simp: process_inv_def starting_def)
  qed (rule process_inv_step)
  then show ?thesis by (auto simp: process_inv_def grpc_server_Wait_def split: process.splits)
qed

text \<open>
  C35: Whichever services are configured, start-up hands the server three interface values that
  are not nil, so that all three services are registered; those of services that are not
  configured hold nil pointers.
\<close>

theorem Run_registers_all:
  assumes "Run_setup os grpc_Dial conf w = (Ret (endpoint, ids, cs, ns), w')"
  shows "registered ids cs ns = [IdentityService, ControllerService, NodeService] \<and> endpoint = Endpoint conf \<and>
     (cs = Interface None \<longleftrightarrow> \<not> IsControllerServer conf) \<and> (ns = Interface None \<longleftrightarrow> \<not> IsNodeServer conf)"
proof -
  have "go_wp (Run_setup os grpc_Dial conf) (\<lambda>(ep, ids, cs, ns) _.
      registered ids cs ns = [IdentityService, ControllerService, NodeService] \<and> ep = Endpoint conf \<and>
      (cs = Interface None \<longleftrightarrow> \<not> IsControllerServer conf) \<and> (ns = Interface None \<longleftrightarrow> \<not> IsNodeServer conf)) (\<lambda>_ _. True) w"
    unfolding Run_setup_def Let_def klog_Fatal_def
    by (cases "IsNodeServer conf"; cases "IsControllerServer conf")
      (auto intro!: wp_any [where m = "newNodeServer a b c" for a b c] wp_any [where m = "read_config a b c" for a b c]
        simp: registered_def split: option.split sum.split)
  with assms show ?thesis by (simp add: go_wp_def)
qed

definition idle_host :: simhost where
  "idle_host = \<lparr>sh_view = \<lparr>hv_mount = Map.empty, hv_file = Map.empty, hv_dir = {}\<rparr>, sh_attached = [],
     sh_clock = 0, sh_stuck = False, sh_xpu = {}, sh_script = []\<rparr>"

theorem Run_registers_all_witness:
  "\<exists>endpoint ids cs ns. Run_setup sim_os (\<lambda>_ w. (None, w)) (main_defaults\<lparr>NodeID := ''n1''\<rparr>) idle_host =
       (Ret (endpoint, ids, cs, ns), idle_host) \<and>
     registered ids cs ns = [IdentityService, ControllerService, NodeService] \<and> cs = Interface None \<and> ns = Interface None"
proof -
  obtain endpoint ids cs ns where run: "Run_setup sim_os (\<lambda>_ w. (None, w)) (main_defaults\<lparr>NodeID := ''n1''\<rparr>) idle_host =
      (Ret (endpoint, ids, cs, ns), idle_host)"
    by (simp add: Run_setup_def main_defaults_def NewCSIDriver_def go_bind_def go_return_def)
  from Run_registers_all [OF run] run show ?thesis by (auto simp: main_defaults_def)
qed

text \<open>The simulated host as a node without services, with a logger of one flag and a network that accepts everything.\<close>

definition idle_klog :: "simhost klog_flags" where
  "idle_klog = \<lparr>kl_names = [''logtostderr''], kl_IsBoolFlag = (\<lambda>_. True), kl_Set = (\<lambda>_ _ w. (None, w))\<rparr>"

definition idle_net :: "simhost net" where
  "idle_net = \<lparr>net_Listen = (\<lambda>_ _ w. (None, w)), grpc_Serve = (\<lambda>_ w. (None, w)),
     grpc_GracefulStop = (\<lambda>w. ((), w)), grpc_Stop = (\<lambda>w. ((), w))\<rparr>"

lemma idle_init: "main_init idle_klog [''--nodeid=n1''] idle_host = (Ret (Inr (main_defaults\<lparr>NodeID := ''n1''\<rparr>)), idle_host)"
  by (simp add: main_init_def idle_klog_def conf_flags_def go_bind_def go_call_def go_return_def flag_split_def flag_defined_def
      flag_IsBoolFlag_def flag_Set_def Let_def)

lemma idle_endpoint: "parseEndpoint ''unix://tmp/spdkcsi.sock'' = ((''unix'', ''tmp/spdkcsi.sock''), None)"
  by (simp add: parseEndpoint_iff strings_ToLower_def)

theorem Run_never_returns_witness:
  "\<exists>s. (process_step (grpc_env idle_net))\<^sup>*\<^sup>*
       (Live [main sim_os idle_net (\<lambda>_ w. (None, w)) idle_klog [''--nodeid=n1'']] (NewNonBlockingGRPCServer, idle_host))
       (Live [grpc_server_Wait (OsExit 0), Done] (s, idle_host)) \<and>
     gs_wg s = 1 \<and> run_piece (grpc_server_Wait (OsExit 0)) (s, idle_host) = Blocked"
proof -
  let ?dial = "\<lambda>_ w. (None, w)" and ?wait = "grpc_server_Wait (OsExit 0) :: (grpc_server \<times> simhost) prog"
    and ?step = "process_step (grpc_env idle_net)" and ?conf = "main_defaults\<lparr>NodeID := ''n1''\<rparr>"
  define s1 where "s1 = NewNonBlockingGRPCServer\<lparr>gs_wg := 1\<rparr>"
  define s2 where "s2 = (\<lambda>services. s1\<lparr>gs_server := Some services\<rparr>)"
  obtain ids cs ns where init: "Run_setup sim_os ?dial ?conf idle_host = (Ret (''unix://tmp/spdkcsi.sock'', ids, cs, ns), idle_host)"
    by (simp add: Run_setup_def main_defaults_def NewCSIDriver_def go_bind_def go_return_def)
  let ?serve = "nonBlockingGRPCServer_serve sim_os idle_net ''unix://tmp/spdkcsi.sock'' ids cs ns"
    and ?accept = "\<lambda>services. Do (go_bind (nonBlockingGRPCServer_accept idle_net services) (\<lambda>_. go_return Done))"
  have first: "?step (Live [t] s) (Live (t' # new) s')" if "run_piece t s = Next t' new s'" for t s t' new s'
    using process_step.run [of 0 "[t]" s t' new s'] that by simp
  have second: "?step (Live [t, g] s) (Live [t, g'] s')" if "run_piece g s = Next g' [] s'" for t g s g' s'
    using process_step.run [of 1 "[t, g]" s g' "[]" s'] that by simp
  note run = run_piece_Next go_bind_def go_return_def obj_lift_def obj_modify_def obj_call_def
  have "?step (Live [main sim_os idle_net ?dial idle_klog [''--nodeid=n1'']] (NewNonBlockingGRPCServer, idle_host))
      (Live [Run sim_os idle_net ?dial ?conf (OsExit 0)] (NewNonBlockingGRPCServer, idle_host))"
    by (rule first) (simp add: main_def run idle_init)
  moreover have "?step (Live [Run sim_os idle_net ?dial ?conf (OsExit 0)] (NewNonBlockingGRPCServer, idle_host))
      (Live [grpc_server_Start sim_os idle_net ''unix://tmp/spdkcsi.sock'' ids cs ns ?wait] (NewNonBlockingGRPCServer, idle_host))"
    by (rule first) (simp add: Run_def run init)
  moreover have "?step (Live [grpc_server_Start sim_os idle_net ''unix://tmp/spdkcsi.sock'' ids cs ns ?wait] (NewNonBlockingGRPCServer, idle_host))
      (Live [Spawn ?serve ?wait] (s1, idle_host))"
    by (rule first)
      (simp add: grpc_server_Start_def grpc_wg_Add_def run s1_def NewNonBlockingGRPCServer_def)
  moreover have "?step (Live [Spawn ?serve ?wait] (s1, idle_host)) (Live [?wait, ?serve] (s1, idle_host))"
    by (rule first) simp
  moreover have "?step (Live [?wait, ?serve] (s1, idle_host)) (Live [?wait, ?accept (registered ids cs ns)] (s2 (registered ids cs ns), idle_host))"
    by (rule second) (simp add: nonBlockingGRPCServer_serve_def nonBlockingGRPCServer_listen_def grpc_set_server_def run idle_endpoint
        idle_net_def idle_host_def s2_def Let_def)
  moreover have "?step (Live [?wait, ?accept (registered ids cs ns)] (s2 (registered ids cs ns), idle_host))
      (Live [?wait, Done] (s2 (registered ids cs ns), idle_host))"
    by (rule second) (simp add: nonBlockingGRPCServer_accept_def run idle_net_def)
  ultimately have reach: "?step\<^sup>*\<^sup>* (Live [main sim_os idle_net ?dial idle_klog [''--nodeid=n1'']] (NewNonBlockingGRPCServer, idle_host))
      (Live [?wait, Done] (s2 (registered ids cs ns), idle_host))"
    by (meson converse_rtranclp_into_rtranclp rtranclp.rtrancl_refl)
  from Run_never_returns [OF this] reach show ?thesis by auto
qed

section \<open>Free PCI functions\<close>

text \<open>The loops visit slot \<open>k\<close>, device \<open>k mod 32\<close> of bridge \<open>k div 32 + 1\<close>, in the order of \<open>k\<close>.\<close>

lemma kvm_slots_nth: "kvm_slots n = map (\<lambda>k. (k div 32 + 1, k mod 32)) [0 ..< 32 * n]"
proof (induction n)
  case (Suc n)
  have "[0 ..< 32 * Suc n] = [0 ..< 32 * n] @ map (\<lambda>v. v + 32 * n) [0 ..< 32]"
    by (metis add.commute add_0 map_add_upt mult_Suc_right upt_add_eq_append zero_le)
  moreover have "map (\<lambda>v. (Suc n, v)) [0 ..< 32] = map (\<lambda>k. (k div 32 + 1, k mod 32)) (map (\<lambda>v. v + 32 * n) [0 ..< 32])"
    unfolding map_map by (rule map_cong [OF refl]) simp
  ultimately show ?case using Suc by (simp add: kvm_slots_def)
qed (simp add: kvm_slots_def)

text \<open>No function of device \<open>v\<close> on PCI bus \<open>p\<close> is in sysfs.\<close>

definition slot_free :: "(string \<Rightarrow> string list) \<Rightarrow> nat \<Rightarrow> nat \<Rightarrow> bool" where
  "slot_free matches p v \<longleftrightarrow> matches (''/sys/bus/pci/devices/0000:'' @ fmt_02x p @ '':'' @ fmt_02x v @ ''.*'') = []"

lemma kvm_loop_find: "(\<And>g w. filepath_Glob os g w = (Inr (matches g), w)) \<Longrightarrow>
  getAvailableFunctionsKvm_loop os slots w = (case find (\<lambda>(p, v). slot_free matches p v) slots of
      None \<Rightarrow> (Ret (zero_PciEndpoint, zero_PciBdfs, Some ErrNotExist), w)
    | Some (p, v) \<Rightarrow> (Ret (zero_PciEndpoint\<lparr>pfID := (word_of_nat p - 1) * 32 + word_of_nat v\<rparr>,
        zero_PciBdfs\<lparr>vfBdf := kvm_bdf p v @ ''.0''\<rparr>, None), w))"
  by (induction slots)
    (auto simp: go_bind_def go_call_def go_return_def slot_free_def kvm_bdf_def split: list.split)

lemma kvm_function_number:
  assumes "k < 2 ^ 31"
  shows "unat ((word_of_nat (k div 32 + 1) - 1) * 32 + word_of_nat (k mod 32) :: uint32) = k"
proof -
  have "(word_of_nat (k div 32 + 1) - 1) * 32 + word_of_nat (k mod 32) = (word_of_nat (k div 32 * 32 + k mod 32) :: uint32)"
    by (simp only: of_nat_add of_nat_mult of_nat_numeral of_nat_1 add_diff_cancel_right')
  moreover have "unat (word_of_nat k :: uint32) = k" unfolding unat_of_nat using assms by simp
  ultimately show ?thesis by simp
qed

text \<open>The slots of the bridges 1 to n, by their numbers: which are free, and which is the first one.\<close>

lemma kvm_none_free:
  assumes "find (\<lambda>(p, v). slot_free matches p v) (map (\<lambda>k. (k div 32 + 1, k mod 32)) [0 ..< 32 * n]) = None"
    and "1 \<le> p" "p \<le> n" "v < 32"
  shows "\<not> slot_free matches p v"
proof -
  have "(((p - 1) * 32 + v) div 32 + 1, ((p - 1) * 32 + v) mod 32) = (p, v)" and "(p - 1) * 32 + v < 32 * n"
    using assms(2-4) by auto
  with assms(1) show ?thesis unfolding find_None_iff by (metis (no_types, lifting) atLeastLessThan_iff case_prod_conv
        image_eqI list.set_map set_upt zero_le)
qed

lemma kvm_first_free:
  assumes "find (\<lambda>(p, v). slot_free matches p v) (map (\<lambda>k. (k div 32 + 1, k mod 32)) [0 ..< 32 * n]) = Some x"
  obtains k where "k < 32 * n" "x = (k div 32 + 1, k mod 32)" "slot_free matches (k div 32 + 1) (k mod 32)"
    "\<And>p v. 1 \<le> p \<Longrightarrow> v < 32 \<Longrightarrow> p < k div 32 + 1 \<or> p = k div 32 + 1 \<and> v < k mod 32 \<Longrightarrow> \<not> slot_free matches p v"
proof -
  obtain k where k: "k < 32 * n" "slot_free matches (k div 32 + 1) (k mod 32)" "x = (k div 32 + 1, k mod 32)"
    and first: "\<And>j. j < k \<Longrightarrow> \<not> slot_free matches (j div 32 + 1) (j mod 32)"
    using assms unfolding find_Some_iff by auto
  have "\<not> slot_free matches p v" if "1 \<le> p" "v < 32" "p < k div 32 + 1 \<or> p = k div 32 + 1 \<and> v < k mod 32" for p v
  proof -
    have "(p - 1) * 32 + v < k div 32 * 32 + k mod 32" using that by arith
    then have "(p - 1) * 32 + v < k" by simp
    from first [OF this] show ?thesis using that(1,2) by simp
  qed
  with k that show ?thesis by blast
qed

text \<open>
  C31: On a host whose sysfs does not change and with at least one bridge, of the 32 devices of
  each of the bridges 1 to n the first free one is chosen: no bridge before has a free device, nor
  has this bridge one of a smaller number. Its function 0 is named in the result, and the function
  number, 32 for each bridge before it and the device's own, is below 32 n and has not overflowed.
  When no device of any of the bridges is free, the result is ErrNotExist.
\<close>

theorem getAvailableFunctionsKvm_first_free:
  fixes matches :: "string \<Rightarrow> string list"
  assumes static: "\<And>g w. filepath_Glob os g w = (Inr (matches g), w)" and n: "0 < n" "n \<le> 2 ^ 26"
  shows "(\<exists>p v pe bdfs. 1 \<le> p \<and> p \<le> n \<and> v < 32 \<and> slot_free matches p v \<and>
       (\<forall>p' v'. 1 \<le> p' \<and> v' < 32 \<and> (p' < p \<or> p' = p \<and> v' < v) \<longrightarrow> \<not> slot_free matches p' v') \<and>
       getAvailableFunctionsKvm os n w = (Ret (pe, bdfs, None), w) \<and>
       unat (pfID pe) = (p - 1) * 32 + v \<and> unat (pfID pe) < 32 * n \<and> vfID pe = 0 \<and>
       vfBdf bdfs = ''0000:'' @ fmt_02x p @ '':'' @ fmt_02x v @ ''.0'' \<and> pfBdf bdfs = []) \<or>
     (\<forall>p v. 1 \<le> p \<and> p \<le> n \<and> v < 32 \<longrightarrow> \<not> slot_free matches p v) \<and>
       getAvailableFunctionsKvm os n w = (Ret (zero_PciEndpoint, zero_PciBdfs, Some ErrNotExist), w)"
proof -
  let ?slots = "map (\<lambda>k. (k div 32 + 1, k mod 32)) [0 ..< 32 * n]"
  have run: "getAvailableFunctionsKvm os n w = getAvailableFunctionsKvm_loop os ?slots w"
    using n by (simp add: getAvailableFunctionsKvm_def kvm_slots_nth)
  note loop = kvm_loop_find [OF static]
  show ?thesis
  proof (cases "find (\<lambda>(p, v). slot_free matches p v) ?slots")
    case None
    with kvm_none_free [OF None] show ?thesis unfolding run loop by auto
  next
    case (Some x)
    from Some obtain k where k: "k < 32 * n" "x = (k div 32 + 1, k mod 32)" "slot_free matches (k div 32 + 1) (k mod 32)"
      and before: "\<And>p v. 1 \<le> p \<Longrightarrow> v < 32 \<Longrightarrow> p < k div 32 + 1 \<or> p = k div 32 + 1 \<and> v < k mod 32 \<Longrightarrow> \<not> slot_free matches p v"
      by (rule kvm_first_free) blast
    have "k div 32 + 1 \<le> n" "k mod 32 < 32" "(k div 32 + 1 - 1) * 32 + k mod 32 = k" using k(1) by auto
    moreover have "getAvailableFunctionsKvm os n w = (Ret (zero_PciEndpoint\<lparr>pfID := (word_of_nat (k div 32 + 1) - 1) * 32 +
        word_of_nat (k mod 32)\<rparr>, zero_PciBdfs\<lparr>vfBdf := kvm_bdf (k div 32 + 1) (k mod 32) @ ''.0''\<rparr>, None), w)"
      unfolding run loop using Some k(2) by simp
    moreover have "k < 2 ^ 31" using k(1) n by simp
    ultimately show ?thesis
      using kvm_function_number k(1,3) before
      by (intro disjI1 exI [where x = "k div 32 + 1"] exI [where x = "k mod 32"] exI conjI)
        (assumption | simp add: zero_PciEndpoint_def zero_PciBdfs_def kvm_bdf_def)+
  qed
qed

text \<open>A host with one device, in the first slot of the first bridge: the second slot is free.\<close>

definition pci_os :: "simhost os" where
  "pci_os = sim_os\<lparr>filepath_Glob := (\<lambda>g w. (Inr (if g = ''/sys/bus/pci/devices/0000:01:00.*'' then [g] else []), w))\<rparr>"

theorem getAvailableFunctionsKvm_first_free_witness:
  "\<exists>pe bdfs. getAvailableFunctionsKvm pci_os 1 idle_host = (Ret (pe, bdfs, None), idle_host) \<and> unat (pfID pe) = 1 \<and>
     vfBdf bdfs = ''0000:01:01.0''"
proof -
  let ?m = "\<lambda>g. if g = ''/sys/bus/pci/devices/0000:01:00.*'' then [g] else []"
  have glob: "filepath_Glob pci_os g w = (Inr (?m g), w)" for g w by (simp add: pci_os_def)
  have hex: "fmt_02x 0 = ''00''" "fmt_02x (Suc 0) = ''01''"
    by (simp_all add: fmt_02x_def hex_digits.simps hex_digit_def char_of_def bit_0)
  have free: "\<not> slot_free ?m 1 0" "slot_free ?m 1 1" by (simp_all add: slot_free_def hex)
  have one_le: "(1 :: nat) \<le> 2 ^ 26" by simp
  show ?thesis
    using getAvailableFunctionsKvm_first_free [of pci_os ?m 1 idle_host, OF glob zero_less_one one_le]
  proof (elim disjE exE conjE)
    fix p v pe bdfs assume *: "1 \<le> p" "p \<le> 1" "v < 32" "slot_free ?m p v"
      "\<forall>p' v'. 1 \<le> p' \<and> v' < 32 \<and> (p' < p \<or> p' = p \<and> v' < v) \<longrightarrow> \<not> slot_free ?m p' v'"
      "getAvailableFunctionsKvm pci_os 1 idle_host = (Ret (pe, bdfs, None), idle_host)" "unat (pfID pe) = (p - 1) * 32 + v"
      "vfBdf bdfs = ''0000:'' @ fmt_02x p @ '':'' @ fmt_02x v @ ''.0''"
    then have p: "p = 1" by simp
    have "v \<noteq> 0" using *(4) free(1) unfolding p by metis
    moreover have "\<not> 1 < v"
    proof
      assume "1 < v"
      with *(5) p have "\<not> slot_free ?m 1 1" by (elim allE [where x = 1] allE [where x = 1] mp) simp
      with free(2) show False by contradiction
    qed
    ultimately have "v = 1" by linarith
    with p * show ?thesis by (simp add: hex)
  next
    assume "\<forall>p v. 1 \<le> p \<and> p \<le> 1 \<and> v < 32 \<longrightarrow> \<not> slot_free ?m p v"
    then have "\<not> slot_free ?m 1 1" by simp
    with free show ?thesis by simp
  qed
qed

end
