(* ===== verification/Spec2Isabelle.thy ===== *)
theory Spec2Isabelle
  imports Controller_Machine Progress_Props Lock_Props Node_Props Initiator_Props Backend_Props Xpu_Restart
    Driver_Props
begin

text \<open>
  A verification library for the SPDK CSI driver (\<open>src/\<close>), the storage driver through which
  Kubernetes uses volumes of SPDK targets.

  \<^bold>\<open>The program.\<close> One binary (\<open>cmd/main.go\<close>, \<open>pkg/spdk/driver.go\<close>) runs as a controller, as a node
  agent, or both, behind a gRPC server (\<open>pkg/csi-common/server.go\<close>). The controller
  (\<open>pkg/spdk/controllerserver.go\<close>) creates, publishes, snapshots and deletes logical volumes on the
  configured SPDK targets; it talks to a target through a storage node object (\<open>pkg/util/nvmf.go\<close>,
  \<open>pkg/util/iscsi.go\<close>) over a JSON-RPC client (\<open>pkg/util/jsonrpc.go\<close>). The node agent
  (\<open>pkg/spdk/nodeserver.go\<close>) connects a published volume with an initiator
  (\<open>pkg/util/initiator.go\<close>, or \<open>xpuinitiator.go\<close> with its back ends \<open>smainitiator.go\<close> and
  \<open>opiinitiator.go\<close> when an xPU emulates the device), mounts it, and stashes what it needs to undo
  this (\<open>pkg/util/util.go\<close>). Both serialise the requests of one volume by locks
  (\<open>pkg/util/idlocker.go\<close>).

  \<^bold>\<open>The model.\<close> A function of the source is a function on a state and the world, \<open>('w, 'a) go\<close>: it
  returns a value or panics, and both leave a state (\<open>Go_Prelude\<close>; its calculus is \<open>go_wp\<close>).
  Errors are values of \<open>go_error\<close>, the counterparts of Go's sentinel, wrapped and gRPC status
  errors. Machine integers are words (\<open>int64\<close>, \<open>uint32\<close>). What is not in the repository is a
  parameter: the HTTP transport with the SPDK target behind it (\<open>'w http\<close>), the operating system
  (\<open>'w os\<close>), the mounter (\<open>'w mounter\<close>), the generated clients of the xPU services, the UUID
  parser, the network. The theories, in the order of the program:

  \<^item> \<open>Go_Prelude\<close>, \<open>Go_Json\<close>, \<open>Go_Os\<close>: the part of Go and its standard library that is used:
    the monad, errors, strings, numbers, \<open>encoding/json\<close> with its decoder into structs, paths,
    system calls, regular expressions, maps of strings.
  \<^item> \<open>Rpc_Client\<close>, \<open>Nvmf_Node\<close>, \<open>Iscsi_Node\<close>, \<open>Spdk_Node\<close>: the JSON-RPC client, the two storage
    nodes and the interface over them; \<open>Vol_Locks\<close>: the locks, with a step relation of concurrent
    requests; \<open>Csi_Common\<close>, \<open>Controller\<close>: the driver object and the controller service.
  \<^item> \<open>Util_Files\<close>, \<open>Initiator\<close>, \<open>Pci_Sysfs\<close>, \<open>Sma_Initiator\<close>, \<open>Opi_Initiator\<close>, \<open>Xpu_Initiator\<close>,
    \<open>Node_Server\<close>: the stash, the initiators, the lookups in sysfs, the xPU back ends, the node
    service. A method of an object runs on the pair of the object and the world.
  \<^item> \<open>Go_Process\<close>, \<open>Driver_Run\<close>, \<open>Cmd_Main\<close>: goroutines as programs of atomic pieces over a shared
    state, with the steps of a process; start-up, the gRPC server with its wait group and its
    goroutine, \<open>Run\<close>, which blocks in \<open>Wait\<close>, and the services; the flags, the command line and
    \<open>main\<close>.

  \<^bold>\<open>The contracts.\<close> What the program relies on is stated as documented behaviour of its
  environment: \<open>Target_Contract\<close>, \<open>Nvmf_Correct\<close>, \<open>Iscsi_Correct\<close> and \<open>Lvol_Methods\<close> for the SPDK
  methods, the locale \<open>host_contract\<close> (\<open>Host_Contract\<close>) for mounts and files (a mount
  is one of a directory only with the bind flag), the locales
  \<open>sma_service\<close> and \<open>opi_service\<close> (\<open>Backend_Contract\<close>) for the xPU. The components promise each
  other: \<open>volume_node\<close> (\<open>Node_Interface\<close>) is what a storage node promises the controller,
  interpreted for both nodes and for the interface value (a volume that it newly publishes is served:
  its subsystem has a namespace and a listener, or its target node exists), extended by
  \<open>accepting_node\<close> (\<open>Node_Progress\<close>) for targets that accept what they can serve, a listener only
  once the transport has been created; \<open>id_mutex\<close> (\<open>Vol_Locks\<close>) a lock;
  \<open>quiet_host\<close> (\<open>Host_Frame\<close>) that initiators leave mounts and stashes alone; \<open>tracked_backend\<close>
  that a back end remembers every object it makes, interpreted for the five back ends and for the
  interface over them. Every contract of the environment has an executable instance
  (\<open>Target_Sim\<close> and \<open>Sim_Cluster\<close>, \<open>Host_Sim\<close>), on which the theorems are applied.

  \<^bold>\<open>What is shown.\<close> \<open>Controller_Props\<close>: creating, retrying, failing and deleting a volume, for
  every order in which Go visits the configured nodes. \<open>Progress_Props\<close>: on targets that accept what
  they can serve a volume is made whenever there is space. \<open>Clone_Props\<close>: a snapshot and a volume made
  from it, and a snapshot and its deletion. \<open>Controller_Machine\<close>: the service as a state machine of requests, with the invariant of
  its reachable states (names used once, what is published exists). \<open>Control_Props\<close>: sizes,
  scheduling, configuration, unknown nodes, snapshots. \<open>Storage_Props\<close>: sessions of a
  node refine an abstract set of published volumes; publishing is all or nothing; what a call
  returns, by the members of the JSON-RPC reply. \<open>Lock_Props\<close>: mutual exclusion and progress. \<open>Node_Props\<close>: staging and unstaging
  with the order of their calls, publishing, the stash, and what repeating a failed request does. \<open>Initiator_Props\<close>: the polling loops against a reference definition, and
  their time. \<open>Backend_Props\<close>, \<open>Xpu_Restart\<close>: nothing is lost on the xPU, and a restarted driver
  recovers its initiators. \<open>Driver_Props\<close>: endpoints, services, the process that never ends once its
  server runs, free PCI functions. \<open>Cmd_Main\<close>: the configuration that a command line gives, field
  by field. This theory: the initiator that the node makes from a
  created volume reaches what the controller has published.
  Some theorems show behaviour that is not intended: a repeated CreateVolume can delete a volume, a
  repeated NodeUnstageVolume or NodeStageVolume hides a failed one, a failed connect is not
  undone when it has attached a device, an unknown node name and an HTTP error panic, iSCSI snapshots never succeed, a repeated DeleteSnapshot fails, the server never returns.

  \<^bold>\<open>Bounds.\<close> Every function of the model is total. The polling loops count down the seconds that
  the source waits; the JSON parser's fuel is twice the length of the text and two more, which
  \<open>json_unmarshal_text\<close> shows to be enough for every text that is written; the KVM bridge count is
  bounded only where its product with 32 has to fit 32 bits.

  \<^bold>\<open>Not modelled.\<close> The log; deadlines of request contexts other than as errors of the clients;
  data races between handlers of different volumes on a target, beyond the locks; the end-to-end
  tests. The volume contexts are maps of strings,
  as partial functions in the controller and as sorted entry lists in the node, where their text
  is written.
\<close>

section \<open>From the controller to the node\<close>

lemma node_of_transport:
  "node_of cs secrets k = Some (NodeNVMf x) \<Longrightarrow> nv_targetType x \<in> {''RDMA'', ''TCP''}"
  by (auto simp: node_of_def NewSpdkNode_def newNVMf_def Let_def split: sum.splits option.splits if_splits)

lemma kv_get_context: "map_of vc = p ++ ctx \<Longrightarrow> ctx j = Some v \<Longrightarrow> kv_get vc j = v"
  by (simp add: kv_get_def map_add_def)

lemma nv_info_initiator:
  assumes "nv_info x t i = (ctx, None)" and "nv_targetType x \<in> {''RDMA'', ''TCP''}" and "map_of vc = p ++ ctx"
  shows "NewSpdkCsiInitiator vc = Inr (InitiatorNVMf \<lparr>in_targetType = nv_targetType x, in_targetAddr = nv_targetAddr x,
     in_targetPort = nv_targetPort x, in_nqn = nodeNVMf_getVolumeNqn i, in_model = nodeNVMf_getVolumeModel i\<rparr>)"
proof -
  have "kv_get vc ''targetType'' = nv_targetType x" "kv_get vc ''targetAddr'' = nv_targetAddr x"
    "kv_get vc ''targetPort'' = nv_targetPort x" "kv_get vc ''nqn'' = nodeNVMf_getVolumeNqn i"
    "kv_get vc ''model'' = nodeNVMf_getVolumeModel i"
    by (rule kv_get_context [OF assms(3)], use assms(1) in \<open>auto simp: nv_info_def split: option.splits prod.splits\<close>)+
  with assms(2) show ?thesis by (auto simp: NewSpdkCsiInitiator_def strings_ToLower_def Let_def)
qed

lemma is_info_initiator:
  assumes "is_info x t i = (ctx, None)" and "map_of vc = p ++ ctx"
  shows "NewSpdkCsiInitiator vc = Inr (InitiatorISCSI \<lparr>ii_targetAddr = is_targetAddr x,
     ii_targetPort = is_targetPort x, ii_iqn = iqnPrefixName @ i\<rparr>)"
proof -
  have "kv_get vc ''targetType'' = ''iscsi''" "kv_get vc ''targetAddr'' = is_targetAddr x"
    "kv_get vc ''targetPort'' = is_targetPort x" "kv_get vc ''iqn'' = iqnPrefixName @ i"
    by (rule kv_get_context [OF assms(2)], use assms(1) in \<open>auto simp: is_info_def split: prod.splits option.splits if_splits\<close>)+
  then show ?thesis by (simp add: NewSpdkCsiInitiator_def strings_ToLower_def)
qed

text \<open>
  What an initiator connects to is the volume: on the target, the subsystem of its NQN has the
  address and a namespace on the volume's bdev, or the target node of the volume exists.
\<close>

fun reaches :: "SpdkNode option \<Rightarrow> target \<Rightarrow> string \<Rightarrow> host_initiator \<Rightarrow> bool" where
  "reaches (Some (NodeNVMf x)) t i (InitiatorNVMf c) \<longleftrightarrow>
     nv_address x = \<lparr>TrType = in_targetType c, AdrFam = AdrFam (nv_address x), TrAddr = in_targetAddr c, TrSvcID = in_targetPort c\<rparr> \<and>
     (\<exists>s. tg_subs t (in_nqn c) = Some s \<and> nv_address x \<in> set (sub_listeners s) \<and> (\<exists>ns \<in> set (sub_ns s). BdevName ns = i))"
| "reaches (Some (NodeISCSI x)) t i (InitiatorISCSI c) \<longleftrightarrow>
     ii_targetAddr c = is_targetAddr x \<and> ii_targetPort c = is_targetPort x \<and>
     ii_iqn c = iqnPrefixName @ i \<and> i \<in> tg_tnodes t"
| "reaches _ t i _ \<longleftrightarrow> False"

text \<open>Through every node of the controller, what is published is served.\<close>

definition all_served :: "('w \<Rightarrow> endpoint \<Rightarrow> target) \<Rightarrow> controllerServer \<Rightarrow> smap \<Rightarrow> 'w \<Rightarrow> bool" where
  "all_served view cs secrets w \<longleftrightarrow> (\<forall>k \<in> dom (spdkNodeConfigs cs). \<forall>i.
     sn_published (node_of cs secrets k) (node_target view (node_of cs secrets k) w) i \<longrightarrow>
     sn_serves (node_of cs secrets k) (node_target view (node_of cs secrets k) w) i)"

lemma ctl_create_spec_frame:
  assumes "ctl_create_spec view cs req (keys_in cs ord1) (keys_in cs ord2) w (Inr (k, i)) v"
    and "n = node_of cs (cv_Secrets req) k"
  shows "sn_published n (v (sn_endpoint n)) = sn_published n (node_target view n w)"
    and "sn_serves n (v (sn_endpoint n)) = sn_serves n (node_target view n w)"
  using assms
  by (auto simp: ctl_create_spec_def create_spec_def Let_def sn.srv_add split: option.splits prod.splits)

lemma finish_serves:
  assumes c: "ctl_create_spec view cs req (keys_in cs ord1) (keys_in cs ord2) w (Inr (k, i)) v"
    and f: "ctl_finish_spec rf cs req k i v (Inr vol) v'" and n: "n = node_of cs (cv_Secrets req) k"
    and old: "sn_published n (node_target view n w) i \<Longrightarrow> sn_serves n (node_target view n w) i"
  shows "sn_serves n (v' (sn_endpoint n)) i"
  using f
proof (cases rule: ctl_finish_cases)
  case (served ctx t)
  then have t: "v' (sn_endpoint n) = t" "if sn_published n (v (sn_endpoint n)) i then t = v (sn_endpoint n) else sn_serves n t i"
    by (simp_all add: n ctl_publish_spec_def)
  show ?thesis
    using t old ctl_create_spec_frame [OF c n] by (cases "sn_published n (v (sn_endpoint n)) i") simp_all
qed simp_all

lemma CreateVolume_served:
  assumes ready: "cs_ready http view cs (cv_Secrets req)" and src: "source_ok cs req"
    and free: "\<not> lock_held m (cv_Name req)"
    and run: "controllerServer_CreateVolume http ord1 ord2 cs req (m, w) = (Ret (Inr vol), m', w')"
    and old: "all_served view cs (cv_Secrets req) w"
  shows "\<exists>k i. node_ready http view cs (cv_Secrets req) k \<and> volume_served (view w') cs req vol k i \<and>
     sn_serves (node_of cs (cv_Secrets req) k) (node_target view (node_of cs (cv_Secrets req) k) w') i"
proof -
  have "ctl_CreateVolume_spec (may_refuse http view) view cs req (keys_in cs ord1) (keys_in cs ord2) w (Inr vol) (view w')"
    by (rule CreateVolume_runs [OF ready src free, of ord1 ord2 w]) (use run in auto)
  then obtain k i v where c: "ctl_create_spec view cs req (keys_in cs ord1) (keys_in cs ord2) w (Inr (k, i)) v"
      and f: "ctl_finish_spec (may_refuse http view) cs req k i v (Inr vol) (view w')"
    by (cases rule: ctl_CreateVolume_specE) auto
  have "k \<in> dom (spdkNodeConfigs cs)" using ctl_create_spec_has_volume(1) [OF c] by (simp add: domIff)
  with old have "sn_serves (node_of cs (cv_Secrets req) k) (node_target view (node_of cs (cv_Secrets req) k) w') i"
    by (intro finish_serves [OF c f refl]) (simp add: all_served_def)
  with finish_served [OF c f] ctl_create_spec_ready [OF c ready] show ?thesis by blast
qed

lemma finite_sn_info: "finite (dom (fst (sn_info n t i)))"
  by (cases n rule: sn_info.cases) (auto simp: nv_info_def is_info_def split: option.split prod.split)

lemma entries_of: "finite (dom m) \<Longrightarrow> \<exists>vc. map_of vc = m"
proof (induction rule: finite_Map_induct)
  case empty
  then show ?case by (metis map_of.simps(1))
next
  case (update k v m)
  then show ?case by (metis map_of.simps(2) fst_conv snd_conv)
qed

text \<open>
  C9: Controller and node together: when every volume that is published through the controller's
  nodes is served there, then from the volume context of a volume that CreateVolume has returned,
  new or found, the node makes an initiator of the right kind, and its address, port and NQN (or
  IQN) are those under which the target then serves that volume: over NVMe-oF the subsystem of
  this NQN has a listener at this address and port and a namespace on the volume's own bdev, over
  iSCSI the target node of the volume exists.
\<close>

theorem CreateVolume_initiator_reaches:
  assumes "cs_ready http view cs (cv_Secrets req)" and "source_ok cs req"
    and "\<not> lock_held m (cv_Name req)"
    and "controllerServer_CreateVolume http ord1 ord2 cs req (m, w) = (Ret (Inr vol), m', w')"
    and "all_served view cs (cv_Secrets req) w" and vc: "map_of vc = VolumeContext vol"
  shows "\<exists>k i ini. getSPDKVol (VolumeId vol) = Inr \<lparr>sv_lvolID = i, sv_nodeName = k\<rparr> \<and>
     NewSpdkCsiInitiator vc = Inr ini \<and>
     reaches (node_of cs (cv_Secrets req) k) (node_target view (node_of cs (cv_Secrets req) k) w') i ini"
proof -
  obtain k i where ready: "node_ready http view cs (cv_Secrets req) k" and s: "volume_served (view w') cs req vol k i"
      and srv: "sn_serves (node_of cs (cv_Secrets req) k) (node_target view (node_of cs (cv_Secrets req) k) w') i"
    using CreateVolume_served [OF assms(1-5)] by blast
  let ?n = "node_of cs (cv_Secrets req) k" let ?t = "node_target view ?n w'"
  from s obtain ctx where vol: "getSPDKVol (VolumeId vol) = Inr \<lparr>sv_lvolID = i, sv_nodeName = k\<rparr>"
      and info: "sn_info ?n ?t i = (ctx, None)"
      and ctx: "VolumeContext vol = cv_Parameters req ++ ctx"
    by (auto simp: volume_served_def Let_def)
  from ready have "\<exists>ini. NewSpdkCsiInitiator vc = Inr ini \<and> reaches ?n ?t i ini"
  proof (cases rule: sn_cases)
    case (nvmf x)
    from nv_info_initiator [OF _ node_of_transport [OF nvmf(1)] vc [unfolded ctx]] info nvmf srv show ?thesis
      by (fastforce simp: nv_address_def nv_serves_def split: option.splits)
  next
    case (iscsi x)
    from is_info_initiator [OF _ vc [unfolded ctx]] info iscsi srv show ?thesis
      by (auto simp: is_published_def)
  qed
  with vol show ?thesis by blast
qed

theorem CreateVolume_initiator_reaches_witness:
  "\<exists>vol m' w' vc k i ini. controllerServer_CreateVolume sim_http [''n1'', ''n2''] [''n1'', ''n2''] demo_cs demo_req
       (NewVolumeLocks, demo_world) = (Ret (Inr vol), m', w') \<and>
     map_of vc = VolumeContext vol \<and> NewSpdkCsiInitiator vc = Inr ini \<and>
     reaches (node_of demo_cs demo_secrets k) (node_target sim_view (node_of demo_cs demo_secrets k) w') i ini"
proof (rule demo_run)
  fix vol m' w' assume run: "controllerServer_CreateVolume sim_http [''n1'', ''n2''] [''n1'', ''n2''] demo_cs demo_req
      (NewVolumeLocks, demo_world) = (Ret (Inr vol), m', w')"
  have ready: "cs_ready sim_http sim_view demo_cs (cv_Secrets demo_req)" and src: "source_ok demo_cs demo_req"
    by (simp_all add: demo_req_sel demo_ready)
  have free: "\<not> lock_held NewVolumeLocks (cv_Name demo_req)" by simp
  have old: "all_served sim_view demo_cs (cv_Secrets demo_req) demo_world"
    by (auto simp: all_served_def dom_demo node_of_demo demo_req_sel nv_published_def is_published_def demo_world_def demo_sim_def
        simp del: domIff)
  obtain k i where "volume_served (sim_view w') demo_cs demo_req vol k i"
    using CreateVolume_served [OF ready src free run old] by blast
  then have "finite (dom (VolumeContext vol))"
    using finite_sn_info by (auto simp: volume_served_def Let_def demo_req_def) (metis fst_conv finite_sn_info)
  then obtain vc where vc: "map_of vc = VolumeContext vol" using entries_of by blast
  from CreateVolume_initiator_reaches [OF ready src free run old vc] run vc
  show ?thesis unfolding demo_req_sel by blast
qed

end
